(* ===== verification/Prelude.thy ===== *)
theory Prelude
  imports Main "HOL-Library.AList" "HOL-Library.Sublist"
begin

text \<open>
  Shared vocabulary of the development: Go strings as byte lists, string maps as association
  lists read with Go's zero value, the few functions of Go's \<open>strings\<close>, \<open>strconv\<close>,
  \<open>encoding/hex\<close> and \<open>encoding/base64\<close> packages that the operator uses, and the
  generic lemmas the component theories share. A \<^typ>\<open>char\<close> is one byte, so \<^const>\<open>length\<close>
  is Go's \<open>len\<close> and a rune outside ASCII is written as its UTF-8 bytes.
\<close>

section \<open>Hint collections\<close>

named_theorems go_simps \<open>how the Go string and map helpers behave on their arguments\<close>
named_theorems trace_rules \<open>which API calls an action of the operator can make\<close>
named_theorems run_simps \<open>how an action of the operator runs on a state\<close>

section \<open>String maps\<close>

type_synonym smap = "(string \<times> string) list"

text \<open>Reading a missing key of a Go \<open>map[string]string\<close> yields the empty string.\<close>

definition sget :: "smap \<Rightarrow> string \<Rightarrow> string" where
  "sget m k = (case map_of m k of None \<Rightarrow> '''' | Some v \<Rightarrow> v)"

definition sput :: "string \<Rightarrow> 'v \<Rightarrow> (string \<times> 'v) list \<Rightarrow> (string \<times> 'v) list" where
  "sput k v m = AList.update k v m"

definition sdel :: "string \<Rightarrow> (string \<times> 'v) list \<Rightarrow> (string \<times> 'v) list" where
  "sdel k m = AList.delete k m"

lemma map_of_sput [go_simps, simp]: "map_of (sput k v m) = (map_of m)(k \<mapsto> v)"
  by (simp add: sput_def update_conv')

lemma map_of_sdel [go_simps, simp]: "map_of (sdel k m) = (map_of m)(k := None)"
  by (simp add: sdel_def delete_conv')

lemma sget_sput [go_simps, simp]: "sget (sput k v m) k' = (if k' = k then v else sget m k')"
  by (simp add: sget_def)

lemma sget_Nil [go_simps, simp]: "sget [] k = ''''"
  by (simp add: sget_def)

lemma sget_Cons [go_simps]: "sget ((k', v) # m) k = (if k = k' then v else sget m k)"
  by (simp add: sget_def)

lemma nat_int_Suc [go_simps, simp]: "nat (int n + 1) = Suc n"
  by linarith

section \<open>Bytes and characters\<close>

definition is_digit :: "char \<Rightarrow> bool" where
  "is_digit c \<longleftrightarrow> of_char c \<ge> (48::nat) \<and> of_char c \<le> (57::nat)"

definition is_lower :: "char \<Rightarrow> bool" where
  "is_lower c \<longleftrightarrow> of_char c \<ge> (97::nat) \<and> of_char c \<le> (122::nat)"

definition is_upper :: "char \<Rightarrow> bool" where
  "is_upper c \<longleftrightarrow> of_char c \<ge> (65::nat) \<and> of_char c \<le> (90::nat)"

definition is_lower_hex :: "char \<Rightarrow> bool" where
  "is_lower_hex c \<longleftrightarrow> is_digit c \<or> (of_char c \<ge> (97::nat) \<and> of_char c \<le> (102::nat))"

text \<open>The UTF-8 bytes of the two runes outside ASCII that occur in the operator's messages.\<close>

definition em_dash :: string where
  "em_dash = [CHR 0xE2, CHR 0x80, CHR 0x94]"

definition ellipsis :: string where
  "ellipsis = [CHR 0xE2, CHR 0x80, CHR 0xA6]"

definition nl :: string where
  "nl = [CHR 0x0A]"

definition quote_char :: string where
  "quote_char = [CHR 0x22]"

section \<open>The \<open>strings\<close> package\<close>

text \<open>\<open>strings.Index\<close> and \<open>strings.LastIndex\<close> for one-byte needles: \<open>-1\<close> when absent.\<close>

definition index_of :: "char \<Rightarrow> string \<Rightarrow> int" where
  "index_of c s = (if c \<in> set s then int (length (takeWhile (\<lambda>x. x \<noteq> c) s)) else -1)"

definition last_index :: "char \<Rightarrow> string \<Rightarrow> int" where
  "last_index c s =
     (if c \<in> set s then int (length s) - 1 - int (length (takeWhile (\<lambda>x. x \<noteq> c) (rev s))) else -1)"

text \<open>\<open>strings.Cut\<close> around the first occurrence of a one-byte separator.\<close>

definition cut :: "char \<Rightarrow> string \<Rightarrow> (string \<times> string) option" where
  "cut c s =
     (if c \<in> set s
      then Some (takeWhile (\<lambda>x. x \<noteq> c) s, tl (dropWhile (\<lambda>x. x \<noteq> c) s))
      else None)"

text \<open>\<open>strings.Split\<close> at a one-byte separator: always at least one piece.\<close>

fun split_on :: "char \<Rightarrow> string \<Rightarrow> string list" where
  "split_on c [] = [[]]"
| "split_on c (x # xs) =
     (if x = c then [] # split_on c xs
      else (case split_on c xs of [] \<Rightarrow> [[x]] | p # ps \<Rightarrow> (x # p) # ps))"

fun join :: "string \<Rightarrow> string list \<Rightarrow> string" where
  "join sep [] = []"
| "join sep [x] = x"
| "join sep (x # y # ys) = x @ sep @ join sep (y # ys)"

text \<open>
  \<open>strings.TrimSpace\<close>: the UTF-8 encodings of the runes with Unicode's White_Space property,
  removed repeatedly from the front and from the back.
\<close>

definition space_seqs :: "string list" where
  "space_seqs =
     [[CHR 0x09], [CHR 0x0A], [CHR 0x0B], [CHR 0x0C], [CHR 0x0D], [CHR 0x20],
      [CHR 0xC2, CHR 0x85], [CHR 0xC2, CHR 0xA0], [CHR 0xE1, CHR 0x9A, CHR 0x80],
      [CHR 0xE2, CHR 0x80, CHR 0x80], [CHR 0xE2, CHR 0x80, CHR 0x81], [CHR 0xE2, CHR 0x80, CHR 0x82],
      [CHR 0xE2, CHR 0x80, CHR 0x83], [CHR 0xE2, CHR 0x80, CHR 0x84], [CHR 0xE2, CHR 0x80, CHR 0x85],
      [CHR 0xE2, CHR 0x80, CHR 0x86], [CHR 0xE2, CHR 0x80, CHR 0x87], [CHR 0xE2, CHR 0x80, CHR 0x88],
      [CHR 0xE2, CHR 0x80, CHR 0x89], [CHR 0xE2, CHR 0x80, CHR 0x8A], [CHR 0xE2, CHR 0x80, CHR 0xA8],
      [CHR 0xE2, CHR 0x80, CHR 0xA9], [CHR 0xE2, CHR 0x80, CHR 0xAF], [CHR 0xE2, CHR 0x81, CHR 0x9F],
      [CHR 0xE3, CHR 0x80, CHR 0x80]]"

function strip_front :: "string list \<Rightarrow> string \<Rightarrow> string" where
  "strip_front ws s =
     (case find (\<lambda>w. w \<noteq> [] \<and> prefix w s) ws of
        None \<Rightarrow> s
      | Some w \<Rightarrow> strip_front ws (drop (length w) s))"
  by pat_completeness auto
termination
  by (relation "measure (\<lambda>(ws, s). length s)")
     (auto simp: find_Some_iff prefix_def)

declare strip_front.simps [simp del]

definition trim_space :: "string \<Rightarrow> string" where
  "trim_space s = rev (strip_front (map rev space_seqs) (rev (strip_front space_seqs s)))"

lemma strip_front_suffix: "suffix (strip_front ws s) s"
proof (induction ws s rule: strip_front.induct)
  case (1 ws s)
  then show ?case
    by (subst strip_front.simps)
       (auto split: option.splits intro: suffix_order.trans suffix_drop)
qed

lemma length_trim_space: "length (trim_space s) \<le> length s"
proof -
  have "length (trim_space s) \<le> length (strip_front space_seqs s)"
    unfolding trim_space_def
    using suffix_length_le [OF strip_front_suffix [of "map rev space_seqs" "rev (strip_front space_seqs s)"]]
    by simp
  also have "\<dots> \<le> length s"
    by (rule suffix_length_le [OF strip_front_suffix])
  finally show ?thesis .
qed

lemma cut_None [go_simps]: "c \<notin> set s \<Longrightarrow> cut c s = None"
  by (simp add: cut_def)

lemma takeWhile_neq_append: "c \<notin> set a \<Longrightarrow> takeWhile (\<lambda>x. x \<noteq> c) (a @ c # b) = a"
  by (induction a) auto

lemma dropWhile_neq_append: "c \<notin> set a \<Longrightarrow> dropWhile (\<lambda>x. x \<noteq> c) (a @ c # b) = c # b"
  by (induction a) auto

lemma cut_append [go_simps]: "c \<notin> set a \<Longrightarrow> cut c (a @ c # b) = Some (a, b)"
  by (simp add: cut_def takeWhile_neq_append dropWhile_neq_append)

lemma index_of_append [go_simps]: "c \<notin> set a \<Longrightarrow> index_of c (a @ c # b) = int (length a)"
  by (simp add: index_of_def takeWhile_neq_append)

lemma last_index_append [go_simps]: "c \<notin> set b \<Longrightarrow> last_index c (a @ c # b) = int (length a)"
  using takeWhile_neq_append [of c "rev b" "rev a"] by (simp add: last_index_def)

lemma last_index_less: "last_index c s < int (length s) \<or> s = []"
  by (cases s) (auto simp: last_index_def)

section \<open>\<open>strconv.Itoa\<close>\<close>

definition digit_char :: "nat \<Rightarrow> char" where
  "digit_char d = char_of (48 + d)"

fun nat_digits :: "nat \<Rightarrow> string" where
  "nat_digits n = (if n < 10 then [digit_char n] else nat_digits (n div 10) @ [digit_char (n mod 10)])"

declare nat_digits.simps [simp del]

definition itoa :: "int \<Rightarrow> string" where
  "itoa i = (if i < 0 then ''-'' @ nat_digits (nat (- i)) else nat_digits (nat i))"

text \<open>\<open>strconv.FormatBool\<close>, as \<open>%v\<close> prints a bool.\<close>

definition bool_text :: "bool \<Rightarrow> string" where
  "bool_text b = (if b then ''true'' else ''false'')"

section \<open>\<open>strconv.Quote\<close>\<close>

text \<open>
  The quoting of \<open>%q\<close>, byte by byte: exact for ASCII text and for text whose other runes are
  printable, which Go leaves as they are.
\<close>

definition hex_digit :: "nat \<Rightarrow> char" where
  "hex_digit n = (if n < 10 then char_of (48 + n) else char_of (87 + n))"

definition backslash :: char where
  "backslash = CHR 0x5C"

definition quote_byte :: "char \<Rightarrow> string" where
  "quote_byte c =
     (if c = CHR 0x22 \<or> c = backslash then [backslash, c]
      else if c = CHR 0x07 then [backslash, CHR ''a''] else if c = CHR 0x08 then [backslash, CHR ''b'']
      else if c = CHR 0x0C then [backslash, CHR ''f''] else if c = CHR 0x0A then [backslash, CHR ''n'']
      else if c = CHR 0x0D then [backslash, CHR ''r''] else if c = CHR 0x09 then [backslash, CHR ''t'']
      else if c = CHR 0x0B then [backslash, CHR ''v'']
      else if (of_char c :: nat) < 32 \<or> c = CHR 0x7F
        then [backslash, CHR ''x'', hex_digit (of_char c div 16), hex_digit (of_char c mod 16)]
      else [c])"

definition go_quote :: "string \<Rightarrow> string" where
  "go_quote s = quote_char @ concat (map quote_byte s) @ quote_char"

section \<open>\<open>time.Duration\<close>\<close>

definition second :: int where "second = 1000000000"
definition minute :: int where "minute = 60 * second"

text \<open>\<open>int64(d.Round(time.Second).Seconds())\<close>: to the nearest second, halves away from zero.\<close>

definition round_seconds :: "int \<Rightarrow> int" where
  "round_seconds d =
     (let half_up = (\<lambda>x. if 2 * (x mod second) < second then x div second else x div second + 1)
      in if d < 0 then - half_up (- d) else half_up d)"

text \<open>The text of a duration that is a whole number of seconds.\<close>

definition duration_text :: "int \<Rightarrow> string" where
  "duration_text secs =
     (let n = \<bar>secs\<bar>; h = n div 3600; m = (n div 60) mod 60; s = n mod 60
      in (if secs < 0 then ''-'' else '''') @
         (if h > 0 then itoa h @ ''h'' else '''') @
         (if n \<ge> 60 then itoa m @ ''m'' else '''') @ itoa s @ ''s'')"

section \<open>\<open>encoding/hex\<close> and \<open>encoding/base64\<close>\<close>

definition hex_byte :: "char \<Rightarrow> string" where
  "hex_byte b = [hex_digit (of_char b div 16), hex_digit (of_char b mod 16)]"

definition hex_encode :: "string \<Rightarrow> string" where
  "hex_encode bs = concat (map hex_byte bs)"

definition b64_char :: "nat \<Rightarrow> char" where
  "b64_char n =
     (if n < 26 then char_of (65 + n) else if n < 52 then char_of (71 + n)
      else if n < 62 then char_of (n - 4) else if n = 62 then CHR ''+'' else CHR ''/'')"

text \<open>\<open>base64.RawStdEncoding\<close>: groups of three bytes to four characters, no padding.\<close>

fun b64_encode :: "string \<Rightarrow> string" where
  "b64_encode (a # b # c # bs) =
     b64_char (of_char a div 4) # b64_char ((of_char a mod 4) * 16 + of_char b div 16) #
     b64_char ((of_char b mod 16) * 4 + of_char c div 64) # b64_char (of_char c mod 64) # b64_encode bs"
| "b64_encode [a, b] =
     [b64_char (of_char a div 4), b64_char ((of_char a mod 4) * 16 + of_char b div 16),
      b64_char ((of_char b mod 16) * 4)]"
| "b64_encode [a] = [b64_char (of_char a div 4), b64_char ((of_char a mod 4) * 16)]"
| "b64_encode [] = []"

lemma of_char_less_256: "of_char c < (256::nat)"
  by simp

lemma length_hex_encode [go_simps]: "length (hex_encode bs) = 2 * length bs"
  by (induction bs) (simp_all add: hex_encode_def hex_byte_def)

lemma hex_digit_lower_hex: "n < 16 \<Longrightarrow> is_lower_hex (hex_digit n)"
  by (auto simp: is_lower_hex_def is_digit_def hex_digit_def)

lemma hex_encode_lower_hex:
  assumes "c \<in> set (hex_encode bs)"
  shows "is_lower_hex c"
proof -
  from assms obtain b where "c \<in> set (hex_byte b)" by (auto simp: hex_encode_def)
  moreover have "of_char b div 16 < (16::nat)" using of_char_less_256 [of b] by linarith
  ultimately show ?thesis by (auto simp: hex_byte_def intro: hex_digit_lower_hex)
qed

lemma length_b64_encode: "length (b64_encode bs) = (4 * length bs + 2) div 3"
  by (induction bs rule: b64_encode.induct) auto

lemma b64_char_printable:
  "33 \<le> (of_char (b64_char n) :: nat)" "(of_char (b64_char n) :: nat) \<le> 126"
  by (auto simp: b64_char_def)

lemma b64_encode_printable:
  "c \<in> set (b64_encode bs) \<Longrightarrow> 33 \<le> (of_char c :: nat) \<and> (of_char c :: nat) \<le> 126"
  by (induction bs rule: b64_encode.induct) (auto simp: b64_char_printable simp del: One_nat_def)

end
