(* ===== verification/PulseTypes.thy ===== *)
theory PulseTypes
  imports Prelude
begin

text \<open>
  The custom resource: the structs of \<open>api/v1alpha1/types.go\<close> as records. A Go pointer to a
  scalar or struct is an \<^typ>\<open>'a option\<close> (\<^const>\<open>None\<close> is \<open>nil\<close>), a Kubernetes resource list is an
  association list from resource name to the text of the quantity (and \<^const>\<open>None\<close> when the map is
  \<open>nil\<close>), an \<open>int32\<close> or \<open>int64\<close> field, on which the operator does no arithmetic, is an
  \<^typ>\<open>int\<close>, and a time is an \<^typ>\<open>int\<close> of nanoseconds since the epoch.
\<close>

section \<open>Resource requirements\<close>

type_synonym resource_list = "(string \<times> string) list"

record resource_requirements =
  rq_requests :: "resource_list option"
  rq_limits :: "resource_list option"

definition no_resources :: resource_requirements where
  "no_resources = \<lparr>rq_requests = None, rq_limits = None\<rparr>"

section \<open>The specification\<close>

record vertex_ai_config =
  va_projectId :: string
  va_region :: string
  va_credentialSecret :: string

record api_key_config =
  ak_existingSecret :: string

record mcp_config =
  mc_enabled :: bool
  mc_image :: string
  mc_toolsets :: string

record agent_config =
  ag_image :: string
  ag_trustLevel :: int
  ag_durableAutoFix :: "bool option"
  ag_adminUsers :: string
  ag_allowWriteOperations :: bool
  ag_allowSecretAccess :: "bool option"
  ag_resources :: resource_requirements
  ag_mcp :: mcp_config
  ag_minOperatorVersion :: string

record ui_config =
  uc_image :: string
  uc_replicas :: int
  uc_oauthProxyImage :: string
  uc_helmRunnerImage :: string
  uc_resources :: resource_requirements

record database_config =
  db_storageSize :: string
  db_storageClass :: string
  db_image :: string

record temporal_config =
  te_enabled :: "bool option"
  te_image :: string
  te_ui :: "bool option"
  te_uiImage :: string

record render_config =
  rc_enabled :: "bool option"
  rc_image :: string
  rc_resources :: resource_requirements

record pulse_spec =
  sp_vertexAI :: "vertex_ai_config option"
  sp_anthropicApiKey :: "api_key_config option"
  sp_agent :: agent_config
  sp_ui :: ui_config
  sp_database :: database_config
  sp_monitoring_enabled :: "bool option"
  sp_temporal :: temporal_config
  sp_render :: render_config

section \<open>The status\<close>

datatype cond_status = CondTrue | CondFalse | CondUnknown

record condition =
  c_type :: string
  c_status :: cond_status
  c_reason :: string
  c_message :: string
  c_observedGeneration :: int

record image_rollback =
  rb_from :: string
  rb_to :: string
  rb_at :: int

record pulse_status =
  st_phase :: string
  st_agentVersion :: string
  st_agentHealthy :: bool
  st_databaseReady :: bool
  st_uiAvailable :: bool
  st_routeHost :: string
  st_conditions :: "condition list"
  st_observedGeneration :: int
  st_lastHealthyAgentImage :: string
  st_lastHealthyUIImage :: string
  st_agentRollback :: "image_rollback option"
  st_uiRollback :: "image_rollback option"
  st_upgradeStartedAt :: "int option"
  st_lastUpgradeDurationSeconds :: int

section \<open>The resource\<close>

record pulse =
  p_name :: string
  p_namespace :: string
  p_uid :: string
  p_generation :: int
  p_creationTimestamp :: int
  p_deletionTimestamp :: "int option"
  p_annotations :: smap
  p_finalizers :: "string list"
  p_spec :: pulse_spec
  p_status :: pulse_status

text \<open>Shorthands for the two most read sub-structures and for updates under \<open>spec\<close> and \<open>status\<close>.\<close>

abbreviation agent_of :: "pulse \<Rightarrow> agent_config" where
  "agent_of p \<equiv> sp_agent (p_spec p)"

abbreviation ui_of :: "pulse \<Rightarrow> ui_config" where
  "ui_of p \<equiv> sp_ui (p_spec p)"

abbreviation upd_status :: "(pulse_status \<Rightarrow> pulse_status) \<Rightarrow> pulse \<Rightarrow> pulse" where
  "upd_status f p \<equiv> p_status_update f p"

section \<open>A zero-valued resource, for concrete instances\<close>

definition empty_spec :: pulse_spec where
  "empty_spec =
     \<lparr>sp_vertexAI = None, sp_anthropicApiKey = None,
      sp_agent = \<lparr>ag_image = '''', ag_trustLevel = 0, ag_durableAutoFix = None, ag_adminUsers = '''',
        ag_allowWriteOperations = False, ag_allowSecretAccess = None, ag_resources = no_resources,
        ag_mcp = \<lparr>mc_enabled = False, mc_image = '''', mc_toolsets = ''''\<rparr>, ag_minOperatorVersion = ''''\<rparr>,
      sp_ui = \<lparr>uc_image = '''', uc_replicas = 0, uc_oauthProxyImage = '''', uc_helmRunnerImage = '''',
        uc_resources = no_resources\<rparr>,
      sp_database = \<lparr>db_storageSize = '''', db_storageClass = '''', db_image = ''''\<rparr>,
      sp_monitoring_enabled = None,
      sp_temporal = \<lparr>te_enabled = None, te_image = '''', te_ui = None, te_uiImage = ''''\<rparr>,
      sp_render = \<lparr>rc_enabled = None, rc_image = '''', rc_resources = no_resources\<rparr>\<rparr>"

definition empty_status :: pulse_status where
  "empty_status =
     \<lparr>st_phase = '''', st_agentVersion = '''', st_agentHealthy = False, st_databaseReady = False,
      st_uiAvailable = False, st_routeHost = '''', st_conditions = [], st_observedGeneration = 0,
      st_lastHealthyAgentImage = '''', st_lastHealthyUIImage = '''', st_agentRollback = None,
      st_uiRollback = None, st_upgradeStartedAt = None, st_lastUpgradeDurationSeconds = 0\<rparr>"

definition empty_pulse :: "string \<Rightarrow> string \<Rightarrow> string \<Rightarrow> pulse" where
  "empty_pulse name ns uid =
     \<lparr>p_name = name, p_namespace = ns, p_uid = uid, p_generation = 1, p_creationTimestamp = 0,
      p_deletionTimestamp = None, p_annotations = [], p_finalizers = [], p_spec = empty_spec,
      p_status = empty_status\<rparr>"

end
