(* ===== verification/KubeObjects.thy ===== *)
theory KubeObjects
  imports PulseTypes
begin

text \<open>
  The Kubernetes and OpenShift objects the operator reads and writes. Each API struct is a record
  of the fields the operator touches; the fields it leaves at Go's zero value on every object are
  not represented. An object is its identity and metadata with a body of its kind; the typed reads
  of the Go code (\<open>as_deployment\<close> and so on) yield the zero struct for a body of another kind, as a
  freshly allocated Go struct is.
\<close>

section \<open>Keys\<close>

datatype kind =
    KServiceAccount | KClusterRole | KClusterRoleBinding | KSecret | KConfigMap
  | KPersistentVolumeClaim | KDeployment | KStatefulSet | KService | KNetworkPolicy
  | KPodDisruptionBudget | KPod | KRoute | KOAuthClient | KServiceMonitor | KPrometheusRule
  | KIngress | KImageStream | KNamespace | KPodMetrics

text \<open>Cluster-scoped objects have the empty namespace.\<close>

record okey =
  k_kind :: kind
  k_namespace :: string
  k_name :: string

definition key :: "kind \<Rightarrow> string \<Rightarrow> string \<Rightarrow> okey" where
  "key k ns n = \<lparr>k_kind = k, k_namespace = ns, k_name = n\<rparr>"

lemma key_sel [simp]:
  "k_kind (key k ns n) = k" "k_namespace (key k ns n) = ns" "k_name (key k ns n) = n"
  by (simp_all add: key_def)

lemma key_eq [simp]: "key k ns n = key k' ns' n' \<longleftrightarrow> k = k' \<and> ns = ns' \<and> n = n'"
  by (simp add: key_def)

section \<open>Pods and pod templates\<close>

datatype env_source =
    EnvValue string
  | EnvSecretKey string string
  | EnvFieldRef string

record env_var =
  ev_name :: string
  ev_source :: env_source

definition env_value :: "string \<Rightarrow> string \<Rightarrow> env_var" where
  "env_value n v = \<lparr>ev_name = n, ev_source = EnvValue v\<rparr>"

definition env_secret :: "string \<Rightarrow> string \<Rightarrow> string \<Rightarrow> env_var" where
  "env_secret n s k = \<lparr>ev_name = n, ev_source = EnvSecretKey s k\<rparr>"

record container_port =
  cp_name :: string
  cp_port :: int
  cp_protocol :: string

datatype probe_handler =
    HTTPGet string int string
  | TCPSocket int
  | ExecProbe "string list"

record probe =
  pr_handler :: probe_handler
  pr_initialDelaySeconds :: int
  pr_periodSeconds :: int
  pr_timeoutSeconds :: int
  pr_failureThreshold :: int

record security_context =
  sc_allowPrivilegeEscalation :: "bool option"
  sc_dropCapabilities :: "string list"
  sc_readOnlyRootFilesystem :: "bool option"

record pod_security_context =
  ps_runAsNonRoot :: "bool option"
  ps_seccompProfile :: string
  ps_runAsUser :: "int option"

record volume_mount =
  vm_name :: string
  vm_mountPath :: string
  vm_subPath :: string
  vm_readOnly :: bool

datatype volume_source =
    VEmptyDir string
  | VConfigMap string
  | VSecret string
  | VClaim string

record container =
  co_name :: string
  co_image :: string
  co_command :: "string list"
  co_args :: "string list"
  co_ports :: "container_port list"
  co_env :: "env_var list"
  co_envFromSecrets :: "string list"
  co_volumeMounts :: "volume_mount list"
  co_resources :: resource_requirements
  co_readinessProbe :: "probe option"
  co_livenessProbe :: "probe option"
  co_preStopCommand :: "string list option"
  co_securityContext :: "security_context option"

definition container0 :: "string \<Rightarrow> string \<Rightarrow> container" where
  "container0 n i =
     \<lparr>co_name = n, co_image = i, co_command = [], co_args = [], co_ports = [], co_env = [],
      co_envFromSecrets = [], co_volumeMounts = [], co_resources = no_resources,
      co_readinessProbe = None, co_livenessProbe = None, co_preStopCommand = None,
      co_securityContext = None\<rparr>"

record pod_spec =
  po_serviceAccountName :: string
  po_automountServiceAccountToken :: "bool option"
  po_securityContext :: "pod_security_context option"
  po_terminationGracePeriodSeconds :: "int option"
  po_volumes :: "(string \<times> volume_source) list"
  po_initContainers :: "container list"
  po_containers :: "container list"

definition pod_spec0 :: pod_spec where
  "pod_spec0 =
     \<lparr>po_serviceAccountName = '''', po_automountServiceAccountToken = None, po_securityContext = None,
      po_terminationGracePeriodSeconds = None, po_volumes = [], po_initContainers = [], po_containers = []\<rparr>"

record pod_template =
  pt_labels :: smap
  pt_annotations :: smap
  pt_spec :: pod_spec

definition pod_template0 :: pod_template where
  "pod_template0 = \<lparr>pt_labels = [], pt_annotations = [], pt_spec = pod_spec0\<rparr>"

record waiting_state =
  ws_reason :: string
  ws_message :: string

record terminated_state =
  ts_exitCode :: int
  ts_reason :: string
  ts_message :: string

record container_status =
  cs_name :: string
  cs_waiting :: "waiting_state option"
  cs_lastTerminated :: "terminated_state option"

record pod_condition =
  pc_type :: string
  pc_status :: cond_status
  pc_reason :: string
  pc_message :: string

record pod_status =
  pst_phase :: string
  pst_initContainerStatuses :: "container_status list"
  pst_containerStatuses :: "container_status list"
  pst_conditions :: "pod_condition list"

definition pod_status0 :: pod_status where
  "pod_status0 = \<lparr>pst_phase = '''', pst_initContainerStatuses = [], pst_containerStatuses = [], pst_conditions = []\<rparr>"

section \<open>Workloads\<close>

record deployment =
  de_replicas :: "int option"
  de_strategyType :: string
  de_rollingUpdate :: "(int \<times> int) option"
  de_selector :: "smap option"
  de_template :: pod_template
  de_statusObservedGeneration :: int
  de_statusReplicas :: int
  de_statusUpdatedReplicas :: int
  de_statusReadyReplicas :: int

definition deployment0 :: deployment where
  "deployment0 =
     \<lparr>de_replicas = None, de_strategyType = '''', de_rollingUpdate = None, de_selector = None,
      de_template = pod_template0, de_statusObservedGeneration = 0, de_statusReplicas = 0,
      de_statusUpdatedReplicas = 0, de_statusReadyReplicas = 0\<rparr>"

record pvc =
  pv_accessModes :: "string list"
  pv_requests :: "resource_list option"
  pv_storageClassName :: "string option"

definition pvc0 :: pvc where
  "pvc0 = \<lparr>pv_accessModes = [], pv_requests = None, pv_storageClassName = None\<rparr>"

record claim_template =
  ct_name :: string
  ct_labels :: smap
  ct_pvc :: pvc

record stateful_set =
  ss_replicas :: "int option"
  ss_serviceName :: string
  ss_selector :: "smap option"
  ss_volumeClaimTemplates :: "claim_template list"
  ss_template :: pod_template
  ss_statusReadyReplicas :: int
  ss_statusUpdateRevision :: string

definition stateful_set0 :: stateful_set where
  "stateful_set0 =
     \<lparr>ss_replicas = None, ss_serviceName = '''', ss_selector = None, ss_volumeClaimTemplates = [],
      ss_template = pod_template0, ss_statusReadyReplicas = 0, ss_statusUpdateRevision = ''''\<rparr>"

section \<open>Networking\<close>

record service_port =
  sv_name :: string
  sv_port :: int
  sv_targetPort :: "int option"
  sv_protocol :: string

record service =
  se_type :: string
  se_selector :: smap
  se_ports :: "service_port list"
  se_clusterIP :: string

definition service0 :: service where
  "service0 = \<lparr>se_type = '''', se_selector = [], se_ports = [], se_clusterIP = ''''\<rparr>"

record label_selector =
  ls_matchLabels :: smap
  ls_matchExpressions :: "(string \<times> string \<times> string list) list"

definition match_labels :: "smap \<Rightarrow> label_selector" where
  "match_labels m = \<lparr>ls_matchLabels = m, ls_matchExpressions = []\<rparr>"

record np_peer =
  pe_podSelector :: "label_selector option"
  pe_namespaceSelector :: "label_selector option"

definition pod_peer :: "smap \<Rightarrow> np_peer" where
  "pod_peer m = \<lparr>pe_podSelector = Some (match_labels m), pe_namespaceSelector = None\<rparr>"

definition ns_peer :: "smap \<Rightarrow> np_peer" where
  "ns_peer m = \<lparr>pe_podSelector = None, pe_namespaceSelector = Some (match_labels m)\<rparr>"

record np_rule =
  nr_peers :: "np_peer list"
  nr_ports :: "(string \<times> int) list"

record network_policy =
  np_podSelector :: label_selector
  np_policyTypes :: "string list"
  np_ingress :: "np_rule list"
  np_egress :: "np_rule list"

definition network_policy0 :: network_policy where
  "network_policy0 = \<lparr>np_podSelector = match_labels [], np_policyTypes = [], np_ingress = [], np_egress = []\<rparr>"

record pdb =
  bd_selector :: "smap option"
  bd_minAvailable :: "int option"

definition pdb0 :: pdb where
  "pdb0 = \<lparr>bd_selector = None, bd_minAvailable = None\<rparr>"

section \<open>Access control\<close>

record policy_rule =
  ru_apiGroups :: "string list"
  ru_resources :: "string list"
  ru_verbs :: "string list"

definition rule :: "string \<Rightarrow> string list \<Rightarrow> string list \<Rightarrow> policy_rule" where
  "rule g rs vs = \<lparr>ru_apiGroups = [g], ru_resources = rs, ru_verbs = vs\<rparr>"

record role_ref =
  rr_apiGroup :: string
  rr_kind :: string
  rr_name :: string

definition role_ref0 :: role_ref where
  "role_ref0 = \<lparr>rr_apiGroup = '''', rr_kind = '''', rr_name = ''''\<rparr>"

record subject =
  su_kind :: string
  su_name :: string
  su_namespace :: string

record role_binding =
  rbn_roleRef :: role_ref
  rbn_subjects :: "subject list"

definition role_binding0 :: role_binding where
  "role_binding0 = \<lparr>rbn_roleRef = role_ref0, rbn_subjects = []\<rparr>"

section \<open>Configuration and OpenShift objects\<close>

record secret =
  se_secretType :: string
  se_data :: smap
  se_stringData :: smap

definition secret0 :: secret where
  "secret0 = \<lparr>se_secretType = '''', se_data = [], se_stringData = []\<rparr>"

datatype jval = JStr string | JInt int

text \<open>A Route is handled unstructured: \<open>spec.to\<close> and \<open>spec.tls\<close> are maps that may hold keys the
  operator does not manage.\<close>

record route =
  ro_host :: string
  ro_to :: "(string \<times> jval) list"
  ro_targetPort :: "jval option"
  ro_tls :: smap

definition route0 :: route where
  "route0 = \<lparr>ro_host = '''', ro_to = [], ro_targetPort = None, ro_tls = []\<rparr>"

record oauth_client =
  oc_secret :: string
  oc_redirectURIs :: "string list"
  oc_grantMethod :: string

definition oauth_client0 :: oauth_client where
  "oauth_client0 = \<lparr>oc_secret = '''', oc_redirectURIs = [], oc_grantMethod = ''''\<rparr>"

record sm_endpoint =
  sme_port :: string
  sme_scheme :: string
  sme_path :: string
  sme_interval :: string

record service_monitor =
  sm_matchLabels :: smap
  sm_endpoints :: "sm_endpoint list"

definition service_monitor0 :: service_monitor where
  "service_monitor0 = \<lparr>sm_matchLabels = [], sm_endpoints = []\<rparr>"

record alert_rule =
  al_alert :: string
  al_expr :: string
  al_for :: string
  al_severity :: string
  al_summary :: string

record rule_group =
  rg_name :: string
  rg_rules :: "alert_rule list"

record image_stream =
  is_specTags :: "(string \<times> string option) list"
  is_dockerImageRepository :: string
  is_statusTags :: "(string \<times> string list) list"

definition image_stream0 :: image_stream where
  "image_stream0 = \<lparr>is_specTags = [], is_dockerImageRepository = '''', is_statusTags = []\<rparr>"

section \<open>Objects\<close>

datatype body =
    BNone
  | BClusterRole "policy_rule list"
  | BRoleBinding role_binding
  | BSecret secret
  | BConfigMap smap
  | BPVC pvc
  | BDeployment deployment
  | BStatefulSet stateful_set
  | BService service
  | BNetworkPolicy network_policy
  | BPDB pdb
  | BPod pod_status
  | BRoute route
  | BOAuthClient oauth_client
  | BServiceMonitor service_monitor
  | BPrometheusRule "rule_group list"
  | BIngress string
  | BImageStream image_stream
  | BPodMetrics "string option list option"

text \<open>
  \<open>o_controller\<close> is the UID of the controlling owner reference, if the object has one.
\<close>

record kobj =
  o_key :: okey
  o_uid :: string
  o_labels :: smap
  o_annotations :: smap
  o_controller :: "string option"
  o_generation :: int
  o_creationTimestamp :: "int option"
  o_deletionTimestamp :: "int option"
  o_body :: body

definition new_obj :: "okey \<Rightarrow> body \<Rightarrow> kobj" where
  "new_obj k b =
     \<lparr>o_key = k, o_uid = '''', o_labels = [], o_annotations = [], o_controller = None, o_generation = 0,
      o_creationTimestamp = None, o_deletionTimestamp = None, o_body = b\<rparr>"

lemma new_obj_sel [simp]:
  "o_key (new_obj k b) = k" "o_body (new_obj k b) = b" "o_annotations (new_obj k b) = []"
  "o_controller (new_obj k b) = None" "o_creationTimestamp (new_obj k b) = None"
  by (simp_all add: new_obj_def)

definition as_cluster_role :: "kobj \<Rightarrow> policy_rule list" where
  "as_cluster_role o1 = (case o_body o1 of BClusterRole r \<Rightarrow> r | _ \<Rightarrow> [])"

definition as_role_binding :: "kobj \<Rightarrow> role_binding" where
  "as_role_binding o1 = (case o_body o1 of BRoleBinding r \<Rightarrow> r | _ \<Rightarrow> role_binding0)"

definition as_secret :: "kobj \<Rightarrow> secret" where
  "as_secret o1 = (case o_body o1 of BSecret s \<Rightarrow> s | _ \<Rightarrow> secret0)"

definition as_pvc :: "kobj \<Rightarrow> pvc" where
  "as_pvc o1 = (case o_body o1 of BPVC s \<Rightarrow> s | _ \<Rightarrow> pvc0)"

definition as_deployment :: "kobj \<Rightarrow> deployment" where
  "as_deployment o1 = (case o_body o1 of BDeployment d \<Rightarrow> d | _ \<Rightarrow> deployment0)"

definition as_stateful_set :: "kobj \<Rightarrow> stateful_set" where
  "as_stateful_set o1 = (case o_body o1 of BStatefulSet d \<Rightarrow> d | _ \<Rightarrow> stateful_set0)"

definition as_service :: "kobj \<Rightarrow> service" where
  "as_service o1 = (case o_body o1 of BService d \<Rightarrow> d | _ \<Rightarrow> service0)"

definition as_network_policy :: "kobj \<Rightarrow> network_policy" where
  "as_network_policy o1 = (case o_body o1 of BNetworkPolicy d \<Rightarrow> d | _ \<Rightarrow> network_policy0)"

definition as_pdb :: "kobj \<Rightarrow> pdb" where
  "as_pdb o1 = (case o_body o1 of BPDB d \<Rightarrow> d | _ \<Rightarrow> pdb0)"

definition as_pod :: "kobj \<Rightarrow> pod_status" where
  "as_pod o1 = (case o_body o1 of BPod d \<Rightarrow> d | _ \<Rightarrow> pod_status0)"

definition as_route :: "kobj \<Rightarrow> route" where
  "as_route o1 = (case o_body o1 of BRoute d \<Rightarrow> d | _ \<Rightarrow> route0)"

definition as_oauth_client :: "kobj \<Rightarrow> oauth_client" where
  "as_oauth_client o1 = (case o_body o1 of BOAuthClient d \<Rightarrow> d | _ \<Rightarrow> oauth_client0)"

definition as_service_monitor :: "kobj \<Rightarrow> service_monitor" where
  "as_service_monitor o1 = (case o_body o1 of BServiceMonitor d \<Rightarrow> d | _ \<Rightarrow> service_monitor0)"

definition as_image_stream :: "kobj \<Rightarrow> image_stream" where
  "as_image_stream o1 = (case o_body o1 of BImageStream d \<Rightarrow> d | _ \<Rightarrow> image_stream0)"

text \<open>Reading back a body that was just written.\<close>

lemma as_body [simp]:
  "o_body x = BClusterRole b0 \<Longrightarrow> as_cluster_role x = b0"
  "o_body x = BRoleBinding b1 \<Longrightarrow> as_role_binding x = b1"
  "o_body x = BSecret b2 \<Longrightarrow> as_secret x = b2"
  "o_body x = BPVC b3 \<Longrightarrow> as_pvc x = b3"
  "o_body x = BDeployment b4 \<Longrightarrow> as_deployment x = b4"
  "o_body x = BStatefulSet b5 \<Longrightarrow> as_stateful_set x = b5"
  "o_body x = BService b6 \<Longrightarrow> as_service x = b6"
  "o_body x = BNetworkPolicy b7 \<Longrightarrow> as_network_policy x = b7"
  "o_body x = BPDB b8 \<Longrightarrow> as_pdb x = b8"
  "o_body x = BPod b9 \<Longrightarrow> as_pod x = b9"
  "o_body x = BRoute b10 \<Longrightarrow> as_route x = b10"
  "o_body x = BOAuthClient b11 \<Longrightarrow> as_oauth_client x = b11"
  "o_body x = BServiceMonitor b12 \<Longrightarrow> as_service_monitor x = b12"
  "o_body x = BImageStream b13 \<Longrightarrow> as_image_stream x = b13"
  by (simp_all add: as_cluster_role_def as_role_binding_def as_secret_def as_pvc_def as_deployment_def as_stateful_set_def as_service_def as_network_policy_def as_pdb_def as_pod_def as_route_def as_oauth_client_def as_service_monitor_def as_image_stream_def)

end
