(* ===== verification/Client.thy ===== *)
theory Client
  imports KubeObjects "HOL-Library.State_Monad"
begin

text \<open>
  The operator's surroundings and the way its code runs in them. Everything the operator calls
  that is not in this repository (the API server behind controller-runtime's \<open>client.Client\<close>, the
  helpers of controller-runtime and apimachinery, the semver library, SHA-256, the clock, the
  random source and the process environment) is a field of \<open>env\<close>, and every definition of the
  development takes an \<open>env\<close> as its argument. A \<open>'w\<close> is the state of the world behind those calls,
  about which nothing is assumed: between two calls of the operator other actors may change it.

  An action of the operator is a \<open>state\<close> transformer over \<open>op_state\<close>: the world, the custom
  resource the Go code holds by pointer and mutates, the process-wide variables of the package,
  the Events and metrics written, and the log of the API calls made with their responses. The
  log is what the safety properties speak about.
\<close>

section \<open>Errors\<close>

datatype api_error = NotFound string | NoMatch string | OtherError string

datatype go_error = Api api_error | Msg string | Wrap string go_error | Joined "go_error list"

fun is_not_found :: "api_error \<Rightarrow> bool" where
  "is_not_found (NotFound _) = True"
| "is_not_found _ = False"

fun is_no_match :: "api_error \<Rightarrow> bool" where
  "is_no_match (NoMatch _) = True"
| "is_no_match _ = False"

fun api_text :: "api_error \<Rightarrow> string" where
  "api_text (NotFound s) = s"
| "api_text (NoMatch s) = s"
| "api_text (OtherError s) = s"

fun err_text :: "go_error \<Rightarrow> string" where
  "err_text (Api e) = api_text e"
| "err_text (Msg s) = s"
| "err_text (Wrap m e) = m @ '': '' @ err_text e"
| "err_text (Joined es) = join nl (map err_text es)"

text \<open>\<open>errors.Join\<close>: no error when there is none to join.\<close>

definition errors_join :: "go_error list \<Rightarrow> go_error + unit" where
  "errors_join es = (if es = [] then Inr () else Inl (Joined es))"

section \<open>The environment\<close>

record 'w env =
  e_get :: "okey \<Rightarrow> 'w \<Rightarrow> (api_error + kobj) \<times> 'w"
  e_list :: "kind \<Rightarrow> string \<Rightarrow> smap \<Rightarrow> 'w \<Rightarrow> (api_error + kobj list) \<times> 'w"
  e_create :: "kobj \<Rightarrow> 'w \<Rightarrow> (api_error + kobj) \<times> 'w"
  e_update :: "kobj \<Rightarrow> 'w \<Rightarrow> (api_error + kobj) \<times> 'w"
  e_delete :: "okey \<Rightarrow> string \<Rightarrow> 'w \<Rightarrow> (api_error + unit) \<times> 'w"
  e_createOrUpdate :: "kobj \<Rightarrow> (kobj \<Rightarrow> go_error + kobj) \<Rightarrow> 'w \<Rightarrow> (go_error + unit) \<times> 'w"
  e_getPulse :: "string \<Rightarrow> string \<Rightarrow> 'w \<Rightarrow> (api_error + pulse) \<times> 'w"
  e_listPulses :: "string \<Rightarrow> 'w \<Rightarrow> (api_error + pulse list) \<times> 'w"
  e_updatePulse :: "pulse \<Rightarrow> 'w \<Rightarrow> (api_error + pulse) \<times> 'w"
  e_updateStatus :: "pulse \<Rightarrow> 'w \<Rightarrow> (api_error + pulse) \<times> 'w"
  e_now :: "'w \<Rightarrow> int \<times> 'w"
  e_rand :: "'w \<Rightarrow> (go_error + (nat \<Rightarrow> char)) \<times> 'w"
  e_getenv :: "string \<Rightarrow> string"
  e_hasRecorder :: bool
  e_sha256 :: "string \<Rightarrow> string"
  e_setController :: "pulse \<Rightarrow> kobj \<Rightarrow> go_error + kobj"
  e_controlledBy :: "kobj \<Rightarrow> pulse \<Rightarrow> bool"
  e_setCondition :: "condition \<Rightarrow> condition list \<Rightarrow> condition list"
  e_conditionFalse :: "condition list \<Rightarrow> string \<Rightarrow> bool"
  e_semverValid :: "string \<Rightarrow> bool"
  e_semverLess :: "string \<Rightarrow> string \<Rightarrow> bool"
  e_parseQuantity :: "string \<Rightarrow> go_error + string"
  e_quantityCmp :: "string \<Rightarrow> string \<Rightarrow> int"
  e_quantityValue :: "string \<Rightarrow> int"

section \<open>The state of the operator\<close>

datatype event = Event (ev_type: string) (ev_reason: string) (ev_message: string)

datatype call =
    CGet okey "api_error + kobj"
  | CList kind string smap "api_error + kobj list"
  | CCreate kobj "api_error + kobj"
  | CUpdate kobj "api_error + kobj"
  | CDelete okey string "api_error + unit"
  | CApply kobj "kobj \<Rightarrow> go_error + kobj" "go_error + unit"
  | CGetPulse string string "api_error + pulse"
  | CListPulses string "api_error + pulse list"
  | CUpdatePulse pulse "api_error + pulse"
  | CUpdateStatus pulse "api_error + pulse"

text \<open>A Prometheus series: gauge name, namespace, instance name, component.\<close>

type_synonym series = "string \<times> string \<times> string \<times> string"

record cluster_info =
  ci_ingressDomain :: string
  ci_oauthProxyImage :: string
  ci_acmAvailable :: bool
  ci_acmThanosURL :: string

record 'w op_state =
  os_world :: 'w
  os_log :: "call list"
  os_cr :: pulse
  os_events :: "event list"
  os_clusterInfo :: "cluster_info option"
  os_lastMemCheckAt :: "(string \<times> int) list"
  os_gauges :: "(series \<times> int) list"
  os_selfHeal :: "(string \<times> string) list"
  os_reconcileErrors :: "string list"

type_synonym ('w, 'a) action = "('w op_state, 'a) state"
type_synonym ('w, 'a) fallible = "('w op_state, go_error + 'a) state"

abbreviation ret :: "'a \<Rightarrow> ('s, 'a) state" where
  "ret x \<equiv> State_Monad.return x"

abbreviation ok :: "'a \<Rightarrow> ('w, 'a) fallible" where
  "ok x \<equiv> ret (Inr x)"

abbreviation fail :: "go_error \<Rightarrow> ('w, 'a) fallible" where
  "fail e \<equiv> ret (Inl e)"

text \<open>Go's \<open>if err != nil { return err }\<close>, \<open>fmt.Errorf("...: %w", err)\<close> and discarding a value.\<close>

definition bindE :: "('w, 'a) fallible \<Rightarrow> ('a \<Rightarrow> ('w, 'b) fallible) \<Rightarrow> ('w, 'b) fallible" where
  "bindE m f = do { r \<leftarrow> m; case r of Inl e \<Rightarrow> ret (Inl e) | Inr x \<Rightarrow> f x }"

definition wrapE :: "string \<Rightarrow> ('w, 'a) fallible \<Rightarrow> ('w, 'a) fallible" where
  "wrapE msg m = do { r \<leftarrow> m; ret (case r of Inl e \<Rightarrow> Inl (Wrap msg e) | Inr x \<Rightarrow> Inr x) }"

definition apiE :: "('w, api_error + 'a) action \<Rightarrow> ('w, 'a) fallible" where
  "apiE m = do { r \<leftarrow> m; ret (case r of Inl e \<Rightarrow> Inl (Api e) | Inr x \<Rightarrow> Inr x) }"

definition voidE :: "('w, 'a) fallible \<Rightarrow> ('w, unit) fallible" where
  "voidE m = bindE m (\<lambda>_. ok ())"

definition liftE :: "go_error + 'a \<Rightarrow> ('w, 'a) fallible" where
  "liftE r = ret r"

text \<open>A loop over named steps that stops at the first error and prefixes it with the step's name.\<close>

fun run_steps :: "(string \<times> ('w, unit) fallible) list \<Rightarrow> ('w, unit) fallible" where
  "run_steps [] = ok ()"
| "run_steps ((n, a) # steps) = bindE (wrapE n a) (\<lambda>_. run_steps steps)"

text \<open>A loop over actions that stops at the first error and returns it as it is.\<close>

fun run_all :: "('w, unit) fallible list \<Rightarrow> ('w, unit) fallible" where
  "run_all [] = ok ()"
| "run_all (a # as) = bindE a (\<lambda>_. run_all as)"

section \<open>Calls to the environment\<close>

definition call_api :: "('w \<Rightarrow> 'r \<times> 'w) \<Rightarrow> ('r \<Rightarrow> call) \<Rightarrow> ('w, 'r) action" where
  "call_api f mk =
     State (\<lambda>s. case f (os_world s) of (r, w) \<Rightarrow> (r, s\<lparr>os_world := w, os_log := os_log s @ [mk r]\<rparr>))"

definition ask_world :: "('w \<Rightarrow> 'r \<times> 'w) \<Rightarrow> ('w, 'r) action" where
  "ask_world f = State (\<lambda>s. case f (os_world s) of (r, w) \<Rightarrow> (r, s\<lparr>os_world := w\<rparr>))"

text \<open>A fetched object has the kind, namespace and name that were asked for.\<close>

definition fetch :: "'w env \<Rightarrow> okey \<Rightarrow> 'w \<Rightarrow> (api_error + kobj) \<times> 'w" where
  "fetch E k w =
     (case e_get E k w of
        (Inl e, w') \<Rightarrow> (Inl e, w')
      | (Inr x, w') \<Rightarrow> (Inr (x\<lparr>o_key := k\<rparr>), w'))"

definition api_get :: "'w env \<Rightarrow> okey \<Rightarrow> ('w, api_error + kobj) action" where
  "api_get E k = call_api (fetch E k) (CGet k)"

lemma fetch_key: "fst (fetch E k w) = Inr x \<Longrightarrow> o_key x = k"
  by (auto simp: fetch_def split: prod.splits sum.splits)

definition api_list :: "'w env \<Rightarrow> kind \<Rightarrow> string \<Rightarrow> smap \<Rightarrow> ('w, api_error + kobj list) action" where
  "api_list E k ns ls = call_api (e_list E k ns ls) (CList k ns ls)"

definition api_create :: "'w env \<Rightarrow> kobj \<Rightarrow> ('w, api_error + kobj) action" where
  "api_create E x = call_api (e_create E x) (CCreate x)"

definition api_update :: "'w env \<Rightarrow> kobj \<Rightarrow> ('w, api_error + kobj) action" where
  "api_update E x = call_api (e_update E x) (CUpdate x)"

definition api_delete :: "'w env \<Rightarrow> okey \<Rightarrow> ('w, api_error + unit) action" where
  "api_delete E k = call_api (e_delete E k '''') (CDelete k '''')"

definition api_delete_background :: "'w env \<Rightarrow> okey \<Rightarrow> ('w, api_error + unit) action" where
  "api_delete_background E k = call_api (e_delete E k ''Background'') (CDelete k ''Background'')"

definition create_or_update ::
  "'w env \<Rightarrow> kobj \<Rightarrow> (kobj \<Rightarrow> go_error + kobj) \<Rightarrow> ('w, unit) fallible" where
  "create_or_update E x f = call_api (e_createOrUpdate E x f) (CApply x f)"

definition api_getPulse :: "'w env \<Rightarrow> string \<Rightarrow> string \<Rightarrow> ('w, api_error + pulse) action" where
  "api_getPulse E ns n = call_api (e_getPulse E ns n) (CGetPulse ns n)"

definition api_listPulses :: "'w env \<Rightarrow> string \<Rightarrow> ('w, api_error + pulse list) action" where
  "api_listPulses E ns = call_api (e_listPulses E ns) (CListPulses ns)"

definition api_updatePulse :: "'w env \<Rightarrow> pulse \<Rightarrow> ('w, api_error + pulse) action" where
  "api_updatePulse E p = call_api (e_updatePulse E p) (CUpdatePulse p)"

definition api_updateStatus :: "'w env \<Rightarrow> pulse \<Rightarrow> ('w, api_error + pulse) action" where
  "api_updateStatus E p = call_api (e_updateStatus E p) (CUpdateStatus p)"

definition time_now :: "'w env \<Rightarrow> ('w, int) action" where
  "time_now E = ask_world (e_now E)"

text \<open>\<open>rand.Read\<close> on a buffer of \<open>n\<close> bytes fills all of it or fails.\<close>

definition rand_read :: "'w env \<Rightarrow> nat \<Rightarrow> ('w, string) fallible" where
  "rand_read E n =
     do { r \<leftarrow> ask_world (e_rand E);
          ret (case r of Inl e \<Rightarrow> Inl e | Inr f \<Rightarrow> Inr (map f [0..<n])) }"

section \<open>The operator's own state\<close>

definition gets :: "('s \<Rightarrow> 'a) \<Rightarrow> ('s, 'a) state" where
  "gets f = State (\<lambda>s. (f s, s))"

definition modify :: "('s \<Rightarrow> 's) \<Rightarrow> ('s, unit) state" where
  "modify f = State (\<lambda>s. ((), f s))"

definition get_cr :: "('w, pulse) action" where
  "get_cr = gets os_cr"

definition put_cr :: "pulse \<Rightarrow> ('w, unit) action" where
  "put_cr p = modify (\<lambda>s. s\<lparr>os_cr := p\<rparr>)"

definition set_status :: "(pulse_status \<Rightarrow> pulse_status) \<Rightarrow> ('w, unit) action" where
  "set_status f = modify (\<lambda>s. s\<lparr>os_cr := upd_status f (os_cr s)\<rparr>)"

text \<open>\<open>apimeta.SetStatusCondition(&cr.Status.Conditions, c)\<close>.\<close>

definition set_condition :: "'w env \<Rightarrow> condition \<Rightarrow> ('w, unit) action" where
  "set_condition E c = set_status (\<lambda>st. st\<lparr>st_conditions := e_setCondition E c (st_conditions st)\<rparr>)"

text \<open>A direct call of the event recorder.\<close>

definition emit_event :: "string \<Rightarrow> string \<Rightarrow> string \<Rightarrow> ('w, unit) action" where
  "emit_event ty reason msg = modify (\<lambda>s. s\<lparr>os_events := os_events s @ [Event ty reason msg]\<rparr>)"

text \<open>events.go: an optional recorder; without one nothing is recorded.\<close>

definition recordEvent :: "'w env \<Rightarrow> string \<Rightarrow> string \<Rightarrow> string \<Rightarrow> ('w, unit) action" where
  "recordEvent E ty reason msg =
     (if \<not> e_hasRecorder E then ret () else emit_event ty reason msg)"

text \<open>metrics.go: the two counters and the three gauges.\<close>

definition inc_self_heal :: "string \<Rightarrow> string \<Rightarrow> ('w, unit) action" where
  "inc_self_heal component act =
     modify (\<lambda>s. s\<lparr>os_selfHeal := os_selfHeal s @ [(component, act)]\<rparr>)"

definition inc_reconcile_error :: "string \<Rightarrow> ('w, unit) action" where
  "inc_reconcile_error step =
     modify (\<lambda>s. s\<lparr>os_reconcileErrors := os_reconcileErrors s @ [step]\<rparr>)"

definition set_gauge :: "string \<Rightarrow> pulse \<Rightarrow> string \<Rightarrow> int \<Rightarrow> ('w, unit) action" where
  "set_gauge g p component v =
     modify (\<lambda>s. s\<lparr>os_gauges :=
       AList.update (g, p_namespace p, p_name p, component) v (os_gauges s)\<rparr>)"

lemma run_bindE [run_simps, simp]:
  "run_state (bindE m f) s =
     (case run_state m s of (Inl e, s') \<Rightarrow> (Inl e, s') | (Inr x, s') \<Rightarrow> run_state (f x) s')"
  by (simp add: bindE_def split: prod.split sum.split)

lemma run_wrapE [run_simps, simp]:
  "run_state (wrapE msg m) s =
     (case run_state m s of (Inl e, s') \<Rightarrow> (Inl (Wrap msg e), s') | (Inr x, s') \<Rightarrow> (Inr x, s'))"
  by (simp add: wrapE_def split: prod.split sum.split)

lemma run_apiE [run_simps, simp]:
  "run_state (apiE m) s =
     (case run_state m s of (Inl e, s') \<Rightarrow> (Inl (Api e), s') | (Inr x, s') \<Rightarrow> (Inr x, s'))"
  by (simp add: apiE_def split: prod.split sum.split)

lemma run_gets [run_simps, simp]: "run_state (gets f) s = (f s, s)"
  by (simp add: gets_def)

lemma run_modify [run_simps, simp]: "run_state (modify f) s = ((), f s)"
  by (simp add: modify_def)

lemma run_call_api [run_simps, simp]:
  "run_state (call_api f mk) s =
     (fst (f (os_world s)),
      s\<lparr>os_world := snd (f (os_world s)), os_log := os_log s @ [mk (fst (f (os_world s)))]\<rparr>)"
  by (simp add: call_api_def split: prod.split)

lemma run_ask_world [run_simps, simp]:
  "run_state (ask_world f) s = (fst (f (os_world s)), s\<lparr>os_world := snd (f (os_world s))\<rparr>)"
  by (simp add: ask_world_def split: prod.split)

lemma run_bind_pair:
  "run_state (State_Monad.bind m f) s = run_state (f (fst (run_state m s))) (snd (run_state m s))"
  by (simp split: prod.split)

lemma cr_recordEvent [simp]: "os_cr (snd (run_state (recordEvent E a b m) s)) = os_cr s"
  by (simp add: recordEvent_def emit_event_def)

lemma world_recordEvent [simp]: "os_world (snd (run_state (recordEvent E a b m) s)) = os_world s"
  by (simp add: recordEvent_def emit_event_def)

lemma log_recordEvent [simp]: "os_log (snd (run_state (recordEvent E a b m) s)) = os_log s"
  by (simp add: recordEvent_def emit_event_def)

lemmas client_defs =
  api_get_def api_list_def api_create_def api_update_def api_delete_def api_delete_background_def
  create_or_update_def api_getPulse_def api_listPulses_def api_updatePulse_def api_updateStatus_def

lemmas local_defs =
  get_cr_def put_cr_def set_status_def set_condition_def emit_event_def recordEvent_def
  inc_self_heal_def inc_reconcile_error_def set_gauge_def

end
