(* ===== verification/Traces.thy ===== *)
theory Traces
  imports Client
begin

text \<open>
  Reasoning about what an action does to the state, whatever the environment answers.
  \<open>steps R m\<close> says that every run of \<open>m\<close> relates the state before to the state after by \<open>R\<close>.
  The locale \<open>step_rel\<close> gives, for a reflexive and transitive \<open>R\<close>, one rule per construct of the
  action language; \<open>trace_closed\<close> specialises it to "the calls appended to the log satisfy \<open>G\<close>".
  They are interpreted for the two uses of the development: calls that all satisfy a predicate,
  and deletions that are each preceded by a read of the same object that allows them. The locale
  \<open>sub_reconciler\<close> is the contract between the root reconciler and the reconcilers it calls.
\<close>

section \<open>Step relations\<close>

definition steps :: "('s \<Rightarrow> 's \<Rightarrow> bool) \<Rightarrow> ('s, 'a) state \<Rightarrow> bool" where
  "steps R m \<longleftrightarrow> (\<forall>s. R s (snd (run_state m s)))"

lemma stepsD: "steps R m \<Longrightarrow> run_state m s = (a, s') \<Longrightarrow> R s s'"
  unfolding steps_def by (metis snd_conv)

lemma steps_mono: "steps R m \<Longrightarrow> (\<And>s s'. R s s' \<Longrightarrow> Q s s') \<Longrightarrow> steps Q m"
  unfolding steps_def by blast

locale step_rel =
  fixes R :: "'w op_state \<Rightarrow> 'w op_state \<Rightarrow> bool"
  assumes R_refl: "R s s"
    and R_trans: "R s t \<Longrightarrow> R t u \<Longrightarrow> R s u"
begin

lemma s_ret: "steps R (State_Monad.return x)"
  by (simp add: steps_def R_refl)

lemma s_bind: "steps R m \<Longrightarrow> (\<And>x. steps R (f x)) \<Longrightarrow> steps R (State_Monad.bind m f)"
  unfolding steps_def by (auto split: prod.split) (metis R_trans snd_conv)

lemma s_if: "(b \<Longrightarrow> steps R m) \<Longrightarrow> (\<not> b \<Longrightarrow> steps R n) \<Longrightarrow> steps R (if b then m else n)"
  by simp

lemma s_let: "(\<And>x. x = t \<Longrightarrow> steps R (f x)) \<Longrightarrow> steps R (let x = t in f x)"
  by simp

lemma s_sum:
  "(\<And>e. r = Inl e \<Longrightarrow> steps R (f e)) \<Longrightarrow> (\<And>x. r = Inr x \<Longrightarrow> steps R (g x)) \<Longrightarrow>
     steps R (case r of Inl e \<Rightarrow> f e | Inr x \<Rightarrow> g x)"
  by (cases r) auto

lemma s_option:
  "(r = None \<Longrightarrow> steps R m) \<Longrightarrow> (\<And>x. r = Some x \<Longrightarrow> steps R (g x)) \<Longrightarrow>
     steps R (case r of None \<Rightarrow> m | Some x \<Rightarrow> g x)"
  by (cases r) auto

lemma s_list:
  "(r = [] \<Longrightarrow> steps R m) \<Longrightarrow> (\<And>x xs. r = x # xs \<Longrightarrow> steps R (g x xs)) \<Longrightarrow>
     steps R (case r of [] \<Rightarrow> m | x # xs \<Rightarrow> g x xs)"
  by (cases r) auto

lemma s_prod: "(\<And>x y. r = (x, y) \<Longrightarrow> steps R (f x y)) \<Longrightarrow> steps R (case r of (x, y) \<Rightarrow> f x y)"
  by (cases r) auto

lemma s_gets: "steps R (gets f)"
  by (simp add: steps_def R_refl)

lemma s_get_cr: "steps R get_cr"
  by (simp add: get_cr_def s_gets)

lemma s_bindE: "steps R m \<Longrightarrow> (\<And>x. steps R (f x)) \<Longrightarrow> steps R (bindE m f)"
  unfolding bindE_def by (intro s_bind s_sum s_ret)

lemma s_wrapE: "steps R m \<Longrightarrow> steps R (wrapE msg m)"
  unfolding wrapE_def by (intro s_bind s_ret)

lemma s_apiE: "steps R m \<Longrightarrow> steps R (apiE m)"
  unfolding apiE_def by (intro s_bind s_ret)

lemma s_voidE: "steps R m \<Longrightarrow> steps R (voidE m)"
  unfolding voidE_def by (intro s_bindE s_ret)

lemma s_liftE: "steps R (liftE r)"
  unfolding liftE_def by (rule s_ret)

lemma s_bind_lift: "(\<And>x. r = Inr x \<Longrightarrow> steps R (f x)) \<Longrightarrow> steps R (bindE (liftE r) f)"
  unfolding bindE_def liftE_def by (cases r) (simp_all add: steps_def R_refl)

lemma s_bind_wrap_lift: "(\<And>x. r = Inr x \<Longrightarrow> steps R (f x)) \<Longrightarrow> steps R (bindE (wrapE msg (liftE r)) f)"
  unfolding bindE_def wrapE_def liftE_def by (cases r) (simp_all add: steps_def R_refl)

lemma s_run_steps: "(\<And>n a. (n, a) \<in> set xs \<Longrightarrow> steps R a) \<Longrightarrow> steps R (run_steps xs)"
  by (induction xs rule: run_steps.induct) (auto intro!: s_bindE s_wrapE s_ret)

lemma s_run_all: "(\<And>a. a \<in> set xs \<Longrightarrow> steps R a) \<Longrightarrow> steps R (run_all xs)"
  by (induction xs rule: run_all.induct) (auto intro!: s_bindE s_ret)

lemmas ctrl_rules =
  s_bind_lift s_bind_wrap_lift s_ret s_bind s_if s_let s_sum s_option s_list s_prod s_gets s_get_cr s_bindE s_wrapE s_apiE
  s_voidE s_liftE

end

section \<open>What a run appends to the log\<close>

definition emitted :: "(call list \<Rightarrow> bool) \<Rightarrow> 'w op_state \<Rightarrow> 'w op_state \<Rightarrow> bool" where
  "emitted G s s' \<longleftrightarrow> (\<exists>xs. os_log s' = os_log s @ xs \<and> G xs)"

locale trace_closed =
  fixes G :: "call list \<Rightarrow> bool"
  assumes G_Nil: "G []"
    and G_append: "G xs \<Longrightarrow> G ys \<Longrightarrow> G (xs @ ys)"

sublocale trace_closed \<subseteq> step_rel "emitted G"
proof
  show "emitted G s s" for s :: "'a op_state"
    using G_Nil by (auto simp: emitted_def)
  show "emitted G s u" if "emitted G s t" "emitted G t u" for s t u :: "'a op_state"
    using that by (auto simp: emitted_def intro!: G_append)
qed

context trace_closed
begin

lemma e_local: "(\<And>s. os_log (f s) = os_log s) \<Longrightarrow> steps (emitted G) (modify f)"
  by (simp add: steps_def emitted_def G_Nil)

lemma e_ask: "steps (emitted G) (ask_world f)"
  by (simp add: steps_def emitted_def G_Nil)

lemma e_call: "(\<And>r. G [mk r]) \<Longrightarrow> steps (emitted G) (call_api f mk)"
  by (simp add: steps_def emitted_def)

lemma e_state_ops:
  "steps (emitted G) (put_cr p)" "steps (emitted G) (set_status g)"
  "steps (emitted G) (set_condition E c)" "steps (emitted G) (emit_event a b m)"
  "steps (emitted G) (recordEvent E a b m)" "steps (emitted G) (inc_self_heal a b)"
  "steps (emitted G) (inc_reconcile_error a)" "steps (emitted G) (set_gauge a q b v)"
  "steps (emitted G) (time_now E)"
  unfolding local_defs time_now_def by (auto intro!: e_local e_ask s_ret)

lemma e_rand: "steps (emitted G) (rand_read E n)"
  unfolding rand_read_def by (intro s_bind e_ask s_ret)

lemmas call_rules =
  e_call [folded api_get_def] e_state_ops e_rand

lemma e_api:
  "(\<And>r. G [CGet k r]) \<Longrightarrow> steps (emitted G) (api_get E k)"
  "(\<And>r. G [CList kd ns ls r]) \<Longrightarrow> steps (emitted G) (api_list E kd ns ls)"
  "(\<And>r. G [CCreate x r]) \<Longrightarrow> steps (emitted G) (api_create E x)"
  "(\<And>r. G [CUpdate x r]) \<Longrightarrow> steps (emitted G) (api_update E x)"
  "(\<And>r. G [CDelete k '''' r]) \<Longrightarrow> steps (emitted G) (api_delete E k)"
  "(\<And>r. G [CDelete k ''Background'' r]) \<Longrightarrow> steps (emitted G) (api_delete_background E k)"
  "(\<And>r. G [CApply x h r]) \<Longrightarrow> steps (emitted G) (create_or_update E x h)"
  "(\<And>r. G [CGetPulse ns n r]) \<Longrightarrow> steps (emitted G) (api_getPulse E ns n)"
  "(\<And>r. G [CListPulses ns r]) \<Longrightarrow> steps (emitted G) (api_listPulses E ns)"
  "(\<And>r. G [CUpdatePulse q r]) \<Longrightarrow> steps (emitted G) (api_updatePulse E q)"
  "(\<And>r. G [CUpdateStatus q r]) \<Longrightarrow> steps (emitted G) (api_updateStatus E q)"
  unfolding client_defs by (auto intro!: e_call)

lemma e_get_bind:
  assumes "\<And>r. G [CGet k r]"
    and "\<And>e. steps (emitted G) (f (Inl e))" and "\<And>x. o_key x = k \<Longrightarrow> steps (emitted G) (f (Inr x))"
  shows "steps (emitted G) (State_Monad.bind (api_get E k) f)"
proof -
  have "emitted G s (snd (run_state (State_Monad.bind (api_get E k) f) s))" for s :: "'a op_state"
  proof -
    define r where "r = fst (fetch E k (os_world s))"
    define t where "t = snd (run_state (api_get E k) s)"
    have run: "run_state (State_Monad.bind (api_get E k) f) s = run_state (f r) t"
      by (simp add: client_defs t_def r_def)
    have "emitted G s t"
      using e_api(1) [OF assms(1), of E] unfolding steps_def t_def by blast
    moreover have "emitted G t (snd (run_state (f r) t))"
    proof (cases r)
      case (Inl e)
      then show ?thesis using assms(2) [of e] unfolding steps_def by simp
    next
      case (Inr x)
      then show ?thesis using assms(3) [OF fetch_key [OF Inr [unfolded r_def]]] unfolding steps_def by simp
    qed
    ultimately show ?thesis
      unfolding run by (rule R_trans)
  qed
  then show ?thesis by (simp add: steps_def)
qed

lemmas rules = e_get_bind ctrl_rules e_state_ops e_rand e_api

end

section \<open>Calls that all satisfy a predicate\<close>

interpretation allc: trace_closed "list_all P" for P
  by unfold_locales auto

lemma emits_mono:
  "steps (emitted (list_all P)) m \<Longrightarrow> (\<And>c. P c \<Longrightarrow> Q c) \<Longrightarrow> steps (emitted (list_all Q)) m"
  unfolding emitted_def by (erule steps_mono) (auto simp: list_all_iff)

lemma emitsD:
  assumes "steps (emitted (list_all P)) m" and "run_state m s = (a, s')"
  obtains xs where "os_log s' = os_log s @ xs" "list_all P xs"
  using stepsD [OF assms] unfolding emitted_def by blast

section \<open>Deletions preceded by a permitting read\<close>

text \<open>
  \<open>guarded permit seen xs\<close>: every deletion in \<open>xs\<close> of a key \<open>k\<close> for which \<open>permit\<close> asks a test is of
  a key that was read before it, in \<open>xs\<close> or in \<open>seen\<close>, with an object that passes the test.
\<close>

type_synonym permit = "okey \<Rightarrow> (kobj \<Rightarrow> bool) option"

definition permitted :: "permit \<Rightarrow> (okey \<times> kobj) list \<Rightarrow> okey \<Rightarrow> bool" where
  "permitted permit seen k \<longleftrightarrow>
     (case permit k of None \<Rightarrow> True | Some P \<Rightarrow> list_ex (\<lambda>(k', x). k' = k \<and> P x) seen)"

fun guarded :: "permit \<Rightarrow> (okey \<times> kobj) list \<Rightarrow> call list \<Rightarrow> bool" where
  "guarded permit seen [] \<longleftrightarrow> True"
| "guarded permit seen (CGet k (Inr x) # cs) \<longleftrightarrow> guarded permit ((k, x) # seen) cs"
| "guarded permit seen (CDelete k pr r # cs) \<longleftrightarrow> permitted permit seen k \<and> guarded permit seen cs"
| "guarded permit seen (c # cs) \<longleftrightarrow> guarded permit seen cs"

lemma guarded_one_get [simp]: "guarded permit seen [CGet k r]"
  by (cases r) simp_all

lemma permitted_mono: "permitted permit seen k \<Longrightarrow> set seen \<subseteq> set seen' \<Longrightarrow> permitted permit seen' k"
  by (fastforce simp: permitted_def list_ex_iff split: option.splits)

lemma permitted_None [simp]: "permit k = None \<Longrightarrow> permitted permit seen k"
  by (simp add: permitted_def)

lemma permitted_read [simp]: "permit k = Some P \<Longrightarrow> P x \<Longrightarrow> permitted permit ((k, x) # seen) k"
  by (simp add: permitted_def)

lemma guarded_mono: "guarded permit seen xs \<Longrightarrow> set seen \<subseteq> set seen' \<Longrightarrow> guarded permit seen' xs"
proof (induction permit seen xs arbitrary: seen' rule: guarded.induct)
  case (2 permit seen k x cs)
  then show ?case by (simp add: subset_iff)
next
  case (3 permit seen k pr r cs)
  then show ?case by (auto intro: permitted_mono)
qed auto

lemma guarded_append:
  "guarded permit seen xs \<Longrightarrow> guarded permit seen ys \<Longrightarrow> guarded permit seen (xs @ ys)"
proof (induction permit seen xs rule: guarded.induct)
  case (2 permit seen k x cs)
  then have "guarded permit ((k, x) # seen) ys"
    using guarded_mono [of permit seen ys "(k, x) # seen"] by auto
  with 2 show ?case by simp
qed auto

interpretation grd: trace_closed "guarded permit seen" for permit seen
  by unfold_locales (simp_all add: guarded_append)

abbreviation guards :: "permit \<Rightarrow> (okey \<times> kobj) list \<Rightarrow> ('w, 'a) action \<Rightarrow> bool" where
  "guards permit seen m \<equiv> steps (emitted (guarded permit seen)) m"

lemma guards_get:
  assumes "\<And>e. guards permit seen (f (Inl e))"
    and "\<And>x. o_key x = k \<Longrightarrow> guards permit ((k, x) # seen) (f (Inr x))"
  shows "guards permit seen (State_Monad.bind (api_get E k) f)"
proof -
  have "emitted (guarded permit seen) s (snd (run_state (State_Monad.bind (api_get E k) f) s))" for s :: "'a op_state"
  proof -
    define r where "r = fst (fetch E k (os_world s))"
    define t where "t = s\<lparr>os_world := snd (fetch E k (os_world s)), os_log := os_log s @ [CGet k r]\<rparr>"
    have run: "run_state (State_Monad.bind (api_get E k) f) s = run_state (f r) t"
      by (simp add: client_defs t_def r_def)
    show ?thesis
    proof (cases r)
      case (Inl e)
      from assms(1) [of e] obtain xs where "os_log (snd (run_state (f r) t)) = os_log t @ xs" "guarded permit seen xs"
        unfolding steps_def emitted_def Inl by blast
      then show ?thesis
        unfolding run emitted_def using Inl by (intro exI [of _ "CGet k r # xs"]) (simp add: t_def)
    next
      case (Inr x)
      from assms(2) [OF fetch_key [OF Inr [unfolded r_def]]] obtain xs where "os_log (snd (run_state (f r) t)) = os_log t @ xs" "guarded permit ((k, x) # seen) xs"
        unfolding steps_def emitted_def Inr by blast
      then show ?thesis
        unfolding run emitted_def using Inr by (intro exI [of _ "CGet k r # xs"]) (simp add: t_def)
    qed
  qed
  then show ?thesis by (simp add: steps_def)
qed

text \<open>An action that deletes only keys that need no test is guarded.\<close>

lemma guarded_no_delete:
  "list_all (\<lambda>c. \<forall>k pr r. c = CDelete k pr r \<longrightarrow> permit k = None) xs \<Longrightarrow> guarded permit seen xs"
  by (induction permit seen xs rule: guarded.induct) auto

section \<open>The keys a call writes and deletes\<close>

fun write_key :: "call \<Rightarrow> okey option" where
  "write_key (CCreate x _) = Some (o_key x)"
| "write_key (CUpdate x _) = Some (o_key x)"
| "write_key (CApply x _ _) = Some (o_key x)"
| "write_key _ = None"

fun delete_key :: "call \<Rightarrow> okey option" where
  "delete_key (CDelete k _ _) = Some k"
| "delete_key _ = None"

fun writes_pulse :: "call \<Rightarrow> bool" where
  "writes_pulse (CUpdatePulse _ _) = True"
| "writes_pulse (CUpdateStatus _ _) = True"
| "writes_pulse _ = False"

text \<open>\<open>within ws ds c\<close>: \<open>c\<close> reads, or writes a key of \<open>ws\<close>, or deletes a key of \<open>ds\<close>.\<close>

definition within :: "okey set \<Rightarrow> okey set \<Rightarrow> call \<Rightarrow> bool" where
  "within ws ds c \<longleftrightarrow>
     (\<forall>k. write_key c = Some k \<longrightarrow> k \<in> ws) \<and> (\<forall>k. delete_key c = Some k \<longrightarrow> k \<in> ds) \<and> \<not> writes_pulse c"

lemma within_simps [simp]:
  "within ws ds (CGet k r)" "within ws ds (CList kd ns ls rl)"
  "within ws ds (CCreate x rc) \<longleftrightarrow> o_key x \<in> ws"
  "within ws ds (CUpdate x rc) \<longleftrightarrow> o_key x \<in> ws"
  "within ws ds (CApply x h ra) \<longleftrightarrow> o_key x \<in> ws"
  "within ws ds (CDelete k pr rd) \<longleftrightarrow> k \<in> ds"
  "within ws ds (CGetPulse ns n rp)" "within ws ds (CListPulses ns rs)"
  "\<not> within ws ds (CUpdatePulse p rp)" "\<not> within ws ds (CUpdateStatus p rp)"
  by (simp_all add: within_def)

lemma within_mono: "within ws ds c \<Longrightarrow> ws \<subseteq> ws' \<Longrightarrow> ds \<subseteq> ds' \<Longrightarrow> within ws' ds' c"
  by (auto simp: within_def)

lemma touches_guards:
  assumes "steps (emitted (list_all (within ws ds))) m" and "\<And>k. k \<in> ds \<Longrightarrow> permit k = None"
  shows "guards permit seen m"
proof -
  have "guarded permit seen xs" if "list_all (within ws ds) xs" for xs
    using that assms(2) by (intro guarded_no_delete) (auto simp: list_all_iff within_def)
  then show ?thesis
    using assms(1) unfolding steps_def emitted_def by blast
qed

abbreviation touches :: "okey set \<Rightarrow> okey set \<Rightarrow> ('w, 'a) action \<Rightarrow> bool" where
  "touches ws ds m \<equiv> steps (emitted (list_all (within ws ds))) m"

lemma touches_mono: "touches ws ds m \<Longrightarrow> ws \<subseteq> ws' \<Longrightarrow> ds \<subseteq> ds' \<Longrightarrow> touches ws' ds' m"
  by (erule emits_mono) (rule within_mono)

section \<open>The contract of a sub-reconciler\<close>

locale sub_reconciler =
  fixes act :: "'w env \<Rightarrow> pulse \<Rightarrow> ('w, 'a) fallible"
    and writes :: "pulse \<Rightarrow> okey set"
    and deletes :: "pulse \<Rightarrow> okey set"
  assumes footprint: "touches (writes p) (deletes p) (act E p)"
begin

lemma emits_only:
  assumes "\<And>c. within (writes p) (deletes p) c \<Longrightarrow> P c"
  shows "steps (emitted (list_all P)) (act E p)"
  using footprint assms by (rule emits_mono)

lemma never_deletes:
  assumes "k \<notin> deletes p"
  shows "steps (emitted (list_all (\<lambda>c. delete_key c \<noteq> Some k))) (act E p)"
  by (rule emits_only) (use assms in \<open>auto simp: within_def\<close>)

lemma touches_more:
  assumes "writes p \<subseteq> ws" "deletes p \<subseteq> ds"
  shows "touches ws ds (act E p)"
  using footprint assms by (rule touches_mono)

end

section \<open>What an action leaves of the custom resource\<close>

text \<open>
  \<open>keeps g m\<close>: no run of \<open>m\<close> changes the view \<open>g\<close> of the custom resource the operator holds.
\<close>

abbreviation keeps :: "(pulse \<Rightarrow> 'v) \<Rightarrow> ('w, 'a) action \<Rightarrow> bool" where
  "keeps g m \<equiv> steps (\<lambda>s s'. g (os_cr s') = g (os_cr s)) m"

lemma keepsD: "keeps g m \<Longrightarrow> g (os_cr (snd (run_state m s))) = g (os_cr s)"
  by (simp add: steps_def)

locale cr_view =
  fixes g :: "pulse \<Rightarrow> 'v"

sublocale cr_view \<subseteq> step_rel "\<lambda>s s'. g (os_cr s') = g (os_cr s)"
  by unfold_locales auto

context cr_view
begin

lemma v_modify: "(\<And>s. g (os_cr (f s)) = g (os_cr s)) \<Longrightarrow> keeps g (modify f)"
  by (simp add: steps_def)

lemma v_ask: "keeps g (ask_world f)"
  by (simp add: steps_def)

lemma v_call: "keeps g (call_api f mk)"
  by (simp add: steps_def)

lemma v_set_status: "(\<And>p. g (upd_status f p) = g p) \<Longrightarrow> keeps g (set_status f)"
  unfolding set_status_def by (intro v_modify) simp

lemma v_set_condition:
  "(\<And>p cs. g (upd_status (\<lambda>st. st\<lparr>st_conditions := cs st\<rparr>) p) = g p) \<Longrightarrow> keeps g (set_condition E c)"
  unfolding set_condition_def by (intro v_set_status)

lemma v_local:
  "keeps g (emit_event a b m)" "keeps g (recordEvent E a b m)" "keeps g (inc_self_heal a b)"
  "keeps g (inc_reconcile_error a)" "keeps g (set_gauge a q b v)" "keeps g (time_now E)"
  unfolding local_defs time_now_def by (auto intro!: v_modify v_ask s_ret)

lemma v_rand: "keeps g (rand_read E n)"
  unfolding rand_read_def by (intro s_bind v_ask s_ret)

lemma v_api:
  "keeps g (api_get E k)" "keeps g (api_list E kd ns ls)" "keeps g (api_create E x)"
  "keeps g (api_update E x)" "keeps g (api_delete E k)" "keeps g (api_delete_background E k)"
  "keeps g (create_or_update E x h)" "keeps g (api_getPulse E ns n)" "keeps g (api_listPulses E ns)"
  "keeps g (api_updatePulse E q)" "keeps g (api_updateStatus E q)"
  unfolding client_defs by (rule v_call)+

lemmas rules = ctrl_rules v_local v_rand v_api

end

interpretation view: cr_view g for g .

text \<open>What the operator never changes of the resource it holds: all but the status.\<close>

definition identity_of :: "pulse \<Rightarrow> pulse" where
  "identity_of p = p\<lparr>p_status := empty_status\<rparr>"

lemma identity_upd_status [simp]: "identity_of (upd_status f p) = identity_of p"
  by (simp add: identity_of_def)

lemma identity_ofD:
  assumes "identity_of p = identity_of q"
  shows "p_name p = p_name q" "p_namespace p = p_namespace q" "p_uid p = p_uid q" "p_spec p = p_spec q"
    "p_annotations p = p_annotations q" "p_finalizers p = p_finalizers q"
    "p_deletionTimestamp p = p_deletionTimestamp q" "p_generation p = p_generation q"
  using arg_cong [OF assms, of p_name] arg_cong [OF assms, of p_namespace] arg_cong [OF assms, of p_uid]
    arg_cong [OF assms, of p_spec] arg_cong [OF assms, of p_annotations] arg_cong [OF assms, of p_finalizers]
    arg_cong [OF assms, of p_deletionTimestamp] arg_cong [OF assms, of p_generation]
  by (simp_all add: identity_of_def)

lemma identity_eqI: "identity_of p = identity_of q \<Longrightarrow> p_status p = p_status q \<Longrightarrow> p = q"
  by (cases p, cases q) (simp add: identity_of_def)

end
