(* ===== verification/Images.thy ===== *)
theory Images
  imports Traces
begin

text \<open>
  Which image each component runs: \<open>images.go\<close> (resolution of an operand image), the image
  helpers of \<open>agent_reconciler.go\<close> and \<open>ui_reconciler.go\<close> (requested image, resolved image after a
  rollback), \<open>skew.go\<close> (tags and agent/UI version skew) and the version labels of
  \<open>openshiftpulse_controller.go\<close>. The locale \<open>image_component\<close> is the contract the status machine
  relies on; the agent and the UI are its two interpretations.
\<close>

section \<open>images.go\<close>

definition envAgentImage :: string where "envAgentImage = ''RELATED_IMAGE_AGENT''"
definition envUIImage :: string where "envUIImage = ''RELATED_IMAGE_UI''"
definition envMCPServerImage :: string where "envMCPServerImage = ''RELATED_IMAGE_MCP_SERVER''"
definition envRenderImage :: string where "envRenderImage = ''RELATED_IMAGE_RENDER''"
definition envPostgreSQLImage :: string where "envPostgreSQLImage = ''RELATED_IMAGE_POSTGRESQL''"
definition envOAuthProxyImage :: string where "envOAuthProxyImage = ''RELATED_IMAGE_OAUTH_PROXY''"
definition envTemporalImage :: string where "envTemporalImage = ''RELATED_IMAGE_TEMPORAL''"
definition envTemporalUIImage :: string where "envTemporalUIImage = ''RELATED_IMAGE_TEMPORAL_UI''"
definition envHelmRunnerImage :: string where "envHelmRunnerImage = ''RELATED_IMAGE_HELM_RUNNER''"

definition imageFromEnv :: "'w env \<Rightarrow> string \<Rightarrow> string \<Rightarrow> string" where
  "imageFromEnv E name fallback = (if e_getenv E name \<noteq> '''' then e_getenv E name else fallback)"

section \<open>Requested and resolved images\<close>

definition defaultAgentImage :: string where
  "defaultAgentImage = ''quay.io/amobrem/pulse-agent:latest''"

definition defaultUIImage :: string where
  "defaultUIImage = ''quay.io/amobrem/openshiftpulse:latest''"

definition requestedImage :: "'w env \<Rightarrow> pulse \<Rightarrow> string" where
  "requestedImage E cr =
     (if ag_image (agent_of cr) \<noteq> '''' then ag_image (agent_of cr)
      else imageFromEnv E envAgentImage defaultAgentImage)"

definition requestedUIImage :: "'w env \<Rightarrow> pulse \<Rightarrow> string" where
  "requestedUIImage E cr =
     (if uc_image (ui_of cr) \<noteq> '''' then uc_image (ui_of cr)
      else imageFromEnv E envUIImage defaultUIImage)"

definition applyRollback :: "string \<Rightarrow> image_rollback option \<Rightarrow> string" where
  "applyRollback requested rb =
     (case rb of
        Some r \<Rightarrow> if rb_from r = requested \<and> rb_to r \<noteq> '''' then rb_to r else requested
      | None \<Rightarrow> requested)"

definition resolvedImage :: "'w env \<Rightarrow> pulse \<Rightarrow> string" where
  "resolvedImage E cr = applyRollback (requestedImage E cr) (st_agentRollback (p_status cr))"

definition resolvedUIImage :: "'w env \<Rightarrow> pulse \<Rightarrow> string" where
  "resolvedUIImage E cr = applyRollback (requestedUIImage E cr) (st_uiRollback (p_status cr))"

lemma imageFromEnv_nonempty: "fallback \<noteq> '''' \<Longrightarrow> imageFromEnv E name fallback \<noteq> ''''"
  by (simp add: imageFromEnv_def)

lemma requestedImage_nonempty [simp]: "requestedImage E cr \<noteq> ''''"
  by (simp add: requestedImage_def imageFromEnv_nonempty defaultAgentImage_def)

lemma requestedUIImage_nonempty [simp]: "requestedUIImage E cr \<noteq> ''''"
  by (simp add: requestedUIImage_def imageFromEnv_nonempty defaultUIImage_def)

lemma applyRollback_None [simp]: "applyRollback i None = i"
  by (simp add: applyRollback_def)

lemma applyRollback_stale [simp]: "rb_from r \<noteq> i \<Longrightarrow> applyRollback i (Some r) = i"
  by (simp add: applyRollback_def)

lemma applyRollback_active: "rb_to r \<noteq> '''' \<Longrightarrow> applyRollback (rb_from r) (Some r) = rb_to r"
  by (simp add: applyRollback_def)

lemma applyRollback_nonempty: "i \<noteq> '''' \<Longrightarrow> applyRollback i rb \<noteq> ''''"
  by (simp add: applyRollback_def split: option.split)

section \<open>The rollback record of status.go\<close>

text \<open>The three steps of \<open>syncPhaseAndConditions\<close> that concern one component's image.\<close>

text \<open>A rollback record whose image the spec no longer asks for is dropped.\<close>

definition drop_stale :: "string \<Rightarrow> image_rollback option \<Rightarrow> image_rollback option" where
  "drop_stale requested rb =
     (case rb of Some r \<Rightarrow> if rb_from r \<noteq> requested then None else Some r | None \<Rightarrow> None)"

text \<open>Whether a component is upgrading, and the image last seen healthy after this pass.\<close>

definition is_upgrading :: "bool \<Rightarrow> string \<Rightarrow> string \<Rightarrow> bool" where
  "is_upgrading rolledOut img lastHealthy \<longleftrightarrow> \<not> rolledOut \<and> lastHealthy \<noteq> '''' \<and> img \<noteq> lastHealthy"

definition record_healthy :: "bool \<Rightarrow> string \<Rightarrow> string \<Rightarrow> string" where
  "record_healthy rolledOut img lastHealthy = (if rolledOut \<and> img \<noteq> '''' then img else lastHealthy)"

text \<open>A record that can be trusted: it replaces a bad image by the last one seen healthy.\<close>

definition record_ok :: "image_rollback option \<Rightarrow> string \<Rightarrow> bool" where
  "record_ok rb lastHealthy \<longleftrightarrow>
     (\<forall>r \<in> set_option rb. rb_to r = lastHealthy \<and> lastHealthy \<noteq> '''' \<and> rb_from r \<noteq> lastHealthy)"

lemma record_ok_None [simp]: "record_ok None lh"
  by (simp add: record_ok_def)

lemma record_ok_Some [simp]:
  "record_ok (Some r) lh \<longleftrightarrow> rb_to r = lh \<and> lh \<noteq> '''' \<and> rb_from r \<noteq> lh"
  by (simp add: record_ok_def)

section \<open>The contract of a component whose image can be rolled back\<close>

text \<open>
  \<open>requested\<close> is the image the custom resource asks for, \<open>rollback\<close> the record in its status and
  \<open>resolved\<close> the image deployed. The resolution depends on nothing else in the status.
\<close>

locale image_component =
  fixes requested :: "'w env \<Rightarrow> pulse \<Rightarrow> string"
    and resolved :: "'w env \<Rightarrow> pulse \<Rightarrow> string"
    and rollback :: "pulse_status \<Rightarrow> image_rollback option"
  assumes resolved_rollback: "resolved E cr = applyRollback (requested E cr) (rollback (p_status cr))"
    and requested_spec: "p_spec cr = p_spec cr' \<Longrightarrow> requested E cr = requested E cr'"
    and requested_nonempty: "requested E cr \<noteq> ''''"
begin

lemma resolved_no_rollback: "rollback (p_status cr) = None \<Longrightarrow> resolved E cr = requested E cr"
  by (simp add: resolved_rollback)

lemma resolved_stale:
  "rollback (p_status cr) = Some r \<Longrightarrow> rb_from r \<noteq> requested E cr \<Longrightarrow> resolved E cr = requested E cr"
  by (simp add: resolved_rollback)

lemma resolved_active:
  "rollback (p_status cr) = Some r \<Longrightarrow> rb_from r = requested E cr \<Longrightarrow> rb_to r \<noteq> '''' \<Longrightarrow>
     resolved E cr = rb_to r"
  by (simp add: resolved_rollback applyRollback_def)

lemma resolved_nonempty: "resolved E cr \<noteq> ''''"
  by (simp add: resolved_rollback applyRollback_nonempty requested_nonempty)

lemma resolved_congr:
  "p_spec cr = p_spec cr' \<Longrightarrow> rollback (p_status cr) = rollback (p_status cr') \<Longrightarrow>
     resolved E cr = resolved E cr'"
  using requested_spec [of cr cr' E] by (simp add: resolved_rollback)

lemma record_ok_pass:
  assumes "record_ok rb lh" and "req \<noteq> ''''"
    and "rb1 = drop_stale req rb" and "img = applyRollback req rb1"
    and "lh1 = record_healthy ro img lh"
  shows "record_ok (if is_upgrading ro img lh \<and> rb1 = None \<and> lh1 \<noteq> '''' \<and> fire
                    then Some \<lparr>rb_from = req, rb_to = lh1, rb_at = t\<rparr> else rb1) lh1"
  using assms
  by (cases rb) (auto simp: drop_stale_def record_healthy_def is_upgrading_def applyRollback_def split: if_splits)

lemma record_ok_not_upgrading:
  assumes "record_ok (rollback (p_status cr)) lh"
    and "rollback (p_status cr) = Some r" and "rb_from r = requested E cr"
  shows "resolved E cr = lh" and "\<not> is_upgrading ro (resolved E cr) lh"
proof -
  show "resolved E cr = lh"
    using assms resolved_active [of cr r E] by simp
  then show "\<not> is_upgrading ro (resolved E cr) lh"
    by (simp add: is_upgrading_def)
qed

end

interpretation agent_img: image_component requestedImage resolvedImage st_agentRollback
  by unfold_locales (simp_all add: resolvedImage_def requestedImage_def [abs_def] imageFromEnv_nonempty defaultAgentImage_def)

interpretation ui_img: image_component requestedUIImage resolvedUIImage st_uiRollback
  by unfold_locales (simp_all add: resolvedUIImage_def requestedUIImage_def [abs_def] imageFromEnv_nonempty defaultUIImage_def)

section \<open>skew.go: image tags\<close>

definition imageTag :: "string \<Rightarrow> string" where
  "imageTag img =
     (if img = '''' then ''''
      else if CHR ''@'' \<in> set img then ''''
      else let lastSlash = last_index CHR ''/'' img; lastColon = last_index CHR '':'' img
           in if lastColon \<le> lastSlash then '''' else drop (nat (lastColon + 1)) img)"

definition imageVersionLabel :: "string \<Rightarrow> string" where
  "imageVersionLabel img =
     (let at = index_of CHR ''@'' img
      in if at \<ge> 0
         then let digest = drop (nat (at + 1)) img
              in (case cut CHR '':'' digest of
                    Some (algo, hex) \<Rightarrow> if length hex > 12 then algo @ '':'' @ take 12 hex else digest
                  | None \<Rightarrow> digest)
         else imageTag img)"

text \<open>The version skew verdict, and the message when the two pinned tags differ.\<close>

definition skew_message :: "string \<Rightarrow> string \<Rightarrow> string" where
  "skew_message agentTag uiTag =
     ''spec.agent.image is pinned at '' @ agentTag @ '' but spec.ui.image is pinned at '' @ uiTag @ ''. '' @
     ''The agent and UI are released together under one version; a mismatch '' @
     ''means one surface was upgraded and the other was not, and the two will '' @
     ''report different versions to users. This is expected only briefly during '' @
     ''an upgrade.''"

definition agentUIVersionSkew :: "pulse \<Rightarrow> bool \<times> string" where
  "agentUIVersionSkew cr =
     (let agentTag = imageTag (ag_image (agent_of cr)); uiTag = imageTag (uc_image (ui_of cr))
      in if agentTag = '''' \<or> uiTag = '''' then (False, '''')
         else if agentTag = ''latest'' \<or> uiTag = ''latest'' then (False, '''')
         else if agentTag = uiTag then (False, '''')
         else (True, skew_message agentTag uiTag))"

definition mk_condition :: "pulse \<Rightarrow> string \<Rightarrow> cond_status \<Rightarrow> string \<Rightarrow> string \<Rightarrow> condition" where
  "mk_condition cr ty s reason msg =
     \<lparr>c_type = ty, c_status = s, c_reason = reason, c_message = msg, c_observedGeneration = p_generation cr\<rparr>"

definition setVersionSkewCondition :: "'w env \<Rightarrow> bool \<Rightarrow> string \<Rightarrow> ('w, unit) action" where
  "setVersionSkewCondition E skewed message =
     do { cr \<leftarrow> get_cr;
          set_condition E
            (if skewed then mk_condition cr ''AgentUIVersionsMatch'' CondFalse ''VersionSkew'' message
             else mk_condition cr ''AgentUIVersionsMatch'' CondTrue ''VersionsMatch''
                    ''spec.agent.image and spec.ui.image are pinned at the same version'') }"

section \<open>What a tag is\<close>

lemma imageTag_tagged:
  assumes "CHR ''@'' \<notin> set repo" "CHR ''@'' \<notin> set tag" "CHR '':'' \<notin> set tag" "CHR ''/'' \<notin> set tag"
  shows "imageTag (repo @ CHR '':'' # tag) = tag"
proof -
  have colon: "last_index CHR '':'' (repo @ CHR '':'' # tag) = int (length repo)"
    using assms by (simp add: last_index_append)
  have "last_index CHR ''/'' (repo @ CHR '':'' # tag) < int (length repo)"
  proof (cases "CHR ''/'' \<in> set repo")
    case True
    then obtain a b where repo: "repo = a @ CHR ''/'' # b" "CHR ''/'' \<notin> set b"
      by (metis split_list_last)
    then have "last_index CHR ''/'' (a @ CHR ''/'' # (b @ CHR '':'' # tag)) = int (length a)"
      using assms by (intro last_index_append) simp
    with repo show ?thesis by simp
  next
    case False
    then show ?thesis using assms by (simp add: last_index_def)
  qed
  with colon assms show ?thesis by (simp add: imageTag_def Let_def nat_int_Suc)
qed

lemma imageTag_digest: "CHR ''@'' \<in> set img \<Longrightarrow> imageTag img = ''''"
  by (simp add: imageTag_def)

text \<open>A port is not a tag: a colon before the last slash is never a separator.\<close>

lemma imageTag_port:
  assumes "CHR '':'' \<notin> set path"
  shows "imageTag (host @ CHR '':'' # port @ CHR ''/'' # path) = '''' \<or> CHR '':'' \<in> set port"
proof (cases "CHR '':'' \<in> set port \<or> CHR ''@'' \<in> set (host @ port @ path)")
  case True
  then show ?thesis by (auto simp: imageTag_def)
next
  case False
  let ?i = "host @ CHR '':'' # port @ CHR ''/'' # path"
  have colon: "last_index CHR '':'' ?i = int (length host)"
    using assms False by (intro last_index_append) auto
  obtain a b where ab: "CHR ''/'' # path = a @ CHR ''/'' # b" "CHR ''/'' \<notin> set b"
    by (metis list.set_intros(1) split_list_last)
  have "last_index CHR ''/'' ((host @ CHR '':'' # port @ a) @ CHR ''/'' # b)
      = int (length (host @ CHR '':'' # port @ a))"
    using ab by (intro last_index_append)
  then have "last_index CHR '':'' ?i \<le> last_index CHR ''/'' ?i"
    using ab colon by simp
  with False show ?thesis by (simp add: imageTag_def Let_def)
qed

lemma imageVersionLabel_digest:
  assumes "CHR ''@'' \<notin> set repo" "CHR '':'' \<notin> set algo" "CHR ''@'' \<notin> set algo" "length hex > 12"
  shows "imageVersionLabel (repo @ CHR ''@'' # algo @ CHR '':'' # hex) = algo @ '':'' @ take 12 hex"
  using assms by (simp add: imageVersionLabel_def index_of_append cut_append Let_def nat_add_distrib)

lemma agentUIVersionSkew_iff:
  "fst (agentUIVersionSkew cr) \<longleftrightarrow>
     (let a = imageTag (ag_image (agent_of cr)); u = imageTag (uc_image (ui_of cr))
      in a \<noteq> '''' \<and> u \<noteq> '''' \<and> a \<noteq> ''latest'' \<and> u \<noteq> ''latest'' \<and> a \<noteq> u)"
  by (auto simp: agentUIVersionSkew_def Let_def)

end
