(* ===== verification/Compat.thy ===== *)
theory Compat
  imports Images
begin

text \<open>
  \<open>compat.go\<close>: the pre-upgrade compatibility gate. \<open>spec.agent.minOperatorVersion\<close> is compared with
  this build's version through the semver library, a parameter; a version that does not parse, on
  either side, counts as compatible.
\<close>

definition OperatorVersion :: string where
  "OperatorVersion = ''0.13.0''"

definition agentVersionCompatible :: "'w env \<Rightarrow> pulse \<Rightarrow> bool \<times> string" where
  "agentVersionCompatible E cr =
     (let want = ag_minOperatorVersion (agent_of cr)
      in if want = '''' then (True, '''')
         else if \<not> e_semverValid E want then (True, '''')
         else if \<not> e_semverValid E OperatorVersion then (True, '''')
         else if e_semverLess E OperatorVersion want
           then (False, ''spec.agent.minOperatorVersion='' @ want @ '' requires a pulse-operator build >= '' @
                        want @ ''; this operator is running '' @ OperatorVersion)
         else (True, ''''))"

definition setAgentVersionCompatibleCondition :: "'w env \<Rightarrow> bool \<Rightarrow> string \<Rightarrow> ('w, unit) action" where
  "setAgentVersionCompatibleCondition E compatible message =
     do { cr \<leftarrow> get_cr;
          set_condition E
            (if compatible
             then mk_condition cr ''AgentVersionCompatible'' CondTrue ''Compatible''
                    ''spec.agent.minOperatorVersion is satisfied by this operator build''
             else mk_condition cr ''AgentVersionCompatible'' CondFalse ''IncompatibleVersion'' message) }"

text \<open>The gate is inert until the field is set, and closes only on a parsed, larger version.\<close>

lemma compatible_unset: "ag_minOperatorVersion (agent_of cr) = '''' \<Longrightarrow> agentVersionCompatible E cr = (True, '''')"
  by (simp add: agentVersionCompatible_def)

lemma incompatible_iff:
  "\<not> fst (agentVersionCompatible E cr) \<longleftrightarrow>
     ag_minOperatorVersion (agent_of cr) \<noteq> '''' \<and>
     e_semverValid E (ag_minOperatorVersion (agent_of cr)) \<and> e_semverValid E OperatorVersion \<and>
     e_semverLess E OperatorVersion (ag_minOperatorVersion (agent_of cr))"
  by (simp add: agentVersionCompatible_def Let_def)

lemma incompatible_message: "\<not> fst (agentVersionCompatible E cr) \<Longrightarrow> snd (agentVersionCompatible E cr) \<noteq> ''''"
  by (auto simp: agentVersionCompatible_def Let_def split: if_splits)

end
