(* ===== verification/PodDiagnosis.thy ===== *)
theory PodDiagnosis
  imports Traces
begin

text \<open>
  \<open>deployment_selfheal.go\<close>: why a pod is not becoming ready (\<open>diagnosePod\<close>), the first problem
  among a Deployment's pods (\<open>diagnoseDeploymentPods\<close>), and the annotation of \<open>oc rollout restart\<close>
  that the reconcilers carry over (\<open>keepRestartedAt\<close>).
\<close>

section \<open>truncate\<close>

text \<open>
  Go slices \<open>s[:n-1]\<close>, which panics for \<open>n = 0\<close>; every call site passes a constant of at least 1.
\<close>

definition truncate_text :: "string \<Rightarrow> nat \<Rightarrow> string" where
  "truncate_text s n = (if length s \<le> n then s else take (n - 1) s @ ellipsis)"

lemma length_truncate_text: "0 < n \<Longrightarrow> length (truncate_text s n) \<le> n + 2"
  by (simp add: truncate_text_def ellipsis_def)

lemma truncate_text_short [simp]: "length s \<le> n \<Longrightarrow> truncate_text s n = s"
  by (simp add: truncate_text_def)

section \<open>Pod problems\<close>

record pod_problem =
  pp_pod :: string
  pp_reason :: string
  pp_message :: string

definition problem_text :: "pod_problem \<Rightarrow> string" where
  "problem_text p =
     (if pp_message p = '''' then ''pod '' @ pp_pod p @ '': '' @ pp_reason p
      else ''pod '' @ pp_pod p @ '': '' @ pp_reason p @ '': '' @ pp_message p)"

definition problemWaitingReasons :: "string list" where
  "problemWaitingReasons =
     [''ImagePullBackOff'', ''ErrImagePull'', ''InvalidImageName'', ''CrashLoopBackOff'',
      ''CreateContainerConfigError'', ''CreateContainerError'', ''RunContainerError'']"

definition crash_detail :: "string \<Rightarrow> terminated_state \<Rightarrow> string" where
  "crash_detail container t =
     ''container '' @ container @ '' exited with code '' @ itoa (ts_exitCode t) @
     (if ts_reason t \<noteq> '''' then '' ('' @ ts_reason t @ '')'' else '''') @
     (if trim_space (ts_message t) \<noteq> '''' then '': '' @ trim_space (ts_message t) else '''')"

text \<open>The problem of one container, if it waits for a reason that does not pass by itself.\<close>

definition container_problem :: "string \<Rightarrow> container_status \<Rightarrow> pod_problem option" where
  "container_problem pod cs =
     (case cs_waiting cs of
        None \<Rightarrow> None
      | Some w \<Rightarrow>
          if ws_reason w \<notin> set problemWaitingReasons then None
          else let msg = (if ws_reason w = ''CrashLoopBackOff''
                          then (case cs_lastTerminated cs of
                                  Some t \<Rightarrow> crash_detail (cs_name cs) t
                                | None \<Rightarrow> trim_space (ws_message w))
                          else trim_space (ws_message w))
               in Some \<lparr>pp_pod = pod, pp_reason = ws_reason w, pp_message = truncate_text msg 300\<rparr>)"

fun first_problem :: "string \<Rightarrow> container_status list \<Rightarrow> pod_problem option" where
  "first_problem pod [] = None"
| "first_problem pod (cs # rest) =
     (case container_problem pod cs of Some p \<Rightarrow> Some p | None \<Rightarrow> first_problem pod rest)"

fun unschedulable_problem :: "string \<Rightarrow> pod_condition list \<Rightarrow> pod_problem option" where
  "unschedulable_problem pod [] = None"
| "unschedulable_problem pod (c # rest) =
     (if pc_type c = ''PodScheduled'' \<and> pc_status c = CondFalse \<and> pc_reason c = ''Unschedulable''
      then Some \<lparr>pp_pod = pod, pp_reason = ''Unschedulable'', pp_message = truncate_text (trim_space (pc_message c)) 300\<rparr>
      else unschedulable_problem pod rest)"

definition diagnosePod :: "kobj \<Rightarrow> pod_problem option" where
  "diagnosePod pod =
     (let st = as_pod pod; name = k_name (o_key pod)
      in case first_problem name (pst_initContainerStatuses st @ pst_containerStatuses st) of
           Some p \<Rightarrow> Some p
         | None \<Rightarrow> unschedulable_problem name (pst_conditions st))"

fun first_pod_problem :: "kobj list \<Rightarrow> pod_problem option" where
  "first_pod_problem [] = None"
| "first_pod_problem (pod # pods) =
     (if o_deletionTimestamp pod \<noteq> None then first_pod_problem pods
      else case diagnosePod pod of Some p \<Rightarrow> Some p | None \<Rightarrow> first_pod_problem pods)"

definition diagnoseDeploymentPods ::
  "'w env \<Rightarrow> string \<Rightarrow> string \<Rightarrow> ('w, pod_problem option) fallible" where
  "diagnoseDeploymentPods E namespace deploymentName =
     do { r \<leftarrow> api_list E KPod namespace [(''app'', deploymentName)];
          case r of
            Inl e \<Rightarrow> fail (Api e)
          | Inr pods \<Rightarrow> ok (first_pod_problem pods) }"

section \<open>keepRestartedAt\<close>

definition restartedAtAnnotation :: string where
  "restartedAtAnnotation = ''kubectl.kubernetes.io/restartedAt''"

definition keepRestartedAt :: "pod_template \<Rightarrow> pod_template \<Rightarrow> pod_template" where
  "keepRestartedAt previous desired =
     (case map_of (pt_annotations previous) restartedAtAnnotation of
        None \<Rightarrow> desired
      | Some v \<Rightarrow> desired\<lparr>pt_annotations := sput restartedAtAnnotation v (pt_annotations desired)\<rparr>)"

lemma keepRestartedAt_annotation:
  "map_of (pt_annotations (keepRestartedAt previous desired)) k =
     (if k = restartedAtAnnotation \<and> map_of (pt_annotations previous) k \<noteq> None
      then map_of (pt_annotations previous) k else map_of (pt_annotations desired) k)"
  by (auto simp: keepRestartedAt_def split: option.split)

lemma keepRestartedAt_rest [simp]:
  "pt_spec (keepRestartedAt previous desired) = pt_spec desired"
  "pt_labels (keepRestartedAt previous desired) = pt_labels desired"
  by (simp_all add: keepRestartedAt_def split: option.split)

lemma sput_sput [simp]: "sput k v (sput k w m) = sput k v m"
  unfolding sput_def by (induction m) auto

lemma keepRestartedAt_idem:
  "keepRestartedAt previous (keepRestartedAt previous desired) = keepRestartedAt previous desired"
  by (auto simp: keepRestartedAt_def split: option.split)

section \<open>What a diagnosis says\<close>

lemma container_problem_reason:
  "container_problem pod cs = Some p \<Longrightarrow> pp_reason p \<in> set problemWaitingReasons \<and> pp_pod p = pod"
  by (auto simp: container_problem_def Let_def split: option.splits if_splits)

lemma first_problem_reason:
  "first_problem pod css = Some p \<Longrightarrow> pp_reason p \<in> set problemWaitingReasons \<and> pp_pod p = pod"
  by (induction pod css rule: first_problem.induct)
     (auto split: option.splits dest: container_problem_reason)

lemma first_problem_None_iff:
  "first_problem pod css = None \<longleftrightarrow>
     (\<forall>cs \<in> set css. \<forall>w. cs_waiting cs = Some w \<longrightarrow> ws_reason w \<notin> set problemWaitingReasons)"
  by (induction pod css rule: first_problem.induct)
     (auto simp: container_problem_def Let_def split: option.splits if_splits)

lemma unschedulable_reason:
  "unschedulable_problem pod cs = Some p \<Longrightarrow> pp_reason p = ''Unschedulable'' \<and> pp_pod p = pod"
  by (induction pod cs rule: unschedulable_problem.induct) (auto split: if_splits)

lemma unschedulable_None_iff:
  "unschedulable_problem pod cs = None \<longleftrightarrow>
     (\<forall>c \<in> set cs. \<not> (pc_type c = ''PodScheduled'' \<and> pc_status c = CondFalse \<and> pc_reason c = ''Unschedulable''))"
  by (induction pod cs rule: unschedulable_problem.induct) auto

lemma first_problem_length: "first_problem pod css = Some p \<Longrightarrow> length (pp_message p) \<le> 302"
  using length_truncate_text [of 300]
  by (induction pod css rule: first_problem.induct)
     (auto simp: container_problem_def Let_def split: option.splits if_splits)

lemma unschedulable_length: "unschedulable_problem pod cs = Some p \<Longrightarrow> length (pp_message p) \<le> 302"
  using length_truncate_text [of 300]
  by (induction pod cs rule: unschedulable_problem.induct) (auto split: if_splits)

lemma diagnosePod_Some:
  assumes "diagnosePod pod = Some p"
  shows "pp_reason p \<in> set (''Unschedulable'' # problemWaitingReasons)"
    and "pp_pod p = k_name (o_key pod)" and "length (pp_message p) \<le> 302"
  using assms first_problem_reason unschedulable_reason first_problem_length unschedulable_length
  by (fastforce simp: diagnosePod_def Let_def split: option.splits)+

lemma diagnosePod_None_iff:
  "diagnosePod pod = None \<longleftrightarrow>
     (\<forall>cs \<in> set (pst_initContainerStatuses (as_pod pod) @ pst_containerStatuses (as_pod pod)).
        \<forall>w. cs_waiting cs = Some w \<longrightarrow> ws_reason w \<notin> set problemWaitingReasons) \<and>
     (\<forall>c \<in> set (pst_conditions (as_pod pod)).
        \<not> (pc_type c = ''PodScheduled'' \<and> pc_status c = CondFalse \<and> pc_reason c = ''Unschedulable''))"
  unfolding first_problem_None_iff [of "k_name (o_key pod)", symmetric] unschedulable_None_iff [of "k_name (o_key pod)", symmetric] diagnosePod_def Let_def
  by (simp split: option.split)

lemma first_pod_problem_Some:
  "first_pod_problem pods = Some p \<Longrightarrow>
     \<exists>pod \<in> set pods. o_deletionTimestamp pod = None \<and> diagnosePod pod = Some p"
  by (induction pods rule: first_pod_problem.induct) (auto split: if_splits option.splits)

lemma first_pod_problem_None_iff:
  "first_pod_problem pods = None \<longleftrightarrow>
     (\<forall>pod \<in> set pods. o_deletionTimestamp pod = None \<longrightarrow> diagnosePod pod = None)"
  by (induction pods rule: first_pod_problem.induct) (auto split: option.splits)

lemma diagnoseDeploymentPods_reads: "touches {} {} (diagnoseDeploymentPods E ns d)"
  unfolding diagnoseDeploymentPods_def by (intro allc.rules) simp_all

end
