(* ===== verification/Names.thy ===== *)
theory Names
  imports Images
begin

text \<open>
  The small pure functions the reconcilers share: the names of the objects an instance owns, the
  feature switches and resolved settings of its spec, the ownership stamp of cluster-scoped objects
  (\<open>agent_reconciler.go\<close>, \<open>ui_reconciler.go\<close>, \<open>mcp_reconciler.go\<close>, \<open>temporal_reconciler.go\<close>,
  \<open>render_reconciler.go\<close>, \<open>admission.go\<close>) and the security contexts of \<open>secctx.go\<close>.
\<close>

section \<open>Names of namespaced objects\<close>

definition agentResourceName :: "string \<Rightarrow> string" where
  "agentResourceName crName = crName @ ''-openshift-sre-agent''"

definition memoryPVCName :: "string \<Rightarrow> string" where
  "memoryPVCName crName = crName @ ''-openshift-sre-agent-memory''"

definition wsTokenSecretName :: "string \<Rightarrow> string" where
  "wsTokenSecretName crName = crName @ ''-ws-token''"

definition uiResourceName :: "string \<Rightarrow> string" where
  "uiResourceName crName = crName @ ''-openshiftpulse''"

definition uiOAuthSecretsName :: "string \<Rightarrow> string" where
  "uiOAuthSecretsName crName = crName @ ''-oauth-secrets''"

definition uiNginxSecretName :: "string \<Rightarrow> string" where
  "uiNginxSecretName crName = crName @ ''-nginx''"

definition uiServiceCABundleName :: "string \<Rightarrow> string" where
  "uiServiceCABundleName crName = crName @ ''-service-ca''"

definition uiTLSSecretName :: "string \<Rightarrow> string" where
  "uiTLSSecretName crName = crName @ ''-openshiftpulse-tls''"

definition mcpResourceName :: "string \<Rightarrow> string" where
  "mcpResourceName crName = crName @ ''-mcp-server''"

definition mcpConfigName :: "string \<Rightarrow> string" where
  "mcpConfigName crName = mcpResourceName crName @ ''-config''"

definition temporalResourceName :: "string \<Rightarrow> string" where
  "temporalResourceName crName = crName @ ''-temporal''"

definition temporalNetworkPolicyName :: "string \<Rightarrow> string" where
  "temporalNetworkPolicyName crName = temporalResourceName crName @ ''-access''"

definition renderResourceName :: "string \<Rightarrow> string" where
  "renderResourceName crName = crName @ ''-render''"

definition renderTokenSecretName :: "string \<Rightarrow> string" where
  "renderTokenSecretName crName = crName @ ''-render-token''"

definition pgName :: "string \<Rightarrow> string" where
  "pgName crName = crName @ ''-openshift-sre-agent-postgresql''"

definition pgAuthSecretName :: "string \<Rightarrow> string" where
  "pgAuthSecretName crName = crName @ ''-pg-auth''"

definition pgVolumeName :: "string \<Rightarrow> string" where
  "pgVolumeName stsName = ''pg-data-'' @ stsName @ ''-0''"

definition pgLabels :: "string \<Rightarrow> smap" where
  "pgLabels crName =
     [(''app.kubernetes.io/name'', ''postgresql''), (''app.kubernetes.io/instance'', crName),
      (''app.kubernetes.io/component'', ''database''), (''app.kubernetes.io/managed-by'', ''pulse-operator'')]"

section \<open>Names of cluster-scoped objects\<close>

definition agentClusterRoleName :: "string \<Rightarrow> string \<Rightarrow> string" where
  "agentClusterRoleName crName crNamespace = crNamespace @ ''-'' @ agentResourceName crName"

definition agentMonitoringViewBindingName :: "string \<Rightarrow> string \<Rightarrow> string" where
  "agentMonitoringViewBindingName crName crNamespace =
     agentClusterRoleName crName crNamespace @ ''-monitoring-view''"

definition uiClusterRoleNameUnqualified :: "string \<Rightarrow> string" where
  "uiClusterRoleNameUnqualified crName = crName @ ''-openshiftpulse-reader''"

definition uiClusterRoleName :: "string \<Rightarrow> string \<Rightarrow> string" where
  "uiClusterRoleName crName crNamespace = crNamespace @ ''-'' @ uiClusterRoleNameUnqualified crName"

definition mcpClusterRoleName :: "string \<Rightarrow> string \<Rightarrow> string" where
  "mcpClusterRoleName crName crNamespace = crNamespace @ ''-'' @ mcpResourceName crName"

definition oauthClientName :: "string \<Rightarrow> string \<Rightarrow> string" where
  "oauthClientName crName crNamespace = ''openshiftpulse-'' @ crNamespace @ ''-'' @ crName"

text \<open>The qualified names are not injective: namespace and name meet at a hyphen.\<close>

lemma agentClusterRoleName_collision:
  "agentClusterRoleName ''c'' ''a-b'' = agentClusterRoleName ''b-c'' ''a''"
  by (simp add: agentClusterRoleName_def agentResourceName_def)

lemma oauthClientName_collision: "oauthClientName ''c'' ''a-b'' = oauthClientName ''b-c'' ''a''"
  by (simp add: oauthClientName_def)

text \<open>Two instances of one namespace never share a cluster-scoped name, nor do two of one name.\<close>

lemma cluster_names_inj:
  "agentClusterRoleName n ns = agentClusterRoleName n' ns \<longleftrightarrow> n = n'"
  "agentClusterRoleName n ns = agentClusterRoleName n ns' \<longleftrightarrow> ns = ns'"
  "oauthClientName n ns = oauthClientName n' ns \<longleftrightarrow> n = n'"
  "oauthClientName n ns = oauthClientName n ns' \<longleftrightarrow> ns = ns'"
  by (simp_all add: agentClusterRoleName_def agentResourceName_def oauthClientName_def)

section \<open>Ownership stamp of cluster-scoped objects\<close>

definition annotationOwnerName :: string where "annotationOwnerName = ''pulse.ai/owner-name''"
definition annotationOwnerNamespace :: string where "annotationOwnerNamespace = ''pulse.ai/owner-namespace''"
definition annotationOwnerUID :: string where "annotationOwnerUID = ''pulse.ai/owner-uid''"

definition clusterScopedAnnotations :: "pulse \<Rightarrow> smap" where
  "clusterScopedAnnotations cr =
     [(annotationOwnerName, p_name cr), (annotationOwnerNamespace, p_namespace cr),
      (annotationOwnerUID, p_uid cr)]"

text \<open>The UID an object is stamped with, \<open>""\<close> when it carries no stamp.\<close>

definition owner_uid :: "kobj \<Rightarrow> string" where
  "owner_uid x = sget (o_annotations x) annotationOwnerUID"

lemma owner_uid_stamp [simp]:
  "owner_uid (x\<lparr>o_annotations := clusterScopedAnnotations cr\<rparr>) = p_uid cr"
  by (simp add: owner_uid_def clusterScopedAnnotations_def sget_Cons annotationOwnerUID_def
      annotationOwnerName_def annotationOwnerNamespace_def)

section \<open>Owner references\<close>

text \<open>
  \<open>controllerutil.SetControllerReference(cr, x, scheme)\<close> writes the owner reference of \<open>x\<close> and
  nothing else, or refuses. \<open>owned_by\<close> is the usual shape of a mutate function: set the owner, then
  change the rest.
\<close>

definition set_controller :: "'w env \<Rightarrow> pulse \<Rightarrow> kobj \<Rightarrow> go_error + kobj" where
  "set_controller E cr x =
     (case e_setController E cr x of Inl e \<Rightarrow> Inl e | Inr y \<Rightarrow> Inr (x\<lparr>o_controller := o_controller y\<rparr>))"

definition owned_by :: "'w env \<Rightarrow> pulse \<Rightarrow> (kobj \<Rightarrow> go_error + kobj) \<Rightarrow> kobj \<Rightarrow> go_error + kobj" where
  "owned_by E cr f x = (case set_controller E cr x of Inl e \<Rightarrow> Inl e | Inr y \<Rightarrow> f y)"

lemma set_controller_key: "set_controller E cr x = Inr y \<Longrightarrow> o_key y = o_key x"
  by (auto simp: set_controller_def split: sum.splits)

lemma owned_by_Inr:
  "owned_by E cr f x = Inr z \<longleftrightarrow> (\<exists>y. set_controller E cr x = Inr y \<and> f y = Inr z)"
  by (auto simp: owned_by_def split: sum.splits)

lemma set_controller_Inr:
  "set_controller E cr x = Inr y \<longleftrightarrow> (\<exists>z. e_setController E cr x = Inr z \<and> y = x\<lparr>o_controller := o_controller z\<rparr>)"
  by (auto simp: set_controller_def split: sum.splits)

section \<open>Switches and settings of the spec\<close>

definition databaseEnabled :: "pulse \<Rightarrow> bool" where
  "databaseEnabled cr \<longleftrightarrow> db_storageSize (sp_database (p_spec cr)) \<noteq> '''' \<or> db_image (sp_database (p_spec cr)) \<noteq> ''''"

definition monitoringEnabled :: "pulse \<Rightarrow> bool" where
  "monitoringEnabled cr = (case sp_monitoring_enabled (p_spec cr) of None \<Rightarrow> True | Some b \<Rightarrow> b)"

definition secretAccessEnabled :: "pulse \<Rightarrow> bool" where
  "secretAccessEnabled cr = (case ag_allowSecretAccess (agent_of cr) of None \<Rightarrow> True | Some b \<Rightarrow> b)"

definition temporalEnabled :: "pulse \<Rightarrow> bool" where
  "temporalEnabled cr = (case te_enabled (sp_temporal (p_spec cr)) of None \<Rightarrow> False | Some b \<Rightarrow> b)"

definition renderEnabled :: "pulse \<Rightarrow> bool" where
  "renderEnabled cr = (case rc_enabled (sp_render (p_spec cr)) of None \<Rightarrow> False | Some b \<Rightarrow> b)"

definition hasAIBackend :: "pulse \<Rightarrow> bool" where
  "hasAIBackend cr =
     ((case sp_vertexAI (p_spec cr) of None \<Rightarrow> False | Some v \<Rightarrow> va_projectId v \<noteq> '''') \<or>
      (case sp_anthropicApiKey (p_spec cr) of None \<Rightarrow> False | Some k \<Rightarrow> ak_existingSecret k \<noteq> ''''))"

definition memory_resources :: "string \<Rightarrow> string \<Rightarrow> resource_requirements" where
  "memory_resources request limit =
     \<lparr>rq_requests = Some [(''memory'', request)], rq_limits = Some [(''memory'', limit)]\<rparr>"

definition agentResources :: "pulse \<Rightarrow> resource_requirements" where
  "agentResources cr =
     (let r = ag_resources (agent_of cr)
      in if rq_requests r \<noteq> None \<or> rq_limits r \<noteq> None then r else memory_resources ''256Mi'' ''2Gi'')"

definition uiResources :: "pulse \<Rightarrow> resource_requirements" where
  "uiResources cr =
     (let r = uc_resources (ui_of cr)
      in if rq_requests r \<noteq> None \<or> rq_limits r \<noteq> None then r else memory_resources ''128Mi'' ''512Mi'')"

definition oauthProxyResources :: resource_requirements where
  "oauthProxyResources = memory_resources ''64Mi'' ''256Mi''"

definition renderResources :: "pulse \<Rightarrow> resource_requirements" where
  "renderResources cr =
     (let r = rc_resources (sp_render (p_spec cr))
      in if (rq_requests r = None \<or> rq_requests r = Some []) \<and> (rq_limits r = None \<or> rq_limits r = Some [])
         then \<lparr>rq_requests = Some [(''cpu'', ''100m''), (''memory'', ''256Mi'')],
               rq_limits = Some [(''memory'', ''1Gi'')]\<rparr>
         else r)"

definition resolvedUIReplicas :: "pulse \<Rightarrow> int" where
  "resolvedUIReplicas cr = (if uc_replicas (ui_of cr) = 0 then 2 else uc_replicas (ui_of cr))"

definition defaultRenderImage :: string where
  "defaultRenderImage = ''quay.io/amobrem/openshiftpulse-render:latest''"

definition resolvedRenderImage :: "'w env \<Rightarrow> pulse \<Rightarrow> string" where
  "resolvedRenderImage E cr =
     (if rc_image (sp_render (p_spec cr)) \<noteq> '''' then rc_image (sp_render (p_spec cr))
      else imageFromEnv E envRenderImage defaultRenderImage)"

definition DefaultOAuthProxyImage :: string where
  "DefaultOAuthProxyImage = ''quay.io/openshift/origin-oauth-proxy:4.15''"

definition resolvedOAuthProxyImage :: "'w env \<Rightarrow> pulse \<Rightarrow> cluster_info option \<Rightarrow> string" where
  "resolvedOAuthProxyImage E cr info =
     (let i1 = uc_oauthProxyImage (ui_of cr);
          i2 = (case info of Some ci \<Rightarrow> if i1 = '''' \<and> ci_oauthProxyImage ci \<noteq> '''' then ci_oauthProxyImage ci else i1
                | None \<Rightarrow> i1)
      in if i2 = '''' then imageFromEnv E envOAuthProxyImage DefaultOAuthProxyImage else i2)"

lemma resolvedOAuthProxyImage_nonempty: "resolvedOAuthProxyImage E cr info \<noteq> ''''"
  by (auto simp: resolvedOAuthProxyImage_def Let_def imageFromEnv_nonempty DefaultOAuthProxyImage_def)

section \<open>Ports and in-cluster URLs\<close>

definition agentPort :: int where "agentPort = 8080"
definition uiHTTPPort :: int where "uiHTTPPort = 8080"
definition uiProxyPort :: int where "uiProxyPort = 8443"
definition mcpServerPort :: int where "mcpServerPort = 8081"
definition uiRenderPort :: int where "uiRenderPort = 8081"
definition renderPort :: int where "renderPort = 8090"
definition temporalUIPort :: int where "temporalUIPort = 8080"
definition temporalFrontendPort :: int where "temporalFrontendPort = 7233"

definition MCPServiceURL :: "string \<Rightarrow> string \<Rightarrow> string" where
  "MCPServiceURL name ns = ''http://'' @ name @ ''-mcp-server:'' @ itoa mcpServerPort"

definition TemporalHostFor :: "string \<Rightarrow> string" where
  "TemporalHostFor crName = temporalResourceName crName @ '':'' @ itoa temporalFrontendPort"

definition RenderServiceURL :: "string \<Rightarrow> string" where
  "RenderServiceURL crName = ''http://'' @ renderResourceName crName @ '':'' @ itoa renderPort"

definition renderUIURL :: "string \<Rightarrow> string" where
  "renderUIURL crName = ''http://'' @ uiResourceName crName @ '':'' @ itoa uiRenderPort"

definition uiAccessCheckArg :: "string \<Rightarrow> string" where
  "uiAccessCheckArg ns =
     ''--openshift-sar={'' @ go_quote ''namespace'' @ '':'' @ go_quote ns @ '','' @ go_quote ''resource'' @ '':'' @
     go_quote ''services'' @ '','' @ go_quote ''verb'' @ '':'' @ go_quote ''get'' @ ''}''"

section \<open>secctx.go\<close>

definition defaultPodSecCtx :: "int option \<Rightarrow> pod_security_context" where
  "defaultPodSecCtx uid = \<lparr>ps_runAsNonRoot = Some True, ps_seccompProfile = ''RuntimeDefault'', ps_runAsUser = uid\<rparr>"

definition defaultContainerSecCtx :: security_context where
  "defaultContainerSecCtx =
     \<lparr>sc_allowPrivilegeEscalation = Some False, sc_dropCapabilities = [''ALL''], sc_readOnlyRootFilesystem = None\<rparr>"

definition writableContainerSecCtx :: security_context where
  "writableContainerSecCtx = defaultContainerSecCtx\<lparr>sc_readOnlyRootFilesystem := Some False\<rparr>"

text \<open>The "restricted" pod security profile, as far as these contexts decide it.\<close>

definition restricted_container :: "container \<Rightarrow> bool" where
  "restricted_container c \<longleftrightarrow>
     (case co_securityContext c of None \<Rightarrow> False
      | Some sc \<Rightarrow> sc_allowPrivilegeEscalation sc = Some False \<and> sc_dropCapabilities sc = [''ALL''])"

definition restricted_pod :: "pod_spec \<Rightarrow> bool" where
  "restricted_pod ps \<longleftrightarrow>
     (case po_securityContext ps of None \<Rightarrow> False
      | Some sc \<Rightarrow> ps_runAsNonRoot sc = Some True \<and> ps_seccompProfile sc = ''RuntimeDefault'' \<and> ps_runAsUser sc \<noteq> Some 0) \<and>
     list_all restricted_container (po_initContainers ps @ po_containers ps)"

lemma restricted_contexts [simp]:
  "co_securityContext c = Some defaultContainerSecCtx \<Longrightarrow> restricted_container c"
  "co_securityContext c = Some writableContainerSecCtx \<Longrightarrow> restricted_container c"
  by (simp_all add: restricted_container_def writableContainerSecCtx_def defaultContainerSecCtx_def)

lemma restricted_podI:
  "po_securityContext ps = Some (defaultPodSecCtx uid) \<Longrightarrow> uid \<noteq> Some 0 \<Longrightarrow>
     (\<And>c. c \<in> set (po_initContainers ps @ po_containers ps) \<Longrightarrow>
        co_securityContext c \<in> {Some defaultContainerSecCtx, Some writableContainerSecCtx}) \<Longrightarrow> restricted_pod ps"
  by (fastforce simp: restricted_pod_def defaultPodSecCtx_def list_all_iff)

end
