(* ===== verification/StatusSync.thy ===== *)
theory StatusSync
  imports Compat PodDiagnosis Names
begin

text \<open>
  \<open>status.go\<close> and the readiness tests of \<open>openshiftpulse_controller.go\<close>: when a Deployment has rolled
  out, the phase machine and the status conditions (\<open>syncPhaseAndConditions\<close>), the automatic
  rollback (\<open>reconcileAutoRollback\<close>) and the report of pod problems (\<open>reportPodProblems\<close>). The
  pieces of \<open>syncPhaseAndConditions\<close> are separate actions in the order of its statements.
\<close>

section \<open>Readiness and rollout\<close>

definition deploymentRolledOut :: "kobj \<Rightarrow> string \<Rightarrow> bool" where
  "deploymentRolledOut x img =
     (let d = as_deployment x; containers = po_containers (pt_spec (de_template d))
      in if de_statusObservedGeneration d < o_generation x then False
         else if containers = [] \<or> co_image (hd containers) \<noteq> img then False
         else let want = (case de_replicas d of None \<Rightarrow> 1 | Some n \<Rightarrow> n)
              in if want = 0 then False
                 else de_statusUpdatedReplicas d \<ge> want \<and> de_statusReadyReplicas d \<ge> want \<and>
                      de_statusReplicas d = de_statusUpdatedReplicas d)"

definition isRolledOut :: "'w env \<Rightarrow> string \<Rightarrow> string \<Rightarrow> string \<Rightarrow> ('w, bool) action" where
  "isRolledOut E name ns img =
     do { r \<leftarrow> api_get E (key KDeployment ns name);
          ret (case r of Inl _ \<Rightarrow> False | Inr x \<Rightarrow> deploymentRolledOut x img) }"

definition isDeploymentReady :: "'w env \<Rightarrow> string \<Rightarrow> string \<Rightarrow> ('w, bool) action" where
  "isDeploymentReady E name ns =
     do { r \<leftarrow> api_get E (key KDeployment ns name);
          ret (case r of Inl _ \<Rightarrow> False | Inr x \<Rightarrow> de_statusReadyReplicas (as_deployment x) > 0) }"

definition isStatefulSetReady :: "'w env \<Rightarrow> string \<Rightarrow> string \<Rightarrow> ('w, bool) action" where
  "isStatefulSetReady E name ns =
     do { r \<leftarrow> api_get E (key KStatefulSet ns name);
          ret (case r of Inl _ \<Rightarrow> False | Inr x \<Rightarrow> ss_statusReadyReplicas (as_stateful_set x) > 0) }"

definition agentDeployment :: "'w env \<Rightarrow> string \<Rightarrow> string \<Rightarrow> ('w, kobj option) action" where
  "agentDeployment E name ns =
     do { r \<leftarrow> api_get E (key KDeployment ns name);
          ret (case r of Inl _ \<Rightarrow> None | Inr x \<Rightarrow> Some x) }"

section \<open>The phase machine\<close>

definition upgradeHealthTimeout :: int where
  "upgradeHealthTimeout = 5 * minute"

record component_health =
  ch_agentServing :: bool
  ch_agentRolledOut :: bool
  ch_uiRolledOut :: bool
  ch_pgReady :: bool

definition dropStaleRollbacks :: "'w env \<Rightarrow> ('w, unit) action" where
  "dropStaleRollbacks E =
     do { cr \<leftarrow> get_cr;
          set_status (\<lambda>st. st\<lparr>st_agentRollback := drop_stale (requestedImage E cr) (st_agentRollback st)\<rparr>);
          set_status (\<lambda>st. st\<lparr>st_uiRollback := drop_stale (requestedUIImage E cr) (st_uiRollback st)\<rparr>) }"

text \<open>\<open>status.upgradeStartedAt\<close>: set when an upgrade is first seen, cleared when none is in progress.\<close>

definition trackUpgrade :: "'w env \<Rightarrow> bool \<Rightarrow> ('w, unit) action" where
  "trackUpgrade E upgrading =
     do { cr \<leftarrow> get_cr;
          if upgrading \<and> st_upgradeStartedAt (p_status cr) = None
          then do { now \<leftarrow> time_now E; set_status (\<lambda>st. st\<lparr>st_upgradeStartedAt := Some now\<rparr>) }
          else if \<not> upgrading then set_status (\<lambda>st. st\<lparr>st_upgradeStartedAt := None\<rparr>)
          else ret () }"

text \<open>The switch that computes the next phase.\<close>

definition next_phase :: "string \<Rightarrow> bool \<Rightarrow> bool \<Rightarrow> string" where
  "next_phase prev upgrading allReady =
     (if upgrading \<and> allReady then ''Upgrading''
      else if allReady then ''Running''
      else if upgrading then ''Upgrading''
      else if prev = ''Running'' \<or> prev = ''Upgrading'' then ''Degraded''
      else ''Installing'')"

definition upgrading_message :: "string \<Rightarrow> string \<Rightarrow> string" where
  "upgrading_message agentImage uiImage =
     ''Detected an in-progress image change: agentImage='' @ go_quote agentImage @ '' uiImage='' @ go_quote uiImage"

definition health_text :: "bool \<Rightarrow> bool \<Rightarrow> bool \<Rightarrow> string" where
  "health_text agentReady pgReady uiReady =
     ''agentHealthy='' @ bool_text agentReady @ '' databaseReady='' @ bool_text pgReady @
     '' uiAvailable='' @ bool_text uiReady"

definition set_phase :: "string \<Rightarrow> ('w, unit) action" where
  "set_phase ph = set_status (\<lambda>st. st\<lparr>st_phase := ph\<rparr>)"

text \<open>What each case of the switch does beside setting the phase: the duration and the Events.\<close>

definition announceRunning :: "'w env \<Rightarrow> int option \<Rightarrow> string \<Rightarrow> ('w, unit) action" where
  "announceRunning E previousStart prev =
     do { upgradeJustCompleted \<leftarrow>
            (case previousStart of
               None \<Rightarrow> ret False
             | Some start \<Rightarrow>
                 if prev = ''Upgrading''
                 then do { now \<leftarrow> time_now E;
                           set_status (\<lambda>st. st\<lparr>st_lastUpgradeDurationSeconds := round_seconds (now - start)\<rparr>);
                           ret True }
                 else ret False);
          cr \<leftarrow> get_cr;
          if prev \<noteq> ''Running''
          then recordEvent E ''Normal'' ''Running''
                 (if upgradeJustCompleted
                  then ''All components are healthy '' @ em_dash @ '' upgrade completed in '' @
                         duration_text (st_lastUpgradeDurationSeconds (p_status cr))
                  else ''All components are healthy'')
          else ret () }"

definition announcePhase ::
  "'w env \<Rightarrow> int option \<Rightarrow> string \<Rightarrow> string \<Rightarrow> bool \<Rightarrow> bool \<Rightarrow> bool \<Rightarrow> string \<Rightarrow> string \<Rightarrow> ('w, unit) action" where
  "announcePhase E previousStart prev ph agentReady pgReady uiReady agentImage uiImage =
     (if ph = ''Running'' then announceRunning E previousStart prev
      else if ph = ''Upgrading''
      then if prev \<noteq> ''Upgrading''
           then recordEvent E ''Normal'' ''Upgrading'' (upgrading_message agentImage uiImage) else ret ()
      else if ph = ''Degraded''
      then if prev \<noteq> ''Degraded''
           then recordEvent E ''Warning'' ''Degraded''
                  (''Component health changed: '' @ health_text agentReady pgReady uiReady) else ret ()
      else ret ())"

definition syncPhase ::
  "'w env \<Rightarrow> int option \<Rightarrow> bool \<Rightarrow> bool \<Rightarrow> bool \<Rightarrow> bool \<Rightarrow> string \<Rightarrow> string \<Rightarrow> ('w, unit) action" where
  "syncPhase E previousStart upgrading agentReady pgReady uiReady agentImage uiImage =
     do { cr \<leftarrow> get_cr;
          let prev = st_phase (p_status cr);
          let ph = next_phase prev upgrading (agentReady \<and> pgReady \<and> uiReady);
          set_phase ph;
          announcePhase E previousStart prev ph agentReady pgReady uiReady agentImage uiImage }"

section \<open>Conditions and gauges\<close>

definition setReadyCondition :: "'w env \<Rightarrow> string \<Rightarrow> bool \<Rightarrow> string \<Rightarrow> string \<Rightarrow> ('w, unit) action" where
  "setReadyCondition E condType ready readyMessage notReadyMessage =
     do { cr \<leftarrow> get_cr;
          set_condition E
            (if ready then mk_condition cr condType CondTrue ''Ready'' readyMessage
             else mk_condition cr condType CondFalse ''NotReady'' notReadyMessage) }"

definition setComponentReadyGauge :: "string \<Rightarrow> bool \<Rightarrow> ('w, unit) action" where
  "setComponentReadyGauge component ready =
     do { cr \<leftarrow> get_cr;
          set_gauge ''pulse_operator_component_ready'' cr component (if ready then 1 else 0) }"

definition progressing_condition :: "pulse \<Rightarrow> condition" where
  "progressing_condition cr =
     (let ph = st_phase (p_status cr)
      in if ph = ''Installing'' \<or> ph = ''Upgrading''
         then mk_condition cr ''Progressing'' CondTrue ph (ph @ '' is in progress'')
         else if ph = ''Running''
         then mk_condition cr ''Progressing'' CondFalse ''Stable''
                ''All components are healthy and no rollout is in progress''
         else mk_condition cr ''Progressing'' CondFalse ''Degraded''
                (''Not progressing '' @ em_dash @ '' a previously healthy component is now unhealthy''))"

definition ready_condition :: "pulse \<Rightarrow> bool \<Rightarrow> bool \<Rightarrow> bool \<Rightarrow> condition" where
  "ready_condition cr agentReady pgReady uiReady =
     (if st_phase (p_status cr) = ''Running''
      then mk_condition cr ''Ready'' CondTrue ''AllComponentsHealthy'' ''Agent, database, and UI are healthy''
      else mk_condition cr ''Ready'' CondFalse (st_phase (p_status cr)) (health_text agentReady pgReady uiReady))"

definition syncConditions ::
  "'w env \<Rightarrow> bool \<Rightarrow> bool \<Rightarrow> bool \<Rightarrow> string \<Rightarrow> string \<Rightarrow> ('w, unit) action" where
  "syncConditions E agentReady pgReady uiReady agentImage uiImage =
     do { setReadyCondition E ''AgentReady'' agentReady ''agent is healthy''
            (''agent Deployment has 0 ready replicas (image='' @ agentImage @ '')'');
          setReadyCondition E ''DatabaseReady'' pgReady ''database is healthy''
            ''PostgreSQL StatefulSet has 0 ready replicas'';
          setReadyCondition E ''UIReady'' uiReady ''UI is healthy''
            (''UI Deployment has 0 ready replicas (image='' @ uiImage @ '')'');
          setComponentReadyGauge ''agent'' agentReady;
          setComponentReadyGauge ''database'' pgReady;
          setComponentReadyGauge ''ui'' uiReady;
          cr \<leftarrow> get_cr;
          set_condition E (progressing_condition cr);
          set_condition E (ready_condition cr agentReady pgReady uiReady) }"

definition syncPhaseAndConditions ::
  "'w env \<Rightarrow> component_health \<Rightarrow> ('w, string \<times> string \<times> bool \<times> bool) action" where
  "syncPhaseAndConditions E h =
     do { dropStaleRollbacks E;
          cr \<leftarrow> get_cr;
          let st = p_status cr;
          let agentImage = resolvedImage E cr;
          let uiImage = resolvedUIImage E cr;
          let agentUpgrading = is_upgrading (ch_agentRolledOut h) agentImage (st_lastHealthyAgentImage st);
          let uiUpgrading = is_upgrading (ch_uiRolledOut h) uiImage (st_lastHealthyUIImage st);
          set_status (\<lambda>st. st\<lparr>st_lastHealthyAgentImage :=
            record_healthy (ch_agentRolledOut h) agentImage (st_lastHealthyAgentImage st)\<rparr>);
          set_status (\<lambda>st. st\<lparr>st_lastHealthyUIImage :=
            record_healthy (ch_uiRolledOut h) uiImage (st_lastHealthyUIImage st)\<rparr>);
          trackUpgrade E (agentUpgrading \<or> uiUpgrading);
          syncPhase E (st_upgradeStartedAt st) (agentUpgrading \<or> uiUpgrading)
            (ch_agentServing h) (ch_pgReady h) (st_uiAvailable st) agentImage uiImage;
          syncConditions E (ch_agentServing h) (ch_pgReady h) (st_uiAvailable st) agentImage uiImage;
          ret (agentImage, uiImage, agentUpgrading, uiUpgrading) }"

section \<open>Automatic rollback\<close>

definition rollback_message :: "string \<Rightarrow> string \<Rightarrow> string \<Rightarrow> string \<Rightarrow> string" where
  "rollback_message who field bad good =
     who @ '' image '' @ go_quote bad @ '' did not become healthy within '' @
     duration_text (upgradeHealthTimeout div second) @ '' '' @ em_dash @ '' running last known-healthy '' @
     go_quote good @ '' instead. '' @ field @ '' is unchanged; set it to another image to try again.''"

definition rollback_agent :: "'w env \<Rightarrow> int \<Rightarrow> bool \<Rightarrow> ('w, bool) action" where
  "rollback_agent E now agentUpgrading =
     do { cr \<leftarrow> get_cr;
          let st = p_status cr;
          let gated = e_conditionFalse E (st_conditions st) ''AgentVersionCompatible'';
          if agentUpgrading \<and> \<not> gated \<and> st_agentRollback st = None \<and> st_lastHealthyAgentImage st \<noteq> ''''
          then do {
            let badImage = requestedImage E cr;
            set_status (\<lambda>st. st\<lparr>st_agentRollback :=
              Some \<lparr>rb_from = badImage, rb_to = st_lastHealthyAgentImage st, rb_at = now\<rparr>\<rparr>);
            recordEvent E ''Warning'' ''AutoRolledBack''
              (rollback_message ''Agent'' ''spec.agent.image'' badImage (st_lastHealthyAgentImage st));
            ret True }
          else ret False }"

definition rollback_ui :: "'w env \<Rightarrow> int \<Rightarrow> bool \<Rightarrow> ('w, bool) action" where
  "rollback_ui E now uiUpgrading =
     do { cr \<leftarrow> get_cr;
          let st = p_status cr;
          if uiUpgrading \<and> st_uiRollback st = None \<and> st_lastHealthyUIImage st \<noteq> ''''
          then do {
            let badImage = requestedUIImage E cr;
            set_status (\<lambda>st. st\<lparr>st_uiRollback :=
              Some \<lparr>rb_from = badImage, rb_to = st_lastHealthyUIImage st, rb_at = now\<rparr>\<rparr>);
            recordEvent E ''Warning'' ''AutoRolledBack''
              (rollback_message ''UI'' ''spec.ui.image'' badImage (st_lastHealthyUIImage st));
            ret True }
          else ret False }"

text \<open>The function never returns an error; its caller still tests for one.\<close>

definition reconcileAutoRollback :: "'w env \<Rightarrow> bool \<Rightarrow> bool \<Rightarrow> ('w, bool) fallible" where
  "reconcileAutoRollback E agentUpgrading uiUpgrading =
     do { cr \<leftarrow> get_cr;
          case st_upgradeStartedAt (p_status cr) of
            None \<Rightarrow> ok False
          | Some start \<Rightarrow>
              if st_phase (p_status cr) \<noteq> ''Upgrading'' then ok False
              else do {
                t \<leftarrow> time_now E;
                if t - start < upgradeHealthTimeout then ok False
                else do {
                  now \<leftarrow> time_now E;
                  a \<leftarrow> rollback_agent E now agentUpgrading;
                  u \<leftarrow> rollback_ui E now uiUpgrading;
                  if \<not> (a \<or> u) then ok False
                  else do { set_status (\<lambda>st. st\<lparr>st_upgradeStartedAt := None\<rparr>); ok True } } } }"

section \<open>Pod problems in the conditions\<close>

definition report_component ::
  "'w env \<Rightarrow> string \<Rightarrow> string \<Rightarrow> string \<Rightarrow> bool \<Rightarrow> ('w, unit) action" where
  "report_component E condType component deploymentName ready =
     (if ready then ret ()
      else do {
        cr \<leftarrow> get_cr;
        r \<leftarrow> diagnoseDeploymentPods E (p_namespace cr) deploymentName;
        case r of
          Inl _ \<Rightarrow> ret ()
        | Inr None \<Rightarrow> ret ()
        | Inr (Some problem) \<Rightarrow>
            do { set_condition E (mk_condition cr condType CondFalse (pp_reason problem) (problem_text problem));
                 recordEvent E ''Warning'' ''PodNotHealthy'' (component @ '' '' @ problem_text problem) } })"

definition reportPodProblems :: "'w env \<Rightarrow> bool \<Rightarrow> ('w, unit) action" where
  "reportPodProblems E agentReady =
     do { cr \<leftarrow> get_cr;
          report_component E ''AgentReady'' ''agent'' (agentResourceName (p_name cr)) agentReady;
          report_component E ''UIReady'' ''ui'' (uiResourceName (p_name cr)) (st_uiAvailable (p_status cr)) }"

end
