(* ===== verification/RolloutMachine.thy ===== *)
theory RolloutMachine
  imports StatusSync
begin

text \<open>
  What the status pass does to the custom resource. First the effect of each action of
  \<open>status.go\<close> on the resource, then the pass as one step of a state machine in which, between two
  passes, users edit the spec, the UI reconciler reports its availability, an early return writes
  the phase "Installing" and the operator is restarted with other default images. The invariants
  of that machine are what makes the rollback sound.
\<close>

section \<open>Effects of the actions on the resource\<close>

lemma run_set_status [run_simps]:
  "run_state (set_status f) s = ((), s\<lparr>os_cr := upd_status f (os_cr s)\<rparr>)"
  by (simp add: set_status_def)

lemma run_get_cr [run_simps]: "run_state get_cr s = (os_cr s, s)"
  by (simp add: get_cr_def)

lemma run_set_condition [run_simps]:
  "run_state (set_condition E c) s =
     ((), s\<lparr>os_cr := upd_status (\<lambda>st. st\<lparr>st_conditions := e_setCondition E c (st_conditions st)\<rparr>) (os_cr s)\<rparr>)"
  by (simp add: set_condition_def run_set_status)

lemma run_time_now [run_simps]:
  "run_state (time_now E) s = (fst (e_now E (os_world s)), s\<lparr>os_world := snd (e_now E (os_world s))\<rparr>)"
  by (simp add: time_now_def)

definition drop_core :: "'w env \<Rightarrow> pulse \<Rightarrow> pulse" where
  "drop_core E p = upd_status (\<lambda>st. st\<lparr>
     st_agentRollback := drop_stale (requestedImage E p) (st_agentRollback st),
     st_uiRollback := drop_stale (requestedUIImage E p) (st_uiRollback st)\<rparr>) p"

lemma drop_core_sel [simp]:
  "st_agentRollback (p_status (drop_core E p)) = drop_stale (requestedImage E p) (st_agentRollback (p_status p))"
  "st_uiRollback (p_status (drop_core E p)) = drop_stale (requestedUIImage E p) (st_uiRollback (p_status p))"
  "st_lastHealthyAgentImage (p_status (drop_core E p)) = st_lastHealthyAgentImage (p_status p)"
  "st_lastHealthyUIImage (p_status (drop_core E p)) = st_lastHealthyUIImage (p_status p)"
  "st_upgradeStartedAt (p_status (drop_core E p)) = st_upgradeStartedAt (p_status p)"
  "st_uiAvailable (p_status (drop_core E p)) = st_uiAvailable (p_status p)"
  "st_phase (p_status (drop_core E p)) = st_phase (p_status p)"
  "p_spec (drop_core E p) = p_spec p" "identity_of (drop_core E p) = identity_of p"
  by (simp_all add: drop_core_def)

lemma p_status_drop_core:
  "p_status (drop_core E p) = (p_status p)\<lparr>
     st_agentRollback := drop_stale (requestedImage E p) (st_agentRollback (p_status p)),
     st_uiRollback := drop_stale (requestedUIImage E p) (st_uiRollback (p_status p))\<rparr>"
  by (simp add: drop_core_def)

lemma run_dropStaleRollbacks:
  "run_state (dropStaleRollbacks E) s = ((), s\<lparr>os_cr := drop_core E (os_cr s)\<rparr>)"
  by (simp add: dropStaleRollbacks_def drop_core_def run_simps comp_def)

definition tracked_start :: "int \<Rightarrow> bool \<Rightarrow> int option \<Rightarrow> int option" where
  "tracked_start now upgrading start =
     (if upgrading then (case start of None \<Rightarrow> Some now | Some t \<Rightarrow> Some t) else None)"

lemma cr_trackUpgrade:
  "os_cr (snd (run_state (trackUpgrade E u) s)) =
     upd_status (\<lambda>st. st\<lparr>st_upgradeStartedAt :=
       tracked_start (fst (e_now E (os_world s))) u (st_upgradeStartedAt st)\<rparr>) (os_cr s)"
  by (cases "st_upgradeStartedAt (p_status (os_cr s))")
     (simp_all add: trackUpgrade_def tracked_start_def run_simps)

abbreviation no_duration :: "pulse_status \<Rightarrow> pulse_status" where
  "no_duration st \<equiv> st\<lparr>st_lastUpgradeDurationSeconds := 0\<rparr>"

abbreviation no_conditions :: "pulse_status \<Rightarrow> pulse_status" where
  "no_conditions st \<equiv> st\<lparr>st_conditions := []\<rparr>"

lemma core_commute: "no_conditions (no_duration st) = no_duration (no_conditions st)"
  by (cases st) simp

lemma keeps_announcePhase:
  "keeps (\<lambda>p. no_duration (p_status p)) (announcePhase E start prev ph a g i ai ui)"
  unfolding announcePhase_def announceRunning_def
  by (intro view.rules view.v_set_status) simp

lemma status_syncPhase:
  "no_duration (p_status (os_cr (snd (run_state (syncPhase E start u a g i ai ui) s)))) =
     no_duration ((p_status (os_cr s))\<lparr>st_phase := next_phase (st_phase (p_status (os_cr s))) u (a \<and> g \<and> i)\<rparr>)"
  unfolding syncPhase_def set_phase_def Let_def
  by (simp add: run_simps keepsD [OF keeps_announcePhase])

lemma keeps_syncConditions:
  "keeps (\<lambda>p. no_conditions (p_status p)) (syncConditions E a g i ai ui)"
  unfolding syncConditions_def setReadyCondition_def setComponentReadyGauge_def
  by (intro view.rules view.v_set_condition) simp_all

lemma identity_sync: "keeps identity_of (syncPhaseAndConditions E h)"
  unfolding syncPhaseAndConditions_def dropStaleRollbacks_def trackUpgrade_def syncPhase_def set_phase_def
    announcePhase_def announceRunning_def syncConditions_def setReadyCondition_def setComponentReadyGauge_def
  by (intro view.rules view.v_set_condition view.v_set_status) simp_all

section \<open>The status pass\<close>

text \<open>
  \<open>sync_core\<close> is the status after \<open>syncPhaseAndConditions\<close> up to its conditions and the recorded
  duration, as a function of the resource before and of the time the pass read.
\<close>

abbreviation core_of :: "pulse \<Rightarrow> pulse_status" where
  "core_of p \<equiv> no_conditions (no_duration (p_status p))"

definition agent_upgrading :: "'w env \<Rightarrow> component_health \<Rightarrow> pulse \<Rightarrow> bool" where
  "agent_upgrading E h p =
     is_upgrading (ch_agentRolledOut h) (resolvedImage E (drop_core E p)) (st_lastHealthyAgentImage (p_status p))"

definition ui_upgrading :: "'w env \<Rightarrow> component_health \<Rightarrow> pulse \<Rightarrow> bool" where
  "ui_upgrading E h p =
     is_upgrading (ch_uiRolledOut h) (resolvedUIImage E (drop_core E p)) (st_lastHealthyUIImage (p_status p))"

definition all_ready :: "component_health \<Rightarrow> pulse \<Rightarrow> bool" where
  "all_ready h p \<longleftrightarrow> ch_agentServing h \<and> ch_pgReady h \<and> st_uiAvailable (p_status p)"

definition sync_core :: "'w env \<Rightarrow> component_health \<Rightarrow> int \<Rightarrow> pulse \<Rightarrow> pulse_status" where
  "sync_core E h now p =
     (let u = agent_upgrading E h p \<or> ui_upgrading E h p; st = p_status p
      in st\<lparr>
        st_agentRollback := drop_stale (requestedImage E p) (st_agentRollback st),
        st_uiRollback := drop_stale (requestedUIImage E p) (st_uiRollback st),
        st_lastHealthyAgentImage := record_healthy (ch_agentRolledOut h) (resolvedImage E (drop_core E p)) (st_lastHealthyAgentImage st),
        st_lastHealthyUIImage := record_healthy (ch_uiRolledOut h) (resolvedUIImage E (drop_core E p)) (st_lastHealthyUIImage st),
        st_upgradeStartedAt := tracked_start now u (st_upgradeStartedAt st),
        st_phase := next_phase (st_phase st) u (all_ready h p)\<rparr>)"

lemma fst_sync:
  "fst (run_state (syncPhaseAndConditions E h) s) =
     (resolvedImage E (drop_core E (os_cr s)), resolvedUIImage E (drop_core E (os_cr s)),
      agent_upgrading E h (os_cr s), ui_upgrading E h (os_cr s))"
  unfolding syncPhaseAndConditions_def Let_def
  by (simp add: run_bind_pair run_simps run_dropStaleRollbacks agent_upgrading_def ui_upgrading_def
      del: run_state_bind)

lemma core_sync:
  "core_of (os_cr (snd (run_state (syncPhaseAndConditions E h) s))) =
     no_conditions (no_duration (sync_core E h (fst (e_now E (os_world s))) (os_cr s)))"
proof -
  let ?p = "os_cr s" and ?now = "fst (e_now E (os_world s))"
  let ?d = "drop_core E ?p" and ?u = "agent_upgrading E h (os_cr s) \<or> ui_upgrading E h (os_cr s)"
  let ?ai = "resolvedImage E ?d" and ?ui = "resolvedUIImage E ?d"
  define s1 where "s1 = s\<lparr>os_cr := upd_status (\<lambda>st. st\<lparr>
    st_lastHealthyAgentImage := record_healthy (ch_agentRolledOut h) ?ai (st_lastHealthyAgentImage st),
    st_lastHealthyUIImage := record_healthy (ch_uiRolledOut h) ?ui (st_lastHealthyUIImage st)\<rparr>) ?d\<rparr>"
  define s2 where "s2 = snd (run_state (trackUpgrade E ?u) s1)"
  define s3 where "s3 = snd (run_state (syncPhase E (st_upgradeStartedAt (p_status ?p)) ?u (ch_agentServing h)
    (ch_pgReady h) (st_uiAvailable (p_status ?p)) ?ai ?ui) s2)"
  have run: "snd (run_state (syncPhaseAndConditions E h) s) =
      snd (run_state (syncConditions E (ch_agentServing h) (ch_pgReady h) (st_uiAvailable (p_status ?p)) ?ai ?ui) s3)"
    unfolding syncPhaseAndConditions_def Let_def s3_def s2_def s1_def
    by (simp add: run_bind_pair run_simps run_dropStaleRollbacks agent_upgrading_def ui_upgrading_def comp_def
        del: run_state_bind)
  have "no_conditions (p_status (os_cr (snd (run_state (syncPhaseAndConditions E h) s)))) =
      no_conditions (p_status (os_cr s3))"
    unfolding run by (rule keepsD [OF keeps_syncConditions])
  from arg_cong [OF this, of no_duration]
  have final: "core_of (os_cr (snd (run_state (syncPhaseAndConditions E h) s))) = core_of (os_cr s3)"
    unfolding core_commute .
  have "no_duration (p_status (os_cr s3)) = no_duration ((p_status (os_cr s2))\<lparr>st_phase :=
      next_phase (st_phase (p_status (os_cr s2))) ?u (all_ready h ?p)\<rparr>)"
    unfolding s3_def status_syncPhase by (simp add: all_ready_def)
  from arg_cong [OF this, of no_conditions]
  have s3: "core_of (os_cr s3) = no_conditions (no_duration ((p_status (os_cr s2))\<lparr>st_phase :=
      next_phase (st_phase (p_status (os_cr s2))) ?u (all_ready h ?p)\<rparr>))" .
  have s2: "p_status (os_cr s2) = (p_status (os_cr s1))\<lparr>st_upgradeStartedAt :=
      tracked_start ?now ?u (st_upgradeStartedAt (p_status (os_cr s1)))\<rparr>"
    unfolding s2_def cr_trackUpgrade by (simp add: s1_def)
  have s1: "p_status (os_cr s1) = (p_status ?d)\<lparr>
    st_lastHealthyAgentImage := record_healthy (ch_agentRolledOut h) ?ai (st_lastHealthyAgentImage (p_status ?d)),
    st_lastHealthyUIImage := record_healthy (ch_uiRolledOut h) ?ui (st_lastHealthyUIImage (p_status ?d))\<rparr>"
    by (simp add: s1_def)
  show ?thesis
    unfolding final s3 s2 s1 sync_core_def Let_def by (simp add: p_status_drop_core)
qed

section \<open>The rollback\<close>

definition timed_out :: "int \<Rightarrow> pulse_status \<Rightarrow> bool" where
  "timed_out now st \<longleftrightarrow> st_phase st = ''Upgrading'' \<and>
     (case st_upgradeStartedAt st of None \<Rightarrow> False | Some start \<Rightarrow> now - start \<ge> upgradeHealthTimeout)"

definition agent_fires :: "'w env \<Rightarrow> bool \<Rightarrow> pulse_status \<Rightarrow> bool" where
  "agent_fires E upgrading st \<longleftrightarrow>
     upgrading \<and> \<not> e_conditionFalse E (st_conditions st) ''AgentVersionCompatible'' \<and>
     st_agentRollback st = None \<and> st_lastHealthyAgentImage st \<noteq> ''''"

definition ui_fires :: "bool \<Rightarrow> pulse_status \<Rightarrow> bool" where
  "ui_fires upgrading st \<longleftrightarrow> upgrading \<and> st_uiRollback st = None \<and> st_lastHealthyUIImage st \<noteq> ''''"

lemma requested_upd_status [simp]:
  "requestedImage E (upd_status f p) = requestedImage E p"
  "requestedUIImage E (upd_status f p) = requestedUIImage E p"
  by (simp_all add: requestedImage_def requestedUIImage_def)

lemma run_rollback_agent:
  "fst (run_state (rollback_agent E now u) s) = agent_fires E u (p_status (os_cr s))"
  "os_cr (snd (run_state (rollback_agent E now u) s)) =
     upd_status (\<lambda>st. st\<lparr>st_agentRollback :=
       if agent_fires E u st
       then Some \<lparr>rb_from = requestedImage E (os_cr s), rb_to = st_lastHealthyAgentImage st, rb_at = now\<rparr>
       else st_agentRollback st\<rparr>) (os_cr s)"
  by (simp_all add: rollback_agent_def agent_fires_def Let_def run_bind_pair run_simps del: run_state_bind)

lemma run_rollback_ui:
  "fst (run_state (rollback_ui E now u) s) = ui_fires u (p_status (os_cr s))"
  "os_cr (snd (run_state (rollback_ui E now u) s)) =
     upd_status (\<lambda>st. st\<lparr>st_uiRollback :=
       if ui_fires u st
       then Some \<lparr>rb_from = requestedUIImage E (os_cr s), rb_to = st_lastHealthyUIImage st, rb_at = now\<rparr>
       else st_uiRollback st\<rparr>) (os_cr s)"
  by (simp_all add: rollback_ui_def ui_fires_def Let_def run_bind_pair run_simps del: run_state_bind)

text \<open>The two clock readings: the one compared with the deadline and the one stored.\<close>

definition first_time :: "'w env \<Rightarrow> 'w op_state \<Rightarrow> int" where
  "first_time E s = fst (e_now E (os_world s))"

definition second_time :: "'w env \<Rightarrow> 'w op_state \<Rightarrow> int" where
  "second_time E s = fst (e_now E (snd (e_now E (os_world s))))"

text \<open>The status after the rollback step, as a function of the status before.\<close>

definition rollback_core :: "'w env \<Rightarrow> bool \<Rightarrow> bool \<Rightarrow> int \<Rightarrow> int \<Rightarrow> pulse \<Rightarrow> pulse_status" where
  "rollback_core E au uu t now p =
     (let st = p_status p; a = agent_fires E au st; u = ui_fires uu st
      in if \<not> timed_out t st \<or> \<not> (a \<or> u) then st
         else st\<lparr>
           st_agentRollback := (if a
             then Some \<lparr>rb_from = requestedImage E p, rb_to = st_lastHealthyAgentImage st, rb_at = now\<rparr>
             else st_agentRollback st),
           st_uiRollback := (if u
             then Some \<lparr>rb_from = requestedUIImage E p, rb_to = st_lastHealthyUIImage st, rb_at = now\<rparr>
             else st_uiRollback st),
           st_upgradeStartedAt := None\<rparr>)"

lemma run_reconcileAutoRollback:
  "fst (run_state (reconcileAutoRollback E au uu) s) =
     Inr (timed_out (first_time E s) (p_status (os_cr s)) \<and>
          (agent_fires E au (p_status (os_cr s)) \<or> ui_fires uu (p_status (os_cr s))))"
  "p_status (os_cr (snd (run_state (reconcileAutoRollback E au uu) s))) =
     rollback_core E au uu (first_time E s) (second_time E s) (os_cr s)"
proof -
  have other [simp]: "ui_fires b (st\<lparr>st_agentRollback := x\<rparr>) = ui_fires b st" for b st x
    by (simp add: ui_fires_def)
  show "fst (run_state (reconcileAutoRollback E au uu) s) =
     Inr (timed_out (first_time E s) (p_status (os_cr s)) \<and>
          (agent_fires E au (p_status (os_cr s)) \<or> ui_fires uu (p_status (os_cr s))))"
    by (cases "st_upgradeStartedAt (p_status (os_cr s))")
       (auto simp: reconcileAutoRollback_def timed_out_def run_bind_pair run_simps first_time_def
          run_rollback_agent run_rollback_ui simp del: run_state_bind)
  show "p_status (os_cr (snd (run_state (reconcileAutoRollback E au uu) s))) =
     rollback_core E au uu (first_time E s) (second_time E s) (os_cr s)"
    by (cases "st_upgradeStartedAt (p_status (os_cr s))")
       (auto simp: reconcileAutoRollback_def timed_out_def rollback_core_def Let_def run_bind_pair run_simps
          first_time_def second_time_def run_rollback_agent run_rollback_ui simp del: run_state_bind)
qed

lemma identity_rollback: "keeps identity_of (reconcileAutoRollback E au uu)"
  unfolding reconcileAutoRollback_def rollback_agent_def rollback_ui_def Let_def
  by (intro view.rules view.v_set_status) simp_all

lemma keeps_diagnose: "keeps g (diagnoseDeploymentPods E ns d)"
  unfolding diagnoseDeploymentPods_def by (intro view.rules)

lemma keeps_report: "keeps (\<lambda>p. no_conditions (p_status p)) (reportPodProblems E a)"
  unfolding reportPodProblems_def report_component_def
  by (intro view.rules view.v_set_condition keeps_diagnose) simp_all

lemma identity_report: "keeps identity_of (reportPodProblems E a)"
  unfolding reportPodProblems_def report_component_def
  by (intro view.rules view.v_set_condition keeps_diagnose) simp_all

end
