(* ===== verification/SimCluster.thy ===== *)
theory SimCluster
  imports Traces
begin

text \<open>
  A small in-memory cluster: an instance of \<open>env\<close> in which the operator can be run. The properties
  hold for every environment; this one shows that their hypotheses can hold, with the operator
  evaluated on it inside the kernel. It is not a model of the API server: it keeps the objects in
  a list, answers "not found" for the others and lets a clock advance by a fixed tick.
\<close>

record sim_world =
  sw_objs :: "kobj list"
  sw_pulses :: "pulse list"
  sw_clock :: int
  sw_tick :: int

definition has_key :: "okey \<Rightarrow> kobj \<Rightarrow> bool" where
  "has_key k x \<longleftrightarrow> o_key x = k"

definition sim_get :: "okey \<Rightarrow> sim_world \<Rightarrow> (api_error + kobj) \<times> sim_world" where
  "sim_get k w = (case find (has_key k) (sw_objs w) of None \<Rightarrow> Inl (NotFound ''not found'') | Some x \<Rightarrow> Inr x, w)"

definition sim_put :: "kobj \<Rightarrow> sim_world \<Rightarrow> sim_world" where
  "sim_put x w = w\<lparr>sw_objs := filter (\<lambda>y. \<not> has_key (o_key x) y) (sw_objs w) @ [x]\<rparr>"

definition sim_list :: "kind \<Rightarrow> string \<Rightarrow> smap \<Rightarrow> sim_world \<Rightarrow> (api_error + kobj list) \<times> sim_world" where
  "sim_list k ns ls w =
     (Inr (filter (\<lambda>x. k_kind (o_key x) = k \<and> (ns = '''' \<or> k_namespace (o_key x) = ns) \<and>
                   list_all (\<lambda>(l, v). sget (o_labels x) l = v) ls) (sw_objs w)), w)"

definition sim_create :: "kobj \<Rightarrow> sim_world \<Rightarrow> (api_error + kobj) \<times> sim_world" where
  "sim_create x w =
     (case find (has_key (o_key x)) (sw_objs w) of
        Some _ \<Rightarrow> (Inl (OtherError ''already exists''), w)
      | None \<Rightarrow> (Inr x, sim_put x w))"

definition sim_update :: "kobj \<Rightarrow> sim_world \<Rightarrow> (api_error + kobj) \<times> sim_world" where
  "sim_update x w =
     (case find (has_key (o_key x)) (sw_objs w) of
        Some _ \<Rightarrow> (Inr x, sim_put x w)
      | None \<Rightarrow> (Inl (NotFound ''not found''), w))"

definition sim_delete :: "okey \<Rightarrow> string \<Rightarrow> sim_world \<Rightarrow> (api_error + unit) \<times> sim_world" where
  "sim_delete k pr w =
     (case find (has_key k) (sw_objs w) of
        Some _ \<Rightarrow> (Inr (), w\<lparr>sw_objs := filter (\<lambda>y. \<not> has_key k y) (sw_objs w)\<rparr>)
      | None \<Rightarrow> (Inl (NotFound ''not found''), w))"

definition sim_createOrUpdate ::
  "kobj \<Rightarrow> (kobj \<Rightarrow> go_error + kobj) \<Rightarrow> sim_world \<Rightarrow> (go_error + unit) \<times> sim_world" where
  "sim_createOrUpdate x f w =
     (case f (case find (has_key (o_key x)) (sw_objs w) of None \<Rightarrow> x | Some y \<Rightarrow> y) of
        Inl e \<Rightarrow> (Inl e, w)
      | Inr y \<Rightarrow> (Inr (), sim_put y w))"

definition same_pulse :: "string \<Rightarrow> string \<Rightarrow> pulse \<Rightarrow> bool" where
  "same_pulse ns n p \<longleftrightarrow> p_namespace p = ns \<and> p_name p = n"

definition sim_getPulse :: "string \<Rightarrow> string \<Rightarrow> sim_world \<Rightarrow> (api_error + pulse) \<times> sim_world" where
  "sim_getPulse ns n w =
     (case find (same_pulse ns n) (sw_pulses w) of None \<Rightarrow> Inl (NotFound ''not found'') | Some p \<Rightarrow> Inr p, w)"

definition sim_putPulse :: "pulse \<Rightarrow> sim_world \<Rightarrow> (api_error + pulse) \<times> sim_world" where
  "sim_putPulse p w =
     (Inr p, w\<lparr>sw_pulses := map (\<lambda>q. if same_pulse (p_namespace p) (p_name p) q then p else q) (sw_pulses w)\<rparr>)"

definition sim_condition :: "condition \<Rightarrow> condition list \<Rightarrow> condition list" where
  "sim_condition c cs = filter (\<lambda>d. c_type d \<noteq> c_type c) cs @ [c]"

definition decimal_prefix :: "string \<Rightarrow> int" where
  "decimal_prefix s = foldl (\<lambda>n c. 10 * n + (of_char c - 48)) 0 (takeWhile is_digit s)"

definition sim_env :: "sim_world env" where
  "sim_env =
     \<lparr>e_get = sim_get, e_list = sim_list, e_create = sim_create, e_update = sim_update,
      e_delete = sim_delete, e_createOrUpdate = sim_createOrUpdate, e_getPulse = sim_getPulse,
      e_listPulses = (\<lambda>ns w. (Inr (filter (\<lambda>p. ns = '''' \<or> p_namespace p = ns) (sw_pulses w)), w)),
      e_updatePulse = sim_putPulse, e_updateStatus = sim_putPulse,
      e_now = (\<lambda>w. (sw_clock w, w\<lparr>sw_clock := sw_clock w + sw_tick w\<rparr>)),
      e_rand = (\<lambda>w. (Inr (\<lambda>i. char_of (i mod 256)), w)),
      e_getenv = (\<lambda>_. ''''), e_hasRecorder = True,
      e_sha256 = (\<lambda>s. take 32 (s @ replicate 32 (CHR 0x00))),
      e_setController = (\<lambda>p x. case o_controller x of
         Some u \<Rightarrow> if u = p_uid p then Inr x else Inl (Msg ''already owned by another controller'')
       | None \<Rightarrow> Inr (x\<lparr>o_controller := Some (p_uid p)\<rparr>)),
      e_controlledBy = (\<lambda>x p. o_controller x = Some (p_uid p)),
      e_setCondition = sim_condition,
      e_conditionFalse = (\<lambda>cs t. list_ex (\<lambda>c. c_type c = t \<and> c_status c = CondFalse) cs),
      e_semverValid = (\<lambda>v. v \<noteq> ''''),
      e_semverLess = (\<lambda>a b. decimal_prefix a < decimal_prefix b),
      e_parseQuantity = (\<lambda>q. if q = '''' then Inl (Msg ''bad quantity'') else Inr q),
      e_quantityCmp = (\<lambda>a b. sgn (decimal_prefix a - decimal_prefix b)),
      e_quantityValue = decimal_prefix\<rparr>"

lemma sim_env_sel [simp]:
  "e_get sim_env = sim_get" "e_list sim_env = sim_list" "e_create sim_env = sim_create"
  "e_update sim_env = sim_update" "e_delete sim_env = sim_delete"
  "e_createOrUpdate sim_env = sim_createOrUpdate" "e_getPulse sim_env = sim_getPulse"
  "e_updatePulse sim_env = sim_putPulse" "e_updateStatus sim_env = sim_putPulse"
  "e_listPulses sim_env ns w = (Inr (filter (\<lambda>p. ns = '''' \<or> p_namespace p = ns) (sw_pulses w)), w)"
  "e_now sim_env w = (sw_clock w, w\<lparr>sw_clock := sw_clock w + sw_tick w\<rparr>)"
  "e_getenv sim_env v = ''''" "e_hasRecorder sim_env" "e_setCondition sim_env = sim_condition"
  "e_controlledBy sim_env x p \<longleftrightarrow> o_controller x = Some (p_uid p)"
  "e_conditionFalse sim_env cs t = list_ex (\<lambda>c. c_type c = t \<and> c_status c = CondFalse) cs"
  "e_semverValid sim_env v \<longleftrightarrow> v \<noteq> ''''"
  "e_semverLess sim_env a b \<longleftrightarrow> decimal_prefix a < decimal_prefix b"
  "e_quantityCmp sim_env a b = sgn (decimal_prefix a - decimal_prefix b)"
  "e_quantityValue sim_env = decimal_prefix"
  "e_rand sim_env w = (Inr (\<lambda>i. char_of (i mod 256)), w)"
  "e_sha256 sim_env s = take 32 (s @ replicate 32 (CHR 0x00))"
  "e_setController sim_env p x = (case o_controller x of
     Some u \<Rightarrow> if u = p_uid p then Inr x else Inl (Msg ''already owned by another controller'')
   | None \<Rightarrow> Inr (x\<lparr>o_controller := Some (p_uid p)\<rparr>))"
  "e_parseQuantity sim_env q = (if q = '''' then Inl (Msg ''bad quantity'') else Inr q)"
  by (simp_all add: sim_env_def)

definition sim_state :: "sim_world \<Rightarrow> pulse \<Rightarrow> sim_world op_state" where
  "sim_state w p =
     \<lparr>os_world = w, os_log = [], os_cr = p, os_events = [], os_clusterInfo = None,
      os_lastMemCheckAt = [], os_gauges = [], os_selfHeal = [], os_reconcileErrors = []\<rparr>"

definition empty_world :: sim_world where
  "empty_world = \<lparr>sw_objs = [], sw_pulses = [], sw_clock = 0, sw_tick = 1\<rparr>"

section \<open>Running the operator on it\<close>

text \<open>
  \<open>X_def [THEN run_of_def]\<close> unfolds an action only when it is run on a state, which keeps the
  simplifier from expanding the code that has yet to run; \<open>prod.case_cong_weak\<close> keeps it from
  running a continuation before the state it starts in is known.
\<close>

lemmas run_of_def = arg_cong [of _ _ run_state, THEN fun_cong]

lemmas client_exec =
  local_defs [THEN run_of_def] client_defs [THEN run_of_def] time_now_def [THEN run_of_def]
  rand_read_def [THEN run_of_def] voidE_def [THEN run_of_def] liftE_def [THEN run_of_def]

lemmas sim_simps =
  fetch_def sim_get_def sim_put_def sim_list_def sim_create_def sim_update_def sim_delete_def
  sim_createOrUpdate_def sim_getPulse_def sim_putPulse_def sim_condition_def same_pulse_def has_key_def
  sim_state_def empty_world_def empty_pulse_def empty_spec_def empty_status_def Let_def

end
