(* ===== verification/RolloutInvariant.thy ===== *)
theory RolloutInvariant
  imports RolloutMachine SimCluster
begin

text \<open>
  The life of a custom resource as a state machine: a step is one status pass of the controller
  (\<open>syncPhaseAndConditions\<close>, \<open>reportPodProblems\<close>, \<open>reconcileAutoRollback\<close>) under any environment, or
  anything else that may happen between two passes (a user edits the spec, the UI reconciler
  reports its availability, an early return flushes the phase "Installing", admission writes
  "Rejected"). The ghost sets hold the agent and UI images that some pass has seen fully rolled out.
\<close>

section \<open>One pass\<close>

definition statusPass :: "'w env \<Rightarrow> component_health \<Rightarrow> ('w, bool) fallible" where
  "statusPass E h =
     do { r \<leftarrow> syncPhaseAndConditions E h;
          (case r of (agentImage, uiImage, agentUpgrading, uiUpgrading) \<Rightarrow>
             do { reportPodProblems E (ch_agentServing h);
                  reconcileAutoRollback E agentUpgrading uiUpgrading }) }"

abbreviation after_pass :: "'w env \<Rightarrow> component_health \<Rightarrow> 'w op_state \<Rightarrow> pulse" where
  "after_pass E h s \<equiv> os_cr (snd (run_state (statusPass E h) s))"

text \<open>The state between the sync and the rollback step.\<close>

definition synced :: "'w env \<Rightarrow> component_health \<Rightarrow> 'w op_state \<Rightarrow> 'w op_state" where
  "synced E h s =
     snd (run_state (reportPodProblems E (ch_agentServing h)) (snd (run_state (syncPhaseAndConditions E h) s)))"

lemma statusPass_run:
  "run_state (statusPass E h) s =
     run_state (reconcileAutoRollback E (agent_upgrading E h (os_cr s)) (ui_upgrading E h (os_cr s))) (synced E h s)"
  by (simp add: statusPass_def run_bind_pair fst_sync synced_def del: run_state_bind)

lemma core_synced:
  "core_of (os_cr (synced E h s)) = no_conditions (no_duration (sync_core E h (first_time E s) (os_cr s)))"
proof -
  have "no_conditions (p_status (os_cr (synced E h s))) =
      no_conditions (p_status (os_cr (snd (run_state (syncPhaseAndConditions E h) s))))"
    unfolding synced_def by (rule keepsD [OF keeps_report])
  from arg_cong [OF this, of no_duration]
  have "core_of (os_cr (synced E h s)) = core_of (os_cr (snd (run_state (syncPhaseAndConditions E h) s)))"
    unfolding core_commute .
  then show ?thesis
    by (simp only: core_sync first_time_def)
qed

lemma synced_fields:
  fixes E :: "'w env" and h :: component_health and s :: "'w op_state"
  defines "p \<equiv> os_cr s" and "st \<equiv> p_status (os_cr (synced E h s))"
  shows "st_agentRollback st = drop_stale (requestedImage E p) (st_agentRollback (p_status p))"
    and "st_uiRollback st = drop_stale (requestedUIImage E p) (st_uiRollback (p_status p))"
    and "st_lastHealthyAgentImage st =
      record_healthy (ch_agentRolledOut h) (resolvedImage E (drop_core E p)) (st_lastHealthyAgentImage (p_status p))"
    and "st_lastHealthyUIImage st =
      record_healthy (ch_uiRolledOut h) (resolvedUIImage E (drop_core E p)) (st_lastHealthyUIImage (p_status p))"
    and "st_upgradeStartedAt st =
      tracked_start (first_time E s) (agent_upgrading E h p \<or> ui_upgrading E h p) (st_upgradeStartedAt (p_status p))"
    and "st_phase st = next_phase (st_phase (p_status p)) (agent_upgrading E h p \<or> ui_upgrading E h p) (all_ready h p)"
  using arg_cong [OF core_synced [of E h s], of st_agentRollback]
    arg_cong [OF core_synced [of E h s], of st_uiRollback]
    arg_cong [OF core_synced [of E h s], of st_lastHealthyAgentImage]
    arg_cong [OF core_synced [of E h s], of st_lastHealthyUIImage]
    arg_cong [OF core_synced [of E h s], of st_upgradeStartedAt]
    arg_cong [OF core_synced [of E h s], of st_phase]
  unfolding p_def st_def sync_core_def Let_def by simp_all

lemma identity_synced: "identity_of (os_cr (synced E h s)) = identity_of (os_cr s)"
  unfolding synced_def by (simp add: keepsD [OF identity_report] keepsD [OF identity_sync])

lemma identity_after_pass: "identity_of (after_pass E h s) = identity_of (os_cr s)"
  by (simp add: statusPass_run keepsD [OF identity_rollback] identity_synced)

lemma requested_synced:
  "requestedImage E (os_cr (synced E' h s)) = requestedImage E (os_cr s)"
  "requestedUIImage E (os_cr (synced E' h s)) = requestedUIImage E (os_cr s)"
  using identity_ofD(4) [OF identity_synced [of E' h s]]
  by (simp_all add: requestedImage_def requestedUIImage_def)

lemma status_after_pass:
  "p_status (after_pass E h s) =
     rollback_core E (agent_upgrading E h (os_cr s)) (ui_upgrading E h (os_cr s))
       (first_time E (synced E h s)) (second_time E (synced E h s)) (os_cr (synced E h s))"
  by (simp add: statusPass_run run_reconcileAutoRollback)

lemmas pass_facts = status_after_pass rollback_core_def Let_def synced_fields requested_synced

section \<open>The machine\<close>

definition tracked :: "pulse \<Rightarrow> image_rollback option \<times> image_rollback option \<times> string \<times> string \<times> int option" where
  "tracked p = (let st = p_status p in
     (st_agentRollback st, st_uiRollback st, st_lastHealthyAgentImage st, st_lastHealthyUIImage st,
      st_upgradeStartedAt st))"

definition seen_healthy :: "bool \<Rightarrow> string \<Rightarrow> string set \<Rightarrow> string set" where
  "seen_healthy rolledOut img H = (if rolledOut then insert img H else H)"

inductive rollout_reach :: "'w env set \<Rightarrow> pulse \<Rightarrow> string set \<Rightarrow> string set \<Rightarrow> bool" for Es where
  start: "p_status p = empty_status \<Longrightarrow> rollout_reach Es p {} {}"
| pass: "rollout_reach Es (os_cr s) A U \<Longrightarrow> E \<in> Es \<Longrightarrow> p = os_cr s \<Longrightarrow>
    rollout_reach Es (after_pass E h s)
      (seen_healthy (ch_agentRolledOut h) (resolvedImage E (drop_core E p)) A)
      (seen_healthy (ch_uiRolledOut h) (resolvedUIImage E (drop_core E p)) U)"
| other: "rollout_reach Es p A U \<Longrightarrow> tracked q = tracked p \<Longrightarrow>
    st_phase (p_status q) \<in> {st_phase (p_status p), ''Installing'', ''Rejected''} \<Longrightarrow>
    rollout_reach Es q A U"

section \<open>Its invariants\<close>

definition rollout_inv :: "string set \<Rightarrow> string set \<Rightarrow> pulse \<Rightarrow> bool" where
  "rollout_inv A U p \<longleftrightarrow>
     (let st = p_status p in
        record_ok (st_agentRollback st) (st_lastHealthyAgentImage st) \<and>
        record_ok (st_uiRollback st) (st_lastHealthyUIImage st) \<and>
        st_lastHealthyAgentImage st \<in> insert '''' A \<and> st_lastHealthyUIImage st \<in> insert '''' U)"

lemma rollout_inv_tracked: "tracked q = tracked p \<Longrightarrow> rollout_inv A U q = rollout_inv A U p"
  by (simp add: rollout_inv_def tracked_def Let_def)

lemma resolved_drop_core:
  "resolvedImage E (drop_core E p) =
     applyRollback (requestedImage E p) (drop_stale (requestedImage E p) (st_agentRollback (p_status p)))"
  "resolvedUIImage E (drop_core E p) =
     applyRollback (requestedUIImage E p) (drop_stale (requestedUIImage E p) (st_uiRollback (p_status p)))"
  by (simp_all add: resolvedImage_def resolvedUIImage_def drop_core_def)

lemma record_healthy_seen:
  "lh \<in> insert '''' H \<Longrightarrow> record_healthy ro img lh \<in> insert '''' (seen_healthy ro img H)"
  by (auto simp: record_healthy_def seen_healthy_def)

lemma pass_agent_record:
  "\<exists>fire t. st_agentRollback (p_status (after_pass E h s)) =
     (let rb = drop_stale (requestedImage E (os_cr s)) (st_agentRollback (p_status (os_cr s)));
          lh = st_lastHealthyAgentImage (p_status (after_pass E h s))
      in if agent_upgrading E h (os_cr s) \<and> rb = None \<and> lh \<noteq> '''' \<and> fire
         then Some \<lparr>rb_from = requestedImage E (os_cr s), rb_to = lh, rb_at = t\<rparr> else rb)"
  unfolding pass_facts by (auto simp: agent_fires_def synced_fields)

lemma pass_ui_record:
  "\<exists>fire t. st_uiRollback (p_status (after_pass E h s)) =
     (let rb = drop_stale (requestedUIImage E (os_cr s)) (st_uiRollback (p_status (os_cr s)));
          lh = st_lastHealthyUIImage (p_status (after_pass E h s))
      in if ui_upgrading E h (os_cr s) \<and> rb = None \<and> lh \<noteq> '''' \<and> fire
         then Some \<lparr>rb_from = requestedUIImage E (os_cr s), rb_to = lh, rb_at = t\<rparr> else rb)"
  unfolding pass_facts by (auto simp: ui_fires_def synced_fields)

lemma pass_last_healthy:
  "st_lastHealthyAgentImage (p_status (after_pass E h s)) =
     record_healthy (ch_agentRolledOut h) (resolvedImage E (drop_core E (os_cr s)))
       (st_lastHealthyAgentImage (p_status (os_cr s)))"
  "st_lastHealthyUIImage (p_status (after_pass E h s)) =
     record_healthy (ch_uiRolledOut h) (resolvedUIImage E (drop_core E (os_cr s)))
       (st_lastHealthyUIImage (p_status (os_cr s)))"
  unfolding pass_facts by (auto simp: synced_fields)

lemma rollout_inv_pass:
  assumes "rollout_inv A U (os_cr s)"
  shows "rollout_inv (seen_healthy (ch_agentRolledOut h) (resolvedImage E (drop_core E (os_cr s))) A)
    (seen_healthy (ch_uiRolledOut h) (resolvedUIImage E (drop_core E (os_cr s))) U) (after_pass E h s)"
proof -
  let ?p = "os_cr s" and ?q = "after_pass E h s"
  from assms have ok: "record_ok (st_agentRollback (p_status ?p)) (st_lastHealthyAgentImage (p_status ?p))"
    "record_ok (st_uiRollback (p_status ?p)) (st_lastHealthyUIImage (p_status ?p))"
    and seen: "st_lastHealthyAgentImage (p_status ?p) \<in> insert '''' A"
    "st_lastHealthyUIImage (p_status ?p) \<in> insert '''' U"
    by (simp_all add: rollout_inv_def Let_def)
  have "record_ok (st_agentRollback (p_status ?q)) (st_lastHealthyAgentImage (p_status ?q))"
  proof -
    obtain fire t where "st_agentRollback (p_status ?q) =
      (let rb = drop_stale (requestedImage E ?p) (st_agentRollback (p_status ?p));
           lh = st_lastHealthyAgentImage (p_status ?q)
       in if agent_upgrading E h ?p \<and> rb = None \<and> lh \<noteq> '''' \<and> fire
          then Some \<lparr>rb_from = requestedImage E ?p, rb_to = lh, rb_at = t\<rparr> else rb)"
      using pass_agent_record by blast
    then show ?thesis
      unfolding Let_def agent_upgrading_def
      by (simp only: agent_img.record_ok_pass [OF ok(1) requestedImage_nonempty refl
        resolved_drop_core(1) pass_last_healthy(1)])
  qed
  moreover have "record_ok (st_uiRollback (p_status ?q)) (st_lastHealthyUIImage (p_status ?q))"
  proof -
    obtain fire t where "st_uiRollback (p_status ?q) =
      (let rb = drop_stale (requestedUIImage E ?p) (st_uiRollback (p_status ?p));
           lh = st_lastHealthyUIImage (p_status ?q)
       in if ui_upgrading E h ?p \<and> rb = None \<and> lh \<noteq> '''' \<and> fire
          then Some \<lparr>rb_from = requestedUIImage E ?p, rb_to = lh, rb_at = t\<rparr> else rb)"
      using pass_ui_record by blast
    then show ?thesis
      unfolding Let_def ui_upgrading_def
      by (simp only: ui_img.record_ok_pass [OF ok(2) requestedUIImage_nonempty refl
        resolved_drop_core(2) pass_last_healthy(2)])
  qed
  moreover have "st_lastHealthyAgentImage (p_status ?q) \<in>
      insert '''' (seen_healthy (ch_agentRolledOut h) (resolvedImage E (drop_core E ?p)) A)"
    unfolding pass_last_healthy by (rule record_healthy_seen [OF seen(1)])
  moreover have "st_lastHealthyUIImage (p_status ?q) \<in>
      insert '''' (seen_healthy (ch_uiRolledOut h) (resolvedUIImage E (drop_core E ?p)) U)"
    unfolding pass_last_healthy by (rule record_healthy_seen [OF seen(2)])
  ultimately show ?thesis
    unfolding rollout_inv_def Let_def by blast
qed

lemma rollout_inv_reach: "rollout_reach Es p A U \<Longrightarrow> rollout_inv A U p"
proof (induction rule: rollout_reach.induct)
  case (start p)
  then show ?case by (simp add: rollout_inv_def empty_status_def)
next
  case (pass s A U E p h)
  have "rollout_inv A U (os_cr s)" "p = os_cr s" by fact+
  then show ?case by (simp only: rollout_inv_pass)
next
  case (other p A U q)
  have "rollout_inv A U p" "tracked q = tracked p" by fact+
  then show ?case using rollout_inv_tracked by blast
qed

section \<open>What a pass decides\<close>

lemma agent_not_upgrading:
  assumes "rollout_inv A U p" and "st_agentRollback (p_status p) = Some r" and "rb_from r = requestedImage E p"
  shows "resolvedImage E (drop_core E p) = rb_to r" and "\<not> agent_upgrading E h p"
proof -
  show r: "resolvedImage E (drop_core E p) = rb_to r"
    using assms by (simp add: resolved_drop_core drop_stale_def applyRollback_def rollout_inv_def Let_def)
  show "\<not> agent_upgrading E h p"
    using assms(1,2) r by (simp add: agent_upgrading_def is_upgrading_def rollout_inv_def Let_def)
qed

lemma ui_not_upgrading:
  assumes "rollout_inv A U p" and "st_uiRollback (p_status p) = Some r" and "rb_from r = requestedUIImage E p"
  shows "resolvedUIImage E (drop_core E p) = rb_to r" and "\<not> ui_upgrading E h p"
proof -
  show r: "resolvedUIImage E (drop_core E p) = rb_to r"
    using assms by (simp add: resolved_drop_core drop_stale_def applyRollback_def rollout_inv_def Let_def)
  show "\<not> ui_upgrading E h p"
    using assms(1,2) r by (simp add: ui_upgrading_def is_upgrading_def rollout_inv_def Let_def)
qed

lemma upgrading_no_record:
  fixes E :: "'w env"
  assumes "rollout_inv A U p"
  shows "agent_upgrading E h p \<Longrightarrow> drop_stale (requestedImage E p) (st_agentRollback (p_status p)) = None"
    and "ui_upgrading E h p \<Longrightarrow> drop_stale (requestedUIImage E p) (st_uiRollback (p_status p)) = None"
  using agent_not_upgrading(2) [OF assms, of _ E h] ui_not_upgrading(2) [OF assms, of _ E h]
  by (auto simp: drop_stale_def split: option.split)

lemma upgrading_known:
  "agent_upgrading E h p \<Longrightarrow> st_lastHealthyAgentImage (p_status p) \<noteq> '''' \<and> \<not> ch_agentRolledOut h"
  "ui_upgrading E h p \<Longrightarrow> st_lastHealthyUIImage (p_status p) \<noteq> '''' \<and> \<not> ch_uiRolledOut h"
  by (simp_all add: agent_upgrading_def ui_upgrading_def is_upgrading_def)

lemma next_phase_Upgrading [simp]: "next_phase prev True r = ''Upgrading''"
  by (simp add: next_phase_def)

text \<open>The deadline in force when the rollback step of a pass looks at the clock.\<close>

definition upgrade_age :: "'w env \<Rightarrow> component_health \<Rightarrow> 'w op_state \<Rightarrow> int" where
  "upgrade_age E h s =
     first_time E (synced E h s) -
     (case st_upgradeStartedAt (p_status (os_cr s)) of None \<Rightarrow> first_time E s | Some t \<Rightarrow> t)"

lemma timed_out_synced:
  "timed_out (first_time E (synced E h s)) (p_status (os_cr (synced E h s))) \<longleftrightarrow>
     (agent_upgrading E h (os_cr s) \<or> ui_upgrading E h (os_cr s)) \<and> upgrade_age E h s \<ge> upgradeHealthTimeout"
  by (auto simp: timed_out_def synced_fields upgrade_age_def tracked_start_def next_phase_def
      split: option.split)

definition agent_gated :: "'w env \<Rightarrow> component_health \<Rightarrow> 'w op_state \<Rightarrow> bool" where
  "agent_gated E h s =
     e_conditionFalse E (st_conditions (p_status (os_cr (synced E h s)))) ''AgentVersionCompatible''"

lemma fires_synced:
  assumes "rollout_inv A U (os_cr s)"
  shows "agent_fires E (agent_upgrading E h (os_cr s)) (p_status (os_cr (synced E h s))) \<longleftrightarrow>
      agent_upgrading E h (os_cr s) \<and> \<not> agent_gated E h s"
    and "ui_fires (ui_upgrading E h (os_cr s)) (p_status (os_cr (synced E h s))) \<longleftrightarrow> ui_upgrading E h (os_cr s)"
  using upgrading_no_record [OF assms, where E = E and h = h] upgrading_known [where E = E and h = h and p = "os_cr s"]
  by (auto simp: agent_fires_def ui_fires_def agent_gated_def synced_fields record_healthy_def)

section \<open>Running a pass\<close>

lemmas pass_exec =
  client_exec syncPhaseAndConditions_def [THEN run_of_def] dropStaleRollbacks_def [THEN run_of_def]
  trackUpgrade_def [THEN run_of_def] syncPhase_def [THEN run_of_def] set_phase_def [THEN run_of_def]
  announcePhase_def [THEN run_of_def] announceRunning_def [THEN run_of_def] syncConditions_def [THEN run_of_def]
  setReadyCondition_def [THEN run_of_def] setComponentReadyGauge_def [THEN run_of_def]
  reportPodProblems_def [THEN run_of_def] report_component_def [THEN run_of_def]
  diagnoseDeploymentPods_def [THEN run_of_def] reconcileAutoRollback_def [THEN run_of_def]
  rollback_agent_def [THEN run_of_def] rollback_ui_def [THEN run_of_def] statusPass_def [THEN run_of_def]

lemmas image_simps =
  drop_stale_def is_upgrading_def record_healthy_def next_phase_def mk_condition_def
  progressing_condition_def ready_condition_def resolvedImage_def resolvedUIImage_def applyRollback_def
  requestedImage_def requestedUIImage_def imageFromEnv_def defaultAgentImage_def defaultUIImage_def
  upgradeHealthTimeout_def minute_def second_def

text \<open>An instance: image 1 of the agent rolls out, image 2 does not for five minutes.\<close>

definition agent_pulse :: "string \<Rightarrow> pulse" where
  "agent_pulse img = (empty_pulse ''pulse'' ''ns'' ''uid-1'')
     \<lparr>p_spec := empty_spec\<lparr>sp_agent := (sp_agent empty_spec)\<lparr>ag_image := img\<rparr>\<rparr>\<rparr>"

definition health_of :: "bool \<Rightarrow> component_health" where
  "health_of rolledOut =
     \<lparr>ch_agentServing = True, ch_agentRolledOut = rolledOut, ch_uiRolledOut = False, ch_pgReady = True\<rparr>"

definition at_clock :: "int \<Rightarrow> sim_world" where
  "at_clock t = empty_world\<lparr>sw_clock := t\<rparr>"

text \<open>Image 1 runs; the spec is edited; the upgrade is first seen at time 0; five minutes pass.\<close>

definition ex_status :: "string \<Rightarrow> int option \<Rightarrow> pulse_status" where
  "ex_status ph start =
     empty_status\<lparr>st_phase := ph, st_lastHealthyAgentImage := ''repo:1'', st_upgradeStartedAt := start\<rparr>"

definition ex_edited :: pulse where
  "ex_edited = (agent_pulse ''repo:2'')\<lparr>p_status := ex_status ''Installing'' None\<rparr>"

definition ex_upgrading :: pulse where
  "ex_upgrading = (agent_pulse ''repo:2'')\<lparr>p_status := ex_status ''Upgrading'' (Some 0)\<rparr>"

definition ex_rolled_back :: pulse where
  "ex_rolled_back = after_pass sim_env (health_of False) (sim_state (at_clock (5 * minute)) ex_upgrading)"

lemmas ex_simps =
  image_simps sim_simps at_clock_def health_of_def agent_pulse_def ex_status_def tracked_def drop_core_def

lemma ex_reach:
  "rollout_reach {sim_env} ex_edited {''repo:1''} {}"
  "rollout_reach {sim_env} ex_upgrading {''repo:1''} {}"
  "rollout_reach {sim_env} ex_rolled_back {''repo:1''} {}"
proof -
  have "p_status (agent_pulse ''repo:1'') = empty_status" by (simp add: agent_pulse_def empty_pulse_def)
  from rollout_reach.start [OF this, of "{sim_env}"]
  have "rollout_reach {sim_env} (os_cr (sim_state (at_clock 0) (agent_pulse ''repo:1''))) {} {}"
    by (simp add: sim_state_def)
  from rollout_reach.pass [OF this singletonI refl, of "health_of True"]
  have "rollout_reach {sim_env}
      (after_pass sim_env (health_of True) (sim_state (at_clock 0) (agent_pulse ''repo:1''))) {''repo:1''} {}"
    by (simp add: seen_healthy_def ex_simps)
  then show 1: "rollout_reach {sim_env} ex_edited {''repo:1''} {}"
    by (rule rollout_reach.other) (simp_all add: pass_exec ex_edited_def ex_simps cong: prod.case_cong_weak)
  then have "rollout_reach {sim_env} (os_cr (sim_state (at_clock 0) ex_edited)) {''repo:1''} {}"
    by (simp add: sim_state_def)
  from rollout_reach.pass [OF this singletonI refl, of "health_of False"]
  have "rollout_reach {sim_env}
      (after_pass sim_env (health_of False) (sim_state (at_clock 0) ex_edited)) {''repo:1''} {}"
    by (simp add: seen_healthy_def health_of_def)
  then show "rollout_reach {sim_env} ex_upgrading {''repo:1''} {}"
    by (rule rollout_reach.other)
       (simp_all add: pass_exec ex_edited_def ex_upgrading_def ex_simps cong: prod.case_cong_weak)
  then have "rollout_reach {sim_env} (os_cr (sim_state (at_clock (5 * minute)) ex_upgrading)) {''repo:1''} {}"
    by (simp add: sim_state_def)
  from rollout_reach.pass [OF this singletonI refl, of "health_of False"]
  show "rollout_reach {sim_env} ex_rolled_back {''repo:1''} {}"
    by (simp add: ex_rolled_back_def seen_healthy_def health_of_def)
qed

lemma ex_rolled_back_status:
  "st_agentRollback (p_status ex_rolled_back) =
     Some \<lparr>rb_from = ''repo:2'', rb_to = ''repo:1'', rb_at = 5 * minute + 1\<rparr>"
  unfolding ex_rolled_back_def
  by (simp add: pass_exec ex_upgrading_def ex_simps cong: prod.case_cong_weak)

lemma ex_spec: "p_spec ex_rolled_back = p_spec (agent_pulse ''repo:2'')"
  using identity_ofD(4) [OF identity_after_pass [of sim_env "health_of False" "sim_state (at_clock (5 * minute)) ex_upgrading"]]
  by (simp add: ex_upgrading_def ex_rolled_back_def sim_state_def)

lemma ex_requested [simp]: "requestedImage sim_env ex_rolled_back = ''repo:2''"
  by (simp add: requestedImage_def ex_spec agent_pulse_def)

lemma agent_record_stays:
  assumes inv: "rollout_inv A U (os_cr s)"
    and r: "st_agentRollback (p_status (os_cr s)) = Some r" "rb_from r = requestedImage E (os_cr s)"
  shows "resolvedImage E (after_pass E h s) = rb_to r \<and> \<not> agent_upgrading E h (os_cr s) \<and>
    st_agentRollback (p_status (after_pass E h s)) = Some r"
proof -
  have spec: "p_spec (after_pass E h s) = p_spec (os_cr s)"
    using identity_after_pass by (rule identity_ofD)
  have stable: "\<not> agent_upgrading E h (os_cr s)" and "rb_to r \<noteq> ''''"
    using agent_not_upgrading(2) [OF inv r, of h] inv r by (simp_all add: rollout_inv_def Let_def)
  from stable r have keep: "st_agentRollback (p_status (after_pass E h s)) = Some r"
    using pass_agent_record [of E h s] by (simp add: Let_def drop_stale_def)
  from \<open>rb_to r \<noteq> ''''\<close> stable keep r show ?thesis
    using agent_img.requested_spec [OF spec, of E] agent_img.resolved_active [OF keep, of E] by simp
qed

lemma ui_record_stays:
  assumes inv: "rollout_inv A U (os_cr s)"
    and r: "st_uiRollback (p_status (os_cr s)) = Some r" "rb_from r = requestedUIImage E (os_cr s)"
  shows "resolvedUIImage E (after_pass E h s) = rb_to r \<and> \<not> ui_upgrading E h (os_cr s) \<and>
    st_uiRollback (p_status (after_pass E h s)) = Some r"
proof -
  have spec: "p_spec (after_pass E h s) = p_spec (os_cr s)"
    using identity_after_pass by (rule identity_ofD)
  have stable: "\<not> ui_upgrading E h (os_cr s)" and "rb_to r \<noteq> ''''"
    using ui_not_upgrading(2) [OF inv r, of h] inv r by (simp_all add: rollout_inv_def Let_def)
  from stable r have keep: "st_uiRollback (p_status (after_pass E h s)) = Some r"
    using pass_ui_record [of E h s] by (simp add: Let_def drop_stale_def)
  from \<open>rb_to r \<noteq> ''''\<close> stable keep r show ?thesis
    using ui_img.requested_spec [OF spec, of E] ui_img.resolved_active [OF keep, of E] by simp
qed

lemma rolled_back:
  assumes inv: "rollout_inv A U (os_cr s)" and late: "upgrade_age E h s \<ge> upgradeHealthTimeout"
  defines "p \<equiv> os_cr s" and "q \<equiv> after_pass E h s"
  defines "a \<equiv> agent_upgrading E h (os_cr s) \<and> \<not> agent_gated E h s" and "u \<equiv> ui_upgrading E h (os_cr s)"
  shows "fst (run_state (statusPass E h) s) = Inr (a \<or> u)"
    and "st_agentRollback (p_status q) =
      (if a then Some \<lparr>rb_from = requestedImage E p, rb_to = st_lastHealthyAgentImage (p_status p), rb_at = second_time E (synced E h s)\<rparr>
       else drop_stale (requestedImage E p) (st_agentRollback (p_status p)))"
    and "st_uiRollback (p_status q) =
      (if u then Some \<lparr>rb_from = requestedUIImage E p, rb_to = st_lastHealthyUIImage (p_status p), rb_at = second_time E (synced E h s)\<rparr>
       else drop_stale (requestedUIImage E p) (st_uiRollback (p_status p)))"
    and "a \<or> u \<Longrightarrow> st_upgradeStartedAt (p_status q) = None"
    and "a \<Longrightarrow> resolvedImage E q = st_lastHealthyAgentImage (p_status p)"
    and "u \<Longrightarrow> resolvedUIImage E q = st_lastHealthyUIImage (p_status p)"
proof -
  note fires = fires_synced [OF inv, of E h]
  have a: "agent_fires E (agent_upgrading E h (os_cr s)) (p_status (os_cr (synced E h s))) = a"
    and u: "ui_fires (ui_upgrading E h (os_cr s)) (p_status (os_cr (synced E h s))) = u"
    using fires by (auto simp: a_def u_def)
  have t: "timed_out (first_time E (synced E h s)) (p_status (os_cr (synced E h s)))" if "a \<or> u"
    using that late timed_out_synced [of E h s] by (auto simp: a_def u_def)
  note known = upgrading_known [where E = E and h = h and p = "os_cr s"]
  show "fst (run_state (statusPass E h) s) = Inr (a \<or> u)"
    using t by (auto simp: statusPass_run run_reconcileAutoRollback a u)
  show rba: "st_agentRollback (p_status q) =
      (if a then Some \<lparr>rb_from = requestedImage E p, rb_to = st_lastHealthyAgentImage (p_status p), rb_at = second_time E (synced E h s)\<rparr>
       else drop_stale (requestedImage E p) (st_agentRollback (p_status p)))"
    using t known unfolding q_def p_def status_after_pass rollback_core_def Let_def a u
    by (auto simp: synced_fields requested_synced record_healthy_def a_def)
  show rbu: "st_uiRollback (p_status q) =
      (if u then Some \<lparr>rb_from = requestedUIImage E p, rb_to = st_lastHealthyUIImage (p_status p), rb_at = second_time E (synced E h s)\<rparr>
       else drop_stale (requestedUIImage E p) (st_uiRollback (p_status p)))"
    using t known unfolding q_def p_def status_after_pass rollback_core_def Let_def a u
    by (auto simp: synced_fields requested_synced record_healthy_def u_def)
  show "st_upgradeStartedAt (p_status q) = None" if "a \<or> u"
    using t that unfolding q_def status_after_pass rollback_core_def Let_def a u by simp
  have spec: "p_spec (after_pass E h s) = p_spec (os_cr s)"
    using identity_after_pass by (rule identity_ofD)
  show "resolvedImage E q = st_lastHealthyAgentImage (p_status p)" if "a"
    using agent_img.requested_spec [OF spec, of E] agent_img.resolved_active [of q _ E] rba that known(1)
    by (simp add: p_def q_def a_def)
  show "resolvedUIImage E q = st_lastHealthyUIImage (p_status p)" if "u"
    using ui_img.requested_spec [OF spec, of E] ui_img.resolved_active [of q _ E] rbu that known(2)
    by (simp add: p_def q_def u_def)
qed

lemma phase_of_pass:
  "st_phase (p_status (after_pass E h s)) =
     next_phase (st_phase (p_status (os_cr s))) (agent_upgrading E h (os_cr s) \<or> ui_upgrading E h (os_cr s))
       (all_ready h (os_cr s))"
  unfolding status_after_pass by (simp add: rollback_core_def Let_def synced_fields)

section \<open>Properties\<close>

text \<open>
  C1: In every reachable state a rollback record names, as the image to run, the last image seen
  healthy, which is an image that some status pass has seen fully rolled out, and never the image
  it replaces; for the agent and for the UI.
\<close>

theorem rollback_target_was_healthy:
  assumes "rollout_reach Es p A U"
  shows "(\<forall>r. st_agentRollback (p_status p) = Some r \<longrightarrow>
      rb_to r = st_lastHealthyAgentImage (p_status p) \<and> rb_to r \<in> A \<and> rb_to r \<noteq> '''' \<and> rb_from r \<noteq> rb_to r) \<and>
    (\<forall>r. st_uiRollback (p_status p) = Some r \<longrightarrow>
      rb_to r = st_lastHealthyUIImage (p_status p) \<and> rb_to r \<in> U \<and> rb_to r \<noteq> '''' \<and> rb_from r \<noteq> rb_to r)"
  using rollout_inv_reach [OF assms] by (auto simp: rollout_inv_def Let_def)

theorem rollback_target_was_healthy_witness:
  "\<exists>r. st_agentRollback (p_status ex_rolled_back) = Some r \<and> rb_to r \<in> {''repo:1''}"
  using rollback_target_was_healthy [OF ex_reach(3)] ex_rolled_back_status by auto

text \<open>
  C2: The rollback does not loop. In a reachable state whose rollback record applies (the spec still
  asks for the replaced image), a pass resolves the component to the healthy image, does not see
  it as upgrading and keeps the record as it is, whatever the environment answers.
\<close>

theorem rollback_does_not_loop:
  assumes "rollout_reach Es (os_cr s) A U"
  shows "(\<forall>r. st_agentRollback (p_status (os_cr s)) = Some r \<and> rb_from r = requestedImage E (os_cr s) \<longrightarrow>
      resolvedImage E (after_pass E h s) = rb_to r \<and> \<not> agent_upgrading E h (os_cr s) \<and>
      st_agentRollback (p_status (after_pass E h s)) = Some r) \<and>
    (\<forall>r. st_uiRollback (p_status (os_cr s)) = Some r \<and> rb_from r = requestedUIImage E (os_cr s) \<longrightarrow>
      resolvedUIImage E (after_pass E h s) = rb_to r \<and> \<not> ui_upgrading E h (os_cr s) \<and>
      st_uiRollback (p_status (after_pass E h s)) = Some r)"
  using agent_record_stays [OF rollout_inv_reach [OF assms]] ui_record_stays [OF rollout_inv_reach [OF assms]]
  by blast

theorem rollback_does_not_loop_witness:
  "\<not> agent_upgrading sim_env (health_of False) (os_cr (sim_state (at_clock 0) ex_rolled_back))"
proof -
  have "os_cr (sim_state (at_clock 0) ex_rolled_back) = ex_rolled_back" by (simp add: sim_state_def)
  then have "rollout_reach {sim_env} (os_cr (sim_state (at_clock 0) ex_rolled_back)) {''repo:1''} {}"
    and "\<exists>r. st_agentRollback (p_status (os_cr (sim_state (at_clock 0) ex_rolled_back))) = Some r \<and>
      rb_from r = requestedImage sim_env (os_cr (sim_state (at_clock 0) ex_rolled_back))"
    using ex_reach(3) ex_rolled_back_status by simp_all
  then show ?thesis
    using rollback_does_not_loop by blast
qed

text \<open>
  C3: A stuck upgrade is rolled back. In a reachable state, at least five minutes after an upgrade was
  first seen, a pass that finds the agent or the UI still not rolled out records the rollback of that
  component to its last healthy image, clears the clock and asks for an immediate requeue, and from then
  on the image of the component resolves to the healthy one. The one exemption is that of the version
  gate: while the condition AgentVersionCompatible is False (also when it is out of date, see
  \<open>gate_condition_is_never_cleared\<close>) the agent is not rolled back, and its record stays as it is.
\<close>

theorem stuck_upgrade_is_rolled_back:
  assumes "rollout_reach Es (os_cr s) A U" and "upgrade_age E h s \<ge> 5 * minute"
  shows "let p = os_cr s; q = after_pass E h s; a = agent_upgrading E h p \<and> \<not> agent_gated E h s; u = ui_upgrading E h p
    in fst (run_state (statusPass E h) s) = Inr (a \<or> u) \<and>
       (if a then resolvedImage E q = st_lastHealthyAgentImage (p_status p) \<and> (\<exists>t. st_agentRollback (p_status q) =
           Some \<lparr>rb_from = requestedImage E p, rb_to = st_lastHealthyAgentImage (p_status p), rb_at = t\<rparr>)
        else st_agentRollback (p_status q) = drop_stale (requestedImage E p) (st_agentRollback (p_status p))) \<and>
       (if u then resolvedUIImage E q = st_lastHealthyUIImage (p_status p) \<and> (\<exists>t. st_uiRollback (p_status q) =
           Some \<lparr>rb_from = requestedUIImage E p, rb_to = st_lastHealthyUIImage (p_status p), rb_at = t\<rparr>)
        else st_uiRollback (p_status q) = drop_stale (requestedUIImage E p) (st_uiRollback (p_status p))) \<and>
       (if a \<or> u then st_upgradeStartedAt (p_status q) = None else True)"
  using rolled_back [OF rollout_inv_reach [OF assms(1)]] assms(2) by (simp add: Let_def upgradeHealthTimeout_def)

theorem stuck_upgrade_is_rolled_back_witness:
  "resolvedImage sim_env ex_rolled_back = ''repo:1''"
proof -
  let ?s = "sim_state (at_clock (5 * minute)) ex_upgrading"
  have "rollout_reach {sim_env} (os_cr ?s) {''repo:1''} {}"
    using ex_reach(2) by (simp add: sim_state_def)
  moreover have "agent_upgrading sim_env (health_of False) (os_cr ?s)"
    by (simp add: agent_upgrading_def ex_upgrading_def ex_simps)
  moreover have "upgrade_age sim_env (health_of False) ?s \<ge> 5 * minute"
    by (simp add: upgrade_age_def first_time_def synced_def pass_exec ex_upgrading_def ex_simps
        cong: prod.case_cong_weak)
  moreover have "\<not> agent_gated sim_env (health_of False) ?s"
    by (simp add: agent_gated_def synced_def pass_exec ex_upgrading_def ex_simps cong: prod.case_cong_weak)
  ultimately have "resolvedImage sim_env (after_pass sim_env (health_of False) ?s) =
      st_lastHealthyAgentImage (p_status (os_cr ?s))"
    using stuck_upgrade_is_rolled_back [of "{sim_env}" ?s "{''repo:1''}" "{}" sim_env "health_of False"] by (simp add: Let_def)
  then show ?thesis
    by (simp add: ex_rolled_back_def ex_upgrading_def ex_status_def sim_state_def)
qed

text \<open>
  C8: No early rollback. While fewer than five minutes have passed since the upgrade was first seen,
  a pass creates no rollback record: it keeps the records that still apply and drops the others.
\<close>

theorem no_early_rollback:
  assumes "upgrade_age E h s < upgradeHealthTimeout"
  shows "fst (run_state (statusPass E h) s) = Inr False \<and>
    st_agentRollback (p_status (after_pass E h s)) =
      drop_stale (requestedImage E (os_cr s)) (st_agentRollback (p_status (os_cr s))) \<and>
    st_uiRollback (p_status (after_pass E h s)) =
      drop_stale (requestedUIImage E (os_cr s)) (st_uiRollback (p_status (os_cr s)))"
proof -
  have "\<not> timed_out (first_time E (synced E h s)) (p_status (os_cr (synced E h s)))"
    using assms by (simp add: timed_out_synced)
  then show ?thesis
    unfolding status_after_pass
    by (simp add: statusPass_run run_reconcileAutoRollback rollback_core_def Let_def synced_fields)
qed

theorem no_early_rollback_witness:
  "st_agentRollback (p_status (after_pass sim_env (health_of False) (sim_state (at_clock (4 * minute)) ex_upgrading))) = None"
proof -
  let ?s = "sim_state (at_clock (4 * minute)) ex_upgrading"
  have "upgrade_age sim_env (health_of False) ?s < upgradeHealthTimeout"
    by (simp add: upgrade_age_def first_time_def synced_def pass_exec ex_upgrading_def ex_simps
        cong: prod.case_cong_weak)
  then have "st_agentRollback (p_status (after_pass sim_env (health_of False) ?s)) =
      drop_stale (requestedImage sim_env (os_cr ?s)) (st_agentRollback (p_status (os_cr ?s)))"
    using no_early_rollback by blast
  then show ?thesis
    by (simp add: ex_upgrading_def ex_simps)
qed

text \<open>
  The phase after a pass is "Upgrading" exactly when an image change is in progress, otherwise
  "Running" exactly when agent, database and UI are all ready; "Degraded" comes only from "Running"
  or "Upgrading", and every other unhealthy state is "Installing".
\<close>

theorem phase_after_pass:
  "let u = agent_upgrading E h (os_cr s) \<or> ui_upgrading E h (os_cr s);
       ok' = all_ready h (os_cr s);
       prev = st_phase (p_status (os_cr s));
       ph = st_phase (p_status (after_pass E h s))
   in (ph = ''Upgrading'' \<longleftrightarrow> u) \<and> (ph = ''Running'' \<longleftrightarrow> \<not> u \<and> ok') \<and>
      (ph = ''Degraded'' \<longleftrightarrow> \<not> u \<and> \<not> ok' \<and> prev \<in> {''Running'', ''Upgrading''}) \<and>
      (ph = ''Installing'' \<longleftrightarrow> \<not> u \<and> \<not> ok' \<and> prev \<notin> {''Running'', ''Upgrading''})"
  by (auto simp: phase_of_pass next_phase_def Let_def)

text \<open>The phase "Degraded" lasts one pass: the next one that still finds a component unhealthy says "Installing".\<close>

lemma degraded_lasts_one_pass:
  assumes "st_phase (p_status (os_cr s)) = ''Degraded''" and "\<not> all_ready h (os_cr s)"
    and "\<not> agent_upgrading E h (os_cr s)" and "\<not> ui_upgrading E h (os_cr s)"
  shows "st_phase (p_status (after_pass E h s)) = ''Installing''"
  using assms by (simp add: phase_of_pass next_phase_def)

text \<open>
  The clock of an upgrade is not restarted by another edit: an image first asked for a moment ago is
  rolled back by the next pass when an earlier change had been pending for five minutes.
\<close>

lemma new_image_inherits_deadline:
  assumes "rollout_inv A U p" and "os_cr s = p\<lparr>p_spec := edited\<rparr>" and "agent_upgrading E h (os_cr s)"
    and "upgrade_age E h s \<ge> upgradeHealthTimeout" and "\<not> agent_gated E h s"
  shows "\<exists>r. st_agentRollback (p_status (after_pass E h s)) = Some r \<and> rb_from r = requestedImage E (p\<lparr>p_spec := edited\<rparr>)"
proof -
  have "rollout_inv A U (os_cr s)"
    using assms(1,2) by (simp add: rollout_inv_def)
  from rolled_back(2) [OF this assms(4)] assms(2,3,5) show ?thesis by simp
qed

end
