(* ===== verification/HelmRunner.thy ===== *)
theory HelmRunner
  imports Names PodDiagnosis
begin

text \<open>
  \<open>helm_runner.go\<close>: which image the UI's Helm Jobs may run, the condition that explains the choice,
  and the text of \<open>/config.js\<close> that tells the UI. The image pattern is a predicate on the text, and
  what the pattern is for (a digest pin, and nothing that escapes from the quotes the value is
  served in) is proved of it.
\<close>

section \<open>The image pattern\<close>

definition image_char :: "char \<Rightarrow> bool" where
  "image_char c \<longleftrightarrow> is_lower c \<or> is_upper c \<or> is_digit c \<or> c \<in> {CHR ''.'', CHR ''_'', CHR ''/'', CHR '':'', CHR ''-''}"

definition image_start :: "char \<Rightarrow> bool" where
  "image_start c \<longleftrightarrow> is_lower c \<or> is_upper c \<or> is_digit c"

text \<open>\<open>^[A-Za-z0-9][A-Za-z0-9._/:-]*@sha256:[a-f0-9]{64}$\<close>: the part after the repository has a
  fixed length, so the match is decided by splitting there.\<close>

definition helmRunnerImagePattern :: "string \<Rightarrow> bool" where
  "helmRunnerImagePattern s =
     (let n = length s - 72; repo = take n s; rest = drop n s in
      (case repo of [] \<Rightarrow> False | c # cs \<Rightarrow> image_start c \<and> list_all image_char cs) \<and>
      take 8 rest = ''@sha256:'' \<and> length (drop 8 rest) = 64 \<and> list_all is_lower_hex (drop 8 rest))"

section \<open>Resolution\<close>

definition uiRuntimeConfigGlobal :: string where "uiRuntimeConfigGlobal = ''window.__OPENSHIFTPULSE_CONFIG__''"
definition helmRunnerConditionType :: string where "helmRunnerConditionType = ''HelmRunnerImageConfigured''"

record helm_runner_setting =
  hr_image :: string
  hr_status :: cond_status
  hr_reason :: string
  hr_message :: string

definition helm_requested :: "'w env \<Rightarrow> pulse \<Rightarrow> string \<times> string" where
  "helm_requested E cr =
     (if uc_helmRunnerImage (ui_of cr) = '''' then (e_getenv E envHelmRunnerImage, envHelmRunnerImage)
      else (uc_helmRunnerImage (ui_of cr), ''spec.ui.helmRunnerImage''))"

definition helm_not_set_message :: string where
  "helm_not_set_message =
     ''No Helm runner image: spec.ui.helmRunnerImage is unset and this operator release pins none ('' @
     envHelmRunnerImage @ ''). Helm actions in the UI are disabled.''"

definition helm_not_pinned_message :: "string \<Rightarrow> string \<Rightarrow> string" where
  "helm_not_pinned_message source img =
     source @ '' is '' @ go_quote (truncate_text img 256) @
     '', which is not digest-pinned (<repository>@sha256:<64 hex>). '' @
     ''The UI refuses a runner image that is not pinned by digest, so none is served and Helm actions in the UI are disabled.''"

definition resolveHelmRunner :: "'w env \<Rightarrow> pulse \<Rightarrow> helm_runner_setting" where
  "resolveHelmRunner E cr =
     (case helm_requested E cr of (img, source) \<Rightarrow>
        if img = ''''
        then \<lparr>hr_image = '''', hr_status = CondFalse, hr_reason = ''NotSet'', hr_message = helm_not_set_message\<rparr>
        else if \<not> helmRunnerImagePattern img
        then \<lparr>hr_image = '''', hr_status = CondFalse, hr_reason = ''NotDigestPinned'',
              hr_message = helm_not_pinned_message source img\<rparr>
        else \<lparr>hr_image = img, hr_status = CondTrue, hr_reason = ''Pinned'',
              hr_message = ''The UI runs Helm Jobs with '' @ img @ '' (from '' @ source @ '')''\<rparr>)"

definition setHelmRunnerCondition :: "'w env \<Rightarrow> pulse \<Rightarrow> helm_runner_setting \<Rightarrow> ('w, unit) action" where
  "setHelmRunnerCondition E cr s =
     set_condition E (mk_condition cr helmRunnerConditionType (hr_status s) (hr_reason s) (hr_message s))"

section \<open>The runtime configuration\<close>

text \<open>
  How \<open>json.Marshal\<close> writes a string of ASCII bytes; the UTF-8 bytes of other runes it leaves as they
  are, except for U+2028, U+2029 and invalid sequences, which no accepted image holds.
\<close>

definition json_byte :: "char \<Rightarrow> string" where
  "json_byte c =
     (if c = CHR 0x22 \<or> c = backslash then [backslash, c]
      else if c = CHR 0x0A then [backslash, CHR ''n''] else if c = CHR 0x0D then [backslash, CHR ''r'']
      else if c = CHR 0x09 then [backslash, CHR ''t''] else if c = CHR 0x08 then [backslash, CHR ''b'']
      else if c = CHR 0x0C then [backslash, CHR ''f'']
      else if (of_char c :: nat) < 32 \<or> c \<in> {CHR ''<'', CHR ''>'', CHR ''&''}
        then backslash # ''u00'' @ [hex_digit (of_char c div 16), hex_digit (of_char c mod 16)]
      else [c])"

definition json_string :: "string \<Rightarrow> string" where
  "json_string s = quote_char @ concat (map json_byte s) @ quote_char"

definition runtime_config_json :: "string \<Rightarrow> string" where
  "runtime_config_json img =
     (if img = '''' then ''{}''
      else ''{'' @ json_string ''helmInstall'' @ '':{'' @ json_string ''runnerImage'' @ '':'' @ json_string img @ ''}}'')"

definition apos :: char where "apos = CHR 0x27"

definition nginx_unsafe :: "char \<Rightarrow> bool" where
  "nginx_unsafe c \<longleftrightarrow> c = apos \<or> c = backslash \<or> c = CHR ''$''"

definition uiRuntimeConfigJS :: "helm_runner_setting \<Rightarrow> string" where
  "uiRuntimeConfigJS s =
     (let raw = runtime_config_json (hr_image s)
      in if list_ex nginx_unsafe raw then uiRuntimeConfigGlobal @ ''={};''
         else uiRuntimeConfigGlobal @ ''='' @ raw @ '';'')"

section \<open>What the pattern accepts\<close>

text \<open>The check of the UI itself, \<open>/^[^\s@]+@sha256:[a-f0-9]{64}$/i\<close>.\<close>

definition is_space_byte :: "char \<Rightarrow> bool" where
  "is_space_byte c \<longleftrightarrow> c \<in> {CHR '' '', CHR 0x09, CHR 0x0A, CHR 0x0B, CHR 0x0C, CHR 0x0D}"

definition is_hex_any_case :: "char \<Rightarrow> bool" where
  "is_hex_any_case c \<longleftrightarrow> is_lower_hex c \<or> (65 \<le> (of_char c :: nat) \<and> (of_char c :: nat) \<le> 70)"

definition ui_accepts :: "string \<Rightarrow> bool" where
  "ui_accepts s \<longleftrightarrow>
     (\<exists>repo digest. s = repo @ ''@sha256:'' @ digest \<and> repo \<noteq> [] \<and> length digest = 64 \<and>
        list_all (\<lambda>c. \<not> is_space_byte c \<and> c \<noteq> CHR ''@'') repo \<and> list_all is_hex_any_case digest)"

lemma image_char_safe:
  assumes "image_char c"
  shows "\<not> is_space_byte c" "c \<noteq> CHR ''@''" "\<not> nginx_unsafe c" "json_byte c = [c]"
proof -
  have bad: "\<not> image_char x"
    if "x \<in> {CHR '' '', CHR 0x09, CHR 0x0A, CHR 0x0B, CHR 0x0C, CHR 0x0D, CHR ''@'', CHR 0x27, CHR 0x5C, CHR ''$'',
      CHR 0x22, CHR 0x08, CHR ''<'', CHR ''>'', CHR ''&''}" for x
    using that by (elim insertE) (simp_all add: image_char_def is_lower_def is_upper_def is_digit_def)
  have "45 \<le> (of_char c :: nat)"
    using assms unfolding image_char_def is_lower_def is_upper_def is_digit_def by (elim disjE conjE insertE) simp_all
  moreover have "c \<notin> {CHR '' '', CHR 0x09, CHR 0x0A, CHR 0x0B, CHR 0x0C, CHR 0x0D, CHR ''@'', CHR 0x27, CHR 0x5C, CHR ''$'',
      CHR 0x22, CHR 0x08, CHR ''<'', CHR ''>'', CHR ''&''}"
    using bad assms by blast
  ultimately show "\<not> is_space_byte c" "c \<noteq> CHR ''@''" "\<not> nginx_unsafe c" "json_byte c = [c]"
    unfolding is_space_byte_def nginx_unsafe_def apos_def backslash_def json_byte_def by simp_all
qed

lemma image_start_char: "image_start c \<Longrightarrow> image_char c"
  by (auto simp: image_start_def image_char_def)

lemma hex_safe:
  assumes "is_lower_hex c"
  shows "is_hex_any_case c" "\<not> nginx_unsafe c" "json_byte c = [c]"
proof -
  from assms have "is_lower c \<or> is_digit c"
    by (auto simp: is_lower_hex_def is_lower_def)
  then have "image_char c" by (auto simp: image_char_def)
  with assms show "is_hex_any_case c" "\<not> nginx_unsafe c" "json_byte c = [c]"
    by (simp_all add: image_char_safe is_hex_any_case_def)
qed

lemma pattern_split:
  assumes "helmRunnerImagePattern s"
  obtains repo digest where "s = repo @ ''@sha256:'' @ digest" "repo \<noteq> []" "list_all image_char repo"
    "length digest = 64" "list_all is_lower_hex digest"
proof
  let ?n = "length s - 72"
  from assms show "take ?n s \<noteq> []" "list_all image_char (take ?n s)" "length (drop 8 (drop ?n s)) = 64"
      "list_all is_lower_hex (drop 8 (drop ?n s))"
    by (auto simp: helmRunnerImagePattern_def Let_def image_start_char split: list.splits)
  from assms have "take 8 (drop ?n s) = ''@sha256:''"
    by (simp add: helmRunnerImagePattern_def Let_def)
  then have "drop ?n s = ''@sha256:'' @ drop 8 (drop ?n s)"
    using append_take_drop_id [of 8 "drop ?n s"] by metis
  then show "s = take ?n s @ ''@sha256:'' @ drop 8 (drop ?n s)"
    using append_take_drop_id [of ?n s] by metis
qed

lemma pattern_safe:
  assumes "helmRunnerImagePattern s"
  shows "ui_accepts s" "list_all (\<lambda>c. \<not> nginx_unsafe c) s" "concat (map json_byte s) = s"
proof -
  from assms obtain repo digest where s: "s = repo @ ''@sha256:'' @ digest" "repo \<noteq> []" "list_all image_char repo"
    "length digest = 64" "list_all is_lower_hex digest" by (rule pattern_split)
  show "ui_accepts s"
    unfolding ui_accepts_def
    by (rule exI [of _ repo], rule exI [of _ digest]) (use s in \<open>auto simp: list_all_iff image_char_safe hex_safe\<close>)
  show "list_all (\<lambda>c. \<not> nginx_unsafe c) s"
    using s by (auto simp: list_all_iff image_char_safe hex_safe) (simp_all add: nginx_unsafe_def apos_def backslash_def)
  have "concat (map json_byte r) = r" if "list_all (\<lambda>c. json_byte c = [c]) r" for r
    using that by (induction r) auto
  moreover have "list_all (\<lambda>c. json_byte c = [c]) s"
    using s by (auto simp: list_all_iff image_char_safe hex_safe) (simp_all add: json_byte_def backslash_def)
  ultimately show "concat (map json_byte s) = s" by blast
qed

lemma runtime_config_of_safe:
  assumes "list_all (\<lambda>c. \<not> nginx_unsafe c) img" "concat (map json_byte img) = img"
  shows "list_all (\<lambda>c. \<not> nginx_unsafe c) (runtime_config_json img)"
  using assms
  by (auto simp: runtime_config_json_def json_string_def quote_char_def json_byte_def nginx_unsafe_def apos_def backslash_def)

section \<open>Property\<close>

text \<open>
  C38: The UI is served a Helm runner image exactly when the requested one (the spec's, else the
  release's) is pinned by digest, and then that very image; anything served passes the UI's own,
  looser check; and the text of \<open>/config.js\<close> holds the image verbatim and never a character that
  would leave the single-quoted nginx string it is embedded in.
\<close>

theorem helm_image_is_pinned:
  "let img = fst (helm_requested E cr); st = resolveHelmRunner E cr in
   hr_image st = (if helmRunnerImagePattern img then img else '''') \<and>
   hr_status st = (if hr_image st = '''' then CondFalse else CondTrue) \<and>
   (hr_image st = '''' \<or> ui_accepts (hr_image st)) \<and>
   uiRuntimeConfigJS st = uiRuntimeConfigGlobal @
     (if hr_image st = '''' then ''={};''
      else ''={'' @ quote_char @ ''helmInstall'' @ quote_char @ '':{'' @ quote_char @ ''runnerImage'' @ quote_char @ '':'' @
           quote_char @ hr_image st @ quote_char @ ''}};'') \<and>
   list_all (\<lambda>c. \<not> nginx_unsafe c) (uiRuntimeConfigJS st)"
proof -
  define img where "img = fst (helm_requested E cr)"
  have empty: "\<not> helmRunnerImagePattern ''''"
    by (simp add: helmRunnerImagePattern_def)
  have st: "hr_image (resolveHelmRunner E cr) = (if helmRunnerImagePattern img then img else '''')"
    "hr_status (resolveHelmRunner E cr) = (if helmRunnerImagePattern img then CondTrue else CondFalse)"
    using empty by (auto simp: resolveHelmRunner_def img_def split: prod.split)
  have names: "json_string ''helmInstall'' = quote_char @ ''helmInstall'' @ quote_char"
    "json_string ''runnerImage'' = quote_char @ ''runnerImage'' @ quote_char"
    by (simp_all add: json_string_def json_byte_def backslash_def)
  have global: "list_all (\<lambda>c. \<not> nginx_unsafe c) uiRuntimeConfigGlobal"
    by (simp add: uiRuntimeConfigGlobal_def nginx_unsafe_def apos_def backslash_def)
  show ?thesis
  proof (cases "helmRunnerImagePattern img")
    case True
    then have ne: "img \<noteq> ''''" using empty by auto
    have safe: "\<not> list_ex nginx_unsafe (runtime_config_json img)"
      using runtime_config_of_safe [OF pattern_safe(2,3) [OF True]] by (auto simp: list_all_iff list_ex_iff)
    then have "uiRuntimeConfigJS (resolveHelmRunner E cr) = uiRuntimeConfigGlobal @ ''='' @ runtime_config_json img @ '';''"
      using True by (simp add: uiRuntimeConfigJS_def Let_def st)
    moreover have "list_all (\<lambda>c. \<not> nginx_unsafe c) (uiRuntimeConfigGlobal @ ''='' @ runtime_config_json img @ '';'')"
      using global safe by (auto simp: list_all_iff list_ex_iff nginx_unsafe_def apos_def backslash_def)
    ultimately show ?thesis
      using True ne pattern_safe(1) [OF True] pattern_safe(3) [OF True]
      by (simp add: Let_def st img_def [symmetric] runtime_config_json_def names json_string_def [of img])
  next
    case False
    then show ?thesis
      using global
      by (simp add: Let_def st img_def [symmetric] uiRuntimeConfigJS_def runtime_config_json_def nginx_unsafe_def apos_def backslash_def)
  qed
qed

end
