(* ===== verification/Tokens.thy ===== *)
theory Tokens
  imports Names
begin

text \<open>
  The random material of the operator: \<open>generateToken\<close> (agent), \<open>generatePassword\<close> (PostgreSQL),
  \<open>generateCookieSecret\<close> and \<open>isValidCookieSecret\<close> (UI). The properties say what every byte string
  the random source may deliver becomes.
\<close>

definition generateToken :: "'w env \<Rightarrow> ('w, string) fallible" where
  "generateToken E = bindE (wrapE ''crypto/rand read'' (rand_read E 16)) (\<lambda>b. ok (hex_encode b))"

definition generatePassword :: "'w env \<Rightarrow> nat \<Rightarrow> ('w, string) fallible" where
  "generatePassword E n = bindE (rand_read E ((n + 1) div 2)) (\<lambda>b. ok (take n (hex_encode b)))"

definition generateCookieSecret :: "'w env \<Rightarrow> ('w, string) fallible" where
  "generateCookieSecret E = bindE (wrapE ''crypto/rand'' (rand_read E 24)) (\<lambda>b. ok (b64_encode b))"

definition isValidCookieSecret :: "string \<Rightarrow> bool" where
  "isValidCookieSecret b \<longleftrightarrow>
     length b = 32 \<and> list_all (\<lambda>c. \<not> ((of_char c :: nat) < 33 \<or> (of_char c :: nat) > 126)) b"

lemma run_rand_read:
  "run_state (rand_read E n) s =
     (case e_rand E (os_world s) of
        (Inl e, w) \<Rightarrow> (Inl e, s\<lparr>os_world := w\<rparr>)
      | (Inr f, w) \<Rightarrow> (Inr (map f [0..<n]), s\<lparr>os_world := w\<rparr>))"
  by (simp add: rand_read_def split: prod.split sum.split)

lemmas token_defs = generateToken_def generatePassword_def generateCookieSecret_def

text \<open>No generator touches the cluster.\<close>

lemma touches_tokens:
  "touches ws ds (generateToken E)" "touches ws ds (generatePassword E n)" "touches ws ds (generateCookieSecret E)"
  unfolding token_defs by (intro allc.rules)+

lemma guards_tokens:
  "guards permit seen (generateToken E)" "guards permit seen (generatePassword E n)"
  "guards permit seen (generateCookieSecret E)"
  unfolding token_defs by (intro grd.rules)+

lemma keeps_tokens: "keeps g (generateToken E)" "keeps g (generatePassword E n)" "keeps g (generateCookieSecret E)"
  unfolding token_defs by (intro view.rules)+

lemma hex_encode_all_hex: "list_all is_lower_hex (hex_encode bs)"
  by (auto simp: list_all_iff dest: hex_encode_lower_hex)

lemma hex_encode_all_hex_take: "list_all is_lower_hex (take n (hex_encode bs))"
  using hex_encode_all_hex by (auto simp: list_all_iff dest: in_set_takeD)

lemma b64_24_valid: "length b = 24 \<Longrightarrow> isValidCookieSecret (b64_encode b)"
  using b64_encode_printable [of _ b] by (fastforce simp: isValidCookieSecret_def length_b64_encode list_all_iff)

section \<open>Properties\<close>

text \<open>
  Whenever the random source delivers, a generated password has exactly the requested number of
  characters and a token has 32, all lower-case hexadecimal digits, so they need no escaping in a
  URL, a header or an environment variable; when the source fails its error is returned.
\<close>

theorem generated_secrets_are_hex:
  "case fst (e_rand E (os_world s)) of
     Inl e \<Rightarrow> fst (run_state (generatePassword E n) s) = Inl e \<and>
       fst (run_state (generateToken E) s) = Inl (Wrap ''crypto/rand read'' e)
   | Inr f \<Rightarrow> \<exists>pw tok. fst (run_state (generatePassword E n) s) = Inr pw \<and> length pw = n \<and> list_all is_lower_hex pw \<and>
       fst (run_state (generateToken E) s) = Inr tok \<and> length tok = 32 \<and> list_all is_lower_hex tok"
  by (auto simp: generatePassword_def generateToken_def run_rand_read length_hex_encode
      hex_encode_all_hex hex_encode_all_hex_take split: prod.splits sum.splits)

text \<open>
  Whenever the random source delivers, the generated cookie secret passes the validity check
  that would otherwise regenerate it on the next pass: 32 printable bytes.
\<close>

theorem generated_cookie_is_valid:
  "case fst (e_rand E (os_world s)) of
     Inl e \<Rightarrow> fst (run_state (generateCookieSecret E) s) = Inl (Wrap ''crypto/rand'' e)
   | Inr f \<Rightarrow> \<exists>c. fst (run_state (generateCookieSecret E) s) = Inr c \<and> isValidCookieSecret c"
  by (auto simp: generateCookieSecret_def run_rand_read b64_24_valid split: prod.splits sum.splits)

end
