(* ===== verification/Cleanup.thy ===== *)
theory Cleanup
  imports Names SimCluster
begin

text \<open>
  Every deletion of the operator outside the PostgreSQL reconciler: the guarded deletions of
  \<open>remove_helpers.go\<close>, the migration helper of \<open>agent_reconciler.go\<close>, the removal of the
  cluster-scoped objects of a deleted or rejected instance (\<open>openshiftpulse_controller.go\<close>). Each is
  shown to delete only what it has just read and found to be the instance's own.
\<close>

section \<open>Guarded deletions\<close>

text \<open>What \<open>%T\<close> prints for the objects these helpers are called with.\<close>

fun go_type :: "kind \<Rightarrow> string" where
  "go_type KNetworkPolicy = ''*v1.NetworkPolicy''"
| "go_type KDeployment = ''*v1.Deployment''"
| "go_type KService = ''*v1.Service''"
| "go_type KConfigMap = ''*v1.ConfigMap''"
| "go_type KSecret = ''*v1.Secret''"
| "go_type KServiceAccount = ''*v1.ServiceAccount''"
| "go_type KClusterRole = ''*v1.ClusterRole''"
| "go_type KClusterRoleBinding = ''*v1.ClusterRoleBinding''"
| "go_type _ = ''*v1.Object''"

definition delete_text :: "okey \<Rightarrow> string" where
  "delete_text k = ''delete '' @ go_type (k_kind k) @ '' '' @ k_name k"

definition deleteOwned :: "'w env \<Rightarrow> pulse \<Rightarrow> kind \<Rightarrow> string \<Rightarrow> ('w, unit) fallible" where
  "deleteOwned E cr kd name =
     (let k = key kd (p_namespace cr) name in
      do { r \<leftarrow> api_get E k;
           case r of
             Inl e \<Rightarrow> if is_not_found e then ok () else fail (Api e)
           | Inr x \<Rightarrow>
               if \<not> e_controlledBy E x cr then ok ()
               else do {
                 d \<leftarrow> api_delete E k;
                 case d of
                   Inl e \<Rightarrow> if is_not_found e then ok () else fail (Wrap (delete_text k) (Api e))
                 | Inr _ \<Rightarrow> ok () } })"

definition deleteOwnedClusterScoped :: "'w env \<Rightarrow> pulse \<Rightarrow> kind \<Rightarrow> string \<Rightarrow> ('w, unit) fallible" where
  "deleteOwnedClusterScoped E cr kd name =
     (let k = key kd '''' name in
      do { r \<leftarrow> api_get E k;
           case r of
             Inl e \<Rightarrow> if is_not_found e then ok () else fail (Api e)
           | Inr x \<Rightarrow>
               if owner_uid x \<noteq> p_uid cr then ok ()
               else do {
                 d \<leftarrow> api_delete E k;
                 case d of
                   Inl e \<Rightarrow> if is_not_found e then ok () else fail (Wrap (delete_text k) (Api e))
                 | Inr _ \<Rightarrow> ok () } })"

definition deleteStaleUnqualifiedClusterScopedResource ::
  "'w env \<Rightarrow> pulse \<Rightarrow> kind \<Rightarrow> string \<Rightarrow> ('w, unit) fallible" where
  "deleteStaleUnqualifiedClusterScopedResource E cr kd oldName =
     (let k = key kd '''' oldName in
      do { r \<leftarrow> api_get E k;
           case r of
             Inl e \<Rightarrow> if is_not_found e then ok () else fail (Api e)
           | Inr x \<Rightarrow>
               if owner_uid x \<noteq> p_uid cr then ok ()
               else do {
                 d \<leftarrow> api_delete E k;
                 case d of
                   Inl e \<Rightarrow> if is_not_found e then ok () else fail (Api e)
                 | Inr _ \<Rightarrow> ok () } })"

section \<open>The cluster-scoped objects of an instance\<close>

definition gone :: "api_error \<Rightarrow> bool" where
  "gone e \<longleftrightarrow> is_not_found e \<or> is_no_match e"

text \<open>The closure \<open>del\<close>: the errors it appends to \<open>errs\<close>.\<close>

definition del_cluster_scoped :: "'w env \<Rightarrow> pulse \<Rightarrow> kind \<times> string \<times> string \<Rightarrow> ('w, go_error list) action" where
  "del_cluster_scoped E cr t =
     (case t of (kd, name, desc) \<Rightarrow>
      do { r \<leftarrow> api_get E (key kd '''' name);
           case r of
             Inl e \<Rightarrow> ret (if gone e then [] else [Wrap (''get '' @ desc) (Api e)])
           | Inr x \<Rightarrow>
               if owner_uid x \<noteq> '''' \<and> owner_uid x \<noteq> p_uid cr then ret []
               else do {
                 d \<leftarrow> api_delete E (key kd '''' name);
                 case d of
                   Inl e \<Rightarrow> ret (if gone e then [] else [Wrap (''delete '' @ desc) (Api e)])
                 | Inr _ \<Rightarrow> ret [] } })"

definition del_stale :: "'w env \<Rightarrow> pulse \<Rightarrow> kind \<times> string \<times> string \<Rightarrow> ('w, go_error list) action" where
  "del_stale E cr t =
     (case t of (kd, oldName, desc) \<Rightarrow>
      do { r \<leftarrow> deleteStaleUnqualifiedClusterScopedResource E cr kd oldName;
           ret (case r of Inl e \<Rightarrow> [Wrap (''delete stale unqualified '' @ desc) e] | Inr _ \<Rightarrow> []) })"

fun collect :: "('w, go_error list) action list \<Rightarrow> ('w, go_error list) action" where
  "collect [] = ret []"
| "collect (a # as) = do { es \<leftarrow> a; fs \<leftarrow> collect as; ret (es @ fs) }"

definition cluster_scoped_targets :: "pulse \<Rightarrow> (kind \<times> string \<times> string) list" where
  "cluster_scoped_targets cr =
     (let n = p_name cr; ns = p_namespace cr in
      [(KClusterRole, agentClusterRoleName n ns, ''agent ClusterRole''),
       (KClusterRole, uiClusterRoleName n ns, ''UI ClusterRole''),
       (KClusterRoleBinding, agentClusterRoleName n ns, ''agent ClusterRoleBinding''),
       (KClusterRoleBinding, agentMonitoringViewBindingName n ns, ''agent monitoring-view ClusterRoleBinding''),
       (KClusterRoleBinding, uiClusterRoleName n ns, ''UI ClusterRoleBinding''),
       (KClusterRoleBinding, uiClusterRoleName n ns @ ''-auth-delegator'', ''UI auth-delegator ClusterRoleBinding''),
       (KClusterRole, mcpClusterRoleName n ns, ''MCP ClusterRole''),
       (KClusterRoleBinding, mcpClusterRoleName n ns, ''MCP ClusterRoleBinding'')])"

definition stale_targets :: "pulse \<Rightarrow> (kind \<times> string \<times> string) list" where
  "stale_targets cr =
     (let n = p_name cr in
      [(KClusterRole, agentResourceName n, ''agent ClusterRole''),
       (KClusterRoleBinding, agentResourceName n, ''agent ClusterRoleBinding''),
       (KClusterRole, uiClusterRoleNameUnqualified n, ''UI ClusterRole''),
       (KClusterRoleBinding, uiClusterRoleNameUnqualified n, ''UI ClusterRoleBinding''),
       (KClusterRoleBinding, uiClusterRoleNameUnqualified n @ ''-auth-delegator'', ''UI auth-delegator ClusterRoleBinding''),
       (KClusterRole, mcpResourceName n, ''MCP ClusterRole''),
       (KClusterRoleBinding, mcpResourceName n, ''MCP ClusterRoleBinding'')])"

definition oauth_client_target :: "pulse \<Rightarrow> kind \<times> string \<times> string" where
  "oauth_client_target cr = (KOAuthClient, oauthClientName (p_name cr) (p_namespace cr), ''OAuthClient'')"

definition deleteClusterScopedResources :: "'w env \<Rightarrow> pulse \<Rightarrow> ('w, unit) fallible" where
  "deleteClusterScopedResources E cr =
     do { errs \<leftarrow> collect (map (del_cluster_scoped E cr) (cluster_scoped_targets cr) @
                        map (del_stale E cr) (stale_targets cr) @
                        [del_cluster_scoped E cr (oauth_client_target cr)]);
          ret (errors_join errs) }"

section \<open>What they delete\<close>

definition target_key :: "kind \<times> string \<times> string \<Rightarrow> okey" where
  "target_key t = (case t of (kd, name, _) \<Rightarrow> key kd '''' name)"

lemma target_key_simp [simp]: "target_key (kd, name, d) = key kd '''' name"
  by (simp add: target_key_def)

definition cluster_scoped_keys :: "pulse \<Rightarrow> okey set" where
  "cluster_scoped_keys cr =
     target_key ` set (cluster_scoped_targets cr @ stale_targets cr @ [oauth_client_target cr])"

context step_rel
begin

lemma s_collect: "(\<And>a. a \<in> set as \<Longrightarrow> steps R a) \<Longrightarrow> steps R (collect as)"
  by (induction as) (auto intro!: s_bind s_ret)

end

lemma touches_deleteOwned: "touches {} {key kd (p_namespace cr) name} (deleteOwned E cr kd name)"
  unfolding deleteOwned_def by (intro allc.rules) simp_all

lemma touches_deleteOwnedClusterScoped: "touches {} {key kd '''' name} (deleteOwnedClusterScoped E cr kd name)"
  unfolding deleteOwnedClusterScoped_def by (intro allc.rules) simp_all

lemma touches_deleteStale: "touches {} {key kd '''' name} (deleteStaleUnqualifiedClusterScopedResource E cr kd name)"
  unfolding deleteStaleUnqualifiedClusterScopedResource_def by (intro allc.rules) simp_all

lemma touches_del_cluster_scoped: "touches {} {target_key t} (del_cluster_scoped E cr t)"
  unfolding del_cluster_scoped_def target_key_def by (cases t) (simp, intro allc.rules, simp_all)

lemma touches_del_stale: "touches {} {target_key t} (del_stale E cr t)"
  unfolding del_stale_def target_key_def
  by (cases t) (simp, intro allc.rules touches_mono [OF touches_deleteStale], simp_all)

lemma touches_deleteClusterScopedResources:
  "touches {} (cluster_scoped_keys cr) (deleteClusterScopedResources E cr)"
  unfolding deleteClusterScopedResources_def cluster_scoped_keys_def
  by (intro allc.rules allc.s_collect)
     (auto intro!: touches_mono [OF touches_del_cluster_scoped] touches_mono [OF touches_del_stale])

section \<open>The deletion policy\<close>

text \<open>
  What the operator must have read before it deletes an object, for the instance \<open>cr\<close>: a
  cluster-scoped object must be stamped with the instance's UID or carry no stamp, a namespaced
  object must be controlled by the instance. Exempt are four objects the operator replaces because
  it cannot adopt them (the two workloads, for which it must have seen an immutable selector that
  does not match, the stuck database pod and the former nginx ConfigMap) and the two objects deleted
  on the user's request.
\<close>

definition agent_selector_mismatch :: "string \<Rightarrow> deployment \<Rightarrow> bool" where
  "agent_selector_mismatch name d =
     (case de_selector d of None \<Rightarrow> True | Some m \<Rightarrow> sget m ''app'' \<noteq> name)"

definition pg_selector_mismatch :: "string \<Rightarrow> stateful_set \<Rightarrow> bool" where
  "pg_selector_mismatch crName ss =
     (case ss_selector ss of None \<Rightarrow> False
      | Some m \<Rightarrow> list_ex (\<lambda>(k, v). map_of m k \<noteq> Some v) (pgLabels crName))"

definition deletion_policy :: "'w env \<Rightarrow> pulse \<Rightarrow> permit" where
  "deletion_policy E cr k =
     (let n = p_name cr; ns = p_namespace cr in
      if k_namespace k = '''' then Some (\<lambda>x. owner_uid x = '''' \<or> owner_uid x = p_uid cr)
      else if k = key KDeployment ns (agentResourceName n)
        then Some (\<lambda>x. agent_selector_mismatch (agentResourceName n) (as_deployment x))
      else if k = key KStatefulSet ns (pgName n) then Some (\<lambda>x. pg_selector_mismatch n (as_stateful_set x))
      else if k \<in> {key KPod ns (pgName n @ ''-0''), key KConfigMap ns (uiNginxSecretName n),
                    key KSecret ns (pgAuthSecretName n), key KPersistentVolumeClaim ns (pgVolumeName (pgName n))}
        then None
      else Some (\<lambda>x. e_controlledBy E x cr))"

lemma policy_cluster_scoped [simp]:
  "deletion_policy E cr (key kd '''' n) = Some (\<lambda>x. owner_uid x = '''' \<or> owner_uid x = p_uid cr)"
  by (simp add: deletion_policy_def)

abbreviation follows_policy :: "'w env \<Rightarrow> pulse \<Rightarrow> ('w, 'a) action \<Rightarrow> bool" where
  "follows_policy E cr m \<equiv> guards (deletion_policy E cr) [] m"

lemma guards_deleteOwnedClusterScoped: "follows_policy E cr (deleteOwnedClusterScoped E cr kd name)"
  unfolding deleteOwnedClusterScoped_def Let_def by (intro guards_get grd.rules) simp_all

lemma guards_deleteStale: "follows_policy E cr (deleteStaleUnqualifiedClusterScopedResource E cr kd name)"
  unfolding deleteStaleUnqualifiedClusterScopedResource_def Let_def by (intro guards_get grd.rules) simp_all

lemma guards_deleteOwned:
  assumes "p_namespace cr \<noteq> ''''"
    and "deletion_policy E cr (key kd (p_namespace cr) name) = Some (\<lambda>x. e_controlledBy E x cr)"
  shows "follows_policy E cr (deleteOwned E cr kd name)"
  unfolding deleteOwned_def Let_def by (intro guards_get grd.rules) (use assms in simp_all)

lemma guards_del_cluster_scoped: "follows_policy E cr (del_cluster_scoped E cr t)"
  unfolding del_cluster_scoped_def by (cases t) (simp, intro guards_get grd.rules, auto)

lemma guards_deleteClusterScopedResources: "follows_policy E cr (deleteClusterScopedResources E cr)"
  unfolding deleteClusterScopedResources_def del_stale_def
  by (intro grd.rules grd.s_collect)
     (auto intro!: guards_del_cluster_scoped grd.rules guards_deleteStale split: prod.split)

end
