(* ===== verification/ClusterDetect.thy ===== *)
theory ClusterDetect
  imports Names SimCluster
begin

text \<open>
  \<open>cluster_detect.go\<close>: the ingress domain, the oauth-proxy image and the presence of ACM, read from
  the cluster and cached once the ingress domain could be read.
\<close>

definition ACMObservabilityNS :: string where
  "ACMObservabilityNS = ''open-cluster-management-observability''"

text \<open>The two loops over the tags of the oauth-proxy ImageStream.\<close>

fun spec_tag_image :: "(string \<times> string option) list \<Rightarrow> string \<Rightarrow> string" where
  "spec_tag_image [] img = img"
| "spec_tag_image ((name, from) # tags) img =
     (if name = ''v4.4'' \<or> name = ''latest''
      then (case from of Some ref \<Rightarrow> if ref \<noteq> '''' then ref else img | None \<Rightarrow> img)
      else spec_tag_image tags img)"

fun status_tag_image :: "string \<Rightarrow> (string \<times> string list) list \<Rightarrow> string \<Rightarrow> string" where
  "status_tag_image repo [] img = img"
| "status_tag_image repo ((tag, items) # tags) img =
     (if (tag = ''latest'' \<or> tag = ''v4.4'') \<and> items \<noteq> [] then repo @ ''@'' @ hd items
      else status_tag_image repo tags img)"

definition oauth_proxy_image :: "string \<Rightarrow> image_stream \<Rightarrow> string" where
  "oauth_proxy_image fallback is =
     (let i1 = spec_tag_image (is_specTags is) fallback
      in if is_dockerImageRepository is \<noteq> '''' \<and> CHR ''@'' \<notin> set i1
         then status_tag_image (is_dockerImageRepository is) (is_statusTags is) i1 else i1)"

definition acm_thanos_url :: string where
  "acm_thanos_url = ''http://thanos-querier.'' @ ACMObservabilityNS @ ''.svc:9091''"

text \<open>One detection: the values found, and whether the ingress domain could be read.\<close>

definition detect :: "'w env \<Rightarrow> ('w, cluster_info \<times> bool) action" where
  "detect E =
     do { i \<leftarrow> api_get E (key KIngress '''' ''cluster'');
          s \<leftarrow> api_get E (key KImageStream ''openshift'' ''oauth-proxy'');
          n \<leftarrow> api_get E (key KNamespace '''' ACMObservabilityNS);
          url \<leftarrow> (case n of
                    Inl _ \<Rightarrow> ret ''''
                  | Inr _ \<Rightarrow> do { t \<leftarrow> api_get E (key KService ACMObservabilityNS ''thanos-querier'');
                                ret (case t of Inl _ \<Rightarrow> '''' | Inr _ \<Rightarrow> acm_thanos_url) });
          let dflt = imageFromEnv E envOAuthProxyImage DefaultOAuthProxyImage;
          ret (\<lparr>ci_ingressDomain = (case i of Inr x \<Rightarrow> (case o_body x of BIngress d \<Rightarrow> d | _ \<Rightarrow> '''') | Inl _ \<Rightarrow> ''''),
                ci_oauthProxyImage = (case s of Inr x \<Rightarrow> oauth_proxy_image dflt (as_image_stream x) | Inl _ \<Rightarrow> dflt),
                ci_acmAvailable = (case n of Inr _ \<Rightarrow> True | Inl _ \<Rightarrow> False),
                ci_acmThanosURL = url\<rparr>,
               case i of Inr _ \<Rightarrow> True | Inl _ \<Rightarrow> False) }"

definition DetectClusterInfo :: "'w env \<Rightarrow> ('w, cluster_info) action" where
  "DetectClusterInfo E =
     do { c \<leftarrow> gets os_clusterInfo;
          case c of
            Some info \<Rightarrow> ret info
          | None \<Rightarrow> do { r \<leftarrow> detect E;
                       (if snd r then modify (\<lambda>s. s\<lparr>os_clusterInfo := Some (fst r)\<rparr>) else ret ());
                       ret (fst r) } }"

lemma touches_DetectClusterInfo: "touches ws ds (DetectClusterInfo E)"
  unfolding DetectClusterInfo_def detect_def Let_def by (intro allc.rules allc.e_local) simp_all

lemma guards_DetectClusterInfo: "guards permit seen (DetectClusterInfo E)"
  unfolding DetectClusterInfo_def detect_def Let_def by (intro grd.rules grd.e_local) simp_all

lemma keeps_DetectClusterInfo: "keeps g (DetectClusterInfo E)"
  unfolding DetectClusterInfo_def detect_def Let_def by (intro view.rules view.v_modify) simp_all

lemma spec_tag_image_nonempty: "img \<noteq> '''' \<Longrightarrow> spec_tag_image tags img \<noteq> ''''"
  by (induction tags img rule: spec_tag_image.induct) (auto split: option.split)

lemma status_tag_image_nonempty: "img \<noteq> '''' \<Longrightarrow> status_tag_image repo tags img \<noteq> ''''"
  by (induction repo tags img rule: status_tag_image.induct) auto

lemma oauth_proxy_image_nonempty: "fallback \<noteq> '''' \<Longrightarrow> oauth_proxy_image fallback is \<noteq> ''''"
  by (simp add: oauth_proxy_image_def Let_def spec_tag_image_nonempty status_tag_image_nonempty)

lemma detect_nonempty:
  "ci_oauthProxyImage (fst (fst (run_state (detect E) s))) \<noteq> ''''"
proof -
  have "imageFromEnv E envOAuthProxyImage DefaultOAuthProxyImage \<noteq> ''''"
    by (rule imageFromEnv_nonempty) (simp add: DefaultOAuthProxyImage_def)
  then show ?thesis
    using oauth_proxy_image_nonempty
    by (simp add: detect_def Let_def client_defs run_bind_pair del: run_state_bind split: sum.split)
qed

text \<open>Once cached, detection makes no call and its answer never changes.\<close>

lemma detect_cached:
  "os_clusterInfo s = Some info \<Longrightarrow> run_state (DetectClusterInfo E) s = (info, s)"
  by (simp add: DetectClusterInfo_def)

lemma detect_not_cached:
  "os_clusterInfo s = None \<Longrightarrow>
     os_clusterInfo (snd (run_state (DetectClusterInfo E) s)) =
       (if snd (fst (run_state (detect E) s)) then Some (fst (run_state (DetectClusterInfo E) s))
        else os_clusterInfo (snd (run_state (detect E) s)))"
  by (simp add: DetectClusterInfo_def run_bind_pair del: run_state_bind)

definition ingress_only :: "sim_world op_state" where
  "ingress_only = sim_state (sim_put (new_obj (key KIngress '''' ''cluster'') (BIngress ''apps.x'')) empty_world) (empty_pulse ''a'' ''b'' ''c'')"

section \<open>Properties\<close>

text \<open>
  C39: Detection is frozen once the ingress could be read. A call without a cached answer fills the cache
  with the answer it returns exactly when the read of the cluster's ingress succeeded, and it does so
  also when the reads of the oauth-proxy ImageStream or of the ACM namespace failed: such an answer
  holds the default proxy image, or says that ACM is absent. From then on every call, in whatever state
  the cluster is by then, returns that answer and makes no call to the API server; without the ingress
  nothing is cached and the next call detects anew. (The comment of \<open>DetectClusterInfo\<close> promises
  caching only once all fields are detected, and the README speaks of a \<open>sync.Once\<close>.)
\<close>

theorem detection_frozen_once_ingress_read:
  assumes "os_clusterInfo s = None"
  shows "let (info, s') = run_state (DetectClusterInfo E) s;
      (ingress, w1) = fetch E (key KIngress '''' ''cluster'') (os_world s);
      (stream, w2) = fetch E (key KImageStream ''openshift'' ''oauth-proxy'') w1;
      (acm, w3) = fetch E (key KNamespace '''' ACMObservabilityNS) w2;
      dflt = imageFromEnv E envOAuthProxyImage DefaultOAuthProxyImage
    in os_clusterInfo s' = (if isl ingress then None else Some info) \<and>
       ci_oauthProxyImage info = (case stream of Inl e \<Rightarrow> dflt | Inr x \<Rightarrow> oauth_proxy_image dflt (as_image_stream x)) \<and>
       ci_acmAvailable info = (\<not> isl acm) \<and> (isl acm \<longrightarrow> ci_acmThanosURL info = '''') \<and>
       (\<forall>t. \<not> isl ingress \<and> os_clusterInfo t = os_clusterInfo s' \<longrightarrow> run_state (DetectClusterInfo E) t = (info, t))"
proof -
  let ?i = "fetch E (key KIngress '''' ''cluster'') (os_world s)"
  let ?s = "fetch E (key KImageStream ''openshift'' ''oauth-proxy'') (snd ?i)"
  let ?a = "fetch E (key KNamespace '''' ACMObservabilityNS) (snd ?s)"
  let ?r = "run_state (detect E) s" and ?d = "imageFromEnv E envOAuthProxyImage DefaultOAuthProxyImage"
  have kept: "os_clusterInfo (snd ?r) = None"
    using assms by (simp add: detect_def Let_def client_defs run_bind_pair del: run_state_bind split: sum.split)
  have read: "snd (fst ?r) = (\<not> isl (fst ?i))"
    by (simp add: detect_def Let_def client_defs run_bind_pair del: run_state_bind split: sum.split)
  have contents: "ci_oauthProxyImage (fst (fst ?r)) = (case fst ?s of Inl e \<Rightarrow> ?d | Inr x \<Rightarrow> oauth_proxy_image ?d (as_image_stream x))"
      "ci_acmAvailable (fst (fst ?r)) = (\<not> isl (fst ?a))" "isl (fst ?a) \<longrightarrow> ci_acmThanosURL (fst (fst ?r)) = ''''"
    by (auto simp: detect_def Let_def client_defs run_bind_pair simp del: run_state_bind split: sum.split)
  have answer: "fst (run_state (DetectClusterInfo E) s) = fst (fst ?r)"
    using assms by (simp add: DetectClusterInfo_def run_bind_pair del: run_state_bind)
  have "os_clusterInfo (snd (run_state (DetectClusterInfo E) s)) = (if isl (fst ?i) then None else Some (fst (fst ?r)))"
    using detect_not_cached [OF assms, of E] kept read answer by simp
  then show ?thesis
    using contents answer by (auto simp: split_beta Let_def detect_cached)
qed

theorem detection_frozen_once_ingress_read_witness:
  "let (info, s') = run_state (DetectClusterInfo sim_env) ingress_only
   in os_clusterInfo s' = Some info \<and> ci_oauthProxyImage info = DefaultOAuthProxyImage \<and> \<not> ci_acmAvailable info"
proof -
  have empty: "os_clusterInfo ingress_only = None" by (simp add: ingress_only_def sim_state_def)
  have same: "snd (fetch sim_env k w) = w" for k w
    by (simp add: fetch_def sim_get_def split: option.split sum.split)
  have world: "sw_objs (os_world ingress_only) = [new_obj (key KIngress '''' ''cluster'') (BIngress ''apps.x'')]"
    by (simp add: ingress_only_def sim_state_def sim_put_def empty_world_def)
  have reads: "\<not> isl (fst (fetch sim_env (key KIngress '''' ''cluster'') (os_world ingress_only)))"
      "\<exists>e. fst (fetch sim_env (key KImageStream ''openshift'' ''oauth-proxy'') (os_world ingress_only)) = Inl e"
      "isl (fst (fetch sim_env (key KNamespace '''' ACMObservabilityNS) (os_world ingress_only)))"
    by (simp_all add: fetch_def sim_get_def world has_key_def)
  from reads(2) obtain e where stream: "fst (fetch sim_env (key KImageStream ''openshift'' ''oauth-proxy'') (os_world ingress_only)) = Inl e" ..
  have default: "imageFromEnv sim_env envOAuthProxyImage DefaultOAuthProxyImage = DefaultOAuthProxyImage"
    by (simp add: imageFromEnv_def)
  note frozen = detection_frozen_once_ingress_read [OF empty, of sim_env, unfolded Let_def split_beta same fst_conv snd_conv]
  from frozen [THEN conjunct1] frozen [THEN conjunct2, THEN conjunct1] frozen [THEN conjunct2, THEN conjunct2, THEN conjunct1]
  show ?thesis
    using reads(1,3) stream default by (simp add: split_beta Let_def)
qed

end
