(* ===== verification/Nginx.thy ===== *)
theory Nginx
  imports HelmRunner Tokens Cleanup ClusterDetect
begin

text \<open>
  The nginx configuration of the UI pod, from \<open>ui_reconciler.go\<close>: its text, line by line, as the two
  constants, the function and the two formats of the Go code, and \<open>reconcileUINginxConfigMap\<close>, which
  writes it to a Secret and returns the hash that restarts the pods.
\<close>

section \<open>The text\<close>

text \<open>Lines, each ended by a newline.\<close>

definition text_lines :: "string list \<Rightarrow> string" where
  "text_lines ls = concat (map (\<lambda>l. l @ nl) ls)"

definition uiNginxHeaders :: "string" where
  "uiNginxHeaders =
     text_lines
      [''    add_header X-Frame-Options '' @ quote_char @ ''DENY'' @ quote_char @ '' always;'',
       ''    add_header X-Content-Type-Options '' @ quote_char @ ''nosniff'' @ quote_char @ '' always;'',
       ''    add_header Strict-Transport-Security '' @ quote_char @ ''max-age=31536000; includeSubDomains'' @ quote_char @ '' always;'',
       ''    add_header Referrer-Policy '' @ quote_char @ ''strict-origin-when-cross-origin'' @ quote_char @ '' always;'']"

definition uiNginxUserAuthProxies :: "string" where
  "uiNginxUserAuthProxies =
     text_lines
      [''    # Kubernetes API proxy '' @ em_dash @ '' UI reads cluster resources directly.'',
       ''    #'',
       ''    # proxy_set_header Origin below is load-bearing, not cosmetic: the'',
       ''    # frontend watches resources (pods, deployments, etc.) over a raw'',
       ''    # WebSocket-upgraded connection to kube-apiserver'' @ [apos] @ ''s own watch endpoint'',
       ''    # (?watch=1), and kube-apiserver'' @ [apos] @ ''s WebSocket watch handler rejects the'',
       ''    # upgrade with a bare 403 (no body) unless it sees a same-origin-looking'',
       ''    # Origin header '' @ em_dash @ '' its own CSRF guard, since a WS handshake bypasses'',
       ''    # normal CORS preflight. nginx forwards unset headers through by'',
       ''    # default, so this '' @ quote_char @ ''worked'' @ quote_char @ '' implicitly before too, but only as long as'',
       ''    # nothing between the browser and here (Route, oauth-proxy) ever drops'',
       ''    # or rewrites Origin '' @ em_dash @ '' pinning it explicitly here removes that'',
       ''    # assumption and documents why it must never be removed.'',
       ''    location /api/kubernetes/ {'',
       ''      proxy_pass https://kubernetes.default.svc/;'',
       ''      proxy_ssl_verify on;'',
       ''      proxy_ssl_trusted_certificate /var/run/secrets/kubernetes.io/serviceaccount/ca.crt;'',
       ''      proxy_set_header Authorization '' @ quote_char @ ''Bearer $http_x_forwarded_access_token'' @ quote_char @ '';'',
       ''      proxy_set_header Origin $http_origin;'',
       ''      proxy_set_header Upgrade $http_upgrade;'',
       ''      proxy_set_header Connection $connection_upgrade;'',
       ''      proxy_http_version 1.1;'',
       ''      proxy_read_timeout 3600s;'',
       ''    }'',
       [],
       ''    # Thanos-querier proxy '' @ em_dash @ '' UI'' @ [apos] @ ''s CPU/memory/alert charts query PromQL'',
       ''    # directly against the cluster'' @ [apos] @ ''s own Prometheus/Thanos stack. Forwards'',
       ''    # the same OAuth access token as the Kubernetes API proxy above; reading'',
       ''    # this endpoint requires the logged-in user to hold (or be bound to) the'',
       ''    # cluster-monitoring-view ClusterRole, same as the OpenShift console'' @ [apos] @ ''s'',
       ''    # own monitoring dashboards. proxy_ssl_trusted_certificate points at the'',
       ''    # service-ca bundle (not the SA token'' @ [apos] @ ''s ca.crt, which only verifies the'',
       ''    # kube-apiserver'' @ [apos] @ ''s own certificate, not service-ca-operator-issued ones'',
       ''    # like thanos-querier'' @ [apos] @ ''s) '' @ em_dash @ '' see reconcileUIServiceCABundle.'',
       ''    location /api/prometheus/ {'',
       ''      proxy_pass https://thanos-querier.openshift-monitoring.svc:9091/;'',
       ''      proxy_ssl_verify on;'',
       ''      proxy_ssl_trusted_certificate /etc/pki/service-ca/service-ca.crt;'',
       ''      proxy_set_header Authorization '' @ quote_char @ ''Bearer $http_x_forwarded_access_token'' @ quote_char @ '';'',
       ''      proxy_read_timeout 60s;'',
       ''    }'',
       [],
       ''    # Alertmanager proxy '' @ em_dash @ '' UI'' @ [apos] @ ''s Alerts view reads firing alerts/rules via'',
       ''    # /api/prometheus/ above, but silences (list/create/expire) are an'',
       ''    # Alertmanager-only API with no Thanos equivalent. Without this location'',
       ''    # /api/alertmanager/* fell through to the SPA catch-all below, silently'',
       ''    # returning index.html (200, text/html) instead of proxying anywhere '' @ em_dash,
       ''    # the UI correctly treated the non-JSON response as '' @ quote_char @ ''backend down'' @ quote_char @ '', but'',
       ''    # the real cause was a missing proxy, not a misconfigured/absent'',
       ''    # Prometheus. Same serving-ca bundle as Thanos (both are signed by the'',
       ''    # cluster'' @ [apos] @ ''s own service-ca). Reading/writing this endpoint requires the'',
       ''    # logged-in user to hold (or be bound to) monitoring-alertmanager-view'',
       ''    # (read) or monitoring-alertmanager-edit (read+write silences) in the'',
       ''    # openshift-monitoring project '' @ em_dash @ '' see that Service'' @ [apos] @ ''s own'',
       ''    # openshift.io/description annotation.'',
       ''    location /api/alertmanager/ {'',
       ''      proxy_pass https://alertmanager-main.openshift-monitoring.svc:9094/;'',
       ''      proxy_ssl_verify on;'',
       ''      proxy_ssl_trusted_certificate /etc/pki/service-ca/service-ca.crt;'',
       ''      proxy_set_header Authorization '' @ quote_char @ ''Bearer $http_x_forwarded_access_token'' @ quote_char @ '';'',
       ''      proxy_read_timeout 60s;'',
       ''    }'',
       []]"

definition uiNginxStatic :: "string \<Rightarrow> string" where
  "uiNginxStatic configJS =
     text_lines
      [''    # Runtime config served by nginx (no disk file needed).'',
       ''    location = /config.js {'',
       ''      add_header Content-Type application/javascript;'',
       ''      return 200 '' @ [apos] @ configJS @ [apos] @ '';'',
       ''    }'',
       ''    location /healthz { return 200 '' @ [apos] @ ''OK'' @ [backslash] @ ''n'' @ [apos] @ ''; add_header Content-Type text/plain; }'',
       ''    location ~* '' @ [backslash] @ ''.(js|css|png|svg|ico|woff2?|ttf|eot|map)$ {'',
       ''      try_files $uri =404;'',
       ''      expires 1y;'',
       ''      add_header Cache-Control '' @ quote_char @ ''public, immutable'' @ quote_char @ '';'',
       ''    }'',
       ''    location / { try_files $uri $uri/ /index.html; }'']"

definition render_server :: "string \<Rightarrow> string" where
  "render_server static =
     text_lines
      [''  server {'',
       ''    listen '' @ itoa uiRenderPort @ '';'',
       ''    server_name _;'',
       ''    root /opt/app-root/src;'',
       ''    index index.html;'',
       [],
       uiNginxHeaders,
       uiNginxUserAuthProxies @ ''    location /api/agent/ { return 404; }'',
       [],
       static @ ''  }'']"

definition nginx_conf :: "string \<Rightarrow> string \<Rightarrow> string \<Rightarrow> string \<Rightarrow> string" where
  "nginx_conf agentSvc wsToken static renderServer =
     text_lines
      [''worker_processes auto;'',
       ''error_log /dev/stderr warn;'',
       ''pid /tmp/nginx.pid;'',
       ''events { worker_connections 1024; }'',
       ''http {'',
       ''  include /etc/nginx/mime.types;'',
       ''  default_type application/octet-stream;'',
       ''  access_log /dev/stdout;'',
       ''  sendfile on;'',
       ''  keepalive_timeout 65;'',
       ''  client_body_temp_path /tmp/client_temp;'',
       ''  proxy_temp_path /tmp/proxy_temp;'',
       ''  fastcgi_temp_path /tmp/fastcgi_temp;'',
       ''  uwsgi_temp_path /tmp/uwsgi_temp;'',
       ''  scgi_temp_path /tmp/scgi_temp;'',
       ''  map $http_upgrade $connection_upgrade {'',
       ''    default upgrade;'',
       ''    '' @ [apos] @ [apos] @ '' close;'',
       ''  }'',
       ''  server {'',
       ''    listen 8080;'',
       ''    server_name _;'',
       ''    root /opt/app-root/src;'',
       ''    index index.html;'',
       [],
       uiNginxHeaders,
       uiNginxUserAuthProxies @ ''    # X-Forwarded-User is cleared on both agent routes. oauth-proxy runs'',
       ''    # without --pass-user-headers, so a value here can only have come from the'',
       ''    # browser, and the agent trusts it ahead of TokenReview: anyone signed in'',
       ''    # could claim to be an admin. The agent resolves the caller from'',
       ''    # X-Forwarded-Access-Token, which oauth-proxy does set.'',
       ''    # Agent WebSocket '' @ em_dash @ '' appends the shared token as a query param.'',
       ''    # SECURITY NOTE: unlike the REST proxy below (Authorization: Bearer header),'',
       ''    # this passes the token via the upstream URL, which risks it appearing in'',
       ''    # the agent'' @ [apos] @ ''s own request logs. It is NOT switched to a header here because'',
       ''    # the agent'' @ [apos] @ ''s WebSocket handler (github.com/PulseSRE/pulse-agent, a separate'',
       ''    # repo) is what actually authenticates the connection '' @ em_dash @ '' changing the wire'',
       ''    # format on this side alone, without confirming the handler reads a header'',
       ''    # too, would silently break every WebSocket connection. Coordinate a'',
       ''    # protocol change with pulse-agent before changing this.'',
       ''    location ~ ^/api/agent/ws/(sre|security|monitor|agent)$ {'',
       ''      proxy_pass http://'' @ agentSvc @ '':8080/ws/$1?token='' @ wsToken @ '';'',
       ''      proxy_set_header Upgrade $http_upgrade;'',
       ''      proxy_set_header Connection $connection_upgrade;'',
       ''      proxy_set_header X-Forwarded-Access-Token $http_x_forwarded_access_token;'',
       ''      proxy_set_header X-Forwarded-User '' @ quote_char @ quote_char @ '';'',
       ''      proxy_http_version 1.1;'',
       ''      proxy_read_timeout 3600s;'',
       ''    }'',
       [],
       ''    # Agent REST API (inbox, views, briefing, metrics, etc.).'',
       ''    location /api/agent/ {'',
       ''      proxy_pass http://'' @ agentSvc @ '':8080/;'',
       ''      proxy_set_header Authorization '' @ quote_char @ ''Bearer '' @ wsToken @ quote_char @ '';'',
       ''      proxy_set_header X-Forwarded-Access-Token $http_x_forwarded_access_token;'',
       ''      proxy_set_header X-Forwarded-User '' @ quote_char @ quote_char @ '';'',
       ''      proxy_read_timeout 60s;'',
       ''    }'',
       [],
       static @ ''  }'',
       renderServer @ ''}'']"

section \<open>The reconciler\<close>

text \<open>The token of the agent's Secret; \<open>""\<close> when the Secret cannot be read or has no such key.\<close>

definition read_ws_token :: "'w env \<Rightarrow> pulse \<Rightarrow> ('w, string) action" where
  "read_ws_token E cr =
     do { r \<leftarrow> api_get E (key KSecret (p_namespace cr) (wsTokenSecretName (p_name cr)));
          ret (case r of Inl _ \<Rightarrow> '''' | Inr x \<Rightarrow> sget (se_data (as_secret x)) ''token'') }"

definition ui_nginx_conf :: "'w env \<Rightarrow> pulse \<Rightarrow> string \<Rightarrow> string" where
  "ui_nginx_conf E cr wsToken =
     (let static = uiNginxStatic (uiRuntimeConfigJS (resolveHelmRunner E cr)) in
      nginx_conf (agentResourceName (p_name cr)) wsToken static
        (if renderEnabled cr then render_server static else ''''))"

definition nginx_hash :: "'w env \<Rightarrow> string \<Rightarrow> string" where
  "nginx_hash E conf = take 8 (hex_encode (e_sha256 E conf))"

definition nginx_mutate :: "'w env \<Rightarrow> pulse \<Rightarrow> string \<Rightarrow> kobj \<Rightarrow> go_error + kobj" where
  "nginx_mutate E cr conf =
     owned_by E cr (\<lambda>y. Inr (y\<lparr>o_body := BSecret ((as_secret y)\<lparr>se_data := [(''nginx.conf'', conf)]\<rparr>)\<rparr>))"

definition reconcileUINginxConfigMap :: "'w env \<Rightarrow> pulse \<Rightarrow> ('w, string) fallible" where
  "reconcileUINginxConfigMap E cr =
     (let name = uiNginxSecretName (p_name cr) in
      do { wsToken \<leftarrow> read_ws_token E cr;
           setHelmRunnerCondition E cr (resolveHelmRunner E cr);
           let conf = ui_nginx_conf E cr wsToken;
           bindE (create_or_update E (new_obj (key KSecret (p_namespace cr) name) (BSecret secret0)) (nginx_mutate E cr conf)) (\<lambda>_.
           do { d \<leftarrow> api_delete E (key KConfigMap (p_namespace cr) name);
                case d of
                  Inl e \<Rightarrow> if is_not_found e then ok (nginx_hash E conf)
                          else fail (Wrap ''delete stale nginx ConfigMap'' (Api e))
                | Inr _ \<Rightarrow> ok (nginx_hash E conf) }) })"

section \<open>Property\<close>

text \<open>
  The nginx configuration, which carries the agent's token, goes to a Secret and to nothing
  else: after reading the token the reconciler applies one object, the instance's nginx Secret, whose
  data becomes exactly the configuration with that token, and then deletes the ConfigMap of former
  releases; the hash it returns, which restarts the pods, is that of the very text it wrote.
\<close>

theorem nginx_config_is_a_secret:
  "let tk = key KSecret (p_namespace cr) (wsTokenSecretName (p_name cr)); r = fst (fetch E tk (os_world s));
       conf = ui_nginx_conf E cr (case r of Inl _ \<Rightarrow> '''' | Inr x \<Rightarrow> sget (se_data (as_secret x)) ''token'');
       k = key KSecret (p_namespace cr) (uiNginxSecretName (p_name cr));
       run = run_state (reconcileUINginxConfigMap E cr) s
   in \<exists>a ds. os_log (snd run) = os_log s @ [CGet tk r, CApply (new_obj k (BSecret secret0)) (nginx_mutate E cr conf) a] @ ds \<and>
        (case a of Inl _ \<Rightarrow> ds = [] | Inr _ \<Rightarrow> \<exists>d. ds = [CDelete (key KConfigMap (p_namespace cr) (uiNginxSecretName (p_name cr))) '''' d]) \<and>
        (case nginx_mutate E cr conf x of Inl _ \<Rightarrow> True | Inr y \<Rightarrow> o_key y = o_key x \<and> se_data (as_secret y) = [(''nginx.conf'', conf)]) \<and>
        (case fst run of Inl _ \<Rightarrow> True | Inr h \<Rightarrow> h = take 8 (hex_encode (e_sha256 E conf)))"
  by (auto simp: reconcileUINginxConfigMap_def read_ws_token_def setHelmRunnerCondition_def set_condition_def set_status_def
      Let_def client_defs run_bind_pair nginx_mutate_def owned_by_def nginx_hash_def set_controller_key simp del: run_state_bind
      split: sum.splits)

end
