(* ===== verification/Postgres.thy ===== *)
theory Postgres
  imports Cleanup Tokens "HOL-Library.List_Lexorder" "HOL-Library.Char_ord"
begin

text \<open>
  \<open>postgresql_reconciler.go\<close>: the credentials Secret, the StatefulSet and its guards (selector
  mismatch, major version, template drift), the growth of the volume, the stuck-pod deletion, the
  two Services, the connection Secret and the opt-in deletion of the data.
\<close>

section \<open>Constants\<close>

definition defaultPGImage :: string where "defaultPGImage = ''registry.redhat.io/rhel9/postgresql-15:latest''"
definition defaultPGStorageSize :: string where "defaultPGStorageSize = ''5Gi''"
definition pgPort :: int where "pgPort = 5432"
definition pgUser :: string where "pgUser = ''pulse''"
definition pgDB :: string where "pgDB = ''pulse''"
definition pgRequeueDelay :: int where "pgRequeueDelay = 5 * second"
definition pgTemplateVersion :: string where "pgTemplateVersion = ''2''"
definition pgTemplateVersionAnnotation :: string where "pgTemplateVersionAnnotation = ''pulse.ai/pg-template-version''"
definition pgAuthHashAnnotation :: string where "pgAuthHashAnnotation = ''pulse.ai/pg-auth-hash''"
definition pgTerminationGraceSeconds :: int where "pgTerminationGraceSeconds = 60"
definition pgPendingPodStaleThreshold :: int where "pgPendingPodStaleThreshold = 2 * minute"
definition annotationDeleteData :: string where "annotationDeleteData = ''pulse.ai/delete-data''"

section \<open>Credentials\<close>

text \<open>The migration of a legacy Secret's keys, in the order of the assignments.\<close>

definition migrate_keys :: "string \<Rightarrow> smap \<Rightarrow> smap" where
  "migrate_keys pw d =
     (let d1 = sput ''POSTGRESQL_USER'' (sget d ''POSTGRES_USER'') d;
          d2 = sput ''POSTGRESQL_PASSWORD'' pw d1;
          d3 = sput ''POSTGRESQL_DATABASE'' (sget d2 ''POSTGRES_DB'') d2
      in sdel ''POSTGRES_DB'' (sdel ''POSTGRES_PASSWORD'' (sdel ''POSTGRES_USER'' d3)))"

definition new_pg_secret :: "pulse \<Rightarrow> string \<Rightarrow> string \<Rightarrow> kobj" where
  "new_pg_secret cr secretName password =
     (new_obj (key KSecret (p_namespace cr) secretName)
       (BSecret (secret0\<lparr>se_secretType := ''Opaque'',
          se_stringData := [(''POSTGRESQL_USER'', pgUser), (''POSTGRESQL_PASSWORD'', password),
                            (''POSTGRESQL_DATABASE'', pgDB)]\<rparr>)))
     \<lparr>o_labels := pgLabels (p_name cr)\<rparr>"

definition reconcilePGSecret :: "'w env \<Rightarrow> pulse \<Rightarrow> string \<Rightarrow> ('w, string) fallible" where
  "reconcilePGSecret E cr secretName =
     do { r \<leftarrow> api_get E (key KSecret (p_namespace cr) secretName);
          case r of
            Inr existing \<Rightarrow>
              (let data = se_data (as_secret existing) in
               case map_of data ''POSTGRESQL_PASSWORD'' of
                 Some pw \<Rightarrow> ok pw
               | None \<Rightarrow>
                   (case map_of data ''POSTGRES_PASSWORD'' of
                      Some pw \<Rightarrow>
                        bindE (wrapE ''migrate pg-auth secret keys'' (apiE (api_update E
                          (existing\<lparr>o_body := BSecret ((as_secret existing)\<lparr>se_data := migrate_keys pw data\<rparr>)\<rparr>))))
                          (\<lambda>_. ok pw)
                    | None \<Rightarrow> ok (sget data ''POSTGRESQL_PASSWORD'')))
          | Inl e \<Rightarrow>
              if \<not> is_not_found e then fail (Api e)
              else bindE (wrapE ''generate password'' (generatePassword E 24)) (\<lambda>password.
                     bindE (apiE (api_create E (new_pg_secret cr secretName password))) (\<lambda>_. ok password)) }"

text \<open>\<open>hashSecretData\<close>: the keys of the data, each once and in byte order.\<close>

definition hashSecretData :: "'w env \<Rightarrow> smap \<Rightarrow> string" where
  "hashSecretData E data =
     take 16 (hex_encode (e_sha256 E
       (concat (map (\<lambda>k. k @ [CHR 0x00] @ sget data k @ [CHR 0x00]) (sort (remdups (map fst data)))))))"

definition pgCredentialHash :: "'w env \<Rightarrow> string \<Rightarrow> string \<Rightarrow> ('w, string) action" where
  "pgCredentialHash E ns secretName =
     do { r \<leftarrow> api_get E (key KSecret ns secretName);
          ret (case r of Inl _ \<Rightarrow> '''' | Inr x \<Rightarrow> hashSecretData E (se_data (as_secret x))) }"

section \<open>Major versions\<close>

text \<open>
  \<open>postgres(?:ql)?[-:](\d+)\<close>, leftmost match; a number that overflows \<open>strconv.Atoi\<close> reads as 0.
\<close>

definition digits_value :: "string \<Rightarrow> nat" where
  "digits_value s = foldl (\<lambda>n c. 10 * n + (of_char c - 48)) 0 s"

definition version_after :: "string \<Rightarrow> string option" where
  "version_after s =
     (let t = (if prefix ''ql'' s then drop 2 s else s)
      in case t of
           c # ds \<Rightarrow> if (c = CHR ''-'' \<or> c = CHR '':'') \<and> takeWhile is_digit ds \<noteq> [] then Some (takeWhile is_digit ds) else None
         | [] \<Rightarrow> None)"

fun find_pg_version :: "string \<Rightarrow> string option" where
  "find_pg_version [] = None"
| "find_pg_version (c # cs) =
     (if prefix ''postgres'' (c # cs) \<and> version_after (drop 8 (c # cs)) \<noteq> None
      then version_after (drop 8 (c # cs)) else find_pg_version cs)"

definition pgMajorVersion :: "string \<Rightarrow> nat" where
  "pgMajorVersion img =
     (case find_pg_version img of None \<Rightarrow> 0
      | Some ds \<Rightarrow> if digits_value ds > 9223372036854775807 then 0 else digits_value ds)"

definition version_change_blocked :: "string \<Rightarrow> string \<Rightarrow> bool" where
  "version_change_blocked current desired \<longleftrightarrow>
     \<not> (current = '''' \<or> pgMajorVersion current = 0 \<or> pgMajorVersion desired = 0 \<or>
        pgMajorVersion current = pgMajorVersion desired)"

definition blocked_message :: "string \<Rightarrow> string \<Rightarrow> string" where
  "blocked_message current desired =
     ''Not changing PostgreSQL from '' @ current @ '' (major '' @ nat_digits (pgMajorVersion current) @ '') to '' @
     desired @ '' (major '' @ nat_digits (pgMajorVersion desired) @
     ''): the data directory needs a planned migration. The database keeps running '' @ current @ ''.''"

definition guardPGMajorVersion :: "'w env \<Rightarrow> string \<Rightarrow> string \<Rightarrow> ('w, string) action" where
  "guardPGMajorVersion E current desired =
     (if \<not> version_change_blocked current desired then ret desired
      else do { recordEvent E ''Warning'' ''PostgreSQLMajorVersionChangeBlocked'' (blocked_message current desired);
                ret current })"

section \<open>The start script and the volume\<close>

definition grant_script :: string where
  "grant_script =
     ''#!/bin/sh'' @ nl @ ''# Local peer auth as postgres; idempotent on every start.'' @ nl @
     ''psql -U postgres -c '' @ quote_char @ ''ALTER USER '' @ [backslash] @ quote_char @ ''$POSTGRESQL_USER'' @
     [backslash] @ quote_char @ '' CREATEDB;'' @ quote_char @ '' || true'' @ nl"

definition reconcilePGStartScripts :: "'w env \<Rightarrow> pulse \<Rightarrow> ('w, unit) fallible" where
  "reconcilePGStartScripts E cr =
     create_or_update E (new_obj (key KConfigMap (p_namespace cr) (p_name cr @ ''-pg-start'')) (BConfigMap []))
       (owned_by E cr (\<lambda>y. Inr (y\<lparr>o_body := BConfigMap [(''grant-createdb.sh'', grant_script)]\<rparr>)))"

definition storage_of :: "pvc \<Rightarrow> string" where
  "storage_of v = (case pv_requests v of None \<Rightarrow> ''0'' | Some m \<Rightarrow> (case map_of m ''storage'' of None \<Rightarrow> ''0'' | Some q \<Rightarrow> q))"

definition resized :: "string \<Rightarrow> kobj \<Rightarrow> kobj" where
  "resized want x =
     (let v = as_pvc x; m = (case pv_requests v of None \<Rightarrow> [] | Some m \<Rightarrow> m)
      in x\<lparr>o_body := BPVC (v\<lparr>pv_requests := Some (sput ''storage'' want m)\<rparr>)\<rparr>)"

definition expandPGVolume :: "'w env \<Rightarrow> pulse \<Rightarrow> string \<Rightarrow> string \<Rightarrow> ('w, unit) fallible" where
  "expandPGVolume E cr stsName want =
     (let name = pgVolumeName stsName in
      do { r \<leftarrow> api_get E (key KPersistentVolumeClaim (p_namespace cr) name);
           case r of
             Inl e \<Rightarrow> if is_not_found e then ok () else fail (Api e)
           | Inr pvc \<Rightarrow>
               let current = storage_of (as_pvc pvc) in
               if e_quantityCmp E want current \<le> 0 then ok ()
               else do {
                 u \<leftarrow> api_update E (resized want pvc);
                 case u of
                   Inl e \<Rightarrow> do {
                     recordEvent E ''Warning'' ''StorageResizeFailed''
                       (''Could not grow the database volume '' @ name @ '' from '' @ current @ '' to '' @ want @ '': '' @ api_text e);
                     ok () }
                 | Inr _ \<Rightarrow> do {
                     recordEvent E ''Normal'' ''StorageResized''
                       (''Growing the database volume '' @ name @ '' from '' @ current @ '' to '' @ want);
                     ok () } } })"

section \<open>The StatefulSet\<close>

definition pg_image :: "'w env \<Rightarrow> pulse \<Rightarrow> string" where
  "pg_image E cr =
     (let i = db_image (sp_database (p_spec cr))
      in if i = '''' then imageFromEnv E envPostgreSQLImage defaultPGImage else i)"

definition pg_storage_size :: "pulse \<Rightarrow> string" where
  "pg_storage_size cr =
     (let s = db_storageSize (sp_database (p_spec cr)) in if s = '''' then defaultPGStorageSize else s)"

definition pg_probe :: "int \<Rightarrow> int \<Rightarrow> int \<Rightarrow> probe" where
  "pg_probe delay period failures =
     \<lparr>pr_handler = ExecProbe [''pg_isready'', ''-U'', pgUser], pr_initialDelaySeconds = delay,
      pr_periodSeconds = period, pr_timeoutSeconds = 0, pr_failureThreshold = failures\<rparr>"

definition mount :: "string \<Rightarrow> string \<Rightarrow> volume_mount" where
  "mount n p = \<lparr>vm_name = n, vm_mountPath = p, vm_subPath = '''', vm_readOnly = False\<rparr>"

definition pg_prestop :: "string list" where
  "pg_prestop =
     [''/bin/sh'', ''-c'',
      ''pg_ctl -D '' @ quote_char @ ''${PGDATA:-/var/lib/pgsql/data/userdata}'' @ quote_char @
      '' stop -m fast -w -t '' @ itoa (pgTerminationGraceSeconds - 10)]"

definition pg_container :: "string \<Rightarrow> string \<Rightarrow> container" where
  "pg_container img secretName = (container0 ''postgresql'' img)
     \<lparr>co_ports := [\<lparr>cp_name = ''postgresql'', cp_port = pgPort, cp_protocol = ''TCP''\<rparr>],
      co_resources := memory_resources ''256Mi'' ''1Gi'',
      co_envFromSecrets := [secretName],
      co_volumeMounts := [mount ''pg-data'' ''/var/lib/pgsql/data'', mount ''pg-start'' ''/opt/app-root/src/postgresql-start''],
      co_readinessProbe := Some (pg_probe 5 10 3), co_livenessProbe := Some (pg_probe 30 30 0),
      co_preStopCommand := Some pg_prestop, co_securityContext := Some writableContainerSecCtx\<rparr>"

definition pg_annotations :: "string \<Rightarrow> smap" where
  "pg_annotations credHash = [(pgTemplateVersionAnnotation, pgTemplateVersion), (pgAuthHashAnnotation, credHash)]"

definition pg_template :: "pulse \<Rightarrow> string \<Rightarrow> string \<Rightarrow> string \<Rightarrow> pod_template" where
  "pg_template cr secretName img credHash =
     \<lparr>pt_labels = pgLabels (p_name cr), pt_annotations = pg_annotations credHash,
      pt_spec = pod_spec0
        \<lparr>po_terminationGracePeriodSeconds := Some pgTerminationGraceSeconds,
         po_securityContext := Some (defaultPodSecCtx None),
         po_volumes := [(''pg-start'', VConfigMap (p_name cr @ ''-pg-start''))],
         po_containers := [pg_container img secretName]\<rparr>\<rparr>"

definition pg_claim :: "pulse \<Rightarrow> string \<Rightarrow> claim_template" where
  "pg_claim cr qty =
     (let sc = db_storageClass (sp_database (p_spec cr)) in
      \<lparr>ct_name = ''pg-data'', ct_labels = pgLabels (p_name cr),
       ct_pvc = \<lparr>pv_accessModes = [''ReadWriteOnce''], pv_requests = Some [(''storage'', qty)],
                 pv_storageClassName = (if sc \<noteq> '''' then Some sc else None)\<rparr>\<rparr>)"

text \<open>The fields set once, when the StatefulSet is created.\<close>

definition pg_create_fields :: "pulse \<Rightarrow> string \<Rightarrow> string \<Rightarrow> stateful_set \<Rightarrow> stateful_set" where
  "pg_create_fields cr stsName qty ss =
     ss\<lparr>ss_replicas := Some 1, ss_serviceName := stsName @ ''-headless'',
        ss_selector := Some (pgLabels (p_name cr)), ss_volumeClaimTemplates := [pg_claim cr qty]\<rparr>"

text \<open>Whether the pod template must be rebuilt.\<close>

definition pg_template_drifted :: "string \<Rightarrow> string \<Rightarrow> pod_template \<Rightarrow> bool" where
  "pg_template_drifted img credHash t \<longleftrightarrow>
     (case po_containers (pt_spec t) of [] \<Rightarrow> '''' | c # _ \<Rightarrow> co_image c) \<noteq> img \<or>
     list_ex (\<lambda>(k, v). sget (pt_annotations t) k \<noteq> v) (pg_annotations credHash)"

definition pg_set_template :: "pulse \<Rightarrow> string \<Rightarrow> string \<Rightarrow> string \<Rightarrow> bool \<Rightarrow> stateful_set \<Rightarrow> stateful_set" where
  "pg_set_template cr secretName img credHash fresh ss =
     (if fresh \<or> pg_template_drifted img credHash (ss_template ss)
      then ss\<lparr>ss_template := pg_template cr secretName img credHash\<rparr> else ss)"

definition pg_mutate ::
  "'w env \<Rightarrow> pulse \<Rightarrow> string \<Rightarrow> string \<Rightarrow> string \<Rightarrow> string \<Rightarrow> go_error + string \<Rightarrow> kobj \<Rightarrow> go_error + kobj" where
  "pg_mutate E cr stsName secretName img credHash qty x =
     owned_by E cr (\<lambda>y.
       let fresh = (o_creationTimestamp y = None); ss = as_stateful_set y in
       case (if fresh then qty else Inr '''') of
         Inl e \<Rightarrow> Inl (Wrap (''parse spec.database.storageSize '' @ go_quote (pg_storage_size cr)) e)
       | Inr q \<Rightarrow>
           Inr (y\<lparr>o_body := BStatefulSet (pg_set_template cr secretName img credHash fresh
                  (if fresh then pg_create_fields cr stsName q ss else ss))\<rparr>))
       (x\<lparr>o_labels := pgLabels (p_name cr)\<rparr>)"

definition pg_mismatch_message :: "string \<Rightarrow> string" where
  "pg_mismatch_message stsName =
     ''PostgreSQL StatefulSet '' @ go_quote stsName @ '' had a selector that no longer matched (e.g. previously Helm-managed) '' @
     em_dash @ '' deleted it so it can be recreated cleanly''"

text \<open>What the first look at the StatefulSet decides: requeue after a delay, or go on with an image.\<close>

definition pg_existing :: "'w env \<Rightarrow> pulse \<Rightarrow> string \<Rightarrow> string \<Rightarrow> ('w, int + string) fallible" where
  "pg_existing E cr stsName desired =
     do { r \<leftarrow> api_get E (key KStatefulSet (p_namespace cr) stsName);
          case r of
            Inl _ \<Rightarrow> ok (Inr desired)
          | Inr sts \<Rightarrow>
              if o_deletionTimestamp sts \<noteq> None then ok (Inl pgRequeueDelay)
              else if pg_selector_mismatch (p_name cr) (as_stateful_set sts)
              then do {
                d \<leftarrow> api_delete_background E (key KStatefulSet (p_namespace cr) stsName);
                if (case d of Inl e \<Rightarrow> \<not> is_not_found e | Inr _ \<Rightarrow> False)
                then fail (Wrap ''delete mismatched statefulset'' (case d of Inl e \<Rightarrow> Api e | Inr _ \<Rightarrow> Msg ''''))
                else do {
                  recordEvent E ''Normal'' ''SelfHealed'' (pg_mismatch_message stsName);
                  inc_self_heal ''database'' ''selector_mismatch_recreate'';
                  ok (Inl pgRequeueDelay) } }
              else
                (case po_containers (pt_spec (ss_template (as_stateful_set sts))) of
                   [] \<Rightarrow> ok (Inr desired)
                 | c # _ \<Rightarrow> do { img \<leftarrow> guardPGMajorVersion E (co_image c) desired; ok (Inr img) }) }"

definition invalid_size_message :: "string \<Rightarrow> go_error \<Rightarrow> string" where
  "invalid_size_message sz e =
     ''spec.database.storageSize '' @ go_quote sz @ '' is not a valid quantity ('' @ err_text e @
     ''); the database volume is unchanged''"

definition reconcilePGStatefulSet :: "'w env \<Rightarrow> pulse \<Rightarrow> string \<Rightarrow> string \<Rightarrow> ('w, int) fallible" where
  "reconcilePGStatefulSet E cr stsName secretName =
     (let qty = e_parseQuantity E (pg_storage_size cr) in
      do { credHash \<leftarrow> pgCredentialHash E (p_namespace cr) secretName;
           bindE (pg_existing E cr stsName (pg_image E cr)) (\<lambda>x.
             case x of
               Inl delay \<Rightarrow> ok delay
             | Inr img \<Rightarrow>
                 bindE (create_or_update E (new_obj (key KStatefulSet (p_namespace cr) stsName) (BStatefulSet stateful_set0))
                          (pg_mutate E cr stsName secretName img credHash qty)) (\<lambda>_.
                   case qty of
                     Inl e \<Rightarrow> do { recordEvent E ''Warning'' ''InvalidStorageSize'' (invalid_size_message (pg_storage_size cr) e);
                                   ok 0 }
                   | Inr want \<Rightarrow> bindE (expandPGVolume E cr stsName want) (\<lambda>_. ok 0))) })"

section \<open>The stuck pod, the Services\<close>

definition isPGPodStale :: "kobj \<Rightarrow> string \<Rightarrow> int \<Rightarrow> bool" where
  "isPGPodStale pod updateRevision now \<longleftrightarrow>
     pst_phase (as_pod pod) = ''Pending'' \<and>
     (case o_creationTimestamp pod of None \<Rightarrow> True | Some t \<Rightarrow> now - t \<ge> pgPendingPodStaleThreshold) \<and>
     updateRevision \<noteq> '''' \<and> sget (o_labels pod) ''controller-revision-hash'' \<noteq> updateRevision"

definition stale_pod_message :: "string \<Rightarrow> string" where
  "stale_pod_message podName =
     ''PostgreSQL pod '' @ go_quote podName @ '' was stuck Pending for over '' @
     duration_text (pgPendingPodStaleThreshold div second) @ '' on an outdated spec '' @ em_dash @
     '' deleted it so the StatefulSet controller can create it from the current one''"

definition deletePendingPGPodIfStale :: "'w env \<Rightarrow> pulse \<Rightarrow> string \<Rightarrow> ('w, unit) fallible" where
  "deletePendingPGPodIfStale E cr stsName =
     (let podName = stsName @ ''-0'' in
      do { r \<leftarrow> api_get E (key KPod (p_namespace cr) podName);
           case r of
             Inl e \<Rightarrow> if is_not_found e then ok () else fail (Api e)
           | Inr pod \<Rightarrow> do {
               q \<leftarrow> api_get E (key KStatefulSet (p_namespace cr) stsName);
               case q of
                 Inl e \<Rightarrow> if is_not_found e then ok () else fail (Api e)
               | Inr sts \<Rightarrow> do {
                   now \<leftarrow> time_now E;
                   if \<not> isPGPodStale pod (ss_statusUpdateRevision (as_stateful_set sts)) now then ok ()
                   else do {
                     d \<leftarrow> api_delete E (key KPod (p_namespace cr) podName);
                     case d of
                       Inl e \<Rightarrow> fail (Api e)
                     | Inr _ \<Rightarrow> do {
                         recordEvent E ''Normal'' ''SelfHealed'' (stale_pod_message podName);
                         inc_self_heal ''database'' ''stale_pending_pod_delete'';
                         ok () } } } } })"

definition pg_service :: "pulse \<Rightarrow> bool \<Rightarrow> service \<Rightarrow> service" where
  "pg_service cr headless s =
     s\<lparr>se_selector := pgLabels (p_name cr),
       se_ports := [\<lparr>sv_name = ''postgresql'', sv_port = pgPort, sv_targetPort = Some pgPort, sv_protocol = ''TCP''\<rparr>],
       se_clusterIP := (if se_clusterIP s = '''' \<and> headless then ''None'' else se_clusterIP s)\<rparr>"

definition reconcilePGService :: "'w env \<Rightarrow> pulse \<Rightarrow> string \<Rightarrow> bool \<Rightarrow> ('w, unit) fallible" where
  "reconcilePGService E cr svcName headless =
     create_or_update E (new_obj (key KService (p_namespace cr) svcName) (BService service0))
       (\<lambda>x. owned_by E cr (\<lambda>y. Inr (y\<lparr>o_body := BService (pg_service cr headless (as_service y))\<rparr>))
          (x\<lparr>o_labels := pgLabels (p_name cr)\<rparr>))"

section \<open>reconcilePostgres\<close>

definition pg_url :: "string \<Rightarrow> string \<Rightarrow> string" where
  "pg_url password svcName = ''postgresql://'' @ pgUser @ '':'' @ password @ ''@'' @ svcName @ '':5432/'' @ pgDB"

definition new_conn_secret :: "pulse \<Rightarrow> string \<Rightarrow> kobj" where
  "new_conn_secret cr dbURL =
     (new_obj (key KSecret (p_namespace cr) (p_name cr @ ''-postgresql''))
       (BSecret (secret0\<lparr>se_secretType := ''Opaque'', se_stringData := [(''database-url'', dbURL)]\<rparr>)))
     \<lparr>o_labels := pgLabels (p_name cr)\<rparr>"

definition reconcile_conn_secret :: "'w env \<Rightarrow> pulse \<Rightarrow> string \<Rightarrow> ('w, unit) fallible" where
  "reconcile_conn_secret E cr dbURL =
     do { r \<leftarrow> api_get E (key KSecret (p_namespace cr) (p_name cr @ ''-postgresql''));
          case r of
            Inl e \<Rightarrow>
              if is_not_found e
              then bindE (wrapE ''set owner on pg connection secret'' (liftE (set_controller E cr (new_conn_secret cr dbURL))))
                     (\<lambda>x. voidE (wrapE ''create pg connection secret'' (apiE (api_create E x))))
              else fail (Api e)
          | Inr x \<Rightarrow>
              if sget (se_data (as_secret x)) ''database-url'' \<noteq> dbURL
              then voidE (wrapE ''update pg connection secret'' (apiE (api_update E
                     (x\<lparr>o_body := BSecret ((as_secret x)\<lparr>se_stringData := [(''database-url'', dbURL)]\<rparr>)\<rparr>))))
              else ok () }"

definition reconcilePostgres :: "'w env \<Rightarrow> pulse \<Rightarrow> ('w, string \<times> int) fallible" where
  "reconcilePostgres E cr =
     (let svcName = pgName (p_name cr); secretName = pgAuthSecretName (p_name cr) in
      bindE (wrapE ''pg start scripts'' (reconcilePGStartScripts E cr)) (\<lambda>_.
      bindE (wrapE ''pg secret'' (reconcilePGSecret E cr secretName)) (\<lambda>password.
      bindE (wrapE ''pg statefulset'' (reconcilePGStatefulSet E cr svcName secretName)) (\<lambda>delay.
        if delay > 0 then ok ('''', delay)
        else do {
          _ \<leftarrow> deletePendingPGPodIfStale E cr svcName;
          bindE (wrapE ''pg service'' (reconcilePGService E cr svcName False)) (\<lambda>_.
          bindE (wrapE ''pg headless service'' (reconcilePGService E cr (svcName @ ''-headless'') True)) (\<lambda>_.
          bindE (reconcile_conn_secret E cr (pg_url password svcName)) (\<lambda>_.
            ok (pg_url password svcName, 0)))) }))))"

section \<open>Deleting the data on request\<close>

definition delete_errors :: "string \<Rightarrow> api_error + unit \<Rightarrow> go_error list" where
  "delete_errors what d =
     (case d of Inl e \<Rightarrow> if is_not_found e then [] else [Wrap what (Api e)] | Inr _ \<Rightarrow> [])"

definition deletePGDataOnRequest :: "'w env \<Rightarrow> pulse \<Rightarrow> ('w, unit) fallible" where
  "deletePGDataOnRequest E cr =
     (if sget (p_annotations cr) annotationDeleteData \<noteq> ''true'' then ok ()
      else do {
        d1 \<leftarrow> api_delete E (key KSecret (p_namespace cr) (pgAuthSecretName (p_name cr)));
        d2 \<leftarrow> api_delete E (key KPersistentVolumeClaim (p_namespace cr) (pgVolumeName (pgName (p_name cr))));
        ret (errors_join (delete_errors ''delete pg-auth secret'' d1 @ delete_errors ''delete pg-data PVC'' d2)) })"

section \<open>What the component may touch\<close>

definition pg_writes :: "pulse \<Rightarrow> okey set" where
  "pg_writes cr =
     (let n = p_name cr; ns = p_namespace cr in
      {key KConfigMap ns (n @ ''-pg-start''), key KSecret ns (pgAuthSecretName n), key KStatefulSet ns (pgName n),
       key KPersistentVolumeClaim ns (pgVolumeName (pgName n)), key KService ns (pgName n),
       key KService ns (pgName n @ ''-headless''), key KSecret ns (n @ ''-postgresql'')})"

definition pg_deletes :: "pulse \<Rightarrow> okey set" where
  "pg_deletes cr =
     {key KStatefulSet (p_namespace cr) (pgName (p_name cr)), key KPod (p_namespace cr) (pgName (p_name cr) @ ''-0'')}"

lemmas pg_steps_defs =
  reconcilePGStartScripts_def reconcilePGSecret_def pgCredentialHash_def guardPGMajorVersion_def expandPGVolume_def
  pg_existing_def reconcilePGStatefulSet_def deletePendingPGPodIfStale_def reconcilePGService_def
  reconcile_conn_secret_def

lemma touches_pg_parts:
  "touches (pg_writes cr) (pg_deletes cr) (reconcilePGStartScripts E cr)"
  "touches (pg_writes cr) (pg_deletes cr) (reconcilePGSecret E cr (pgAuthSecretName (p_name cr)))"
  "touches (pg_writes cr) (pg_deletes cr) (reconcilePGStatefulSet E cr (pgName (p_name cr)) (pgAuthSecretName (p_name cr)))"
  "touches (pg_writes cr) (pg_deletes cr) (deletePendingPGPodIfStale E cr (pgName (p_name cr)))"
  "touches (pg_writes cr) (pg_deletes cr) (reconcilePGService E cr (pgName (p_name cr)) False)"
  "touches (pg_writes cr) (pg_deletes cr) (reconcilePGService E cr (pgName (p_name cr) @ ''-headless'') True)"
  "touches (pg_writes cr) (pg_deletes cr) (reconcile_conn_secret E cr url)"
  unfolding pg_steps_defs Let_def
  by (intro allc.rules touches_tokens; auto simp: pg_writes_def pg_deletes_def new_pg_secret_def new_conn_secret_def
      resized_def Let_def dest!: set_controller_key)+

interpretation pg: sub_reconciler reconcilePostgres pg_writes pg_deletes
  unfolding reconcilePostgres_def Let_def
  by unfold_locales (intro allc.rules touches_pg_parts)

lemma guards_reconcilePostgres:
  assumes "p_namespace cr \<noteq> ''''"
  shows "follows_policy E cr (reconcilePostgres E cr)"
proof -
  have "follows_policy E cr (reconcilePGStatefulSet E cr (pgName (p_name cr)) (pgAuthSecretName (p_name cr)))"
    unfolding pg_steps_defs Let_def
    by (intro guards_get grd.rules) (use assms in \<open>simp_all add: deletion_policy_def Let_def\<close>)
  moreover have "follows_policy E cr (deletePendingPGPodIfStale E cr (pgName (p_name cr)))"
    unfolding pg_steps_defs Let_def
    by (intro grd.rules) (use assms in \<open>simp_all add: deletion_policy_def Let_def\<close>)
  ultimately show ?thesis
    unfolding reconcilePostgres_def Let_def reconcilePGStartScripts_def reconcilePGSecret_def reconcilePGService_def
      reconcile_conn_secret_def
    by (intro grd.rules guards_tokens) simp_all
qed

lemma keeps_reconcilePostgres: "keeps g (reconcilePostgres E cr)"
  unfolding reconcilePostgres_def pg_steps_defs Let_def by (intro view.rules keeps_tokens)

lemma touches_deletePGData:
  "touches {} {key KSecret (p_namespace cr) (pgAuthSecretName (p_name cr)),
               key KPersistentVolumeClaim (p_namespace cr) (pgVolumeName (pgName (p_name cr)))}
     (deletePGDataOnRequest E cr)"
  unfolding deletePGDataOnRequest_def by (intro allc.rules) simp_all

end
