(* ===== verification/Agent.thy ===== *)
theory Agent
  imports Postgres ClusterDetect Compat PodDiagnosis
begin

text \<open>
  \<open>agent_reconciler.go\<close>: the objects of the agent, in the order of \<open>reconcileAgent\<close>
  (\<open>openshiftpulse_controller.go\<close>): ServiceAccount, ClusterRole, bindings, token Secret, memory volume,
  Deployment (with the selector, compatibility and skew gates) and Service.
\<close>

section \<open>ServiceAccount and access rights\<close>

definition create_if_missing :: "'w env \<Rightarrow> okey \<Rightarrow> (api_error \<Rightarrow> ('w, unit) fallible) \<Rightarrow> ('w, unit) fallible" where
  "create_if_missing E k create =
     do { r \<leftarrow> api_get E k;
          case r of Inr _ \<Rightarrow> ok () | Inl e \<Rightarrow> if is_not_found e then create e else fail (Api e) }"

definition reconcileServiceAccount :: "'w env \<Rightarrow> pulse \<Rightarrow> ('w, unit) fallible" where
  "reconcileServiceAccount E cr =
     (let k = key KServiceAccount (p_namespace cr) (agentResourceName (p_name cr)) in
      bindE (liftE (set_controller E cr (new_obj k BNone))) (\<lambda>desired.
        create_if_missing E k (\<lambda>_. voidE (apiE (api_create E desired)))))"

definition glw :: "string list" where "glw = [''get'', ''list'', ''watch'']"
definition gl :: "string list" where "gl = [''get'', ''list'']"

definition agent_base_rules :: "policy_rule list" where
  "agent_base_rules =
     [rule ''authentication.k8s.io'' [''tokenreviews''] [''create''],
      rule '''' [''pods'', ''pods/log'', ''nodes'', ''events'', ''services'', ''namespaces'', ''configmaps'',
               ''persistentvolumeclaims'', ''resourcequotas'', ''serviceaccounts'', ''endpoints'', ''limitranges''] glw,
      rule ''apps'' [''deployments'', ''replicasets'', ''statefulsets'', ''daemonsets''] glw,
      rule ''autoscaling'' [''horizontalpodautoscalers''] glw,
      rule ''batch'' [''jobs'', ''cronjobs''] glw,
      rule ''discovery.k8s.io'' [''endpointslices''] gl,
      rule ''policy'' [''poddisruptionbudgets''] gl,
      rule ''storage.k8s.io'' [''storageclasses''] gl,
      rule ''networking.k8s.io'' [''ingresses'', ''networkpolicies''] glw,
      rule ''rbac.authorization.k8s.io'' [''clusterroles'', ''clusterrolebindings'', ''roles'', ''rolebindings''] gl,
      rule ''metrics.k8s.io'' [''nodes'', ''pods''] gl,
      rule ''config.openshift.io'' [''clusteroperators'', ''clusterversions''] gl,
      rule ''apiextensions.k8s.io'' [''customresourcedefinitions''] gl,
      rule ''route.openshift.io'' [''routes''] gl,
      rule ''apps'' [''controllerrevisions''] gl,
      rule ''argoproj.io'' [''applications''] gl,
      rule ''machineconfiguration.openshift.io'' [''machineconfigpools''] gl,
      rule ''apiserver.openshift.io'' [''apirequestcounts''] gl,
      rule ''pulse.ai'' [''openshiftpulses''] glw]"

definition agent_secret_rules :: "policy_rule list" where
  "agent_secret_rules = [rule '''' [''secrets''] glw]"

definition agent_write_rules :: "policy_rule list" where
  "agent_write_rules =
     [rule '''' [''pods''] [''delete''], rule ''apps'' [''deployments'', ''statefulsets''] [''patch'', ''update'']]"

definition agent_rules :: "pulse \<Rightarrow> policy_rule list" where
  "agent_rules cr =
     agent_base_rules @ (if secretAccessEnabled cr then agent_secret_rules else []) @
     (if ag_allowWriteOperations (agent_of cr) then agent_write_rules else [])"

definition reconcileClusterRole :: "'w env \<Rightarrow> pulse \<Rightarrow> ('w, unit) fallible" where
  "reconcileClusterRole E cr =
     bindE (wrapE ''migrate stale agent ClusterRole''
       (deleteStaleUnqualifiedClusterScopedResource E cr KClusterRole (agentResourceName (p_name cr)))) (\<lambda>_.
     create_or_update E (new_obj (key KClusterRole '''' (agentClusterRoleName (p_name cr) (p_namespace cr))) (BClusterRole []))
       (\<lambda>x. Inr (x\<lparr>o_annotations := clusterScopedAnnotations cr, o_body := BClusterRole (agent_rules cr)\<rparr>)))"

text \<open>The mutate function of a binding: a role reference is immutable and set only once.\<close>

definition binding_mutate :: "pulse \<Rightarrow> string \<Rightarrow> string \<Rightarrow> kobj \<Rightarrow> go_error + kobj" where
  "binding_mutate cr roleName saName x =
     (let b = as_role_binding x in
      Inr (x\<lparr>o_annotations := clusterScopedAnnotations cr,
             o_body := BRoleBinding (b\<lparr>
               rbn_subjects := [\<lparr>su_kind = ''ServiceAccount'', su_name = saName, su_namespace = p_namespace cr\<rparr>],
               rbn_roleRef := (if rr_name (rbn_roleRef b) = ''''
                 then \<lparr>rr_apiGroup = ''rbac.authorization.k8s.io'', rr_kind = ''ClusterRole'', rr_name = roleName\<rparr>
                 else rbn_roleRef b)\<rparr>)\<rparr>))"

definition apply_binding :: "'w env \<Rightarrow> pulse \<Rightarrow> string \<Rightarrow> string \<Rightarrow> string \<Rightarrow> ('w, unit) fallible" where
  "apply_binding E cr name roleName saName =
     create_or_update E (new_obj (key KClusterRoleBinding '''' name) (BRoleBinding role_binding0))
       (binding_mutate cr roleName saName)"

definition reconcileClusterRoleBinding :: "'w env \<Rightarrow> pulse \<Rightarrow> ('w, unit) fallible" where
  "reconcileClusterRoleBinding E cr =
     (let name = agentClusterRoleName (p_name cr) (p_namespace cr) in
      bindE (wrapE ''migrate stale agent ClusterRoleBinding''
        (deleteStaleUnqualifiedClusterScopedResource E cr KClusterRoleBinding (agentResourceName (p_name cr)))) (\<lambda>_.
      apply_binding E cr name name (agentResourceName (p_name cr))))"

definition reconcileAgentMonitoringViewBinding :: "'w env \<Rightarrow> pulse \<Rightarrow> ('w, unit) fallible" where
  "reconcileAgentMonitoringViewBinding E cr =
     apply_binding E cr (agentMonitoringViewBindingName (p_name cr) (p_namespace cr)) ''cluster-monitoring-view''
       (agentResourceName (p_name cr))"

section \<open>Token and memory volume\<close>

definition reconcileWSTokenSecret :: "'w env \<Rightarrow> pulse \<Rightarrow> ('w, unit) fallible" where
  "reconcileWSTokenSecret E cr =
     (let k = key KSecret (p_namespace cr) (wsTokenSecretName (p_name cr)) in
      create_if_missing E k (\<lambda>_.
        bindE (generateToken E) (\<lambda>token.
        bindE (liftE (set_controller E cr (new_obj k (BSecret (secret0\<lparr>se_stringData := [(''token'', token)]\<rparr>))))) (\<lambda>desired.
        voidE (apiE (api_create E desired))))))"

definition reconcileMemoryPVC :: "'w env \<Rightarrow> pulse \<Rightarrow> ('w, unit) fallible" where
  "reconcileMemoryPVC E cr =
     (let k = key KPersistentVolumeClaim (p_namespace cr) (memoryPVCName (p_name cr)) in
      create_if_missing E k (\<lambda>_.
        bindE (liftE (set_controller E cr (new_obj k (BPVC (pvc0\<lparr>
          pv_accessModes := [''ReadWriteOnce''], pv_requests := Some [(''storage'', ''1Gi'')]\<rparr>))))) (\<lambda>desired.
        voidE (apiE (api_create E desired)))))"

section \<open>The pod of the agent\<close>

definition ai_env :: "pulse \<Rightarrow> env_var list" where
  "ai_env cr =
     (case sp_vertexAI (p_spec cr) of
        Some v \<Rightarrow>
          if va_projectId v \<noteq> ''''
          then [env_value ''ANTHROPIC_VERTEX_PROJECT_ID'' (va_projectId v),
                env_value ''CLOUD_ML_REGION'' (if va_region v = '''' then ''us-east5'' else va_region v)] @
               (if va_credentialSecret v \<noteq> ''''
                then [env_value ''GOOGLE_APPLICATION_CREDENTIALS'' ''/var/secrets/google/key.json''] else [])
          else (case sp_anthropicApiKey (p_spec cr) of
                  Some a \<Rightarrow> if ak_existingSecret a \<noteq> ''''
                    then [env_secret ''ANTHROPIC_API_KEY'' (ak_existingSecret a) ''ANTHROPIC_API_KEY''] else []
                | None \<Rightarrow> [])
      | None \<Rightarrow>
          (case sp_anthropicApiKey (p_spec cr) of
             Some a \<Rightarrow> if ak_existingSecret a \<noteq> ''''
               then [env_secret ''ANTHROPIC_API_KEY'' (ak_existingSecret a) ''ANTHROPIC_API_KEY''] else []
           | None \<Rightarrow> []))"

definition agent_env :: "pulse \<Rightarrow> cluster_info \<Rightarrow> env_var list" where
  "agent_env cr info =
     (let ag = agent_of cr; n = p_name cr in
      [env_secret ''PULSE_AGENT_WS_TOKEN'' (wsTokenSecretName n) ''token'',
       env_value ''PULSE_AGENT_TRUST_LEVEL'' (itoa (ag_trustLevel ag)),
       env_value ''PULSE_AGENT_MAX_TRUST_LEVEL'' (itoa (ag_trustLevel ag))] @
      (if ag_adminUsers ag \<noteq> '''' then [env_value ''PULSE_AGENT_ADMIN_USERS'' (ag_adminUsers ag)] else []) @
      ai_env cr @
      (if databaseEnabled cr then [env_secret ''PULSE_AGENT_DATABASE_URL'' (n @ ''-postgresql'') ''database-url''] else []) @
      (if mc_enabled (ag_mcp ag) then [env_value ''PULSE_MCP_URL'' (MCPServiceURL n (p_namespace cr))] else []) @
      (if temporalEnabled cr then [env_value ''PULSE_AGENT_TEMPORAL_HOST'' (TemporalHostFor n)] else []) @
      (if renderEnabled cr
       then [env_value ''PULSE_AGENT_RENDER_URL'' (RenderServiceURL n),
             env_secret ''PULSE_AGENT_RENDER_TOKEN'' (renderTokenSecretName n) ''token''] else []) @
      (if ag_durableAutoFix ag = Some True then [env_value ''PULSE_AGENT_DURABLE_AUTOFIX'' ''true''] else []) @
      (if ci_acmAvailable info
       then env_value ''PULSE_AGENT_ACM_THANOS_ENABLED'' ''true'' #
            (if ci_acmThanosURL info \<noteq> '''' then [env_value ''PULSE_AGENT_ACM_THANOS_URL'' (ci_acmThanosURL info)] else [])
       else []))"

text \<open>The Vertex AI key file is mounted when a credential Secret is named.\<close>

definition credential_secret :: "pulse \<Rightarrow> string" where
  "credential_secret cr = (case sp_vertexAI (p_spec cr) of None \<Rightarrow> '''' | Some v \<Rightarrow> va_credentialSecret v)"

definition http_probe :: "string \<Rightarrow> int \<Rightarrow> int \<Rightarrow> int \<Rightarrow> int \<Rightarrow> probe" where
  "http_probe path port delay period timeout =
     \<lparr>pr_handler = HTTPGet path port '''', pr_initialDelaySeconds = delay, pr_periodSeconds = period,
      pr_timeoutSeconds = timeout, pr_failureThreshold = 0\<rparr>"

definition agent_container :: "'w env \<Rightarrow> pulse \<Rightarrow> cluster_info \<Rightarrow> container" where
  "agent_container E cr info = (container0 ''agent'' (resolvedImage E cr))
     \<lparr>co_resources := agentResources cr, co_securityContext := Some defaultContainerSecCtx,
      co_ports := [\<lparr>cp_name = ''http'', cp_port = agentPort, cp_protocol = ''TCP''\<rparr>],
      co_env := agent_env cr info,
      co_volumeMounts := \<lparr>vm_name = ''memory'', vm_mountPath = ''/memory'', vm_subPath = '''', vm_readOnly = False\<rparr> #
        (if credential_secret cr \<noteq> ''''
         then [\<lparr>vm_name = ''gcp-sa-key'', vm_mountPath = ''/var/secrets/google'', vm_subPath = '''', vm_readOnly = True\<rparr>] else []),
      co_livenessProbe := Some (http_probe ''/healthz'' agentPort 15 20 5),
      co_readinessProbe := Some (http_probe ''/healthz'' agentPort 5 10 5)\<rparr>"

definition agent_pod :: "'w env \<Rightarrow> pulse \<Rightarrow> cluster_info \<Rightarrow> pod_spec" where
  "agent_pod E cr info = pod_spec0
     \<lparr>po_serviceAccountName := agentResourceName (p_name cr), po_securityContext := Some (defaultPodSecCtx None),
      po_containers := [agent_container E cr info],
      po_volumes := (''memory'', VClaim (memoryPVCName (p_name cr))) #
        (if credential_secret cr \<noteq> '''' then [(''gcp-sa-key'', VSecret (credential_secret cr))] else [])\<rparr>"

definition buildDeploymentSpec :: "'w env \<Rightarrow> string \<Rightarrow> pulse \<Rightarrow> cluster_info \<Rightarrow> deployment" where
  "buildDeploymentSpec E credHash cr info =
     (let name = agentResourceName (p_name cr) in
      deployment0\<lparr>de_strategyType := ''Recreate'', de_selector := Some [(''app'', name)],
        de_template := \<lparr>pt_labels = [(''app'', name)], pt_annotations = [(pgAuthHashAnnotation, credHash)],
                        pt_spec = agent_pod E cr info\<rparr>\<rparr>)"

section \<open>The Deployment\<close>

text \<open>
  \<open>updated.Spec = spec\<close> on a deep copy of the existing object: the specification is replaced, the
  selector and the status are those of the existing object.
\<close>

definition replace_spec :: "deployment \<Rightarrow> deployment \<Rightarrow> deployment" where
  "replace_spec spec existing =
     spec\<lparr>de_selector := de_selector existing,
          de_statusObservedGeneration := de_statusObservedGeneration existing,
          de_statusReplicas := de_statusReplicas existing,
          de_statusUpdatedReplicas := de_statusUpdatedReplicas existing,
          de_statusReadyReplicas := de_statusReadyReplicas existing\<rparr>"

text \<open>An incompatible version keeps the image that runs.\<close>

definition pin_image :: "bool \<Rightarrow> deployment \<Rightarrow> deployment \<Rightarrow> deployment" where
  "pin_image compatible existing d =
     (case (po_containers (pt_spec (de_template existing)), po_containers (pt_spec (de_template d))) of
        (c # _, c' # cs) \<Rightarrow>
          if compatible then d
          else d\<lparr>de_template := (de_template d)\<lparr>pt_spec := (pt_spec (de_template d))
                 \<lparr>po_containers := c'\<lparr>co_image := co_image c\<rparr> # cs\<rparr>\<rparr>\<rparr>
      | _ \<Rightarrow> d)"

definition updated_agent :: "'w env \<Rightarrow> string \<Rightarrow> pulse \<Rightarrow> cluster_info \<Rightarrow> bool \<Rightarrow> kobj \<Rightarrow> kobj" where
  "updated_agent E credHash cr info compatible existing =
     (let old = as_deployment existing;
          d = pin_image compatible old (replace_spec (buildDeploymentSpec E credHash cr info) old)
      in existing\<lparr>o_body := BDeployment (d\<lparr>de_template := keepRestartedAt (de_template old) (de_template d)\<rparr>)\<rparr>)"

definition agentRequeueDelay :: int where
  "agentRequeueDelay = 5 * second"

definition agent_mismatch_message :: "string \<Rightarrow> string" where
  "agent_mismatch_message name =
     ''Agent Deployment '' @ go_quote name @ '' had a selector that no longer matched (e.g. previously Helm-managed) '' @
     em_dash @ '' deleted it so it can be recreated cleanly''"

text \<open>The two gates: the operator version the admin asks for, and the advisory image skew.\<close>

definition version_gates :: "'w env \<Rightarrow> pulse \<Rightarrow> ('w, bool) action" where
  "version_gates E cr =
     do { let c = agentVersionCompatible E cr;
          (if ag_minOperatorVersion (agent_of cr) \<noteq> ''''
           then setAgentVersionCompatibleCondition E (fst c) (snd c) else ret ());
          (if \<not> fst c then recordEvent E ''Warning'' ''IncompatibleVersion'' (snd c) else ret ());
          let k = agentUIVersionSkew cr;
          setVersionSkewCondition E (fst k) (snd k);
          (if fst k then recordEvent E ''Warning'' ''AgentUIVersionSkew'' (snd k) else ret ());
          ret (fst c) }"

text \<open>The part of \<open>reconcileDeployment\<close> after the gates: delete, update in place or create.\<close>

definition apply_agent :: "'w env \<Rightarrow> string \<Rightarrow> pulse \<Rightarrow> cluster_info \<Rightarrow> bool \<Rightarrow> ('w, int) fallible" where
  "apply_agent E credHash cr info compatible =
     (let name = agentResourceName (p_name cr); k = key KDeployment (p_namespace cr) name in
      do { r \<leftarrow> api_get E k;
           case r of
             Inl e \<Rightarrow>
               if \<not> is_not_found e then fail (Api e)
               else if \<not> compatible then ok agentRequeueDelay
               else bindE (liftE (set_controller E cr (new_obj k (BDeployment (buildDeploymentSpec E credHash cr info)))))
                      (\<lambda>x. bindE (apiE (api_create E x)) (\<lambda>_. ok 0))
           | Inr existing \<Rightarrow>
               if agent_selector_mismatch name (as_deployment existing)
               then do {
                 d \<leftarrow> api_delete E k;
                 case (case d of Inl e \<Rightarrow> if is_not_found e then None else Some e | Inr _ \<Rightarrow> None) of
                   Some e \<Rightarrow> fail (Wrap ''delete mismatched deployment'' (Api e))
                 | None \<Rightarrow> do {
                     recordEvent E ''Normal'' ''SelfHealed'' (agent_mismatch_message name);
                     inc_self_heal ''agent'' ''selector_mismatch_recreate'';
                     ok agentRequeueDelay } }
               else bindE (liftE (set_controller E cr (updated_agent E credHash cr info compatible existing)))
                      (\<lambda>x. bindE (apiE (api_update E x)) (\<lambda>_. ok 0)) })"

definition reconcileDeployment :: "'w env \<Rightarrow> string \<Rightarrow> pulse \<Rightarrow> ('w, int) fallible" where
  "reconcileDeployment E credHash cr =
     do { info \<leftarrow> DetectClusterInfo E;
          compatible \<leftarrow> version_gates E cr;
          apply_agent E credHash cr info compatible }"

definition agent_service :: "pulse \<Rightarrow> service \<Rightarrow> service" where
  "agent_service cr v =
     v\<lparr>se_type := ''ClusterIP'', se_selector := [(''app'', agentResourceName (p_name cr))],
       se_ports := [\<lparr>sv_name = ''http'', sv_port = agentPort, sv_targetPort = None, sv_protocol = ''TCP''\<rparr>]\<rparr>"

definition reconcileService :: "'w env \<Rightarrow> pulse \<Rightarrow> ('w, unit) fallible" where
  "reconcileService E cr =
     (let name = agentResourceName (p_name cr) in
      create_or_update E (new_obj (key KService (p_namespace cr) name) (BService service0))
        (owned_by E cr (\<lambda>y.
           Inr (y\<lparr>o_labels := [(''app'', name)], o_body := BService (agent_service cr (as_service y))\<rparr>))))"

section \<open>The steps of the agent\<close>

definition agent_steps :: "'w env \<Rightarrow> pulse \<Rightarrow> (string \<times> ('w, unit) fallible) list" where
  "agent_steps E cr =
     [(''ServiceAccount'', reconcileServiceAccount E cr),
      (''ClusterRole'', reconcileClusterRole E cr),
      (''ClusterRoleBinding'', reconcileClusterRoleBinding E cr),
      (''MonitoringViewBinding'', reconcileAgentMonitoringViewBinding E cr),
      (''WSTokenSecret'', reconcileWSTokenSecret E cr),
      (''MemoryPVC'', reconcileMemoryPVC E cr)]"

definition agent_pass :: "'w env \<Rightarrow> string \<Rightarrow> pulse \<Rightarrow> ('w, int) fallible" where
  "agent_pass E credHash cr =
     bindE (run_steps (agent_steps E cr)) (\<lambda>_.
     bindE (wrapE ''deployment'' (reconcileDeployment E credHash cr)) (\<lambda>delay.
       if delay > 0 then ok delay
       else bindE (wrapE ''service'' (reconcileService E cr)) (\<lambda>_. ok 0)))"

text \<open>\<open>reconcileAgent\<close> of the root reconciler: the pass with the hash of the database URL.\<close>

definition reconcileAgent :: "'w env \<Rightarrow> string \<Rightarrow> pulse \<Rightarrow> ('w, int) fallible" where
  "reconcileAgent E dbURL cr =
     agent_pass E (if dbURL \<noteq> '''' then hashSecretData E [(''database-url'', dbURL)] else '''') cr"

text \<open>\<open>AgentReconciler.Reconcile\<close>: the same pass on its own, without a database URL.\<close>

definition AgentReconcile :: "'w env \<Rightarrow> string \<Rightarrow> string \<Rightarrow> ('w, int) fallible" where
  "AgentReconcile E ns name =
     do { r \<leftarrow> api_getPulse E ns name;
          case r of
            Inl e \<Rightarrow> if is_not_found e then ok 0 else fail (Api e)
          | Inr cr \<Rightarrow> do { put_cr cr; agent_pass E '''' cr } }"

section \<open>What the component may touch\<close>

definition agent_writes :: "pulse \<Rightarrow> okey set" where
  "agent_writes cr =
     (let n = p_name cr; ns = p_namespace cr in
      {key KServiceAccount ns (agentResourceName n), key KClusterRole '''' (agentClusterRoleName n ns),
       key KClusterRoleBinding '''' (agentClusterRoleName n ns),
       key KClusterRoleBinding '''' (agentMonitoringViewBindingName n ns),
       key KSecret ns (wsTokenSecretName n), key KPersistentVolumeClaim ns (memoryPVCName n),
       key KDeployment ns (agentResourceName n), key KService ns (agentResourceName n)})"

definition agent_deletes :: "pulse \<Rightarrow> okey set" where
  "agent_deletes cr =
     {key KClusterRole '''' (agentResourceName (p_name cr)), key KClusterRoleBinding '''' (agentResourceName (p_name cr)),
      key KDeployment (p_namespace cr) (agentResourceName (p_name cr))}"

lemma updated_agent_key [simp]: "o_key (updated_agent E h cr info c x) = o_key x"
  by (simp add: updated_agent_def Let_def)

lemmas agent_parts_defs =
  reconcileServiceAccount_def reconcileClusterRole_def apply_binding_def reconcileClusterRoleBinding_def
  reconcileAgentMonitoringViewBinding_def reconcileWSTokenSecret_def reconcileMemoryPVC_def
  create_if_missing_def reconcileService_def

lemma touches_version_gates: "touches ws ds (version_gates E cr)"
  unfolding version_gates_def setAgentVersionCompatibleCondition_def setVersionSkewCondition_def
  by (intro allc.rules)

lemma touches_agent_parts:
  "touches (agent_writes cr) (agent_deletes cr) (reconcileServiceAccount E cr)"
  "touches (agent_writes cr) (agent_deletes cr) (reconcileClusterRole E cr)"
  "touches (agent_writes cr) (agent_deletes cr) (reconcileClusterRoleBinding E cr)"
  "touches (agent_writes cr) (agent_deletes cr) (reconcileAgentMonitoringViewBinding E cr)"
  "touches (agent_writes cr) (agent_deletes cr) (reconcileWSTokenSecret E cr)"
  "touches (agent_writes cr) (agent_deletes cr) (reconcileMemoryPVC E cr)"
  unfolding agent_parts_defs Let_def
  by (intro allc.rules touches_tokens touches_mono [OF touches_deleteStale];
      auto simp: agent_writes_def agent_deletes_def Let_def dest!: set_controller_key)+

lemma touches_agent_steps:
  "(n, a) \<in> set (agent_steps E cr) \<Longrightarrow> touches (agent_writes cr) (agent_deletes cr) a"
  by (auto simp: agent_steps_def intro: touches_agent_parts)

lemma touches_agent_deployment:
  "touches (agent_writes cr) (agent_deletes cr) (reconcileDeployment E h cr)"
  "touches (agent_writes cr) (agent_deletes cr) (reconcileService E cr)"
  unfolding reconcileDeployment_def apply_agent_def reconcileService_def Let_def
  by (intro allc.rules touches_DetectClusterInfo touches_version_gates;
      auto simp: agent_writes_def agent_deletes_def Let_def dest!: set_controller_key)+

lemma touches_agent_pass: "touches (agent_writes cr) (agent_deletes cr) (agent_pass E h cr)"
  unfolding agent_pass_def
  by (intro allc.rules allc.s_run_steps touches_agent_deployment) (rule touches_agent_steps)

interpretation agent: sub_reconciler "\<lambda>E. reconcileAgent E url" agent_writes agent_deletes for url
  unfolding reconcileAgent_def by unfold_locales (rule touches_agent_pass)

lemma guards_agent_parts:
  "follows_policy E cr (reconcileServiceAccount E cr)" "follows_policy E cr (reconcileClusterRole E cr)"
  "follows_policy E cr (reconcileClusterRoleBinding E cr)"
  "follows_policy E cr (reconcileAgentMonitoringViewBinding E cr)"
  "follows_policy E cr (reconcileWSTokenSecret E cr)" "follows_policy E cr (reconcileMemoryPVC E cr)"
  unfolding agent_parts_defs Let_def by (intro grd.rules guards_tokens guards_deleteStale; simp)+

lemma guards_agent_steps: "(n, a) \<in> set (agent_steps E cr) \<Longrightarrow> follows_policy E cr a"
  by (auto simp: agent_steps_def intro: guards_agent_parts)

lemma guards_version_gates: "guards permit seen (version_gates E cr)"
  unfolding version_gates_def setAgentVersionCompatibleCondition_def setVersionSkewCondition_def
  by (intro grd.rules)

lemma guards_reconcileAgent:
  assumes "p_namespace cr \<noteq> ''''"
  shows "follows_policy E cr (reconcileAgent E url cr)"
proof -
  have "follows_policy E cr (reconcileDeployment E h cr)" for h
    unfolding reconcileDeployment_def apply_agent_def Let_def
    by (intro guards_get grd.rules guards_DetectClusterInfo guards_version_gates)
       (use assms in \<open>simp_all add: deletion_policy_def Let_def\<close>)
  then show ?thesis
    unfolding reconcileAgent_def agent_pass_def reconcileService_def Let_def
    by (intro grd.rules grd.s_run_steps guards_agent_steps) simp_all
qed

lemma keeps_deletes:
  "keeps g (deleteStaleUnqualifiedClusterScopedResource E cr kd n)" "keeps g (deleteOwned E cr kd n)"
  "keeps g (deleteOwnedClusterScoped E cr kd n)"
  unfolding deleteStaleUnqualifiedClusterScopedResource_def deleteOwned_def deleteOwnedClusterScoped_def Let_def
  by (intro view.rules)+

lemma keeps_version_gates:
  assumes "\<And>p cs. g (upd_status (\<lambda>st. st\<lparr>st_conditions := cs st\<rparr>) p) = g p"
  shows "keeps g (version_gates E cr)"
  unfolding version_gates_def setAgentVersionCompatibleCondition_def setVersionSkewCondition_def Let_def
  by (intro view.rules view.v_set_condition assms)

lemma keeps_agent_steps: "(n, a) \<in> set (agent_steps E cr) \<Longrightarrow> keeps g a"
  unfolding agent_steps_def agent_parts_defs Let_def
  by (auto intro!: view.rules keeps_deletes keeps_tokens)

lemma keeps_reconcileAgent:
  assumes "\<And>p cs. g (upd_status (\<lambda>st. st\<lparr>st_conditions := cs st\<rparr>) p) = g p"
  shows "keeps g (reconcileAgent E url cr)"
  unfolding reconcileAgent_def agent_pass_def reconcileDeployment_def apply_agent_def reconcileService_def Let_def
  by (intro view.rules view.s_run_steps keeps_version_gates assms keeps_DetectClusterInfo) (rule keeps_agent_steps)

end
