(* ===== verification/NetworkPolicies.thy ===== *)
theory NetworkPolicies
  imports Cleanup
begin

text \<open>
  \<open>network_policy_reconciler.go\<close> and \<open>pdb_reconciler.go\<close>, with the documented meaning of a
  NetworkPolicy (\<open>np_admits\<close>) as the specification the policies are judged by: which pods may open a
  connection to which port of the pods of an instance.
\<close>

section \<open>What a NetworkPolicy admits\<close>

text \<open>
  A selector matches labels that carry every required value; an expression is (key, operator,
  values), of which the operator uses only \<open>In\<close>. A peer without a namespace selector stands for pods
  of the policy's own namespace. A rule without peers or without ports does not restrict them.
\<close>

definition selector_matches :: "label_selector \<Rightarrow> smap \<Rightarrow> bool" where
  "selector_matches sel labels \<longleftrightarrow>
     list_all (\<lambda>(k, v). map_of labels k = Some v) (ls_matchLabels sel) \<and>
     list_all (\<lambda>(k, op, vs). op = ''In'' \<and> (case map_of labels k of None \<Rightarrow> False | Some v \<Rightarrow> v \<in> set vs)) (ls_matchExpressions sel)"

record net_pod =
  nt_namespace :: string
  nt_nsLabels :: smap
  nt_labels :: smap

definition peer_matches :: "string \<Rightarrow> np_peer \<Rightarrow> net_pod \<Rightarrow> bool" where
  "peer_matches ns peer p \<longleftrightarrow>
     (case pe_namespaceSelector peer of
        None \<Rightarrow> nt_namespace p = ns
      | Some sel \<Rightarrow> selector_matches sel (nt_nsLabels p)) \<and>
     (case pe_podSelector peer of None \<Rightarrow> True | Some sel \<Rightarrow> selector_matches sel (nt_labels p))"

definition rule_admits :: "string \<Rightarrow> np_rule \<Rightarrow> net_pod \<Rightarrow> string \<Rightarrow> int \<Rightarrow> bool" where
  "rule_admits ns r p proto port \<longleftrightarrow>
     (nr_peers r = [] \<or> list_ex (\<lambda>peer. peer_matches ns peer p) (nr_peers r)) \<and>
     (nr_ports r = [] \<or> (proto, port) \<in> set (nr_ports r))"

definition np_selects :: "network_policy \<Rightarrow> smap \<Rightarrow> bool" where
  "np_selects np labels = selector_matches (np_podSelector np) labels"

definition ingress_admits :: "string \<Rightarrow> network_policy \<Rightarrow> net_pod \<Rightarrow> string \<Rightarrow> int \<Rightarrow> bool" where
  "ingress_admits ns np p proto port \<longleftrightarrow>
     ''Ingress'' \<notin> set (np_policyTypes np) \<or> list_ex (\<lambda>r. rule_admits ns r p proto port) (np_ingress np)"

definition egress_admits :: "string \<Rightarrow> network_policy \<Rightarrow> net_pod \<Rightarrow> string \<Rightarrow> int \<Rightarrow> bool" where
  "egress_admits ns np p proto port \<longleftrightarrow>
     ''Egress'' \<notin> set (np_policyTypes np) \<or> list_ex (\<lambda>r. rule_admits ns r p proto port) (np_egress np)"

lemma match_one [simp]: "selector_matches (match_labels [(k, v)]) labels \<longleftrightarrow> map_of labels k = Some v"
  by (simp add: selector_matches_def match_labels_def)

lemma match_any [simp]: "selector_matches (match_labels []) labels"
  by (simp add: selector_matches_def match_labels_def)

lemma pod_peer_matches [simp]:
  "peer_matches ns (pod_peer [(k, v)]) p \<longleftrightarrow> nt_namespace p = ns \<and> map_of (nt_labels p) k = Some v"
  by (simp add: peer_matches_def pod_peer_def)

lemma ns_peer_matches [simp]:
  "peer_matches ns (ns_peer [(k, v)]) p \<longleftrightarrow> map_of (nt_nsLabels p) k = Some v"
  by (simp add: peer_matches_def ns_peer_def)

lemma ns_any_matches [simp]: "peer_matches ns (ns_peer []) p"
  by (simp add: peer_matches_def ns_peer_def)

lemmas np_semantics = ingress_admits_def egress_admits_def rule_admits_def np_selects_def

section \<open>The three policies\<close>

definition apply_np :: "'w env \<Rightarrow> pulse \<Rightarrow> string \<Rightarrow> (network_policy \<Rightarrow> network_policy) \<Rightarrow> ('w, unit) fallible" where
  "apply_np E cr name f =
     create_or_update E (new_obj (key KNetworkPolicy (p_namespace cr) name) (BNetworkPolicy network_policy0))
       (\<lambda>x. set_controller E cr (x\<lparr>o_body := BNetworkPolicy (f (as_network_policy x))\<rparr>))"

definition ui_ingress :: "pulse \<Rightarrow> np_rule list" where
  "ui_ingress cr =
     \<lparr>nr_peers = [ns_peer [(''network.openshift.io/policy-group'', ''ingress'')],
                  ns_peer [(''policy-group.network.openshift.io/host-network'', '''')]],
      nr_ports = [(''TCP'', 8443)]\<rparr> #
     (if renderEnabled cr
      then [\<lparr>nr_peers = [pod_peer [(''app'', renderResourceName (p_name cr))]], nr_ports = [(''TCP'', uiRenderPort)]\<rparr>]
      else [])"

definition ui_np :: "pulse \<Rightarrow> network_policy \<Rightarrow> network_policy" where
  "ui_np cr np = np\<lparr>np_podSelector := match_labels [(''app'', p_name cr @ ''-openshiftpulse'')],
     np_policyTypes := [''Ingress'', ''Egress''], np_ingress := ui_ingress cr,
     np_egress := [\<lparr>nr_peers = [], nr_ports = []\<rparr>]\<rparr>"

definition reconcileUIPodNetworkPolicy :: "'w env \<Rightarrow> pulse \<Rightarrow> ('w, unit) fallible" where
  "reconcileUIPodNetworkPolicy E cr = apply_np E cr (p_name cr @ ''-openshiftpulse'') (ui_np cr)"

definition pg_np :: "pulse \<Rightarrow> network_policy \<Rightarrow> network_policy" where
  "pg_np cr np = np\<lparr>np_podSelector := match_labels (pgLabels (p_name cr)), np_policyTypes := [''Ingress''],
     np_ingress := [\<lparr>nr_peers = pod_peer [(''app'', p_name cr @ ''-openshift-sre-agent'')] #
         (if temporalEnabled cr then [pod_peer [(''app'', temporalResourceName (p_name cr))]] else []),
       nr_ports = [(''TCP'', 5432)]\<rparr>]\<rparr>"

definition reconcilePGNetworkPolicy :: "'w env \<Rightarrow> pulse \<Rightarrow> ('w, unit) fallible" where
  "reconcilePGNetworkPolicy E cr = apply_np E cr (p_name cr @ ''-pg-access'') (pg_np cr)"

definition agent_np :: "pulse \<Rightarrow> network_policy \<Rightarrow> network_policy" where
  "agent_np cr np = np\<lparr>np_podSelector := match_labels [(''app'', p_name cr @ ''-openshift-sre-agent'')],
     np_policyTypes := [''Ingress''],
     np_ingress :=
       [\<lparr>nr_peers = [pod_peer [(''app'', p_name cr @ ''-openshiftpulse'')]], nr_ports = [(''TCP'', 8080)]\<rparr>,
        \<lparr>nr_peers = [ns_peer [(''kubernetes.io/metadata.name'', ''openshift-user-workload-monitoring'')]],
         nr_ports = [(''TCP'', 8080)]\<rparr>]\<rparr>"

definition reconcileAgentNetworkPolicy :: "'w env \<Rightarrow> pulse \<Rightarrow> ('w, unit) fallible" where
  "reconcileAgentNetworkPolicy E cr = apply_np E cr (p_name cr @ ''-agent-access'') (agent_np cr)"

definition reconcileNetworkPolicies :: "'w env \<Rightarrow> pulse \<Rightarrow> ('w, unit) fallible" where
  "reconcileNetworkPolicies E cr =
     run_steps [(''ui network policy'', reconcileUIPodNetworkPolicy E cr),
                (''pg network policy'', reconcilePGNetworkPolicy E cr),
                (''agent network policy'', reconcileAgentNetworkPolicy E cr)]"

section \<open>pdb\_reconciler.go\<close>

definition reconcileUIPodsDisruptionBudget :: "'w env \<Rightarrow> pulse \<Rightarrow> ('w, unit) fallible" where
  "reconcileUIPodsDisruptionBudget E cr =
     (let k = key KPodDisruptionBudget (p_namespace cr) (p_name cr @ ''-openshiftpulse'') in
      if resolvedUIReplicas cr \<le> 1
      then do {
        r \<leftarrow> api_get E k;
        case r of
          Inl e \<Rightarrow> if is_not_found e then ok () else fail (Api e)
        | Inr existing \<Rightarrow>
            if \<not> e_controlledBy E existing cr then ok ()
            else do { d \<leftarrow> api_delete E k;
                      case d of Inl e \<Rightarrow> if is_not_found e then ok () else fail (Api e) | Inr _ \<Rightarrow> ok () } }
      else create_or_update E (new_obj k (BPDB pdb0))
             (\<lambda>x. set_controller E cr (x\<lparr>o_body := BPDB ((as_pdb x)\<lparr>
                bd_selector := Some [(''app'', p_name cr @ ''-openshiftpulse'')], bd_minAvailable := Some 1\<rparr>)\<rparr>)))"

section \<open>What they touch\<close>

definition np_writes :: "pulse \<Rightarrow> okey set" where
  "np_writes cr = key KNetworkPolicy (p_namespace cr) `
     {p_name cr @ ''-openshiftpulse'', p_name cr @ ''-pg-access'', p_name cr @ ''-agent-access''}"

interpretation netpol: sub_reconciler reconcileNetworkPolicies np_writes "\<lambda>_. {}"
  unfolding reconcileNetworkPolicies_def reconcileUIPodNetworkPolicy_def reconcilePGNetworkPolicy_def
    reconcileAgentNetworkPolicy_def apply_np_def np_writes_def
  by unfold_locales (intro allc.s_run_steps, auto intro!: allc.rules)

definition pdb_keys :: "pulse \<Rightarrow> okey set" where
  "pdb_keys cr = {key KPodDisruptionBudget (p_namespace cr) (p_name cr @ ''-openshiftpulse'')}"

interpretation pdb: sub_reconciler reconcileUIPodsDisruptionBudget pdb_keys pdb_keys
  unfolding reconcileUIPodsDisruptionBudget_def pdb_keys_def Let_def
  by unfold_locales (intro allc.rules; simp)

lemma guards_netpol: "guards permit seen (reconcileNetworkPolicies E cr)"
  by (rule touches_guards [OF netpol.footprint]) simp

lemma guards_pdb:
  "p_namespace cr \<noteq> '''' \<Longrightarrow> follows_policy E cr (reconcileUIPodsDisruptionBudget E cr)"
  unfolding reconcileUIPodsDisruptionBudget_def Let_def
  by (intro guards_get grd.rules) (simp_all add: deletion_policy_def Let_def)

lemma keeps_netpol: "keeps g (reconcileNetworkPolicies E cr)"
  unfolding reconcileNetworkPolicies_def reconcileUIPodNetworkPolicy_def reconcilePGNetworkPolicy_def
    reconcileAgentNetworkPolicy_def apply_np_def
  by (intro view.s_run_steps) (auto intro!: view.rules)

lemma keeps_pdb: "keeps g (reconcileUIPodsDisruptionBudget E cr)"
  unfolding reconcileUIPodsDisruptionBudget_def Let_def by (intro view.rules)

section \<open>Properties\<close>

text \<open>
  C29: The database policy selects exactly the labels the StatefulSet stamps on its pod and admits a
  connection to it only on TCP 5432 and only from the agent's pod or, when Temporal is enabled, from
  the Temporal server's pod, in the instance's namespace.
\<close>

theorem database_is_fenced:
  "np_selects (pg_np cr np) (pgLabels (p_name cr)) \<and>
   (ingress_admits (p_namespace cr) (pg_np cr np) p proto port \<longleftrightarrow>
      proto = ''TCP'' \<and> port = 5432 \<and> nt_namespace p = p_namespace cr \<and>
      (map_of (nt_labels p) ''app'' = Some (agentResourceName (p_name cr)) \<or>
       temporalEnabled cr \<and> map_of (nt_labels p) ''app'' = Some (temporalResourceName (p_name cr))))"
  by (auto simp: pg_np_def np_semantics selector_matches_def match_labels_def pgLabels_def agentResourceName_def)

text \<open>
  The disruption budget exists only while more than one UI replica runs: with one replica the
  reconciler writes nothing and deletes the budget exactly when it could be read and is controlled
  by this instance; with more it deletes nothing.
\<close>

theorem pdb_only_for_replicas:
  "let k = key KPodDisruptionBudget (p_namespace cr) (p_name cr @ ''-openshiftpulse'');
       s' = snd (run_state (reconcileUIPodsDisruptionBudget E cr) s)
   in if resolvedUIReplicas cr \<le> 1
      then case fst (fetch E k (os_world s)) of
          Inl e \<Rightarrow> os_log s' = os_log s @ [CGet k (Inl e)]
        | Inr x \<Rightarrow> \<exists>d. os_log s' = os_log s @ CGet k (Inr x) # (if e_controlledBy E x cr then [CDelete k '''' d] else [])
      else \<exists>f r. os_log s' = os_log s @ [CApply (new_obj k (BPDB pdb0)) f r]"
  by (auto simp: reconcileUIPodsDisruptionBudget_def Let_def client_defs run_bind_pair simp del: run_state_bind
      split: sum.split)

end
