(* ===== verification/MCP.thy ===== *)
theory MCP
  imports Agent NetworkPolicies
begin

text \<open>
  \<open>mcp_reconciler.go\<close>: the MCP server of an instance: ServiceAccount, read-only ClusterRole and its
  binding, the TOML settings in a ConfigMap (with their hash, which restarts the pod), Deployment,
  Service and NetworkPolicy, and their removal when the server is switched off.
\<close>

section \<open>Access rights\<close>

definition reconcileMCPServiceAccount :: "'w env \<Rightarrow> pulse \<Rightarrow> ('w, unit) fallible" where
  "reconcileMCPServiceAccount E cr =
     create_or_update E (new_obj (key KServiceAccount (p_namespace cr) (mcpResourceName (p_name cr))) BNone)
       (set_controller E cr)"

definition mcp_rules :: "policy_rule list" where
  "mcp_rules =
     [rule '''' [''pods'', ''pods/log'', ''nodes'', ''events'', ''services'', ''namespaces'', ''configmaps'',
               ''persistentvolumeclaims'', ''resourcequotas'', ''serviceaccounts'', ''endpoints'', ''limitranges''] glw,
      rule ''apps'' [''deployments'', ''replicasets'', ''statefulsets'', ''daemonsets''] glw,
      rule ''batch'' [''jobs'', ''cronjobs''] glw,
      rule ''metrics.k8s.io'' [''nodes'', ''pods''] gl,
      rule ''route.openshift.io'' [''routes''] glw,
      rule ''config.openshift.io'' [''clusterversions'', ''clusteroperators''] glw]"

definition reconcileMCPClusterRole :: "'w env \<Rightarrow> pulse \<Rightarrow> ('w, unit) fallible" where
  "reconcileMCPClusterRole E cr =
     bindE (wrapE ''migrate stale MCP ClusterRole''
       (deleteStaleUnqualifiedClusterScopedResource E cr KClusterRole (mcpResourceName (p_name cr)))) (\<lambda>_.
     create_or_update E (new_obj (key KClusterRole '''' (mcpClusterRoleName (p_name cr) (p_namespace cr))) (BClusterRole []))
       (\<lambda>x. Inr (x\<lparr>o_annotations := clusterScopedAnnotations cr, o_body := BClusterRole mcp_rules\<rparr>)))"

definition reconcileMCPClusterRoleBinding :: "'w env \<Rightarrow> pulse \<Rightarrow> ('w, unit) fallible" where
  "reconcileMCPClusterRoleBinding E cr =
     (let name = mcpClusterRoleName (p_name cr) (p_namespace cr) in
      bindE (wrapE ''migrate stale MCP ClusterRoleBinding''
        (deleteStaleUnqualifiedClusterScopedResource E cr KClusterRoleBinding (mcpResourceName (p_name cr)))) (\<lambda>_.
      apply_binding E cr name name (mcpResourceName (p_name cr))))"

definition mcp_np :: "pulse \<Rightarrow> network_policy \<Rightarrow> network_policy" where
  "mcp_np cr np = np\<lparr>np_podSelector := match_labels [(''app'', mcpResourceName (p_name cr))],
     np_policyTypes := [''Ingress''],
     np_ingress := [\<lparr>nr_peers = [pod_peer [(''app'', p_name cr @ ''-openshift-sre-agent'')]],
                     nr_ports = [(''TCP'', mcpServerPort)]\<rparr>]\<rparr>"

definition reconcileMCPNetworkPolicy :: "'w env \<Rightarrow> pulse \<Rightarrow> ('w, unit) fallible" where
  "reconcileMCPNetworkPolicy E cr = apply_np E cr (mcpResourceName (p_name cr)) (mcp_np cr)"

section \<open>Settings\<close>

definition defaultMCPServerImage :: string where
  "defaultMCPServerImage = ''quay.io/amobrem/pulse-agent:mcp-server''"

definition defaultMCPToolsets :: string where
  "defaultMCPToolsets = ''core,config,helm,observability/metrics,observability/logs,openshift,ossm,netedge,tekton,kubevirt,kcp,cluster-diagnostics''"

definition mcpConfigMountPath :: string where "mcpConfigMountPath = ''/etc/mcp''"
definition mcpConfigFileName :: string where "mcpConfigFileName = ''config.toml''"
definition mcpConfigHashAnnotation :: string where "mcpConfigHashAnnotation = ''pulse.ai/mcp-config-hash''"

definition mcp_toolsets :: "pulse \<Rightarrow> string list" where
  "mcp_toolsets cr =
     (let t = mc_toolsets (ag_mcp (agent_of cr)); toolsets = (if t = '''' then defaultMCPToolsets else t)
      in filter (\<lambda>t. t \<noteq> '''') (map trim_space (split_on (CHR '','') toolsets)))"

definition buildMCPConfigTOML :: "pulse \<Rightarrow> string" where
  "buildMCPConfigTOML cr =
     ''# Managed by pulse-operator. Edits are reverted.'' @ nl @
     ''port = '' @ go_quote (itoa mcpServerPort) @ nl @
     ''toolsets = ['' @ join '', '' (map go_quote (mcp_toolsets cr)) @ '']'' @ nl"

definition mcp_config_hash :: "'w env \<Rightarrow> pulse \<Rightarrow> string" where
  "mcp_config_hash E cr = take 8 (hex_encode (e_sha256 E (buildMCPConfigTOML cr)))"

definition reconcileMCPConfig :: "'w env \<Rightarrow> pulse \<Rightarrow> ('w, string) fallible" where
  "reconcileMCPConfig E cr =
     bindE (create_or_update E (new_obj (key KConfigMap (p_namespace cr) (mcpConfigName (p_name cr))) (BConfigMap []))
              (owned_by E cr (\<lambda>y. Inr (y\<lparr>o_body := BConfigMap [(mcpConfigFileName, buildMCPConfigTOML cr)]\<rparr>))))
       (\<lambda>_. ok (mcp_config_hash E cr))"

section \<open>Deployment and Service\<close>

definition mcp_image :: "'w env \<Rightarrow> pulse \<Rightarrow> string" where
  "mcp_image E cr =
     (if mc_image (ag_mcp (agent_of cr)) \<noteq> '''' then mc_image (ag_mcp (agent_of cr))
      else imageFromEnv E envMCPServerImage defaultMCPServerImage)"

definition mcp_container :: "'w env \<Rightarrow> pulse \<Rightarrow> container" where
  "mcp_container E cr = (container0 ''mcp-server'' (mcp_image E cr))
     \<lparr>co_securityContext := Some defaultContainerSecCtx,
      co_args := [''--config='' @ mcpConfigMountPath @ ''/'' @ mcpConfigFileName],
      co_volumeMounts := [\<lparr>vm_name = ''config'', vm_mountPath = mcpConfigMountPath, vm_subPath = '''', vm_readOnly = True\<rparr>],
      co_ports := [\<lparr>cp_name = ''http'', cp_port = mcpServerPort, cp_protocol = ''TCP''\<rparr>],
      co_resources := memory_resources ''128Mi'' ''512Mi'',
      co_readinessProbe := Some (http_probe ''/healthz'' mcpServerPort 5 10 0),
      co_livenessProbe := Some (http_probe ''/healthz'' mcpServerPort 15 20 0)\<rparr>"

definition mcp_mutate :: "'w env \<Rightarrow> pulse \<Rightarrow> string \<Rightarrow> deployment \<Rightarrow> deployment" where
  "mcp_mutate E cr configHash d =
     (let name = mcpResourceName (p_name cr); t = de_template d in
      d\<lparr>de_selector := Some [(''app'', name)],
        de_template := t\<lparr>pt_labels := [(''app'', name)],
          pt_annotations := sput mcpConfigHashAnnotation configHash (pt_annotations t),
          pt_spec := (pt_spec t)\<lparr>po_serviceAccountName := name, po_securityContext := Some (defaultPodSecCtx None),
            po_containers := [mcp_container E cr],
            po_volumes := [(''config'', VConfigMap (mcpConfigName (p_name cr)))]\<rparr>\<rparr>\<rparr>)"

text \<open>A Deployment whose owner is set first and whose body is then changed in place.\<close>

definition apply_deployment :: "'w env \<Rightarrow> pulse \<Rightarrow> string \<Rightarrow> (deployment \<Rightarrow> deployment) \<Rightarrow> ('w, unit) fallible" where
  "apply_deployment E cr name f =
     create_or_update E (new_obj (key KDeployment (p_namespace cr) name) (BDeployment deployment0))
       (owned_by E cr (\<lambda>y. Inr (y\<lparr>o_body := BDeployment (f (as_deployment y))\<rparr>)))"

definition apply_service :: "'w env \<Rightarrow> pulse \<Rightarrow> string \<Rightarrow> (service \<Rightarrow> service) \<Rightarrow> ('w, unit) fallible" where
  "apply_service E cr name f =
     create_or_update E (new_obj (key KService (p_namespace cr) name) (BService service0))
       (owned_by E cr (\<lambda>y. Inr (y\<lparr>o_body := BService (f (as_service y))\<rparr>)))"

definition reconcileMCPDeployment :: "'w env \<Rightarrow> pulse \<Rightarrow> string \<Rightarrow> ('w, unit) fallible" where
  "reconcileMCPDeployment E cr configHash =
     apply_deployment E cr (mcpResourceName (p_name cr)) (mcp_mutate E cr configHash)"

definition mcp_service :: "pulse \<Rightarrow> service" where
  "mcp_service cr = service0\<lparr>se_type := ''ClusterIP'', se_selector := [(''app'', mcpResourceName (p_name cr))],
     se_ports := [\<lparr>sv_name = ''http'', sv_port = mcpServerPort, sv_targetPort = None, sv_protocol = ''TCP''\<rparr>]\<rparr>"

definition reconcileMCPService :: "'w env \<Rightarrow> pulse \<Rightarrow> ('w, unit) fallible" where
  "reconcileMCPService E cr =
     (let k = key KService (p_namespace cr) (mcpResourceName (p_name cr)) in
      bindE (liftE (set_controller E cr (new_obj k (BService (mcp_service cr))))) (\<lambda>desired.
      do { r \<leftarrow> api_get E k;
           case r of
             Inl e \<Rightarrow> if is_not_found e then voidE (apiE (api_create E desired)) else fail (Api e)
           | Inr existing \<Rightarrow> voidE (apiE (api_update E (existing\<lparr>o_body := BService ((as_service existing)\<lparr>
               se_selector := se_selector (mcp_service cr), se_ports := se_ports (mcp_service cr)\<rparr>)\<rparr>))) }))"

definition reconcileMCP :: "'w env \<Rightarrow> pulse \<Rightarrow> ('w, unit) fallible" where
  "reconcileMCP E cr =
     (if \<not> mc_enabled (ag_mcp (agent_of cr)) then ok ()
      else bindE (run_steps [(''MCP ServiceAccount'', reconcileMCPServiceAccount E cr),
                             (''MCP ClusterRole'', reconcileMCPClusterRole E cr),
                             (''MCP ClusterRoleBinding'', reconcileMCPClusterRoleBinding E cr)]) (\<lambda>_.
           bindE (wrapE ''MCP ConfigMap'' (reconcileMCPConfig E cr)) (\<lambda>configHash.
           run_steps [(''MCP Deployment'', reconcileMCPDeployment E cr configHash),
                      (''MCP Service'', reconcileMCPService E cr),
                      (''MCP NetworkPolicy'', reconcileMCPNetworkPolicy E cr)])))"

definition mcp_owned :: "pulse \<Rightarrow> (kind \<times> string) list" where
  "mcp_owned cr =
     (let name = mcpResourceName (p_name cr) in
      [(KDeployment, name), (KConfigMap, mcpConfigName (p_name cr)), (KService, name), (KNetworkPolicy, name),
       (KServiceAccount, name)])"

definition removeMCP :: "'w env \<Rightarrow> pulse \<Rightarrow> ('w, unit) fallible" where
  "removeMCP E cr =
     (let crName = mcpClusterRoleName (p_name cr) (p_namespace cr) in
      bindE (run_all (map (\<lambda>(kd, name). deleteOwned E cr kd name) (mcp_owned cr))) (\<lambda>_.
      bindE (deleteOwnedClusterScoped E cr KClusterRoleBinding crName) (\<lambda>_.
      deleteOwnedClusterScoped E cr KClusterRole crName)))"

section \<open>What it touches\<close>

definition mcp_writes :: "pulse \<Rightarrow> okey set" where
  "mcp_writes cr =
     (let name = mcpResourceName (p_name cr); ns = p_namespace cr; role = mcpClusterRoleName (p_name cr) ns in
      {key KServiceAccount ns name, key KClusterRole '''' role, key KClusterRoleBinding '''' role,
       key KConfigMap ns (mcpConfigName (p_name cr)), key KDeployment ns name, key KService ns name,
       key KNetworkPolicy ns name})"

definition mcp_stale :: "pulse \<Rightarrow> okey set" where
  "mcp_stale cr = {key KClusterRole '''' (mcpResourceName (p_name cr)), key KClusterRoleBinding '''' (mcpResourceName (p_name cr))}"

lemmas mcp_parts_defs =
  reconcileMCPServiceAccount_def reconcileMCPClusterRole_def apply_binding_def reconcileMCPClusterRoleBinding_def
  reconcileMCPNetworkPolicy_def apply_np_def reconcileMCPConfig_def reconcileMCPDeployment_def apply_deployment_def
  reconcileMCPService_def apply_service_def

lemma touches_mcp_parts:
  "touches (mcp_writes cr) (mcp_stale cr) (reconcileMCPServiceAccount E cr)"
  "touches (mcp_writes cr) (mcp_stale cr) (reconcileMCPClusterRole E cr)"
  "touches (mcp_writes cr) (mcp_stale cr) (reconcileMCPClusterRoleBinding E cr)"
  "touches (mcp_writes cr) (mcp_stale cr) (reconcileMCPConfig E cr)"
  "touches (mcp_writes cr) (mcp_stale cr) (reconcileMCPDeployment E cr h)"
  "touches (mcp_writes cr) (mcp_stale cr) (reconcileMCPService E cr)"
  "touches (mcp_writes cr) (mcp_stale cr) (reconcileMCPNetworkPolicy E cr)"
  unfolding mcp_parts_defs Let_def
  by (intro allc.rules touches_mono [OF touches_deleteStale];
      auto simp: mcp_writes_def mcp_stale_def Let_def dest!: set_controller_key)+

interpretation mcp: sub_reconciler reconcileMCP mcp_writes mcp_stale
  unfolding reconcileMCP_def
  by unfold_locales
     (intro allc.s_if allc.s_ret allc.s_bindE allc.s_wrapE allc.s_run_steps; auto intro!: touches_mcp_parts)

lemma guards_mcp_parts:
  "follows_policy E cr (reconcileMCPServiceAccount E cr)" "follows_policy E cr (reconcileMCPClusterRole E cr)"
  "follows_policy E cr (reconcileMCPClusterRoleBinding E cr)" "follows_policy E cr (reconcileMCPConfig E cr)"
  "follows_policy E cr (reconcileMCPDeployment E cr h)" "follows_policy E cr (reconcileMCPService E cr)"
  "follows_policy E cr (reconcileMCPNetworkPolicy E cr)"
  unfolding mcp_parts_defs Let_def by (intro grd.rules guards_deleteStale; simp)+

lemma guards_reconcileMCP: "follows_policy E cr (reconcileMCP E cr)"
  unfolding reconcileMCP_def
  by (intro grd.s_if grd.s_ret grd.s_bindE grd.s_wrapE grd.s_run_steps; auto intro!: guards_mcp_parts)

lemma keeps_mcp_parts:
  "keeps g (reconcileMCPServiceAccount E cr)" "keeps g (reconcileMCPClusterRole E cr)"
  "keeps g (reconcileMCPClusterRoleBinding E cr)" "keeps g (reconcileMCPConfig E cr)"
  "keeps g (reconcileMCPDeployment E cr h)" "keeps g (reconcileMCPService E cr)"
  "keeps g (reconcileMCPNetworkPolicy E cr)"
  unfolding mcp_parts_defs Let_def by (intro view.rules keeps_deletes)+

lemma keeps_reconcileMCP: "keeps g (reconcileMCP E cr)"
  unfolding reconcileMCP_def
  by (intro view.s_if view.s_ret view.s_bindE view.s_wrapE view.s_run_steps; auto intro!: keeps_mcp_parts)

definition mcp_removes :: "pulse \<Rightarrow> okey set" where
  "mcp_removes cr =
     (\<lambda>(kd, name). key kd (p_namespace cr) name) ` set (mcp_owned cr) \<union>
     {key KClusterRoleBinding '''' (mcpClusterRoleName (p_name cr) (p_namespace cr)),
      key KClusterRole '''' (mcpClusterRoleName (p_name cr) (p_namespace cr))}"

interpretation mcp_removal: sub_reconciler removeMCP "\<lambda>_. {}" mcp_removes
  unfolding removeMCP_def Let_def mcp_removes_def
  by unfold_locales
     (intro allc.s_bindE allc.s_run_all;
      force intro: touches_mono [OF touches_deleteOwned] touches_mono [OF touches_deleteOwnedClusterScoped])

text \<open>The objects of an instance's own MCP server are none of the exempt ones of the policy.\<close>

lemma guards_removeMCP:
  assumes "p_namespace cr \<noteq> ''''"
  shows "follows_policy E cr (removeMCP E cr)"
  unfolding removeMCP_def Let_def
  by (intro grd.s_bindE grd.s_run_all guards_deleteOwnedClusterScoped)
     (use assms in \<open>auto simp: mcp_owned_def Let_def deletion_policy_def agentResourceName_def mcpResourceName_def
        mcpConfigName_def uiNginxSecretName_def intro!: guards_deleteOwned\<close>)

lemma keeps_removeMCP: "keeps g (removeMCP E cr)"
  unfolding removeMCP_def Let_def by (intro view.s_bindE view.s_run_all keeps_deletes) (auto intro!: keeps_deletes)

end
