(* ===== verification/Admission.thy ===== *)
theory Admission
  imports Cleanup "HOL-Library.List_Lexorder" "HOL-Library.Char_ord"
begin

text \<open>
  \<open>admission.go\<close>: one instance per cluster. Which custom resource is the accepted one, and what
  happens to the others.
\<close>

section \<open>The gate\<close>

definition defaultPulseNamespace :: string where "defaultPulseNamespace = ''openshiftpulse''"
definition envPulseNamespace :: string where "envPulseNamespace = ''PULSE_NAMESPACE''"
definition phaseRejected :: string where "phaseRejected = ''Rejected''"
definition reasonRejected :: string where "reasonRejected = ''NotTheClusterInstance''"
definition conditionAccept :: string where "conditionAccept = ''Accepted''"

definition pulseNamespace :: "'w env \<Rightarrow> string" where
  "pulseNamespace E =
     (if e_getenv E envPulseNamespace \<noteq> '''' then e_getenv E envPulseNamespace else defaultPulseNamespace)"

text \<open>The order of \<open>sort.Slice\<close>: creation time, then name.\<close>

definition older :: "pulse \<Rightarrow> pulse \<Rightarrow> bool" where
  "older a b \<longleftrightarrow>
     (if p_creationTimestamp a \<noteq> p_creationTimestamp b then p_creationTimestamp a < p_creationTimestamp b
      else p_name a < p_name b)"

fun insert_by_age :: "pulse \<Rightarrow> pulse list \<Rightarrow> pulse list" where
  "insert_by_age p [] = [p]"
| "insert_by_age p (q # qs) = (if older q p then q # insert_by_age p qs else p # q # qs)"

definition sort_by_age :: "pulse list \<Rightarrow> pulse list" where
  "sort_by_age ps = foldr insert_by_age ps []"

definition live :: "pulse list \<Rightarrow> pulse list" where
  "live ps = filter (\<lambda>p. p_deletionTimestamp p = None) ps"

definition wrong_namespace_message :: "string \<Rightarrow> string \<Rightarrow> string" where
  "wrong_namespace_message ns actual =
     ''OpenShiftPulse is only supported in namespace '' @ go_quote ns @ '', one per cluster; this one is in '' @
     go_quote actual @ '' and is ignored. A cluster admin can change the namespace with the operator's '' @
     envPulseNamespace @ '' environment variable.''"

definition not_first_message :: "string \<Rightarrow> string \<Rightarrow> string" where
  "not_first_message ns name =
     ''Only one OpenShiftPulse is supported per cluster, and '' @ ns @ ''/'' @ name @
     '' already exists; this one is ignored.''"

text \<open>The verdict on a list of resources of the namespace.\<close>

definition verdict :: "string \<Rightarrow> pulse \<Rightarrow> pulse list \<Rightarrow> string" where
  "verdict ns cr items =
     (let l = live items in
      if length l < 2 then ''''
      else let first = hd (sort_by_age l) in
           if p_uid first = p_uid cr then '''' else not_first_message ns (p_name first))"

definition rejectionReason :: "'w env \<Rightarrow> pulse \<Rightarrow> ('w, string) fallible" where
  "rejectionReason E cr =
     (let ns = pulseNamespace E in
      if p_namespace cr \<noteq> ns then ok (wrong_namespace_message ns (p_namespace cr))
      else do { r \<leftarrow> api_listPulses E ns;
                case r of Inl e \<Rightarrow> fail (Api e) | Inr items \<Rightarrow> ok (verdict ns cr items) })"

text \<open>After \<open>r.Status().Update(ctx, pulse)\<close> the object holds what the server answered.\<close>

definition updateStatus :: "'w env \<Rightarrow> ('w, unit) fallible" where
  "updateStatus E =
     do { cr \<leftarrow> get_cr;
          r \<leftarrow> api_updateStatus E cr;
          case r of Inl e \<Rightarrow> fail (Api e) | Inr p \<Rightarrow> do { put_cr p; ok () } }"

definition reject_effects :: "'w env \<Rightarrow> string \<Rightarrow> ('w, unit) action" where
  "reject_effects E reason =
     do { cr \<leftarrow> get_cr;
          (if st_phase (p_status cr) \<noteq> phaseRejected \<and> e_hasRecorder E
           then emit_event ''Warning'' reasonRejected reason else ret ());
          set_status (\<lambda>st. st\<lparr>st_phase := phaseRejected\<rparr>);
          set_condition E (mk_condition cr conditionAccept CondFalse reasonRejected reason) }"

definition reject :: "'w env \<Rightarrow> string \<Rightarrow> ('w, unit) fallible" where
  "reject E reason =
     do { cr \<leftarrow> get_cr;
          bindE (wrapE ''remove cluster-scoped resources of rejected OpenShiftPulse''
                  (deleteClusterScopedResources E cr)) (\<lambda>_.
            do { reject_effects E reason; updateStatus E }) }"

section \<open>The oldest of a list\<close>

lemma older_total: "\<not> older a b \<Longrightarrow> older b a \<or> (p_creationTimestamp a = p_creationTimestamp b \<and> p_name a = p_name b)"
  by (auto simp: older_def split: if_splits)

lemma older_trans: "older a b \<Longrightarrow> older b c \<Longrightarrow> older a c"
  by (auto simp: older_def split: if_splits)

lemma older_irrefl [simp]: "\<not> older a a"
  by (simp add: older_def)

lemma set_insert_by_age [simp]: "set (insert_by_age p qs) = insert p (set qs)"
  by (induction qs) auto

lemma set_sort_by_age [simp]: "set (sort_by_age ps) = set ps"
  by (induction ps) (simp_all add: sort_by_age_def)

lemma sort_by_age_Nil [simp]: "sort_by_age ps = [] \<longleftrightarrow> ps = []"
  using set_sort_by_age [of ps] by (metis set_empty)

lemma hd_insert_by_age:
  "hd (insert_by_age p qs) = (if qs \<noteq> [] \<and> older (hd qs) p then hd qs else p)"
  by (cases qs) auto

lemma hd_sort_least: "q \<in> set ps \<Longrightarrow> \<not> older q (hd (sort_by_age ps))"
proof (induction ps arbitrary: q)
  case Nil
  then show ?case by simp
next
  case (Cons p ps)
  let ?h = "hd (sort_by_age ps)"
  have step: "hd (sort_by_age (p # ps)) = (if ps \<noteq> [] \<and> older ?h p then ?h else p)"
    using hd_insert_by_age [of p "sort_by_age ps"] by (simp add: sort_by_age_def [of "p # ps"] flip: sort_by_age_def)
  show ?case
  proof (cases "ps \<noteq> [] \<and> older ?h p")
    case True
    then have "\<not> older p ?h" using older_trans [of p ?h p] by auto
    with True Cons show ?thesis by (auto simp: step)
  next
    case False
    show ?thesis
    proof (cases "q = p")
      case True
      with False show ?thesis by (auto simp: step)
    next
      case neq: False
      with Cons.prems have "q \<in> set ps" by simp
      from Cons.IH [OF this] have "\<not> older q ?h" .
      moreover from \<open>q \<in> set ps\<close> False have "\<not> older ?h p" by auto
      ultimately have "\<not> older q p"
        using older_total [of q ?h] older_total [of ?h p] older_trans [of ?h q p]
        by (auto simp: older_def split: if_splits)
      with False show ?thesis by (auto simp: step)
    qed
  qed
qed

lemma hd_sort_in: "ps \<noteq> [] \<Longrightarrow> hd (sort_by_age ps) \<in> set ps"
  using hd_in_set [of "sort_by_age ps"] by simp

lemma verdict_not_first [simp]: "not_first_message ns n \<noteq> ''''"
  by (simp add: not_first_message_def)

lemma wrong_namespace_message_nonempty [simp]: "wrong_namespace_message ns n \<noteq> ''''"
  by (simp add: wrong_namespace_message_def)

lemma verdict_empty_iff:
  "p \<in> set (live items) \<Longrightarrow> distinct (map p_uid items) \<Longrightarrow>
     verdict ns p items = '''' \<longleftrightarrow> p = hd (sort_by_age (live items))"
proof -
  assume p: "p \<in> set (live items)" and dist: "distinct (map p_uid items)"
  let ?h = "hd (sort_by_age (live items))"
  have h: "?h \<in> set (live items)" using p by (intro hd_sort_in) auto
  have uid: "p_uid ?h = p_uid p \<longleftrightarrow> ?h = p"
    using dist h p inj_onD [of p_uid "set items"] by (auto simp: distinct_map live_def)
  show ?thesis
  proof (cases "length (live items) < 2")
    case True
    with p h have "?h = p" by (cases "live items") auto
    with True show ?thesis by (simp add: verdict_def Let_def)
  next
    case False
    with uid show ?thesis by (auto simp: verdict_def Let_def)
  qed
qed

lemma run_rejectionReason:
  "fst (run_state (rejectionReason E cr) s) =
     (if p_namespace cr \<noteq> pulseNamespace E then Inr (wrong_namespace_message (pulseNamespace E) (p_namespace cr))
      else case fst (e_listPulses E (pulseNamespace E) (os_world s)) of
             Inl e \<Rightarrow> Inl (Api e) | Inr items \<Rightarrow> Inr (verdict (pulseNamespace E) cr items))"
  by (simp add: rejectionReason_def Let_def client_defs run_bind_pair del: run_state_bind split: sum.split)

section \<open>Properties\<close>

text \<open>
  C22: One instance per cluster: when the list of the namespace's resources holds a live one, exactly
  one live resource of that namespace is accepted on it, and no live resource is older; a resource
  of any other namespace is always rejected.
\<close>

theorem exactly_one_instance_accepted:
  assumes "fst (e_listPulses E (pulseNamespace E) (os_world s)) = Inr items"
    and "distinct (map p_uid items)" and "list_all (\<lambda>p. p_namespace p = pulseNamespace E) items" and "live items \<noteq> []"
  shows "(\<exists>!p. p \<in> set (live items) \<and> fst (run_state (rejectionReason E p) s) = Inr '''') \<and>
    (\<forall>p q. p \<in> set (live items) \<and> q \<in> set (live items) \<and> fst (run_state (rejectionReason E p) s) = Inr '''' \<longrightarrow> \<not> older q p) \<and>
    (\<forall>p. p_namespace p \<noteq> pulseNamespace E \<longrightarrow> fst (run_state (rejectionReason E p) s) \<noteq> Inr '''')"
proof -
  let ?h = "hd (sort_by_age (live items))"
  have iff: "fst (run_state (rejectionReason E p) s) = Inr '''' \<longleftrightarrow> p = ?h" if p: "p \<in> set (live items)" for p
  proof -
    have "p \<in> set items" using p by (simp add: live_def)
    then have "p_namespace p = pulseNamespace E"
      using assms(3) by (simp add: list_all_iff)
    then show ?thesis
      using verdict_empty_iff [OF p assms(2)] assms(1) by (simp add: run_rejectionReason)
  qed
  have "?h \<in> set (live items)" using assms(4) by (rule hd_sort_in)
  with iff have "\<exists>!p. p \<in> set (live items) \<and> fst (run_state (rejectionReason E p) s) = Inr ''''" by blast
  moreover have "\<forall>p q. p \<in> set (live items) \<and> q \<in> set (live items) \<and>
      fst (run_state (rejectionReason E p) s) = Inr '''' \<longrightarrow> \<not> older q p"
    using iff hd_sort_least by blast
  moreover have "\<forall>p. p_namespace p \<noteq> pulseNamespace E \<longrightarrow> fst (run_state (rejectionReason E p) s) \<noteq> Inr ''''"
    by (simp add: run_rejectionReason)
  ultimately show ?thesis by blast
qed

definition ex_two :: "pulse list" where
  "ex_two = [(empty_pulse ''b'' ''openshiftpulse'' ''u2'')\<lparr>p_creationTimestamp := 5\<rparr>, empty_pulse ''a'' ''openshiftpulse'' ''u1'']"

theorem exactly_one_instance_accepted_witness:
  "\<exists>!p. p \<in> set (live ex_two) \<and>
     fst (run_state (rejectionReason sim_env p) (sim_state (empty_world\<lparr>sw_pulses := ex_two\<rparr>) (hd ex_two))) = Inr ''''"
proof -
  let ?s = "sim_state (empty_world\<lparr>sw_pulses := ex_two\<rparr>) (hd ex_two)"
  have "fst (e_listPulses sim_env (pulseNamespace sim_env) (os_world ?s)) = Inr ex_two"
    by (simp add: pulseNamespace_def defaultPulseNamespace_def ex_two_def sim_simps)
  moreover have "distinct (map p_uid ex_two)" "list_all (\<lambda>p. p_namespace p = pulseNamespace sim_env) ex_two" "live ex_two \<noteq> []"
    by (simp_all add: pulseNamespace_def defaultPulseNamespace_def ex_two_def empty_pulse_def live_def)
  ultimately show ?thesis
    using exactly_one_instance_accepted by blast
qed

end
