(* ===== verification/UI.thy ===== *)
theory UI
  imports Nginx MCP Admission
begin

text \<open>
  \<open>ui_reconciler.go\<close>: the objects of the UI, in the order of \<open>reconcileUI\<close>: ServiceAccount,
  ClusterRole, bindings, OAuth Secret, service CA bundle, Service, nginx configuration (theory
  \<open>Nginx\<close>), Deployment with the OAuth proxy, Route and OAuthClient. The Route and the OAuthClient are
  unstructured objects in Go; the fields the operator reads and writes are those of the records.
\<close>

section \<open>ServiceAccount and access rights\<close>

definition redirectAnnotation :: string where
  "redirectAnnotation = ''serviceaccounts.openshift.io/oauth-redirectreference.primary''"

definition json_field :: "string \<Rightarrow> string \<Rightarrow> string" where
  "json_field k v = quote_char @ k @ quote_char @ '':'' @ quote_char @ v @ quote_char"

definition redirect_ref :: "string \<Rightarrow> string" where
  "redirect_ref routeName =
     ''{'' @ json_field ''kind'' ''OAuthRedirectReference'' @ '','' @ json_field ''apiVersion'' ''v1'' @ '','' @
     quote_char @ ''reference'' @ quote_char @ '':{'' @ json_field ''kind'' ''Route'' @ '','' @ json_field ''name'' routeName @ ''}}''"

definition reconcileUIServiceAccount :: "'w env \<Rightarrow> pulse \<Rightarrow> ('w, unit) fallible" where
  "reconcileUIServiceAccount E cr =
     (let name = uiResourceName (p_name cr); k = key KServiceAccount (p_namespace cr) name; ref = redirect_ref name in
      bindE (liftE (set_controller E cr ((new_obj k BNone)\<lparr>o_annotations := [(redirectAnnotation, ref)]\<rparr>))) (\<lambda>desired.
      do { r \<leftarrow> api_get E k;
           case r of
             Inl e \<Rightarrow> if is_not_found e then voidE (apiE (api_create E desired)) else fail (Api e)
           | Inr existing \<Rightarrow>
               voidE (apiE (api_update E (existing\<lparr>o_annotations := sput redirectAnnotation ref (o_annotations existing)\<rparr>))) }))"

definition ui_rules :: "policy_rule list" where
  "ui_rules =
     [rule '''' [''namespaces'', ''pods'', ''services'', ''nodes'', ''events'', ''persistentvolumeclaims'', ''configmaps'',
               ''endpoints'', ''serviceaccounts''] glw,
      rule ''apps'' [''deployments'', ''daemonsets'', ''statefulsets'', ''replicasets''] glw,
      rule ''route.openshift.io'' [''routes''] glw,
      rule ''config.openshift.io'' [''clusterversions'', ''clusteroperators''] glw]"

text \<open>Create a cluster-scoped object with the stamp of the instance, or update it.\<close>

definition stamped :: "pulse \<Rightarrow> body \<Rightarrow> kobj \<Rightarrow> kobj" where
  "stamped cr b x = x\<lparr>o_annotations := clusterScopedAnnotations cr, o_body := b\<rparr>"

definition reconcileUIClusterRole :: "'w env \<Rightarrow> pulse \<Rightarrow> ('w, unit) fallible" where
  "reconcileUIClusterRole E cr =
     (let k = key KClusterRole '''' (uiClusterRoleName (p_name cr) (p_namespace cr)) in
      bindE (wrapE ''migrate stale UI ClusterRole''
        (deleteStaleUnqualifiedClusterScopedResource E cr KClusterRole (uiClusterRoleNameUnqualified (p_name cr)))) (\<lambda>_.
      do { r \<leftarrow> api_get E k;
           case r of
             Inl e \<Rightarrow> if is_not_found e then voidE (apiE (api_create E (stamped cr (BClusterRole ui_rules) (new_obj k BNone))))
                     else fail (Api e)
           | Inr existing \<Rightarrow> voidE (apiE (api_update E (stamped cr (BClusterRole ui_rules) existing))) }))"

definition ui_subject :: "pulse \<Rightarrow> subject" where
  "ui_subject cr = \<lparr>su_kind = ''ServiceAccount'', su_name = uiResourceName (p_name cr), su_namespace = p_namespace cr\<rparr>"

definition cluster_role_ref :: "string \<Rightarrow> role_ref" where
  "cluster_role_ref name = \<lparr>rr_apiGroup = ''rbac.authorization.k8s.io'', rr_kind = ''ClusterRole'', rr_name = name\<rparr>"

definition reconcileUIClusterRoleBinding :: "'w env \<Rightarrow> pulse \<Rightarrow> ('w, unit) fallible" where
  "reconcileUIClusterRoleBinding E cr =
     (let name = uiClusterRoleName (p_name cr) (p_namespace cr); k = key KClusterRoleBinding '''' name in
      bindE (wrapE ''migrate stale UI ClusterRoleBinding''
        (deleteStaleUnqualifiedClusterScopedResource E cr KClusterRoleBinding (uiClusterRoleNameUnqualified (p_name cr)))) (\<lambda>_.
      do { r \<leftarrow> api_get E k;
           case r of
             Inl e \<Rightarrow>
               if is_not_found e
               then voidE (apiE (api_create E (stamped cr
                      (BRoleBinding \<lparr>rbn_roleRef = cluster_role_ref name, rbn_subjects = [ui_subject cr]\<rparr>) (new_obj k BNone))))
               else fail (Api e)
           | Inr existing \<Rightarrow>
               voidE (apiE (api_update E (stamped cr
                 (BRoleBinding ((as_role_binding existing)\<lparr>rbn_subjects := [ui_subject cr]\<rparr>)) existing))) }))"

definition reconcileUIAuthDelegatorBinding :: "'w env \<Rightarrow> pulse \<Rightarrow> ('w, unit) fallible" where
  "reconcileUIAuthDelegatorBinding E cr =
     (let k = key KClusterRoleBinding '''' (uiClusterRoleName (p_name cr) (p_namespace cr) @ ''-auth-delegator'') in
      bindE (wrapE ''migrate stale UI auth-delegator ClusterRoleBinding''
        (deleteStaleUnqualifiedClusterScopedResource E cr KClusterRoleBinding
          (uiClusterRoleNameUnqualified (p_name cr) @ ''-auth-delegator''))) (\<lambda>_.
      create_or_update E ((new_obj k (BRoleBinding role_binding0))\<lparr>o_annotations := clusterScopedAnnotations cr\<rparr>)
        (\<lambda>x. Inr (x\<lparr>o_body := BRoleBinding ((as_role_binding x)\<lparr>
           rbn_roleRef := cluster_role_ref ''system:auth-delegator'', rbn_subjects := [ui_subject cr]\<rparr>)\<rparr>))))"

section \<open>OAuth Secret and CA bundle\<close>

definition cookie_message :: "string \<Rightarrow> string" where
  "cookie_message name =
     ''Secret '' @ go_quote name @ '' had a malformed cookie-secret (wrong length or non-printable bytes) '' @ em_dash @
     '' regenerated it; client-secret was left untouched''"

definition with_cookie :: "string \<Rightarrow> kobj \<Rightarrow> kobj" where
  "with_cookie c x =
     (let s = as_secret x in x\<lparr>o_body := BSecret (s\<lparr>se_data := sput ''cookie-secret'' c (se_data s)\<rparr>)\<rparr>)"

definition reconcileUIOAuthSecrets :: "'w env \<Rightarrow> pulse \<Rightarrow> ('w, unit) fallible" where
  "reconcileUIOAuthSecrets E cr =
     (let name = uiOAuthSecretsName (p_name cr); k = key KSecret (p_namespace cr) name in
      do { r \<leftarrow> api_get E k;
           case r of
             Inr existing \<Rightarrow>
               if isValidCookieSecret (sget (se_data (as_secret existing)) ''cookie-secret'') then ok ()
               else bindE (wrapE ''generate cookie-secret'' (generateCookieSecret E)) (\<lambda>newCookie.
                    bindE (apiE (api_update E (with_cookie newCookie existing))) (\<lambda>_.
                    do { recordEvent E ''Normal'' ''SelfHealed'' (cookie_message name);
                         inc_self_heal ''ui'' ''cookie_secret_regenerate'';
                         ok () }))
           | Inl e \<Rightarrow>
               if \<not> is_not_found e then fail (Api e)
               else bindE (wrapE ''generate client-secret'' (generatePassword E 32)) (\<lambda>clientSecret.
                    bindE (wrapE ''generate cookie-secret'' (generateCookieSecret E)) (\<lambda>cookieSecret.
                    bindE (liftE (set_controller E cr (new_obj k (BSecret (secret0\<lparr>
                      se_stringData := [(''client-secret'', clientSecret), (''cookie-secret'', cookieSecret)]\<rparr>))))) (\<lambda>desired.
                    voidE (apiE (api_create E desired))))) })"

definition reconcileUIServiceCABundle :: "'w env \<Rightarrow> pulse \<Rightarrow> ('w, unit) fallible" where
  "reconcileUIServiceCABundle E cr =
     create_or_update E (new_obj (key KConfigMap (p_namespace cr) (uiServiceCABundleName (p_name cr))) (BConfigMap []))
       (\<lambda>x. set_controller E cr (x\<lparr>o_annotations :=
          sput ''service.beta.openshift.io/inject-cabundle'' ''true'' (o_annotations x)\<rparr>))"

section \<open>Deployment\<close>

definition uiContainerPorts :: "pulse \<Rightarrow> container_port list" where
  "uiContainerPorts cr =
     \<lparr>cp_name = ''http'', cp_port = uiHTTPPort, cp_protocol = ''TCP''\<rparr> #
     (if renderEnabled cr then [\<lparr>cp_name = ''render'', cp_port = uiRenderPort, cp_protocol = ''TCP''\<rparr>] else [])"

definition read_only_mount :: "string \<Rightarrow> string \<Rightarrow> volume_mount" where
  "read_only_mount n p = \<lparr>vm_name = n, vm_mountPath = p, vm_subPath = '''', vm_readOnly = True\<rparr>"

definition ui_container :: "'w env \<Rightarrow> pulse \<Rightarrow> container" where
  "ui_container E cr = (container0 ''openshiftpulse'' (resolvedUIImage E cr))
     \<lparr>co_resources := uiResources cr, co_securityContext := Some defaultContainerSecCtx,
      co_ports := uiContainerPorts cr,
      co_volumeMounts :=
        [\<lparr>vm_name = ''nginx-conf'', vm_mountPath = ''/etc/nginx/nginx.conf'', vm_subPath = ''nginx.conf'', vm_readOnly = False\<rparr>,
         read_only_mount ''service-ca'' ''/etc/pki/service-ca''],
      co_readinessProbe := Some (http_probe ''/healthz'' uiHTTPPort 5 10 0),
      co_livenessProbe := Some (http_probe ''/healthz'' uiHTTPPort 15 20 0)\<rparr>"

definition https_probe :: "string \<Rightarrow> int \<Rightarrow> int \<Rightarrow> int \<Rightarrow> probe" where
  "https_probe path port delay period =
     \<lparr>pr_handler = HTTPGet path port ''HTTPS'', pr_initialDelaySeconds = delay, pr_periodSeconds = period,
      pr_timeoutSeconds = 0, pr_failureThreshold = 0\<rparr>"

definition oauth_proxy_args :: "pulse \<Rightarrow> string list" where
  "oauth_proxy_args cr =
     [''--https-address=:8443'', ''--provider=openshift'', ''--upstream=http://localhost:8080'',
      ''--tls-cert=/etc/tls/private/tls.crt'', ''--tls-key=/etc/tls/private/tls.key'',
      ''--cookie-secret-file=/etc/proxy/secrets/cookie-secret'',
      ''--client-id='' @ oauthClientName (p_name cr) (p_namespace cr),
      ''--client-secret-file=/etc/proxy/secrets/client-secret'', ''--skip-provider-button'',
      ''--pass-access-token=true'', ''--scope=user:full'', uiAccessCheckArg (p_namespace cr),
      ''--cookie-expire=168h'', ''--request-logging=false'']"

definition oauth_proxy_container :: "'w env \<Rightarrow> pulse \<Rightarrow> cluster_info \<Rightarrow> container" where
  "oauth_proxy_container E cr info = (container0 ''oauth-proxy'' (resolvedOAuthProxyImage E cr (Some info)))
     \<lparr>co_resources := oauthProxyResources, co_securityContext := Some defaultContainerSecCtx,
      co_ports := [\<lparr>cp_name = ''https'', cp_port = uiProxyPort, cp_protocol = ''TCP''\<rparr>],
      co_args := oauth_proxy_args cr,
      co_volumeMounts := [read_only_mount ''proxy-tls'' ''/etc/tls/private'', read_only_mount ''proxy-secrets'' ''/etc/proxy/secrets''],
      co_readinessProbe := Some (https_probe ''/oauth/healthz'' uiProxyPort 5 10),
      co_livenessProbe := Some (https_probe ''/oauth/healthz'' uiProxyPort 15 20)\<rparr>"

definition ui_volumes :: "pulse \<Rightarrow> (string \<times> volume_source) list" where
  "ui_volumes cr =
     [(''nginx-conf'', VSecret (uiNginxSecretName (p_name cr))),
      (''service-ca'', VConfigMap (uiServiceCABundleName (p_name cr))),
      (''proxy-tls'', VSecret (uiTLSSecretName (p_name cr))), (''proxy-secrets'', VSecret (uiOAuthSecretsName (p_name cr)))]"

definition ui_template :: "'w env \<Rightarrow> pulse \<Rightarrow> cluster_info \<Rightarrow> string \<Rightarrow> pod_template" where
  "ui_template E cr info nginxHash =
     \<lparr>pt_labels = [(''app'', uiResourceName (p_name cr))],
      pt_annotations = [(''pulse.ai/nginx-config-hash'', nginxHash)],
      pt_spec = pod_spec0\<lparr>po_serviceAccountName := uiResourceName (p_name cr),
        po_securityContext := Some (defaultPodSecCtx None),
        po_containers := [ui_container E cr, oauth_proxy_container E cr info],
        po_volumes := ui_volumes cr\<rparr>\<rparr>"

definition ui_mutate :: "'w env \<Rightarrow> pulse \<Rightarrow> cluster_info \<Rightarrow> string \<Rightarrow> deployment \<Rightarrow> deployment" where
  "ui_mutate E cr info nginxHash d =
     d\<lparr>de_replicas := Some (resolvedUIReplicas cr), de_strategyType := ''RollingUpdate'', de_rollingUpdate := Some (1, 0),
       de_selector := Some [(''app'', uiResourceName (p_name cr))],
       de_template := keepRestartedAt (de_template d) (ui_template E cr info nginxHash)\<rparr>"

definition reconcileUIDeployment :: "'w env \<Rightarrow> pulse \<Rightarrow> cluster_info \<Rightarrow> string \<Rightarrow> ('w, unit) fallible" where
  "reconcileUIDeployment E cr info nginxHash =
     apply_deployment E cr (uiResourceName (p_name cr)) (ui_mutate E cr info nginxHash)"

section \<open>Service\<close>

definition ui_ports :: "pulse \<Rightarrow> service_port list" where
  "ui_ports cr =
     \<lparr>sv_name = ''https'', sv_port = uiProxyPort, sv_targetPort = Some uiProxyPort, sv_protocol = ''TCP''\<rparr> #
     (if renderEnabled cr
      then [\<lparr>sv_name = ''render'', sv_port = uiRenderPort, sv_targetPort = Some uiRenderPort, sv_protocol = ''TCP''\<rparr>]
      else [])"

definition ui_service :: "pulse \<Rightarrow> service \<Rightarrow> service" where
  "ui_service cr v =
     v\<lparr>se_type := ''ClusterIP'', se_selector := [(''app'', uiResourceName (p_name cr))], se_ports := ui_ports cr\<rparr>"

definition reconcileUIService :: "'w env \<Rightarrow> pulse \<Rightarrow> ('w, unit) fallible" where
  "reconcileUIService E cr =
     (let name = uiResourceName (p_name cr) in
      create_or_update E (new_obj (key KService (p_namespace cr) name) (BService service0))
        (owned_by E cr (\<lambda>y. Inr (y\<lparr>
           o_annotations := sput ''service.beta.openshift.io/serving-cert-secret-name'' (uiTLSSecretName (p_name cr)) (o_annotations y),
           o_body := BService (ui_service cr (as_service y))\<rparr>))))"

section \<open>Route\<close>

definition want_to :: "string \<Rightarrow> (string \<times> jval) list" where
  "want_to name = [(''kind'', JStr ''Service''), (''name'', JStr name), (''weight'', JInt 100)]"

definition want_tls :: smap where
  "want_tls = [(''termination'', ''reencrypt''), (''insecureEdgeTerminationPolicy'', ''Redirect'')]"

text \<open>\<open>reflect.DeepEqual\<close> of two maps.\<close>

definition same_map :: "(string \<times> 'v) list \<Rightarrow> (string \<times> 'v) list \<Rightarrow> bool" where
  "same_map m n \<longleftrightarrow>
     list_all (\<lambda>(k, v). map_of m k = map_of n k) m \<and> list_all (\<lambda>(k, v). map_of m k = map_of n k) n"

definition route_drifted :: "string \<Rightarrow> route \<Rightarrow> bool" where
  "route_drifted name ro \<longleftrightarrow>
     \<not> same_map (ro_to ro) (want_to name) \<or> ro_targetPort ro \<noteq> Some (JInt uiProxyPort) \<or>
     list_ex (\<lambda>(k, want). sget (ro_tls ro) k \<noteq> want) want_tls"

definition correct_route :: "string \<Rightarrow> route \<Rightarrow> route" where
  "correct_route name ro =
     ro\<lparr>ro_to := want_to name, ro_targetPort := Some (JInt uiProxyPort),
        ro_tls := foldl (\<lambda>m (k, want). sput k want m) (ro_tls ro) want_tls\<rparr>"

definition new_route :: "pulse \<Rightarrow> cluster_info \<Rightarrow> kobj" where
  "new_route cr info =
     (new_obj (key KRoute (p_namespace cr) (uiResourceName (p_name cr))) (BRoute route0))
       \<lparr>o_annotations := (if ci_ingressDomain info \<noteq> ''''
          then sput ''pulse.ai/cluster-domain'' (ci_ingressDomain info) (clusterScopedAnnotations cr)
          else clusterScopedAnnotations cr)\<rparr>"

definition new_route_spec :: "string \<Rightarrow> route" where
  "new_route_spec name = route0\<lparr>ro_to := want_to name, ro_targetPort := Some (JInt uiProxyPort), ro_tls := want_tls\<rparr>"

definition routeRequeueDelay :: int where "routeRequeueDelay = 5 * second"

definition route_drift_message :: "string \<Rightarrow> string" where
  "route_drift_message name =
     ''Route '' @ go_quote name @
     '' had spec.to/spec.port.targetPort/spec.tls drift from something external '' @ em_dash @ '' corrected it''"

text \<open>The host and the requeue delay: one of them is absent.\<close>

definition reconcileUIRoute :: "'w env \<Rightarrow> pulse \<Rightarrow> cluster_info \<Rightarrow> ('w, string \<times> int) fallible" where
  "reconcileUIRoute E cr info =
     (let name = uiResourceName (p_name cr); k = key KRoute (p_namespace cr) name in
      do { r \<leftarrow> api_get E k;
           case r of
             Inl e \<Rightarrow>
               if \<not> is_not_found e then fail (Api e)
               else bindE (wrapE ''set owner on route'' (liftE (set_controller E cr (new_route cr info)))) (\<lambda>desired.
                    bindE (apiE (api_create E (desired\<lparr>o_body := BRoute (new_route_spec name)\<rparr>))) (\<lambda>_.
                    ok ('''', routeRequeueDelay)))
           | Inr existing \<Rightarrow>
               bindE (if route_drifted name (as_route existing)
                      then bindE (wrapE ''correct route drift'' (apiE (api_update E
                             (existing\<lparr>o_body := BRoute (correct_route name (as_route existing))\<rparr>)))) (\<lambda>_.
                           do { recordEvent E ''Normal'' ''SelfHealed'' (route_drift_message name);
                                inc_self_heal ''ui'' ''route_drift_correct'';
                                ok () })
                      else ok ())
                 (\<lambda>_. if ro_host (as_route existing) = '''' then ok ('''', routeRequeueDelay)
                      else ok (ro_host (as_route existing), 0)) })"

section \<open>OAuthClient\<close>

definition oauthGrantMethod :: string where "oauthGrantMethod = ''prompt''"

definition oauth_client_fields :: "string \<Rightarrow> string \<Rightarrow> oauth_client \<Rightarrow> oauth_client" where
  "oauth_client_fields routeHost clientSecret c =
     c\<lparr>oc_secret := clientSecret, oc_redirectURIs := [''https://'' @ routeHost], oc_grantMethod := oauthGrantMethod\<rparr>"

definition reconcileOAuthClient :: "'w env \<Rightarrow> pulse \<Rightarrow> string \<Rightarrow> string \<Rightarrow> ('w, unit) fallible" where
  "reconcileOAuthClient E cr routeHost clientSecret =
     (let k = key KOAuthClient '''' (oauthClientName (p_name cr) (p_namespace cr)) in
      do { r \<leftarrow> api_get E k;
           case r of
             Inl e \<Rightarrow>
               if is_not_found e
               then voidE (apiE (api_create E (stamped cr
                      (BOAuthClient (oauth_client_fields routeHost clientSecret oauth_client0)) (new_obj k BNone))))
               else fail (Api e)
           | Inr existing \<Rightarrow>
               voidE (apiE (api_update E (existing\<lparr>o_body :=
                 BOAuthClient (oauth_client_fields routeHost clientSecret (as_oauth_client existing))\<rparr>))) })"

definition getOAuthClientSecret :: "'w env \<Rightarrow> pulse \<Rightarrow> ('w, string) fallible" where
  "getOAuthClientSecret E cr =
     do { r \<leftarrow> api_get E (key KSecret (p_namespace cr) (uiOAuthSecretsName (p_name cr)));
          case r of Inl e \<Rightarrow> fail (Api e) | Inr x \<Rightarrow> ok (sget (se_data (as_secret x)) ''client-secret'') }"

definition isReady :: "'w env \<Rightarrow> string \<Rightarrow> string \<Rightarrow> ('w, bool) action" where
  "isReady E name ns =
     do { r \<leftarrow> api_get E (key KDeployment ns name);
          ret (case r of Inl _ \<Rightarrow> False | Inr x \<Rightarrow> de_statusReadyReplicas (as_deployment x) > 0) }"

section \<open>The steps of the UI\<close>

definition ui_steps :: "'w env \<Rightarrow> pulse \<Rightarrow> (string \<times> ('w, unit) fallible) list" where
  "ui_steps E cr =
     [(''UI/ServiceAccount'', reconcileUIServiceAccount E cr),
      (''UI/ClusterRole'', reconcileUIClusterRole E cr),
      (''UI/ClusterRoleBinding'', reconcileUIClusterRoleBinding E cr),
      (''UI/AuthDelegatorBinding'', reconcileUIAuthDelegatorBinding E cr),
      (''UI/OAuthSecrets'', reconcileUIOAuthSecrets E cr),
      (''UI/ServiceCABundle'', reconcileUIServiceCABundle E cr),
      (''UI/Service'', reconcileUIService E cr)]"

text \<open>The last part, once the Route has its host: OAuthClient and status.\<close>

definition finish_ui :: "'w env \<Rightarrow> pulse \<Rightarrow> string \<Rightarrow> ('w, int) fallible" where
  "finish_ui E cr routeHost =
     bindE (wrapE ''UI/getOAuthClientSecret'' (getOAuthClientSecret E cr)) (\<lambda>clientSecret.
     bindE (wrapE ''UI/OAuthClient'' (reconcileOAuthClient E cr routeHost clientSecret)) (\<lambda>_.
     do { ready \<leftarrow> isReady E (uiResourceName (p_name cr)) (p_namespace cr);
          set_status (\<lambda>st. st\<lparr>st_routeHost := routeHost, st_uiAvailable := ready\<rparr>);
          ok 0 }))"

definition reconcileUI :: "'w env \<Rightarrow> pulse \<Rightarrow> ('w, int) fallible" where
  "reconcileUI E cr =
     do { info \<leftarrow> DetectClusterInfo E;
          bindE (run_steps (ui_steps E cr)) (\<lambda>_.
          bindE (wrapE ''UI/NginxConfigMap'' (reconcileUINginxConfigMap E cr)) (\<lambda>nginxHash.
          bindE (wrapE ''UI/Deployment'' (reconcileUIDeployment E cr info nginxHash)) (\<lambda>_.
          bindE (wrapE ''UI/Route'' (reconcileUIRoute E cr info)) (\<lambda>(routeHost, delay).
          if delay > 0 then ok delay else finish_ui E cr routeHost)))) }"

text \<open>\<open>UIReconciler.Reconcile\<close>: the same steps on their own, followed by a status update.\<close>

definition UIReconcile :: "'w env \<Rightarrow> string \<Rightarrow> string \<Rightarrow> ('w, int) fallible" where
  "UIReconcile E ns name =
     do { r \<leftarrow> api_getPulse E ns name;
          case r of
            Inl e \<Rightarrow> if is_not_found e then ok 0 else fail (Api e)
          | Inr cr \<Rightarrow> do {
              put_cr cr;
              bindE (reconcileUI E cr) (\<lambda>delay. bindE (updateStatus E) (\<lambda>_. ok delay)) } }"

section \<open>What it touches\<close>

definition ui_writes :: "pulse \<Rightarrow> okey set" where
  "ui_writes cr =
     (let n = p_name cr; ns = p_namespace cr; name = uiResourceName n; role = uiClusterRoleName n ns in
      {key KServiceAccount ns name, key KClusterRole '''' role, key KClusterRoleBinding '''' role,
       key KClusterRoleBinding '''' (role @ ''-auth-delegator''), key KSecret ns (uiOAuthSecretsName n),
       key KConfigMap ns (uiServiceCABundleName n), key KService ns name, key KSecret ns (uiNginxSecretName n),
       key KDeployment ns name, key KRoute ns name, key KOAuthClient '''' (oauthClientName n ns)})"

definition ui_deletes :: "pulse \<Rightarrow> okey set" where
  "ui_deletes cr =
     (let old = uiClusterRoleNameUnqualified (p_name cr) in
      {key KClusterRole '''' old, key KClusterRoleBinding '''' old, key KClusterRoleBinding '''' (old @ ''-auth-delegator''),
       key KConfigMap (p_namespace cr) (uiNginxSecretName (p_name cr))})"

lemma ui_object_keys [simp]:
  "o_key (stamped cr b x) = o_key x" "o_key (with_cookie c x) = o_key x"
  "o_key (new_route cr info) = key KRoute (p_namespace cr) (uiResourceName (p_name cr))"
  by (simp_all add: stamped_def with_cookie_def Let_def new_route_def)

lemmas ui_parts_defs =
  reconcileUIServiceAccount_def reconcileUIClusterRole_def reconcileUIClusterRoleBinding_def
  reconcileUIAuthDelegatorBinding_def reconcileUIOAuthSecrets_def reconcileUIServiceCABundle_def reconcileUIService_def

lemmas ui_rest_defs =
  read_ws_token_def setHelmRunnerCondition_def reconcileUINginxConfigMap_def reconcileUIDeployment_def
  apply_deployment_def reconcileUIRoute_def reconcileOAuthClient_def getOAuthClientSecret_def isReady_def

lemma touches_ui_steps: "(n, a) \<in> set (ui_steps E cr) \<Longrightarrow> touches (ui_writes cr) (ui_deletes cr) a"
  unfolding ui_steps_def ui_parts_defs Let_def
  by (simp, elim disjE conjE; simp; intro allc.rules touches_tokens touches_mono [OF touches_deleteStale];
      auto simp: ui_writes_def ui_deletes_def Let_def dest!: set_controller_key)

lemma touches_ui_rest:
  "touches (ui_writes cr) (ui_deletes cr) (reconcileUINginxConfigMap E cr)"
  "touches (ui_writes cr) (ui_deletes cr) (reconcileUIDeployment E cr info h)"
  "touches (ui_writes cr) (ui_deletes cr) (reconcileUIRoute E cr info)"
  "touches (ui_writes cr) (ui_deletes cr) (reconcileOAuthClient E cr host sec)"
  "touches (ui_writes cr) (ui_deletes cr) (getOAuthClientSecret E cr)"
  "touches (ui_writes cr) (ui_deletes cr) (isReady E n ns)"
  unfolding ui_rest_defs Let_def
  by (intro allc.rules; auto simp: ui_writes_def ui_deletes_def Let_def dest!: set_controller_key)+

interpretation ui: sub_reconciler reconcileUI ui_writes ui_deletes
  unfolding reconcileUI_def finish_ui_def
  by unfold_locales
     (intro allc.s_bindE allc.s_wrapE allc.s_bind allc.s_prod allc.s_if allc.s_ret allc.s_run_steps allc.e_state_ops
        touches_DetectClusterInfo touches_ui_rest; erule touches_ui_steps)

lemma guards_ui_steps: "(n, a) \<in> set (ui_steps E cr) \<Longrightarrow> follows_policy E cr a"
  unfolding ui_steps_def ui_parts_defs Let_def
  by (simp, elim disjE conjE; simp; intro grd.rules guards_tokens guards_deleteStale; simp)

lemma guards_reconcileUI:
  assumes "p_namespace cr \<noteq> ''''"
  shows "follows_policy E cr (reconcileUI E cr)"
proof -
  have parts: "follows_policy E cr (reconcileUINginxConfigMap E cr)" "follows_policy E cr (reconcileUIDeployment E cr info h)"
    "follows_policy E cr (reconcileUIRoute E cr info)" "follows_policy E cr (reconcileOAuthClient E cr host sec)"
    "follows_policy E cr (getOAuthClientSecret E cr)" "follows_policy E cr (isReady E n ns)" for info h host sec n ns
    unfolding ui_rest_defs Let_def
    by (intro grd.rules; use assms in \<open>simp add: deletion_policy_def Let_def permitted_def\<close>)+
  show ?thesis
    unfolding reconcileUI_def finish_ui_def
    by (intro grd.s_bindE grd.s_wrapE grd.s_bind grd.s_prod grd.s_if grd.s_ret grd.s_run_steps grd.e_state_ops
        guards_DetectClusterInfo parts; erule guards_ui_steps)
qed

lemma keeps_ui_steps: "(n, a) \<in> set (ui_steps E cr) \<Longrightarrow> keeps g a"
  unfolding ui_steps_def ui_parts_defs Let_def
  by (simp, elim disjE conjE; simp; intro view.rules keeps_tokens keeps_deletes)

lemma keeps_reconcileUI:
  assumes "\<And>p cs. g (upd_status (\<lambda>st. st\<lparr>st_conditions := cs st\<rparr>) p) = g p"
    and "\<And>p h b. g (upd_status (\<lambda>st. st\<lparr>st_routeHost := h, st_uiAvailable := b\<rparr>) p) = g p"
  shows "keeps g (reconcileUI E cr)"
  unfolding reconcileUI_def finish_ui_def ui_rest_defs Let_def
  by (intro view.s_run_steps view.rules view.v_set_condition view.v_set_status keeps_DetectClusterInfo assms;
      (erule keeps_ui_steps)?)

end
