(* ===== verification/Temporal.thy ===== *)
theory Temporal
  imports MCP
begin

text \<open>
  \<open>temporal_reconciler.go\<close>: the Temporal server and its Web UI: Deployments, Services, the
  NetworkPolicy that fences them, and their removal when they are switched off.
\<close>

section \<open>Web UI\<close>

definition defaultTemporalImage :: string where "defaultTemporalImage = ''temporalio/auto-setup:1.25.2''"
definition defaultTemporalUIImage :: string where "defaultTemporalUIImage = ''temporalio/ui:2.31.2''"
definition temporalConfigDir :: string where "temporalConfigDir = ''/etc/temporal/config''"
definition temporalConfigVolume :: string where "temporalConfigVolume = ''temporal-config''"

definition temporalUIName :: "string \<Rightarrow> string" where
  "temporalUIName crName = temporalResourceName crName @ ''-ui''"

definition temporalUIEnabled :: "pulse \<Rightarrow> bool" where
  "temporalUIEnabled cr = (te_ui (sp_temporal (p_spec cr)) = Some True)"

definition tcp_probe :: "int \<Rightarrow> int \<Rightarrow> int \<Rightarrow> int \<Rightarrow> probe" where
  "tcp_probe port delay period failures =
     \<lparr>pr_handler = TCPSocket port, pr_initialDelaySeconds = delay, pr_periodSeconds = period,
      pr_timeoutSeconds = 0, pr_failureThreshold = failures\<rparr>"

definition temporal_ui_container :: "'w env \<Rightarrow> pulse \<Rightarrow> container" where
  "temporal_ui_container E cr =
     (let i = te_uiImage (sp_temporal (p_spec cr)) in
      (container0 ''ui'' (if i = '''' then imageFromEnv E envTemporalUIImage defaultTemporalUIImage else i))
        \<lparr>co_securityContext := Some writableContainerSecCtx,
         co_volumeMounts := [mount ''ui-config'' ''/home/ui-server/config''],
         co_env := [env_value ''TEMPORAL_ADDRESS'' (TemporalHostFor (p_name cr)),
                    env_value ''TEMPORAL_UI_PORT'' (itoa temporalUIPort),
                    env_value ''TEMPORAL_CORS_ORIGINS'' ''http://localhost:3000''],
         co_ports := [\<lparr>cp_name = ''http'', cp_port = temporalUIPort, cp_protocol = ''''\<rparr>],
         co_readinessProbe := Some (tcp_probe temporalUIPort 5 10 12)\<rparr>)"

definition temporal_ui_mutate :: "'w env \<Rightarrow> pulse \<Rightarrow> deployment \<Rightarrow> deployment" where
  "temporal_ui_mutate E cr d =
     (let name = temporalUIName (p_name cr); t = de_template d in
      d\<lparr>de_replicas := Some 1, de_selector := Some [(''app'', name)],
        de_template := t\<lparr>pt_labels := [(''app'', name)],
          pt_spec := (pt_spec t)\<lparr>po_securityContext := Some (defaultPodSecCtx None),
            po_volumes := [(''ui-config'', VEmptyDir '''')],
            po_containers := [temporal_ui_container E cr]\<rparr>\<rparr>\<rparr>)"

definition temporal_ui_service :: "pulse \<Rightarrow> service \<Rightarrow> service" where
  "temporal_ui_service cr v =
     v\<lparr>se_selector := [(''app'', temporalUIName (p_name cr))],
       se_ports := [\<lparr>sv_name = ''http'', sv_port = temporalUIPort, sv_targetPort = Some temporalUIPort, sv_protocol = ''''\<rparr>]\<rparr>"

definition reconcileTemporalUI :: "'w env \<Rightarrow> pulse \<Rightarrow> ('w, unit) fallible" where
  "reconcileTemporalUI E cr =
     (let name = temporalUIName (p_name cr) in
      bindE (apply_deployment E cr name (temporal_ui_mutate E cr)) (\<lambda>_.
      apply_service E cr name (temporal_ui_service cr)))"

section \<open>Server\<close>

definition temporal_env :: "pulse \<Rightarrow> env_var list" where
  "temporal_env cr =
     (let pgAuthSecret = p_name cr @ ''-pg-auth'' in
      [env_value ''DB'' ''postgres12'', env_value ''DB_PORT'' ''5432'',
       env_value ''POSTGRES_SEEDS'' (p_name cr @ ''-openshift-sre-agent-postgresql''),
       env_value ''DBNAME'' ''temporal'', env_value ''VISIBILITY_DBNAME'' ''temporal_visibility'',
       env_secret ''POSTGRES_USER'' pgAuthSecret ''POSTGRESQL_USER'',
       env_secret ''POSTGRES_PWD'' pgAuthSecret ''POSTGRESQL_PASSWORD'',
       env_value ''BIND_ON_IP'' ''0.0.0.0'',
       \<lparr>ev_name = ''TEMPORAL_BROADCAST_ADDRESS'', ev_source = EnvFieldRef ''status.podIP''\<rparr>])"

definition temporal_image :: "'w env \<Rightarrow> pulse \<Rightarrow> string" where
  "temporal_image E cr =
     (let i = te_image (sp_temporal (p_spec cr))
      in if i = '''' then imageFromEnv E envTemporalImage defaultTemporalImage else i)"

definition temporal_init :: "'w env \<Rightarrow> pulse \<Rightarrow> container" where
  "temporal_init E cr = (container0 ''config-template'' (temporal_image E cr))
     \<lparr>co_command := [''sh'', ''-c'', ''cp -r '' @ temporalConfigDir @ ''/. /config-work/''],
      co_securityContext := Some defaultContainerSecCtx,
      co_volumeMounts := [mount temporalConfigVolume ''/config-work'']\<rparr>"

definition temporal_container :: "'w env \<Rightarrow> pulse \<Rightarrow> container" where
  "temporal_container E cr = (container0 ''temporal'' (temporal_image E cr))
     \<lparr>co_securityContext := Some writableContainerSecCtx, co_env := temporal_env cr,
      co_volumeMounts := [mount temporalConfigVolume temporalConfigDir],
      co_ports := [\<lparr>cp_name = ''frontend'', cp_port = temporalFrontendPort, cp_protocol = ''''\<rparr>],
      co_readinessProbe := Some (tcp_probe temporalFrontendPort 10 10 30),
      co_livenessProbe := Some (tcp_probe temporalFrontendPort 120 30 6)\<rparr>"

text \<open>Unlike the agent's and the UI's, this pod template's annotations are replaced as a whole.\<close>

definition temporal_mutate :: "'w env \<Rightarrow> pulse \<Rightarrow> string \<Rightarrow> deployment \<Rightarrow> deployment" where
  "temporal_mutate E cr pgCredHash d =
     (let name = temporalResourceName (p_name cr); t = de_template d in
      d\<lparr>de_replicas := Some 1, de_strategyType := ''Recreate'', de_rollingUpdate := None,
        de_selector := Some [(''app'', name)],
        de_template := t\<lparr>pt_labels := [(''app'', name)], pt_annotations := [(pgAuthHashAnnotation, pgCredHash)],
          pt_spec := (pt_spec t)\<lparr>po_securityContext := Some (defaultPodSecCtx None),
            po_volumes := [(temporalConfigVolume, VEmptyDir '''')],
            po_initContainers := [temporal_init E cr], po_containers := [temporal_container E cr]\<rparr>\<rparr>\<rparr>)"

definition reconcileTemporalDeployment :: "'w env \<Rightarrow> pulse \<Rightarrow> ('w, unit) fallible" where
  "reconcileTemporalDeployment E cr =
     do { r \<leftarrow> api_get E (key KSecret (p_namespace cr) (p_name cr @ ''-pg-auth''));
          let pgCredHash = (case r of Inl _ \<Rightarrow> '''' | Inr x \<Rightarrow> hashSecretData E (se_data (as_secret x)));
          apply_deployment E cr (temporalResourceName (p_name cr)) (temporal_mutate E cr pgCredHash) }"

definition temporal_service :: "pulse \<Rightarrow> service \<Rightarrow> service" where
  "temporal_service cr v =
     v\<lparr>se_selector := [(''app'', temporalResourceName (p_name cr))],
       se_ports := [\<lparr>sv_name = ''frontend'', sv_port = temporalFrontendPort, sv_targetPort = Some temporalFrontendPort,
                     sv_protocol = ''''\<rparr>]\<rparr>"

definition reconcileTemporalService :: "'w env \<Rightarrow> pulse \<Rightarrow> ('w, unit) fallible" where
  "reconcileTemporalService E cr = apply_service E cr (temporalResourceName (p_name cr)) (temporal_service cr)"

definition temporal_np :: "pulse \<Rightarrow> network_policy \<Rightarrow> network_policy" where
  "temporal_np cr np =
     (let server = temporalResourceName (p_name cr); ui = server @ ''-ui'' in
      np\<lparr>np_podSelector := \<lparr>ls_matchLabels = [], ls_matchExpressions = [(''app'', ''In'', [server, ui])]\<rparr>,
         np_policyTypes := [''Ingress''],
         np_ingress := [\<lparr>nr_peers = [pod_peer [(''app'', agentResourceName (p_name cr))], pod_peer [(''app'', server)],
                                    pod_peer [(''app'', ui)]],
                         nr_ports = [(''TCP'', temporalFrontendPort)]\<rparr>]\<rparr>)"

definition reconcileTemporalNetworkPolicy :: "'w env \<Rightarrow> pulse \<Rightarrow> ('w, unit) fallible" where
  "reconcileTemporalNetworkPolicy E cr = apply_np E cr (temporalNetworkPolicyName (p_name cr)) (temporal_np cr)"

definition reconcileTemporal :: "'w env \<Rightarrow> pulse \<Rightarrow> ('w, unit) fallible" where
  "reconcileTemporal E cr =
     (if \<not> temporalEnabled cr then ok ()
      else run_steps ([(''temporal deployment'', reconcileTemporalDeployment E cr),
                       (''temporal service'', reconcileTemporalService E cr),
                       (''temporal network policy'', reconcileTemporalNetworkPolicy E cr)] @
                      (if temporalUIEnabled cr then [(''temporal ui'', reconcileTemporalUI E cr)] else [])))"

text \<open>
  A pass therefore drops the annotation of \<open>oc rollout restart\<close>, whatever the Deployment carried:
  the restart is undone, which the agent and the UI avoid with \<open>keepRestartedAt\<close>.
\<close>

lemma temporal_drops_restart:
  "map_of (pt_annotations (de_template (temporal_mutate E cr h d))) restartedAtAnnotation = None"
  by (simp add: temporal_mutate_def Let_def pgAuthHashAnnotation_def restartedAtAnnotation_def)

section \<open>Removal\<close>

definition workload_objects :: "string \<Rightarrow> (kind \<times> string) list" where
  "workload_objects name = [(KDeployment, name), (KService, name)]"

definition removeTemporal :: "'w env \<Rightarrow> pulse \<Rightarrow> ('w, unit) fallible" where
  "removeTemporal E cr =
     (let ui = temporalUIName (p_name cr); server = temporalResourceName (p_name cr);
          remove = (\<lambda>names. run_all (map (\<lambda>(kd, name). deleteOwned E cr kd name) (concat (map workload_objects names))))
      in if temporalEnabled cr
         then (if temporalUIEnabled cr then ok () else remove [ui])
         else bindE (deleteOwned E cr KNetworkPolicy (temporalNetworkPolicyName (p_name cr)))
                (\<lambda>_. remove [ui, server]))"

section \<open>What it touches\<close>

definition temporal_objects :: "pulse \<Rightarrow> okey set" where
  "temporal_objects cr =
     (let ns = p_namespace cr; server = temporalResourceName (p_name cr); ui = temporalUIName (p_name cr) in
      {key KDeployment ns server, key KService ns server, key KDeployment ns ui, key KService ns ui,
       key KNetworkPolicy ns (temporalNetworkPolicyName (p_name cr))})"

lemmas temporal_parts_defs =
  reconcileTemporalUI_def reconcileTemporalDeployment_def reconcileTemporalService_def
  reconcileTemporalNetworkPolicy_def apply_np_def apply_deployment_def apply_service_def

lemma touches_temporal_parts:
  "touches (temporal_objects cr) {} (reconcileTemporalUI E cr)"
  "touches (temporal_objects cr) {} (reconcileTemporalDeployment E cr)"
  "touches (temporal_objects cr) {} (reconcileTemporalService E cr)"
  "touches (temporal_objects cr) {} (reconcileTemporalNetworkPolicy E cr)"
  unfolding temporal_parts_defs Let_def by (intro allc.rules; simp add: temporal_objects_def Let_def)+

interpretation temporal: sub_reconciler reconcileTemporal temporal_objects "\<lambda>_. {}"
  unfolding reconcileTemporal_def
  by unfold_locales
     (intro allc.s_if allc.s_ret allc.s_run_steps; auto intro!: touches_temporal_parts split: if_splits)

lemma guards_reconcileTemporal: "guards permit seen (reconcileTemporal E cr)"
  by (rule touches_guards [OF temporal.footprint]) simp

lemma keeps_reconcileTemporal: "keeps g (reconcileTemporal E cr)"
  unfolding reconcileTemporal_def temporal_parts_defs Let_def
  by (intro view.s_if view.s_ret view.s_run_steps) (auto intro!: view.rules split: if_splits)

interpretation temporal_removal: sub_reconciler removeTemporal "\<lambda>_. {}" temporal_objects
  unfolding removeTemporal_def Let_def
  by unfold_locales
     (intro allc.s_if allc.s_ret allc.s_bindE allc.s_run_all;
      auto simp: workload_objects_def temporal_objects_def Let_def intro!: touches_mono [OF touches_deleteOwned])

lemma guards_removeTemporal:
  assumes "p_namespace cr \<noteq> ''''"
  shows "follows_policy E cr (removeTemporal E cr)"
  unfolding removeTemporal_def Let_def
  by (intro grd.s_if grd.s_ret grd.s_bindE grd.s_run_all)
     (use assms in \<open>auto simp: workload_objects_def deletion_policy_def Let_def agentResourceName_def temporalResourceName_def
        temporalUIName_def intro!: guards_deleteOwned\<close>)

lemma keeps_removeTemporal: "keeps g (removeTemporal E cr)"
  unfolding removeTemporal_def Let_def
  by (intro view.s_if view.s_ret view.s_bindE view.s_run_all keeps_deletes) (auto intro!: keeps_deletes)

end
