(* ===== verification/Render.thy ===== *)
theory Render
  imports Temporal
begin

text \<open>
  \<open>render_reconciler.go\<close>: the render service (token Secret, Deployment, Service, NetworkPolicy) and
  its removal when it is switched off.
\<close>

section \<open>Objects\<close>

definition renderTimeoutMS :: string where "renderTimeoutMS = ''30000''"

definition reconcileRenderToken :: "'w env \<Rightarrow> pulse \<Rightarrow> ('w, unit) fallible" where
  "reconcileRenderToken E cr =
     (let k = key KSecret (p_namespace cr) (renderTokenSecretName (p_name cr)) in
      create_if_missing E k (\<lambda>_.
        bindE (generateToken E) (\<lambda>token.
        bindE (liftE (set_controller E cr (new_obj k (BSecret (secret0\<lparr>se_stringData := [(''token'', token)]\<rparr>))))) (\<lambda>desired.
        voidE (apiE (api_create E desired))))))"

definition render_container :: "'w env \<Rightarrow> pulse \<Rightarrow> container" where
  "render_container E cr = (container0 ''render'' (resolvedRenderImage E cr))
     \<lparr>co_securityContext := Some defaultContainerSecCtx, co_resources := renderResources cr,
      co_env := [env_value ''PORT'' (itoa renderPort), env_value ''UI_URL'' (renderUIURL (p_name cr)),
                 env_value ''MAX_CONCURRENT'' ''2'', env_value ''RENDER_TIMEOUT_MS'' renderTimeoutMS,
                 env_secret ''RENDER_TOKEN'' (renderTokenSecretName (p_name cr)) ''token''],
      co_ports := [\<lparr>cp_name = ''http'', cp_port = renderPort, cp_protocol = ''TCP''\<rparr>],
      co_volumeMounts := [mount ''tmp'' ''/tmp'', mount ''dshm'' ''/dev/shm''],
      co_readinessProbe := Some (http_probe ''/healthz'' renderPort 5 10 0),
      co_livenessProbe := Some (http_probe ''/healthz'' renderPort 20 10 0)\<rparr>"

definition render_mutate :: "'w env \<Rightarrow> pulse \<Rightarrow> deployment \<Rightarrow> deployment" where
  "render_mutate E cr d =
     (let name = renderResourceName (p_name cr); t = de_template d in
      d\<lparr>de_replicas := Some 1, de_selector := Some [(''app'', name)],
        de_template := t\<lparr>pt_labels := [(''app'', name)],
          pt_spec := (pt_spec t)\<lparr>po_securityContext := Some (defaultPodSecCtx None),
            po_automountServiceAccountToken := Some False,
            po_volumes := [(''tmp'', VEmptyDir ''''), (''dshm'', VEmptyDir ''Memory'')],
            po_containers := [render_container E cr]\<rparr>\<rparr>\<rparr>)"

definition reconcileRenderDeployment :: "'w env \<Rightarrow> pulse \<Rightarrow> ('w, unit) fallible" where
  "reconcileRenderDeployment E cr = apply_deployment E cr (renderResourceName (p_name cr)) (render_mutate E cr)"

definition render_service :: "pulse \<Rightarrow> service \<Rightarrow> service" where
  "render_service cr v =
     v\<lparr>se_type := ''ClusterIP'', se_selector := [(''app'', renderResourceName (p_name cr))],
       se_ports := [\<lparr>sv_name = ''http'', sv_port = renderPort, sv_targetPort = Some renderPort, sv_protocol = ''TCP''\<rparr>]\<rparr>"

definition reconcileRenderService :: "'w env \<Rightarrow> pulse \<Rightarrow> ('w, unit) fallible" where
  "reconcileRenderService E cr = apply_service E cr (renderResourceName (p_name cr)) (render_service cr)"

definition render_np :: "pulse \<Rightarrow> network_policy \<Rightarrow> network_policy" where
  "render_np cr np =
     np\<lparr>np_podSelector := match_labels [(''app'', renderResourceName (p_name cr))],
        np_policyTypes := [''Ingress'', ''Egress''],
        np_ingress := [\<lparr>nr_peers = [pod_peer [(''app'', agentResourceName (p_name cr))]], nr_ports = [(''TCP'', renderPort)]\<rparr>],
        np_egress :=
          [\<lparr>nr_peers = [pod_peer [(''app'', uiResourceName (p_name cr))]], nr_ports = [(''TCP'', uiRenderPort)]\<rparr>,
           \<lparr>nr_peers = [ns_peer []], nr_ports = [(''UDP'', 53), (''TCP'', 53), (''UDP'', 5353), (''TCP'', 5353)]\<rparr>]\<rparr>"

definition reconcileRenderNetworkPolicy :: "'w env \<Rightarrow> pulse \<Rightarrow> ('w, unit) fallible" where
  "reconcileRenderNetworkPolicy E cr = apply_np E cr (renderResourceName (p_name cr)) (render_np cr)"

definition render_owned :: "pulse \<Rightarrow> (kind \<times> string) list" where
  "render_owned cr =
     (let name = renderResourceName (p_name cr) in
      [(KDeployment, name), (KService, name), (KNetworkPolicy, name), (KSecret, renderTokenSecretName (p_name cr))])"

definition removeRender :: "'w env \<Rightarrow> pulse \<Rightarrow> ('w, unit) fallible" where
  "removeRender E cr =
     run_all (map (\<lambda>(kd, name). wrapE ''remove render'' (deleteOwned E cr kd name)) (render_owned cr))"

definition reconcileRender :: "'w env \<Rightarrow> pulse \<Rightarrow> ('w, unit) fallible" where
  "reconcileRender E cr =
     (if \<not> renderEnabled cr then removeRender E cr
      else run_steps [(''render token'', reconcileRenderToken E cr),
                      (''render deployment'', reconcileRenderDeployment E cr),
                      (''render service'', reconcileRenderService E cr),
                      (''render network policy'', reconcileRenderNetworkPolicy E cr)])"

section \<open>What it touches\<close>

definition render_objects :: "pulse \<Rightarrow> okey set" where
  "render_objects cr = (\<lambda>(kd, name). key kd (p_namespace cr) name) ` set (render_owned cr)"

lemmas render_parts_defs =
  reconcileRenderToken_def create_if_missing_def reconcileRenderDeployment_def reconcileRenderService_def
  reconcileRenderNetworkPolicy_def apply_np_def apply_deployment_def apply_service_def

lemma touches_render_parts:
  "touches (render_objects cr) {} (reconcileRenderToken E cr)"
  "touches (render_objects cr) {} (reconcileRenderDeployment E cr)"
  "touches (render_objects cr) {} (reconcileRenderService E cr)"
  "touches (render_objects cr) {} (reconcileRenderNetworkPolicy E cr)"
  unfolding render_parts_defs Let_def
  by (intro allc.rules touches_tokens; auto simp: render_objects_def render_owned_def Let_def dest!: set_controller_key)+

interpretation render: sub_reconciler reconcileRender render_objects render_objects
  unfolding reconcileRender_def removeRender_def
  by unfold_locales
     (intro allc.s_if allc.s_run_steps allc.s_run_all;
      auto simp: render_objects_def intro!: allc.s_wrapE touches_mono [OF touches_deleteOwned]
        touches_mono [OF touches_render_parts(1)] touches_mono [OF touches_render_parts(2)]
        touches_mono [OF touches_render_parts(3)] touches_mono [OF touches_render_parts(4)])

lemma guards_render_parts:
  "guards permit seen (reconcileRenderToken E cr)" "guards permit seen (reconcileRenderDeployment E cr)"
  "guards permit seen (reconcileRenderService E cr)" "guards permit seen (reconcileRenderNetworkPolicy E cr)"
  by (rule touches_guards [OF touches_render_parts(1)] touches_guards [OF touches_render_parts(2)]
      touches_guards [OF touches_render_parts(3)] touches_guards [OF touches_render_parts(4)]; simp)+

lemma guards_reconcileRender:
  assumes "p_namespace cr \<noteq> ''''"
  shows "follows_policy E cr (reconcileRender E cr)"
  unfolding reconcileRender_def removeRender_def
  by (intro grd.s_if grd.s_run_steps grd.s_run_all)
     (use assms in \<open>auto simp: render_owned_def deletion_policy_def Let_def agentResourceName_def renderResourceName_def
        renderTokenSecretName_def pgAuthSecretName_def intro!: grd.s_wrapE guards_deleteOwned guards_render_parts\<close>)

lemma keeps_reconcileRender: "keeps g (reconcileRender E cr)"
  unfolding reconcileRender_def removeRender_def
  by (intro view.s_if view.s_run_steps view.s_run_all)
     (auto simp: render_parts_defs Let_def intro!: view.rules keeps_deletes keeps_tokens)

section \<open>Properties\<close>

text \<open>
  Temporal, which has no authentication, is fenced: the policy selects the server and the Web UI
  and admits only the agent's, the server's and the Web UI's pods of the namespace, only on the
  frontend port, so nothing reaches the port of the Web UI.
\<close>

theorem temporal_is_fenced:
  "np_selects (temporal_np cr np) (pt_labels (de_template (temporal_mutate E cr h d))) \<and>
   np_selects (temporal_np cr np) (pt_labels (de_template (temporal_ui_mutate E cr d))) \<and>
   (ingress_admits (p_namespace cr) (temporal_np cr np) p proto port \<longleftrightarrow>
      proto = ''TCP'' \<and> port = temporalFrontendPort \<and> nt_namespace p = p_namespace cr \<and>
      map_of (nt_labels p) ''app'' \<in> Some ` {agentResourceName (p_name cr), temporalResourceName (p_name cr),
        temporalUIName (p_name cr)}) \<and>
   \<not> ingress_admits (p_namespace cr) (temporal_np cr np) p proto temporalUIPort"
  by (auto simp: temporal_np_def Let_def np_semantics selector_matches_def temporal_mutate_def temporal_ui_mutate_def
      temporalUIName_def temporalUIPort_def temporalFrontendPort_def)

text \<open>
  The render pod is fenced in both directions. Only the agent reaches it, on its own port; it
  reaches only the render listener of the UI and, in any namespace, the DNS ports, so neither the
  agent nor the database; and its pod mounts no ServiceAccount token.
\<close>

theorem render_is_fenced:
  "np_selects (render_np cr np) (pt_labels (de_template (render_mutate E cr d))) \<and>
   po_automountServiceAccountToken (pt_spec (de_template (render_mutate E cr d))) = Some False \<and>
   (ingress_admits (p_namespace cr) (render_np cr np) p proto port \<longleftrightarrow>
      proto = ''TCP'' \<and> port = renderPort \<and> nt_namespace p = p_namespace cr \<and>
      map_of (nt_labels p) ''app'' = Some (agentResourceName (p_name cr))) \<and>
   (egress_admits (p_namespace cr) (render_np cr np) p proto port \<longleftrightarrow>
      proto = ''TCP'' \<and> port = uiRenderPort \<and> nt_namespace p = p_namespace cr \<and>
        map_of (nt_labels p) ''app'' = Some (uiResourceName (p_name cr)) \<or>
      proto \<in> {''TCP'', ''UDP''} \<and> port \<in> {53, 5353}) \<and>
   \<not> egress_admits (p_namespace cr) (render_np cr np) p proto agentPort \<and>
   \<not> egress_admits (p_namespace cr) (render_np cr np) p proto pgPort"
  by (auto simp: render_np_def np_semantics render_mutate_def Let_def uiRenderPort_def agentPort_def pgPort_def)

end
