(* ===== verification/Monitoring.thy ===== *)
theory Monitoring
  imports Cleanup
begin

text \<open>
  \<open>monitoring_reconciler.go\<close>: the ServiceMonitor that scrapes the agent and the PrometheusRule with
  the three alerts of an instance, handled as unstructured objects of which the operator replaces
  \<open>spec.selector\<close> and \<open>spec.endpoints\<close>, respectively \<open>spec.groups\<close>.
\<close>

definition prometheusRuleName :: "string \<Rightarrow> string" where
  "prometheusRuleName crName = crName @ ''-openshiftpulse''"

definition agent_endpoints :: "sm_endpoint list" where
  "agent_endpoints =
     [\<lparr>sme_port = ''http'', sme_scheme = ''http'', sme_path = ''/metrics/'', sme_interval = ''30s''\<rparr>]"

definition set_monitor_spec :: "string \<Rightarrow> kobj \<Rightarrow> kobj" where
  "set_monitor_spec name x =
     x\<lparr>o_body := BServiceMonitor ((as_service_monitor x)\<lparr>
         sm_matchLabels := [(''app'', name)], sm_endpoints := agent_endpoints\<rparr>)\<rparr>"

definition reconcileServiceMonitor :: "'w env \<Rightarrow> pulse \<Rightarrow> ('w, unit) fallible" where
  "reconcileServiceMonitor E cr =
     (let name = agentResourceName (p_name cr); k = key KServiceMonitor (p_namespace cr) name in
      do { r \<leftarrow> api_get E k;
           case r of
             Inl e \<Rightarrow>
               if is_not_found e
               then bindE (wrapE ''SetControllerReference''
                      (liftE (set_controller E cr (new_obj k (BServiceMonitor service_monitor0))))) (\<lambda>desired.
                    voidE (apiE (api_create E (set_monitor_spec name desired))))
               else fail (Api e)
           | Inr existing \<Rightarrow> voidE (apiE (api_update E (set_monitor_spec name existing))) })"

definition label_is :: "string \<Rightarrow> string \<Rightarrow> string" where
  "label_is l v = l @ ''='' @ quote_char @ v @ quote_char"

definition alert_rules :: "pulse \<Rightarrow> alert_rule list" where
  "alert_rules cr =
     (let agentName = agentResourceName (p_name cr) in
      [\<lparr>al_alert = ''PulseAgentDown'', al_expr = ''up{'' @ label_is ''job'' agentName @ ''} == 0'',
        al_for = ''5m'', al_severity = ''critical'', al_summary = ''Pulse Agent is down''\<rparr>,
       \<lparr>al_alert = ''PulseAgentHighRestarts'',
        al_expr = ''increase(kube_pod_container_status_restarts_total{'' @ label_is ''namespace'' (p_namespace cr) @
          '', '' @ label_is ''container'' ''agent'' @ ''}[1h]) > 3'',
        al_for = ''0m'', al_severity = ''warning'', al_summary = ''Pulse Agent restarting frequently''\<rparr>,
       \<lparr>al_alert = ''PulsePostgreSQLDown'',
        al_expr = ''kube_statefulset_status_ready_replicas{'' @ label_is ''namespace'' (p_namespace cr) @
          '', '' @ label_is ''statefulset'' (agentName @ ''-postgresql'') @ ''} == 0'',
        al_for = ''3m'', al_severity = ''critical'', al_summary = ''Pulse PostgreSQL is down''\<rparr>])"

definition rule_groups :: "pulse \<Rightarrow> rule_group list" where
  "rule_groups cr = [\<lparr>rg_name = ''pulse.rules'', rg_rules = alert_rules cr\<rparr>]"

definition reconcilePrometheusRule :: "'w env \<Rightarrow> pulse \<Rightarrow> ('w, unit) fallible" where
  "reconcilePrometheusRule E cr =
     (let k = key KPrometheusRule (p_namespace cr) (prometheusRuleName (p_name cr)) in
      do { r \<leftarrow> api_get E k;
           case r of
             Inl e \<Rightarrow>
               if is_not_found e
               then bindE (wrapE ''SetControllerReference''
                      (liftE (set_controller E cr
                        ((new_obj k (BPrometheusRule []))\<lparr>o_annotations := clusterScopedAnnotations cr\<rparr>)))) (\<lambda>desired.
                    voidE (apiE (api_create E (desired\<lparr>o_body := BPrometheusRule (rule_groups cr)\<rparr>))))
               else fail (Api e)
           | Inr existing \<Rightarrow> voidE (apiE (api_update E (existing\<lparr>o_body := BPrometheusRule (rule_groups cr)\<rparr>))) })"

definition reconcileMonitoring :: "'w env \<Rightarrow> pulse \<Rightarrow> ('w, unit) fallible" where
  "reconcileMonitoring E cr =
     (if \<not> monitoringEnabled cr then ok ()
      else run_steps [(''ServiceMonitor'', reconcileServiceMonitor E cr),
                      (''PrometheusRule'', reconcilePrometheusRule E cr)])"

section \<open>What it touches\<close>

definition monitoring_writes :: "pulse \<Rightarrow> okey set" where
  "monitoring_writes cr =
     {key KServiceMonitor (p_namespace cr) (agentResourceName (p_name cr)),
      key KPrometheusRule (p_namespace cr) (prometheusRuleName (p_name cr))}"

lemma set_monitor_spec_sel [simp]:
  "o_key (set_monitor_spec n x) = o_key x"
  "as_service_monitor (set_monitor_spec n x) =
     (as_service_monitor x)\<lparr>sm_matchLabels := [(''app'', n)], sm_endpoints := agent_endpoints\<rparr>"
  by (simp_all add: set_monitor_spec_def)

lemma touches_monitoring_parts:
  "touches (monitoring_writes cr) {} (reconcileServiceMonitor E cr)"
  "touches (monitoring_writes cr) {} (reconcilePrometheusRule E cr)"
  unfolding reconcileServiceMonitor_def reconcilePrometheusRule_def Let_def
  by (intro allc.rules; auto simp: monitoring_writes_def dest!: set_controller_key)+

interpretation monitoring: sub_reconciler reconcileMonitoring monitoring_writes "\<lambda>_. {}"
  unfolding reconcileMonitoring_def
  by unfold_locales (intro allc.s_if allc.s_ret allc.s_run_steps; auto intro!: touches_monitoring_parts)

lemma guards_monitoring: "guards permit seen (reconcileMonitoring E cr)"
  by (rule touches_guards [OF monitoring.footprint]) simp

lemma keeps_monitoring: "keeps g (reconcileMonitoring E cr)"
  unfolding reconcileMonitoring_def reconcileServiceMonitor_def reconcilePrometheusRule_def Let_def
  by (intro view.s_if view.s_ret view.s_run_steps) (auto intro!: view.rules)

end
