(* ===== verification/Metrics.thy ===== *)
theory Metrics
  imports Names SimCluster
begin

text \<open>
  \<open>resource_metrics.go\<close>: the requested and observed memory gauges, the throttle of the metrics API
  and the removal of a deleted instance's series. The gauge and counter vectors of \<open>metrics.go\<close>
  are the fields \<open>os_gauges\<close>, \<open>os_selfHeal\<close> and \<open>os_reconcileErrors\<close> of the operator's state.
\<close>

definition observedMemoryCheckInterval :: int where
  "observedMemoryCheckInterval = 5 * minute"

text \<open>\<open>dueForObservedMemoryCheck\<close>: the answer and the throttle table after it.\<close>

definition dueForObservedMemoryCheck :: "string \<Rightarrow> int \<Rightarrow> (string \<times> int) list \<Rightarrow> bool \<times> (string \<times> int) list" where
  "dueForObservedMemoryCheck k now m =
     (case map_of m k of
        Some last_ \<Rightarrow> if now - last_ < observedMemoryCheckInterval then (False, m) else (True, sput k now m)
      | None \<Rightarrow> (True, sput k now m))"

text \<open>
  A PodMetrics item: \<open>None\<close> when it has no \<open>containers\<close>, otherwise the \<open>usage.memory\<close> text of each
  container that has one.
\<close>

fun sum_parseable :: "'w env \<Rightarrow> string option list \<Rightarrow> int \<times> bool" where
  "sum_parseable E [] = (0, False)"
| "sum_parseable E (None # cs) = sum_parseable E cs"
| "sum_parseable E (Some q # cs) =
     (case e_parseQuantity E q of
        Inl _ \<Rightarrow> sum_parseable E cs
      | Inr v \<Rightarrow> (e_quantityValue E v + fst (sum_parseable E cs), True))"

definition podMemoryBytes :: "'w env \<Rightarrow> kobj \<Rightarrow> int \<times> bool" where
  "podMemoryBytes E item =
     (case o_body item of BPodMetrics (Some cs) \<Rightarrow> sum_parseable E cs | _ \<Rightarrow> (0, False))"

fun max_loop :: "'w env \<Rightarrow> kobj list \<Rightarrow> int \<Rightarrow> bool \<Rightarrow> int \<times> bool" where
  "max_loop E [] best anyFound = (best, anyFound)"
| "max_loop E (item # items) best anyFound =
     (case podMemoryBytes E item of
        (bytes, found) \<Rightarrow>
          if \<not> found then max_loop E items best anyFound
          else max_loop E items (if bytes > best then bytes else best) True)"

definition maxPodMemoryBytes :: "'w env \<Rightarrow> kobj list \<Rightarrow> int \<times> bool" where
  "maxPodMemoryBytes E items = max_loop E items 0 False"

definition metric_key :: "string \<Rightarrow> string \<Rightarrow> string \<Rightarrow> string" where
  "metric_key ns name component = ns @ ''/'' @ name @ ''/'' @ component"

definition requestedMemoryGauge :: string where "requestedMemoryGauge = ''pulse_operator_requested_memory_bytes''"
definition observedMemoryGauge :: string where "observedMemoryGauge = ''pulse_operator_observed_memory_bytes''"
definition componentReadyGauge :: string where "componentReadyGauge = ''pulse_operator_component_ready''"

definition check_due :: "'w env \<Rightarrow> string \<Rightarrow> ('w, bool) action" where
  "check_due E k =
     do { now \<leftarrow> time_now E;
          m \<leftarrow> gets os_lastMemCheckAt;
          let r = dueForObservedMemoryCheck k now m;
          modify (\<lambda>s. s\<lparr>os_lastMemCheckAt := snd r\<rparr>);
          ret (fst r) }"

definition reconcileObservedMemoryMetrics ::
  "'w env \<Rightarrow> pulse \<Rightarrow> string \<Rightarrow> string \<Rightarrow> int \<Rightarrow> ('w, unit) action" where
  "reconcileObservedMemoryMetrics E cr deploymentName component requestedBytes =
     do { set_gauge requestedMemoryGauge cr component requestedBytes;
          due \<leftarrow> check_due E (metric_key (p_namespace cr) (p_name cr) component);
          if \<not> due then ret ()
          else do {
            r \<leftarrow> api_list E KPodMetrics (p_namespace cr) [(''app'', deploymentName)];
            case r of
              Inl _ \<Rightarrow> ret ()
            | Inr items \<Rightarrow>
                (case maxPodMemoryBytes E items of
                   (bytes, found) \<Rightarrow> if \<not> found then ret () else set_gauge observedMemoryGauge cr component bytes) } }"

definition requested_memory :: "'w env \<Rightarrow> resource_requirements \<Rightarrow> int" where
  "requested_memory E r =
     (case rq_requests r of None \<Rightarrow> 0
      | Some m \<Rightarrow> (case map_of m ''memory'' of None \<Rightarrow> 0 | Some q \<Rightarrow> e_quantityValue E q))"

definition agentRequestedMemoryBytes :: "'w env \<Rightarrow> pulse \<Rightarrow> int" where
  "agentRequestedMemoryBytes E cr = requested_memory E (agentResources cr)"

definition uiRequestedMemoryBytes :: "'w env \<Rightarrow> pulse \<Rightarrow> int" where
  "uiRequestedMemoryBytes E cr = requested_memory E (uiResources cr)"

definition forget_series :: "string \<Rightarrow> string \<Rightarrow> (series \<times> int) list \<Rightarrow> (series \<times> int) list" where
  "forget_series ns name gs = filter (\<lambda>((g, ns', n', c), v). \<not> (ns' = ns \<and> n' = name)) gs"

definition forgetInstanceMetrics :: "string \<Rightarrow> string \<Rightarrow> ('w, unit) action" where
  "forgetInstanceMetrics ns name =
     modify (\<lambda>s. s\<lparr>
       os_gauges := forget_series ns name (os_gauges s),
       os_lastMemCheckAt := filter (\<lambda>(k, t). \<not> prefix (ns @ ''/'' @ name @ ''/'') k) (os_lastMemCheckAt s)\<rparr>)"

section \<open>Lemmas\<close>

lemma touches_metrics:
  "touches ws ds (reconcileObservedMemoryMetrics E cr d c v)" "touches ws ds (forgetInstanceMetrics ns n)"
  unfolding reconcileObservedMemoryMetrics_def check_due_def forgetInstanceMetrics_def Let_def
  by (intro allc.rules allc.e_local; simp)+

lemma guards_metrics:
  "guards permit seen (reconcileObservedMemoryMetrics E cr d c v)" "guards permit seen (forgetInstanceMetrics ns n)"
  unfolding reconcileObservedMemoryMetrics_def check_due_def forgetInstanceMetrics_def Let_def
  by (intro grd.rules grd.e_local; simp)+

lemma keeps_metrics:
  "keeps g (reconcileObservedMemoryMetrics E cr d c v)" "keeps g (forgetInstanceMetrics ns n)"
  unfolding reconcileObservedMemoryMetrics_def check_due_def forgetInstanceMetrics_def Let_def
  by (intro view.rules view.v_modify; simp)+

definition found_values :: "'w env \<Rightarrow> kobj list \<Rightarrow> int list" where
  "found_values E items = map (\<lambda>i. fst (podMemoryBytes E i)) (filter (\<lambda>i. snd (podMemoryBytes E i)) items)"

lemma max_loop_spec:
  "max_loop E items best b =
     (foldl max best (found_values E items), b \<or> list_ex (\<lambda>i. snd (podMemoryBytes E i)) items)"
  by (induction E items best b rule: max_loop.induct) (auto simp: found_values_def max_def split: prod.split)

lemma foldl_max_ge: "(best :: int) \<le> foldl max best xs \<and> (\<forall>x \<in> set xs. x \<le> foldl max best xs)"
proof (induction xs arbitrary: best)
  case (Cons a xs)
  from Cons [of "max best a"] show ?case by auto
qed simp

lemma foldl_max_in: "foldl max (best :: int) xs = best \<or> foldl max best xs \<in> set xs"
proof (induction xs arbitrary: best)
  case (Cons a xs)
  from Cons [of "max best a"] show ?case by (auto simp: max_def split: if_splits)
qed simp

lemma due_resets: "fst (dueForObservedMemoryCheck k now m) \<Longrightarrow> map_of (snd (dueForObservedMemoryCheck k now m)) k = Some now"
  by (simp add: dueForObservedMemoryCheck_def split: option.splits if_splits)

lemma due_spaced:
  "map_of m k = Some t \<Longrightarrow> fst (dueForObservedMemoryCheck k now m) \<longleftrightarrow> now - t \<ge> observedMemoryCheckInterval"
  by (simp add: dueForObservedMemoryCheck_def)

lemma due_other: "k' \<noteq> k \<Longrightarrow> map_of (snd (dueForObservedMemoryCheck k now m)) k' = map_of m k'"
  by (simp add: dueForObservedMemoryCheck_def split: option.split)

section \<open>The throttle over a sequence of checks\<close>

text \<open>The times at which a sequence of checks of one key, interleaved with others, was due.\<close>

fun due_times :: "string \<Rightarrow> (string \<times> int) list \<Rightarrow> (string \<times> int) list \<Rightarrow> int list" where
  "due_times k [] m = []"
| "due_times k ((k', now) # cs) m =
     (case dueForObservedMemoryCheck k' now m of
        (due, m') \<Rightarrow> (if due \<and> k' = k then [now] else []) @ due_times k cs m')"

definition spaced :: "int list \<Rightarrow> bool" where
  "spaced ts = sorted_wrt (\<lambda>a b. b - a \<ge> observedMemoryCheckInterval) ts"

lemma due_times_after:
  "map_of m k = Some t \<Longrightarrow> \<forall>x \<in> set (due_times k cs m). x - t \<ge> observedMemoryCheckInterval"
proof (induction k cs m arbitrary: t rule: due_times.induct)
  case (2 k k' now cs m)
  show ?case
  proof (cases "k' = k")
    case True
    show ?thesis
    proof (cases "fst (dueForObservedMemoryCheck k now m)")
      case due: True
      have nt: "now - t \<ge> observedMemoryCheckInterval" using due 2(2) due_spaced by blast
      have "\<forall>x \<in> set (due_times k cs (snd (dueForObservedMemoryCheck k now m))). x - now \<ge> observedMemoryCheckInterval"
      proof -
        have "map_of (snd (dueForObservedMemoryCheck k' now m)) k = Some now"
          using due_resets [of k now m] True due by simp
        from 2(1) [OF prod.collapse this] show ?thesis using True by simp
      qed
      moreover have "observedMemoryCheckInterval \<ge> 0" by (simp add: observedMemoryCheckInterval_def minute_def second_def)
      ultimately show ?thesis using True due nt by (fastforce simp: split_beta)
    next
      case False
      then have "snd (dueForObservedMemoryCheck k now m) = m"
        using 2(2) by (simp add: dueForObservedMemoryCheck_def split: if_splits)
      then show ?thesis using 2(1) [OF prod.collapse] 2(2) True False by (simp add: split_beta)
    qed
  next
    case False
    then show ?thesis
      using 2(1) [OF prod.collapse] 2(2) due_other [of k k' now m] by (simp add: split_beta)
  qed
qed simp

lemma due_times_spaced: "spaced (due_times k cs m)"
proof (induction k cs m rule: due_times.induct)
  case (2 k k' now cs m)
  have rest: "spaced (due_times k cs (snd (dueForObservedMemoryCheck k' now m)))"
    by (rule 2 [OF prod.collapse])
  show ?case
  proof (cases "k' = k \<and> fst (dueForObservedMemoryCheck k now m)")
    case True
    then show ?thesis
      using rest due_times_after [OF due_resets, of k now m cs] by (auto simp: spaced_def split_beta)
  next
    case False
    then show ?thesis using rest by (auto simp: split_beta)
  qed
qed (simp add: spaced_def)

section \<open>Properties\<close>

text \<open>
  C40: Over any sequence of checks of any keys at any times, starting from any throttle table, two
  checks of the same key that are let through are at least five minutes apart.
\<close>

theorem memory_checks_are_spaced:
  "sorted_wrt (\<lambda>a b. b - a \<ge> observedMemoryCheckInterval) (due_times k checks m)"
  using due_times_spaced by (simp add: spaced_def)

text \<open>
  The observed figure is the largest per-pod total, at least zero: every pod with a parseable
  sample is at most the figure, the figure is zero or one of the pods' totals, and a figure is
  reported exactly when some pod has a parseable sample.
\<close>

theorem observed_memory_is_the_maximum:
  "let (figure, found) = maxPodMemoryBytes E items in
     (found \<longleftrightarrow> found_values E items \<noteq> []) \<and> (figure = 0 \<or> figure \<in> set (found_values E items)) \<and>
     list_all (\<lambda>v. v \<le> figure) (0 # found_values E items)"
  using foldl_max_ge [of 0 "found_values E items"] foldl_max_in [of 0 "found_values E items"]
  by (auto simp: maxPodMemoryBytes_def max_loop_spec list_all_iff list_ex_iff found_values_def filter_empty_conv)

text \<open>
  Forgetting a deleted instance removes every gauge series and throttle entry of that instance
  and leaves every other instance's series as they were.
\<close>

theorem forgotten_instance_leaves_no_series:
  "let s' = snd (run_state (forgetInstanceMetrics ns name) s) in
     list_all (\<lambda>((g, ns', n', c), v). (ns', n') \<noteq> (ns, name)) (os_gauges s') \<and>
     list_all (\<lambda>(k, t). \<not> prefix (metric_key ns name '''') k) (os_lastMemCheckAt s') \<and>
     filter (\<lambda>((g, ns', n', c), v). (ns', n') \<noteq> (ns, name)) (os_gauges s) = os_gauges s'"
  by (auto simp: forgetInstanceMetrics_def forget_series_def metric_key_def list_all_iff)

end
