(* ===== verification/AgentProps.thy ===== *)
theory AgentProps
  imports Agent
begin

text \<open>
  Properties of the agent reconciler: what its ClusterRole grants, which image it deploys under the
  version gate, what an update of its Deployment may not change, that tokens survive.
\<close>

definition agent_image :: "kobj \<Rightarrow> string" where
  "agent_image x = (case po_containers (pt_spec (de_template (as_deployment x))) of [] \<Rightarrow> '''' | c # _ \<Rightarrow> co_image c)"

lemma as_dep_upd [simp]: "as_deployment (x\<lparr>o_controller := c\<rparr>) = as_deployment x"
  by (simp add: as_deployment_def)

lemma agent_image_upd [simp]: "agent_image (x\<lparr>o_controller := c\<rparr>) = agent_image x"
  by (simp add: agent_image_def)

lemma built_image:
  "po_containers (pt_spec (de_template (buildDeploymentSpec E h cr info))) = [agent_container E cr info]"
  by (simp add: buildDeploymentSpec_def Let_def agent_pod_def)

lemma updated_agent_image:
  "agent_image (updated_agent E h cr info compatible x) =
     (if compatible \<or> po_containers (pt_spec (de_template (as_deployment x))) = [] then resolvedImage E cr else agent_image x)"
  by (auto simp: updated_agent_def Let_def agent_image_def pin_image_def replace_spec_def built_image
      agent_container_def container0_def split: list.split)

lemma updated_agent_selector:
  "de_selector (as_deployment (updated_agent E h cr info compatible x)) = de_selector (as_deployment x)"
  by (auto simp: updated_agent_def Let_def pin_image_def replace_spec_def split: list.split)

lemma updated_agent_labels:
  "pt_labels (de_template (as_deployment (updated_agent E h cr info compatible x))) = [(''app'', agentResourceName (p_name cr))]"
  by (auto simp: updated_agent_def Let_def pin_image_def replace_spec_def buildDeploymentSpec_def split: list.split)

lemma updated_agent_restart:
  "map_of (pt_annotations (de_template (as_deployment (updated_agent E h cr info compatible x)))) restartedAtAnnotation =
     map_of (pt_annotations (de_template (as_deployment x))) restartedAtAnnotation"
proof -
  have "map_of (pt_annotations (de_template (pin_image c old (replace_spec (buildDeploymentSpec E h cr info) old))))
      restartedAtAnnotation = None" for c old
    by (auto simp: pin_image_def replace_spec_def buildDeploymentSpec_def Let_def restartedAtAnnotation_def
        pgAuthHashAnnotation_def split: list.split)
  then show ?thesis
    by (simp add: updated_agent_def Let_def keepRestartedAt_annotation)
qed

text \<open>What \<open>apply_agent\<close> does, by what the read of the Deployment answered.\<close>

lemma run_apply_agent:
  fixes cr :: pulse
  defines "k \<equiv> key KDeployment (p_namespace cr) (agentResourceName (p_name cr))"
  shows "\<exists>xs. os_log (snd (run_state (apply_agent E h cr info compatible) s)) =
      os_log s @ CGet k (fst (fetch E k (os_world s))) # xs \<and>
    (case fst (fetch E k (os_world s)) of
       Inl e \<Rightarrow> xs = [] \<or> (is_not_found e \<and> compatible \<and> (\<exists>x r. xs = [CCreate x r] \<and> agent_image x = resolvedImage E cr))
     | Inr old \<Rightarrow>
         if agent_selector_mismatch (agentResourceName (p_name cr)) (as_deployment old)
         then \<exists>d. xs = [CDelete k '''' d]
         else xs = [] \<or> (\<exists>x r c. xs = [CUpdate x r] \<and> x = (updated_agent E h cr info compatible old)\<lparr>o_controller := c\<rparr>))"
proof (cases "fst (fetch E k (os_world s))")
  case (Inl e)
  then show ?thesis
    unfolding k_def
    by (auto simp: apply_agent_def Let_def client_defs liftE_def set_controller_Inr agent_image_def built_image
        agent_container_def container0_def as_deployment_def run_bind_pair simp del: run_state_bind split: sum.splits)
next
  case (Inr old)
  then show ?thesis
    unfolding k_def
    by (auto simp: apply_agent_def Let_def client_defs liftE_def set_controller_Inr inc_self_heal_def
        run_bind_pair simp del: run_state_bind split: sum.splits option.splits if_splits)
qed

text \<open>The judgement on one call after the read answered \<open>r\<close>, under the verdict of the version gate.\<close>

fun agent_write_ok :: "'w env \<Rightarrow> pulse \<Rightarrow> bool \<Rightarrow> api_error + kobj \<Rightarrow> call \<Rightarrow> bool" where
  "agent_write_ok E cr compatible (Inl e) (CCreate x _) \<longleftrightarrow>
     is_not_found e \<and> compatible \<and> agent_image x = resolvedImage E cr"
| "agent_write_ok E cr compatible (Inr old) (CUpdate x _) \<longleftrightarrow>
     o_key x = o_key old \<and> de_selector (as_deployment x) = de_selector (as_deployment old) \<and>
     map_of (pt_annotations (de_template (as_deployment x))) restartedAtAnnotation =
       map_of (pt_annotations (de_template (as_deployment old))) restartedAtAnnotation \<and>
     agent_image x = (if compatible \<or> po_containers (pt_spec (de_template (as_deployment old))) = []
                      then resolvedImage E cr else agent_image old)"
| "agent_write_ok E cr compatible (Inr old) (CDelete k _ _) \<longleftrightarrow>
     k = key KDeployment (p_namespace cr) (agentResourceName (p_name cr)) \<and>
     agent_selector_mismatch (agentResourceName (p_name cr)) (as_deployment old)"
| "agent_write_ok E cr compatible _ _ \<longleftrightarrow> False"

lemma apply_agent_writes:
  fixes cr :: pulse
  defines "k \<equiv> key KDeployment (p_namespace cr) (agentResourceName (p_name cr))"
  shows "\<exists>xs. os_log (snd (run_state (apply_agent E h cr info compatible) s)) =
      os_log s @ CGet k (fst (fetch E k (os_world s))) # xs \<and>
    list_all (agent_write_ok E cr compatible (fst (fetch E k (os_world s)))) xs"
proof (cases "fst (fetch E k (os_world s))")
  case (Inl e)
  then show ?thesis
    using run_apply_agent [where cr = cr and E = E and h = h and info = info and compatible = compatible and s = s]
    unfolding k_def by auto
next
  case (Inr old)
  then show ?thesis
    using run_apply_agent [where cr = cr and E = E and h = h and info = info and compatible = compatible and s = s]
    unfolding k_def
    by (auto simp: updated_agent_selector updated_agent_restart updated_agent_image split: if_splits)
qed

section \<open>The version gate's condition\<close>

text \<open>
  The condition written by the gate is touched only while \<open>spec.agent.minOperatorVersion\<close> is set: once
  the field is removed an "incompatible" verdict stays in the status, and with it the exemption
  of the agent from the automatic rollback (\<open>agent_fires\<close> reads that condition).
\<close>

lemma gate_condition_is_never_cleared:
  assumes "ag_minOperatorVersion (agent_of cr) = ''''"
    and other: "\<And>c cs. c_type c \<noteq> ''AgentVersionCompatible'' \<Longrightarrow>
      e_conditionFalse E (e_setCondition E c cs) ''AgentVersionCompatible'' = e_conditionFalse E cs ''AgentVersionCompatible''"
  shows "e_conditionFalse E (st_conditions (p_status (os_cr (snd (run_state (version_gates E cr) s))))) ''AgentVersionCompatible'' =
    e_conditionFalse E (st_conditions (p_status (os_cr s))) ''AgentVersionCompatible''"
proof -
  have "c_type (mk_condition p ''AgentUIVersionsMatch'' x y z) \<noteq> ''AgentVersionCompatible''" for p x y z
    by (simp add: mk_condition_def)
  note [simp] = other [OF this]
  show ?thesis
    using assms(1) compatible_unset [OF assms(1), of E]
    by (auto simp: version_gates_def setVersionSkewCondition_def Let_def run_bind_pair set_condition_def set_status_def
        get_cr_def simp del: run_state_bind)
qed

lemma version_gates_result: "fst (run_state (version_gates E cr) s) = fst (agentVersionCompatible E cr)"
  by (simp add: version_gates_def Let_def run_bind_pair del: run_state_bind)

section \<open>Properties\<close>

text \<open>
  What the agent's ClusterRole grants: beyond reading, only the creation of token reviews, and
  the two remediation rules exactly when write operations are allowed; Secrets exactly when secret
  access is enabled; its own custom resource read-only in every configuration; no wildcard anywhere.
\<close>

theorem agent_role_grants:
  "filter (\<lambda>r. \<not> set (ru_verbs r) \<subseteq> {''get'', ''list'', ''watch''}) (agent_rules cr) =
     rule ''authentication.k8s.io'' [''tokenreviews''] [''create''] #
       (if ag_allowWriteOperations (agent_of cr) then agent_write_rules else []) \<and>
   filter (\<lambda>r. ''secrets'' \<in> set (ru_resources r)) (agent_rules cr) =
     (if secretAccessEnabled cr then agent_secret_rules else []) \<and>
   filter (\<lambda>r. ''pulse.ai'' \<in> set (ru_apiGroups r)) (agent_rules cr) =
     [rule ''pulse.ai'' [''openshiftpulses''] [''get'', ''list'', ''watch'']] \<and>
   list_all (\<lambda>r. ''*'' \<notin> set (ru_apiGroups r @ ru_resources r @ ru_verbs r)) (agent_rules cr)"
  by (simp add: agent_rules_def agent_base_rules_def agent_secret_rules_def agent_write_rules_def rule_def gl_def glw_def)

text \<open>
  C28: What a pass writes to the agent's Deployment after reading it. A creation needs a compatible
  operator version and runs the resolved image. An update keeps the selector and a manual restart
  annotation and runs the resolved image, or, when the version gate is closed, the image that was
  running. A deletion follows only a selector that does not match.
\<close>

theorem agent_deployment_writes:
  "let k = key KDeployment (p_namespace cr) (agentResourceName (p_name cr));
       r = fst (fetch E k (os_world s))
   in \<exists>xs. os_log (snd (run_state (apply_agent E h cr info (fst (agentVersionCompatible E cr))) s)) = os_log s @ CGet k r # xs \<and>
      list_all (agent_write_ok E cr (fst (agentVersionCompatible E cr)) r) xs"
  unfolding Let_def by (rule apply_agent_writes)

text \<open>
  An existing session token is preserved: when the Secret can be read the reconciler makes no
  further call, whatever the Secret holds; only when it is missing is one created, with a fresh token
  of 32 hexadecimal digits.
\<close>

theorem existing_token_is_preserved:
  "let k = key KSecret (p_namespace cr) (wsTokenSecretName (p_name cr));
       r = fst (fetch E k (os_world s))
   in \<exists>xs. os_log (snd (run_state (reconcileWSTokenSecret E cr) s)) = os_log s @ CGet k r # xs \<and>
     (case r of
        Inr x \<Rightarrow> xs = [] \<and> fst (run_state (reconcileWSTokenSecret E cr) s) = Inr ()
      | Inl e \<Rightarrow> xs = [] \<or> is_not_found e \<and> (\<exists>x u t. xs = [CCreate x u] \<and> o_key x = k \<and>
          se_stringData (as_secret x) = [(''token'', t)] \<and> length t = 32 \<and> list_all is_lower_hex t))"
  by (auto simp: reconcileWSTokenSecret_def create_if_missing_def Let_def client_defs liftE_def set_controller_Inr voidE_def
      generateToken_def run_rand_read length_hex_encode hex_encode_all_hex as_secret_def run_bind_pair
      simp del: run_state_bind split: sum.splits prod.splits)

end
