(* ===== verification/Reconcile.thy ===== *)
theory Reconcile
  imports RolloutInvariant UI Render Monitoring Metrics AgentProps
begin

text \<open>
  \<open>OpenShiftPulseReconciler.Reconcile\<close> of \<open>openshiftpulse_controller.go\<close>: one pass over one custom
  resource, from its read to the requeue delay: deletion with the finalizer, admission, the
  components in their order, and the status. A pass is an action over the custom resource in the
  operator's state (\<open>os_cr\<close>, Go's \<open>pulse\<close>); its result is the error or the requeue delay in
  nanoseconds, 0 for none.
\<close>

section \<open>Deletion\<close>

definition finalizerName :: string where "finalizerName = ''pulse.ai/cleanup''"

definition removeFinalizer :: "pulse \<Rightarrow> pulse" where
  "removeFinalizer cr = cr\<lparr>p_finalizers := filter (\<lambda>f. f \<noteq> finalizerName) (p_finalizers cr)\<rparr>"

definition addFinalizer :: "pulse \<Rightarrow> pulse" where
  "addFinalizer cr =
     (if finalizerName \<in> set (p_finalizers cr) then cr else cr\<lparr>p_finalizers := p_finalizers cr @ [finalizerName]\<rparr>)"

text \<open>\<open>r.Update(ctx, pulse)\<close>: the object holds what the server answered.\<close>

definition updatePulse :: "'w env \<Rightarrow> ('w, unit) fallible" where
  "updatePulse E =
     do { cr \<leftarrow> get_cr;
          r \<leftarrow> api_updatePulse E cr;
          case r of Inl e \<Rightarrow> fail (Api e) | Inr p \<Rightarrow> do { put_cr p; ok () } }"

text \<open>An error is reported by a Warning Event before it is returned.\<close>

definition with_event :: "string \<Rightarrow> string \<Rightarrow> ('w, 'a) fallible \<Rightarrow> ('w, 'a) fallible" where
  "with_event reason msg m =
     do { r \<leftarrow> m;
          case r of
            Inl e \<Rightarrow> do { emit_event ''Warning'' reason (msg @ err_text e); fail e }
          | Inr x \<Rightarrow> ok x }"

definition finish_deletion :: "'w env \<Rightarrow> pulse \<Rightarrow> ('w, unit) fallible" where
  "finish_deletion E cr =
     do { emit_event ''Normal'' ''Deleted'' ''Cluster-scoped resources cleaned up'';
          forgetInstanceMetrics (p_namespace cr) (p_name cr);
          cr' \<leftarrow> get_cr;
          put_cr (removeFinalizer cr');
          updatePulse E }"

definition handle_deletion :: "'w env \<Rightarrow> pulse \<Rightarrow> ('w, int) fallible" where
  "handle_deletion E cr =
     (if finalizerName \<notin> set (p_finalizers cr) then ok 0
      else bindE (with_event ''DeleteFailed'' ''Some cluster-scoped resources could not be deleted: ''
                    (deleteClusterScopedResources E cr)) (\<lambda>_.
           bindE (with_event ''DeleteFailed'' ''PostgreSQL data/credentials could not be deleted: ''
                    (deletePGDataOnRequest E cr)) (\<lambda>_.
           bindE (finish_deletion E cr) (\<lambda>_. ok 0))))"

section \<open>Components\<close>

text \<open>\<open>flushInstallingStatus\<close>: a failed status write before an early requeue is ignored.\<close>

definition flushInstallingStatus :: "'w env \<Rightarrow> ('w, unit) action" where
  "flushInstallingStatus E =
     do { set_status (\<lambda>st. st\<lparr>st_phase := ''Installing''\<rparr>);
          _ \<leftarrow> updateStatus E;
          ret () }"

text \<open>A step whose error is counted under a label and wrapped.\<close>

definition counted :: "string \<Rightarrow> string \<Rightarrow> ('w, 'a) fallible \<Rightarrow> ('w, 'a) fallible" where
  "counted label msg m =
     do { r \<leftarrow> m;
          case r of Inl e \<Rightarrow> do { inc_reconcile_error label; fail (Wrap msg e) } | Inr x \<Rightarrow> ok x }"

definition warn_no_backend :: "pulse \<Rightarrow> ('w, unit) action" where
  "warn_no_backend cr =
     (if hasAIBackend cr then ret ()
      else emit_event ''Warning'' ''NoAIBackendConfigured''
        (''Neither spec.vertexAI nor spec.anthropicApiKey is set '' @ em_dash @
         '' the agent has no AI backend and will not function''))"

text \<open>The steps between the agent and the UI; each may only fail or succeed.\<close>

definition operand_steps :: "'w env \<Rightarrow> pulse \<Rightarrow> ('w, unit) fallible list" where
  "operand_steps E cr =
     [counted ''network_policies'' ''reconcileNetworkPolicies'' (reconcileNetworkPolicies E cr),
      counted ''pdb'' ''reconcileUIPodsDisruptionBudget'' (reconcileUIPodsDisruptionBudget E cr),
      do { _ \<leftarrow> DetectClusterInfo E; ok () },
      (if monitoringEnabled cr then counted ''monitoring'' ''reconcileMonitoring'' (reconcileMonitoring E cr) else ok ()),
      (if mc_enabled (ag_mcp (agent_of cr)) then counted ''mcp'' ''reconcileMCP'' (reconcileMCP E cr)
       else counted ''mcp'' ''removeMCP'' (removeMCP E cr)),
      counted ''temporal'' ''reconcileTemporal'' (reconcileTemporal E cr),
      counted ''temporal'' ''removeTemporal'' (removeTemporal E cr)]"

section \<open>Status\<close>

definition read_health :: "'w env \<Rightarrow> pulse \<Rightarrow> ('w, component_health) action" where
  "read_health E cr =
     (let n = p_name cr; ns = p_namespace cr in
      do { agentReady \<leftarrow> isDeploymentReady E (agentResourceName n) ns;
           agentRolledOut \<leftarrow> isRolledOut E (agentResourceName n) ns (resolvedImage E cr);
           uiRolledOut \<leftarrow> isRolledOut E (uiResourceName n) ns (resolvedUIImage E cr);
           pgReady \<leftarrow> isStatefulSetReady E (n @ ''-openshift-sre-agent-postgresql'') ns;
           ret \<lparr>ch_agentServing = agentReady, ch_agentRolledOut = agentRolledOut, ch_uiRolledOut = uiRolledOut,
                ch_pgReady = pgReady\<rparr> })"

definition record_version :: "'w env \<Rightarrow> pulse \<Rightarrow> ('w, unit) action" where
  "record_version E cr =
     do { d \<leftarrow> agentDeployment E (agentResourceName (p_name cr)) (p_namespace cr);
          case d of
            None \<Rightarrow> ret ()
          | Some x \<Rightarrow>
              (case po_containers (pt_spec (de_template (as_deployment x))) of
                 [] \<Rightarrow> ret ()
               | c # _ \<Rightarrow> set_status (\<lambda>st. st\<lparr>st_agentVersion := imageVersionLabel (co_image c)\<rparr>)) }"

definition sync_status :: "'w env \<Rightarrow> pulse \<Rightarrow> ('w, int) fallible" where
  "sync_status E cr =
     do { h \<leftarrow> read_health E cr;
          set_status (\<lambda>st. st\<lparr>st_agentHealthy := ch_agentServing h, st_databaseReady := ch_pgReady h\<rparr>);
          record_version E cr;
          reconcileObservedMemoryMetrics E cr (agentResourceName (p_name cr)) ''agent'' (agentRequestedMemoryBytes E cr);
          reconcileObservedMemoryMetrics E cr (uiResourceName (p_name cr)) ''ui'' (uiRequestedMemoryBytes E cr);
          bindE (counted ''auto_rollback'' ''reconcileAutoRollback'' (statusPass E h)) (\<lambda>rolledBack.
          do { set_status (\<lambda>st. st\<lparr>st_observedGeneration := p_generation cr\<rparr>);
               bindE (counted ''status_update'' ''status update'' (updateStatus E)) (\<lambda>_.
                 ok (if rolledBack then second else 30 * second)) }) }"

section \<open>The pass\<close>

text \<open>An early requeue: the phase is flushed before the pass ends.\<close>

definition requeue_installing :: "'w env \<Rightarrow> int \<Rightarrow> ('w, int) fallible" where
  "requeue_installing E delay = do { flushInstallingStatus E; ok delay }"

definition reconcile_accepted :: "'w env \<Rightarrow> pulse \<Rightarrow> ('w, int) fallible" where
  "reconcile_accepted E cr =
     do { warn_no_backend cr;
          bindE (counted ''postgres'' ''reconcilePostgres''
            (with_event ''ReconcileFailed'' ''PostgreSQL reconcile failed: '' (reconcilePostgres E cr))) (\<lambda>(dbURL, pgDelay).
          if pgDelay > 0 then requeue_installing E pgDelay
          else bindE (counted ''render'' ''reconcileRender'' (reconcileRender E cr)) (\<lambda>_.
          bindE (counted ''agent'' ''reconcileAgent''
            (with_event ''ReconcileFailed'' ''Agent reconcile failed: '' (reconcileAgent E dbURL cr))) (\<lambda>agentDelay.
          if agentDelay > 0 then requeue_installing E agentDelay
          else bindE (run_all (operand_steps E cr)) (\<lambda>_.
          bindE (counted ''ui'' ''reconcileUI'' (reconcileUI E cr)) (\<lambda>uiDelay.
          if uiDelay > 0 then requeue_installing E uiDelay
          else sync_status E cr))))) }"

definition handle_live :: "'w env \<Rightarrow> pulse \<Rightarrow> ('w, int) fallible" where
  "handle_live E cr =
     bindE (rejectionReason E cr) (\<lambda>reason.
       if reason \<noteq> '''' then bindE (reject E reason) (\<lambda>_. ok (5 * minute))
       else if finalizerName \<notin> set (p_finalizers cr)
       then do { put_cr (addFinalizer cr); bindE (updatePulse E) (\<lambda>_. ok 0) }
       else reconcile_accepted E cr)"

definition ReconcilePulse :: "'w env \<Rightarrow> string \<Rightarrow> string \<Rightarrow> ('w, int) fallible" where
  "ReconcilePulse E ns name =
     do { r \<leftarrow> api_getPulse E ns name;
          case r of
            Inl e \<Rightarrow> if is_not_found e then ok 0 else fail (Api e)
          | Inr cr \<Rightarrow> do {
              put_cr cr;
              if p_deletionTimestamp cr \<noteq> None then handle_deletion E cr else handle_live E cr } }"

end
