(* ===== verification/PostgresProps.thy ===== *)
theory PostgresProps
  imports Postgres
begin

text \<open>
  What makes the PostgreSQL reconciler correct: the stored password is never rotated, an update
  never changes the major version or an immutable field and never rewrites a template that has not
  drifted, the volume only grows, a pod is deleted only when stuck on an outdated spec, and data is
  deleted only on request.
\<close>

section \<open>Credentials\<close>

definition stored_password :: "smap \<Rightarrow> string option" where
  "stored_password d =
     (case map_of d ''POSTGRESQL_PASSWORD'' of Some pw \<Rightarrow> Some pw | None \<Rightarrow> map_of d ''POSTGRES_PASSWORD'')"

lemma migrate_keys_lookup:
  "map_of (migrate_keys pw d) ''POSTGRESQL_PASSWORD'' = Some pw"
  "map_of (migrate_keys pw d) ''POSTGRESQL_USER'' = Some (sget d ''POSTGRES_USER'')"
  "map_of (migrate_keys pw d) ''POSTGRESQL_DATABASE'' = Some (sget d ''POSTGRES_DB'')"
  "map_of (migrate_keys pw d) ''POSTGRES_PASSWORD'' = None"
  by (simp_all add: migrate_keys_def Let_def)

lemma stored_password_migrated [simp]: "stored_password (migrate_keys pw d) = Some pw"
  by (simp add: stored_password_def migrate_keys_lookup)

text \<open>What a call writes into the data of a Secret.\<close>

fun written_secret :: "call \<Rightarrow> secret option" where
  "written_secret (CCreate x _) = Some (as_secret x)"
| "written_secret (CUpdate x _) = Some (as_secret x)"
| "written_secret _ = None"

section \<open>Images of the StatefulSet\<close>

definition ss_image :: "kobj \<Rightarrow> string" where
  "ss_image x = (case po_containers (pt_spec (ss_template (as_stateful_set x))) of [] \<Rightarrow> '''' | c # _ \<Rightarrow> co_image c)"

lemma not_blocked_same: "\<not> version_change_blocked i i"
  by (simp add: version_change_blocked_def)

lemma template_drifted_image:
  "\<not> pg_template_drifted img h t \<Longrightarrow>
     (case po_containers (pt_spec t) of [] \<Rightarrow> '''' | c # _ \<Rightarrow> co_image c) = img"
  by (simp add: pg_template_drifted_def)

lemma pg_template_not_drifted: "\<not> pg_template_drifted img h (pg_template cr sn img h)"
  by (simp add: pg_template_drifted_def pg_template_def pg_container_def pod_spec0_def container0_def
      pg_annotations_def sget_Cons pgTemplateVersionAnnotation_def pgAuthHashAnnotation_def)

lemma pg_set_template_not_drifted: "\<not> pg_template_drifted img h (ss_template (pg_set_template cr sn img h fresh ss))"
  by (simp add: pg_set_template_def pg_template_not_drifted)

lemma as_ss_upd [simp]:
  "as_stateful_set (x\<lparr>o_labels := l\<rparr>) = as_stateful_set x"
  "as_stateful_set (x\<lparr>o_controller := c\<rparr>) = as_stateful_set x"
  by (simp_all add: as_stateful_set_def)

lemma pg_mutate_result:
  assumes "pg_mutate E cr stsName sn img h qty x = Inr y"
  shows "\<exists>q. as_stateful_set y = pg_set_template cr sn img h (o_creationTimestamp x = None)
      (if o_creationTimestamp x = None then pg_create_fields cr stsName q (as_stateful_set x) else as_stateful_set x)"
    and "o_creationTimestamp x = None \<Longrightarrow> qty \<noteq> Inl e"
  using assms
  by (cases "o_creationTimestamp x"; cases qty; force simp: pg_mutate_def owned_by_Inr set_controller_Inr Let_def)+

lemma pg_mutate_image:
  assumes "pg_mutate E cr stsName sn img h qty x = Inr y"
  shows "ss_image y = img"
proof -
  obtain q where "as_stateful_set y = pg_set_template cr sn img h (o_creationTimestamp x = None)
      (if o_creationTimestamp x = None then pg_create_fields cr stsName q (as_stateful_set x) else as_stateful_set x)"
    using pg_mutate_result(1) [OF assms] by blast
  then show ?thesis
    unfolding ss_image_def using template_drifted_image [OF pg_set_template_not_drifted] by simp
qed

lemma run_guard:
  "fst (run_state (guardPGMajorVersion E current desired) s) =
     (if version_change_blocked current desired then current else desired)"
  by (simp add: guardPGMajorVersion_def recordEvent_def emit_event_def)

lemma pg_existing_reads:
  assumes "fst (fetch E (key KStatefulSet (p_namespace cr) stsName) (os_world s)) = Inr x"
    and "o_deletionTimestamp x = None" and "\<not> pg_selector_mismatch (p_name cr) (as_stateful_set x)"
    and "ss_image x \<noteq> ''''"
  shows "fst (run_state (pg_existing E cr stsName desired) s) =
    Inr (Inr (if version_change_blocked (ss_image x) desired then ss_image x else desired))"
  using assms
  by (cases "po_containers (pt_spec (ss_template (as_stateful_set x)))")
     (simp_all add: pg_existing_def client_defs ss_image_def run_bind_pair run_guard del: run_state_bind)

text \<open>The image a pass goes on with, when it has read the StatefulSet.\<close>

lemma pg_existing_choice:
  assumes "fst (fetch E (key KStatefulSet (p_namespace cr) stsName) (os_world s)) = Inr x"
    and "fst (run_state (pg_existing E cr stsName desired) s) = Inr (Inr img)"
  shows "img = (if version_change_blocked (ss_image x) desired then ss_image x else desired)"
  using assms
  by (cases "po_containers (pt_spec (ss_template (as_stateful_set x)))")
     (auto simp: pg_existing_def client_defs ss_image_def run_bind_pair run_guard version_change_blocked_def
        simp del: run_state_bind split: if_splits sum.splits)

lemma major_of_nothing [simp]: "pgMajorVersion '''' = 0"
  by (simp add: pgMajorVersion_def)

text \<open>
  The guard sits behind a read whose errors are ignored: when that read fails for any reason, the
  pass goes on with the desired image, and \<open>CreateOrUpdate\<close>, which reads again, applies it.
\<close>

lemma major_version_guard_needs_the_read:
  assumes "fst (fetch E (key KStatefulSet (p_namespace cr) stsName) (os_world s)) = Inl e"
    and "pg_mutate E cr stsName sn desired h qty x = Inr y"
  shows "fst (run_state (pg_existing E cr stsName desired) s) = Inr (Inr desired)" and "ss_image y = desired"
  using assms pg_mutate_image [OF assms(2)] by (simp_all add: pg_existing_def client_defs)

lemma run_secret:
  assumes "fst (fetch E (key KSecret (p_namespace cr) n) (os_world s)) = Inr x"
    and "stored_password (se_data (as_secret x)) = Some pw"
  shows "(fst (run_state (reconcilePGSecret E cr n) s) = Inr pw \<or>
       (\<exists>e. fst (run_state (reconcilePGSecret E cr n) s) = Inl (Wrap ''migrate pg-auth secret keys'' e))) \<and>
     (\<exists>xs. os_log (snd (run_state (reconcilePGSecret E cr n) s)) =
        os_log s @ CGet (key KSecret (p_namespace cr) n) (Inr x) # xs \<and>
      (xs = [] \<or> (\<exists>y u. xs = [CUpdate y u] \<and> o_key y = o_key x \<and> stored_password (se_data (as_secret y)) = Some pw)))"
  using assms
  by (auto simp: reconcilePGSecret_def client_defs stored_password_def Let_def migrate_keys_lookup
      split: option.splits sum.splits prod.splits)

text \<open>What a claim asks for, by resource.\<close>

definition requests_of :: "kobj \<Rightarrow> string \<Rightarrow> string option" where
  "requests_of x = (case pv_requests (as_pvc x) of None \<Rightarrow> (\<lambda>_. None) | Some m \<Rightarrow> map_of m)"

lemma resized_keeps:
  "(resized want x)\<lparr>o_body := o_body x\<rparr> = x"
  "as_pvc (resized want x) = (as_pvc x)\<lparr>pv_requests := pv_requests (as_pvc (resized want x))\<rparr>"
  "requests_of (resized want x) = (requests_of x)(''storage'' := Some want)"
  by (auto simp: resized_def as_pvc_def Let_def requests_of_def split: option.split)

lemma run_expand_log:
  "os_log (snd (run_state (expandPGVolume E cr n want) s)) = os_log s @ ys \<Longrightarrow> CUpdate y u \<in> set ys \<Longrightarrow>
     \<exists>x. CGet (key KPersistentVolumeClaim (p_namespace cr) (pgVolumeName n)) (Inr x) \<in> set ys \<and>
       y = resized want x \<and> e_quantityCmp E want (storage_of (as_pvc x)) > 0"
  by (auto simp: expandPGVolume_def Let_def client_defs run_bind_pair simp del: run_state_bind
      split: sum.splits if_splits)

lemma isPGPodStale_spelled_out:
  "isPGPodStale pod revision now \<longleftrightarrow>
     pst_phase (as_pod pod) = ''Pending'' \<and>
     (case o_creationTimestamp pod of None \<Rightarrow> True | Some t \<Rightarrow> t + 120 * second \<le> now) \<and>
     revision \<noteq> '''' \<and> map_of (o_labels pod) ''controller-revision-hash'' \<noteq> Some revision"
  by (auto simp: isPGPodStale_def pgPendingPodStaleThreshold_def minute_def sget_def split: option.split)

lemma mutate_keeps:
  assumes "o_creationTimestamp x = Some t" and "pg_mutate E cr stsName sn img h qty x = Inr y"
  shows "ss_volumeClaimTemplates (as_stateful_set y) = ss_volumeClaimTemplates (as_stateful_set x)"
    and "ss_selector (as_stateful_set y) = ss_selector (as_stateful_set x)"
    and "ss_serviceName (as_stateful_set y) = ss_serviceName (as_stateful_set x)"
    and "ss_replicas (as_stateful_set y) = ss_replicas (as_stateful_set x)"
    and "\<not> pg_template_drifted img h (ss_template (as_stateful_set x)) \<Longrightarrow> as_stateful_set y = as_stateful_set x"
    and "\<not> pg_template_drifted img h (ss_template (as_stateful_set y))"
proof -
  have y: "as_stateful_set y = pg_set_template cr sn img h False (as_stateful_set x)"
    using pg_mutate_result(1) [OF assms(2)] assms(1) by simp
  show "\<not> pg_template_drifted img h (ss_template (as_stateful_set y))"
    unfolding y by (rule pg_set_template_not_drifted)
qed (use pg_mutate_result(1) [OF assms(2)] assms(1) in \<open>auto simp: pg_set_template_def\<close>)

definition ex_pg_cr :: pulse where
  "ex_pg_cr = empty_pulse ''pulse'' ''ns'' ''uid-1''"

definition ex_world :: "kobj list \<Rightarrow> sim_world" where
  "ex_world xs = empty_world\<lparr>sw_objs := xs, sw_clock := 3 * minute\<rparr>"

definition ex_legacy :: kobj where
  "ex_legacy = new_obj (key KSecret ''ns'' ''pulse-pg-auth'')
     (BSecret (secret0\<lparr>se_data := [(''POSTGRES_USER'', ''u''), (''POSTGRES_PASSWORD'', ''pw'')]\<rparr>))"

definition ex_sts :: "string \<Rightarrow> kobj" where
  "ex_sts img = (new_obj (key KStatefulSet ''ns'' (pgName ''pulse''))
     (BStatefulSet (stateful_set0\<lparr>ss_template := pg_template ex_pg_cr ''sec'' img ''h'', ss_statusUpdateRevision := ''rev-2''\<rparr>)))
     \<lparr>o_creationTimestamp := Some 1\<rparr>"

definition ex_pod :: kobj where
  "ex_pod = (new_obj (key KPod ''ns'' (pgName ''pulse'' @ ''-0'')) (BPod (pod_status0\<lparr>pst_phase := ''Pending''\<rparr>)))
     \<lparr>o_labels := [(''controller-revision-hash'', ''rev-1'')], o_creationTimestamp := Some 1\<rparr>"

definition ex_pvc :: kobj where
  "ex_pvc = new_obj (key KPersistentVolumeClaim ''ns'' (pgVolumeName (pgName ''pulse'')))
     (BPVC (pvc0\<lparr>pv_requests := Some [(''storage'', ''5Gi'')]\<rparr>))"

lemmas ex_pg_simps =
  ex_pg_cr_def ex_world_def ex_legacy_def ex_sts_def ex_pod_def ex_pvc_def new_obj_def sim_simps pg_template_def
  pg_container_def pod_spec0_def container0_def stateful_set0_def secret0_def pvc0_def pod_status0_def minute_def second_def
  as_stateful_set_def as_secret_def as_pvc_def as_pod_def pgName_def pgVolumeName_def pgAuthSecretName_def
  storage_of_def decimal_prefix_def is_digit_def resized_def isPGPodStale_def pgPendingPodStaleThreshold_def

section \<open>Properties\<close>

text \<open>
  C23: When the credentials Secret exists and holds a password under the current or the legacy key,
  the reconciler returns that password (or the error of its one update); it writes nothing, or only
  the same object with the same password under the current key.
\<close>

theorem pg_password_is_never_rotated:
  assumes "fst (fetch E (key KSecret (p_namespace cr) n) (os_world s)) = Inr x"
    and "stored_password (se_data (as_secret x)) = Some pw"
  shows "(fst (run_state (reconcilePGSecret E cr n) s) = Inr pw \<or>
       (\<exists>e. fst (run_state (reconcilePGSecret E cr n) s) = Inl (Wrap ''migrate pg-auth secret keys'' e))) \<and>
     (\<exists>xs. os_log (snd (run_state (reconcilePGSecret E cr n) s)) =
        os_log s @ CGet (key KSecret (p_namespace cr) n) (Inr x) # xs \<and>
      (xs = [] \<or> (\<exists>y u. xs = [CUpdate y u] \<and> o_key y = o_key x \<and> stored_password (se_data (as_secret y)) = Some pw)))"
  using assms by (rule run_secret)

theorem pg_password_is_never_rotated_witness:
  "\<exists>xs. os_log (snd (run_state (reconcilePGSecret sim_env ex_pg_cr ''pulse-pg-auth'') (sim_state (ex_world [ex_legacy]) ex_pg_cr))) =
     CGet (key KSecret ''ns'' ''pulse-pg-auth'') (Inr ex_legacy) # xs"
proof -
  let ?s = "sim_state (ex_world [ex_legacy]) ex_pg_cr"
  have "fst (fetch sim_env (key KSecret (p_namespace ex_pg_cr) ''pulse-pg-auth'') (os_world ?s)) = Inr ex_legacy"
    by (simp add: ex_pg_simps)
  moreover have "stored_password (se_data (as_secret ex_legacy)) = Some ''pw''"
    by (simp add: stored_password_def ex_pg_simps)
  ultimately show ?thesis
    using pg_password_is_never_rotated [of sim_env ex_pg_cr "''pulse-pg-auth''" ?s ex_legacy "''pw''"]
    by (auto simp: sim_state_def ex_pg_cr_def empty_pulse_def)
qed

text \<open>
  C24: When the running StatefulSet has been read, no update of it changes the PostgreSQL major
  version: whatever object with the image that was read the mutate function is applied to, the image it
  writes is the running one or the one the instance asks for, and has the same major version, unless one
  of the two images does not name its version. (When the read fails the guard is skipped, see above.)
\<close>

theorem pg_major_version_is_kept:
  assumes "fst (fetch E (key KStatefulSet (p_namespace cr) stsName) (os_world s)) = Inr x"
    and "fst (run_state (pg_existing E cr stsName (pg_image E cr)) s) = Inr (Inr img)"
    and "ss_image x' = ss_image x" and "pg_mutate E cr stsName sn img h qty x' = Inr y"
  shows "(pgMajorVersion (ss_image y) = pgMajorVersion (ss_image x') \<or> pgMajorVersion (ss_image x') = 0 \<or> pgMajorVersion (ss_image y) = 0) \<and>
    ss_image y \<in> {ss_image x', pg_image E cr}"
  using pg_existing_choice [OF assms(1,2)] assms(3) pg_mutate_image [OF assms(4)]
  by (auto simp: version_change_blocked_def split: if_splits)

theorem pg_major_version_is_kept_witness:
  "case pg_mutate sim_env ex_pg_cr (pgName ''pulse'') ''sec'' ''postgres:14'' ''h'' (Inr ''5Gi'') (ex_sts ''postgres:14'') of
     Inl e \<Rightarrow> False | Inr y \<Rightarrow> pgMajorVersion (ss_image y) = 14"
proof -
  let ?s = "sim_state (ex_world [ex_sts ''postgres:14'']) ex_pg_cr"
  have read: "fst (fetch sim_env (key KStatefulSet (p_namespace ex_pg_cr) (pgName ''pulse'')) (os_world ?s)) =
      Inr (ex_sts ''postgres:14'')"
    by (simp add: ex_pg_simps)
  have img [simp]: "ss_image (ex_sts ''postgres:14'') = ''postgres:14''"
    by (simp add: ss_image_def ex_pg_simps)
  have majors [simp]: "pgMajorVersion ''postgres:14'' = 14" "pgMajorVersion (pg_image sim_env ex_pg_cr) = 15"
    by (simp_all add: pg_image_def imageFromEnv_def defaultPGImage_def pgMajorVersion_def
        version_after_def digits_value_def is_digit_def ex_pg_simps)
  then have blocked: "version_change_blocked ''postgres:14'' (pg_image sim_env ex_pg_cr)"
    by (simp add: version_change_blocked_def)
  have "fst (run_state (pg_existing sim_env ex_pg_cr (pgName ''pulse'') (pg_image sim_env ex_pg_cr)) ?s) = Inr (Inr ''postgres:14'')"
    using blocked
    by (subst pg_existing_reads [OF read]) (simp_all, simp_all add: ex_pg_simps pg_selector_mismatch_def)
  moreover obtain y where
    "pg_mutate sim_env ex_pg_cr (pgName ''pulse'') ''sec'' ''postgres:14'' ''h'' (Inr ''5Gi'') (ex_sts ''postgres:14'') = Inr y"
    by (simp add: pg_mutate_def owned_by_def set_controller_def ex_pg_simps)
  ultimately show ?thesis
    using pg_major_version_is_kept [OF read _ refl, of "''postgres:14''"] by fastforce
qed

text \<open>
  C26: An update of an existing StatefulSet keeps its immutable fields (claim templates, selector,
  service name) and replicas; it rewrites the pod template only when image, template version or
  credential hash differ, and never leaves a template that would be rewritten by the next pass.
\<close>

theorem pg_update_is_stable:
  assumes "o_creationTimestamp x = Some t" and "pg_mutate E cr stsName sn img h qty x = Inr y"
  shows "ss_volumeClaimTemplates (as_stateful_set y) = ss_volumeClaimTemplates (as_stateful_set x) \<and>
    ss_selector (as_stateful_set y) = ss_selector (as_stateful_set x) \<and>
    ss_serviceName (as_stateful_set y) = ss_serviceName (as_stateful_set x) \<and>
    ss_replicas (as_stateful_set y) = ss_replicas (as_stateful_set x) \<and>
    (pg_template_drifted img h (ss_template (as_stateful_set x)) \<or> as_stateful_set y = as_stateful_set x) \<and>
    \<not> pg_template_drifted img h (ss_template (as_stateful_set y))"
  using mutate_keeps [OF assms] by blast

theorem pg_update_is_stable_witness:
  "case pg_mutate sim_env ex_pg_cr (pgName ''pulse'') ''sec'' ''i'' ''h'' (Inr ''5Gi'') (ex_sts ''i'') of
     Inl e \<Rightarrow> False | Inr y \<Rightarrow> as_stateful_set y = as_stateful_set (ex_sts ''i'')"
proof -
  have "\<not> pg_template_drifted ''i'' ''h'' (ss_template (as_stateful_set (ex_sts ''i'')))"
    using pg_template_not_drifted by (simp add: ex_sts_def)
  moreover obtain y where "pg_mutate sim_env ex_pg_cr (pgName ''pulse'') ''sec'' ''i'' ''h'' (Inr ''5Gi'') (ex_sts ''i'') = Inr y"
    by (simp add: pg_mutate_def owned_by_def set_controller_def ex_pg_simps)
  moreover have "o_creationTimestamp (ex_sts ''i'') = Some 1"
    by (simp add: ex_sts_def)
  ultimately show ?thesis
    using pg_update_is_stable [of "ex_sts ''i''" 1 sim_env ex_pg_cr "pgName ''pulse''" "''sec''" "''i''" "''h''" "Inr ''5Gi''"] by auto
qed

text \<open>
  C25: The database volume is only ever grown: every claim the reconciler writes is the one it has
  just read with its storage request replaced by a larger quantity; its other requests, its access modes,
  its storage class and its metadata are as they were read.
\<close>

theorem pg_volume_only_grows:
  assumes "os_log (snd (run_state (expandPGVolume E cr n want) s)) = os_log s @ ys" and "CUpdate y u \<in> set ys"
  shows "\<exists>x. CGet (key KPersistentVolumeClaim (p_namespace cr) (pgVolumeName n)) (Inr x) \<in> set ys \<and>
    e_quantityCmp E want (storage_of (as_pvc x)) > 0 \<and>
    requests_of y = (requests_of x)(''storage'' := Some want) \<and>
    pv_accessModes (as_pvc y) = pv_accessModes (as_pvc x) \<and> pv_storageClassName (as_pvc y) = pv_storageClassName (as_pvc x) \<and>
    y\<lparr>o_body := o_body x\<rparr> = x"
proof -
  obtain x where x: "CGet (key KPersistentVolumeClaim (p_namespace cr) (pgVolumeName n)) (Inr x) \<in> set ys"
    "y = resized want x" "e_quantityCmp E want (storage_of (as_pvc x)) > 0"
    using run_expand_log [OF assms] by blast
  then show ?thesis
    using resized_keeps(1,3) [where want = want and x = x] arg_cong [OF resized_keeps(2) [where want = want and x = x], of pv_accessModes]
      arg_cong [OF resized_keeps(2) [where want = want and x = x], of pv_storageClassName]
    by (intro exI [of _ x]) simp
qed

theorem pg_volume_only_grows_witness:
  "requests_of (resized ''10Gi'' ex_pvc) = [''storage'' \<mapsto> ''10Gi''] \<and> e_quantityCmp sim_env ''10Gi'' (storage_of (as_pvc ex_pvc)) > 0"
proof -
  let ?s = "sim_state (ex_world [ex_pvc]) ex_pg_cr"
  let ?k = "key KPersistentVolumeClaim (p_namespace ex_pg_cr) (pgVolumeName (pgName ''pulse''))"
  have "os_log (snd (run_state (expandPGVolume sim_env ex_pg_cr (pgName ''pulse'') ''10Gi'') ?s)) =
      os_log ?s @ [CGet ?k (Inr ex_pvc), CUpdate (resized ''10Gi'' ex_pvc) (Inr (resized ''10Gi'' ex_pvc))]"
    by (simp add: expandPGVolume_def client_defs recordEvent_def emit_event_def ex_pg_simps cong: prod.case_cong_weak)
  from pg_volume_only_grows [OF this, of "resized ''10Gi'' ex_pvc" "Inr (resized ''10Gi'' ex_pvc)"]
  show ?thesis by (auto simp: requests_of_def ex_pvc_def new_obj_def as_pvc_def)
qed

text \<open>
  C27: The database pod is deleted exactly when pod and StatefulSet could be read, the pod is Pending,
  was created two minutes ago or earlier, and carries another revision than the StatefulSet's current one,
  which is known; nothing else is written or deleted, and a failed read only ends the step.
\<close>

theorem pg_pod_deleted_iff_stuck:
  "let k = key KPod (p_namespace cr) (n @ ''-0''); q = key KStatefulSet (p_namespace cr) n;
       done_log = os_log (snd (run_state (deletePendingPGPodIfStale E cr n) s))
   in case run_state (api_get E k) s of
        (Inl e, s1) \<Rightarrow> done_log = os_log s1
      | (Inr pod, s1) \<Rightarrow>
          (case run_state (api_get E q) s1 of
             (Inl e, s2) \<Rightarrow> done_log = os_log s2
           | (Inr sts, s2) \<Rightarrow>
               if pst_phase (as_pod pod) = ''Pending'' \<and>
                  (case o_creationTimestamp pod of None \<Rightarrow> True | Some t \<Rightarrow> t + 120 * second \<le> fst (e_now E (os_world s2))) \<and>
                  ss_statusUpdateRevision (as_stateful_set sts) \<noteq> '''' \<and>
                  map_of (o_labels pod) ''controller-revision-hash'' \<noteq> Some (ss_statusUpdateRevision (as_stateful_set sts))
               then \<exists>d. done_log = os_log s2 @ [CDelete k '''' d] else done_log = os_log s2)"
  unfolding isPGPodStale_spelled_out [symmetric]
  by (auto simp: deletePendingPGPodIfStale_def Let_def client_defs time_now_def run_bind_pair inc_self_heal_def
      simp del: run_state_bind split: sum.splits prod.splits)

text \<open>
  Without the opt-in annotation the deletion of an instance makes no call about its data at all;
  with it, both the Secret and the volume claim are deleted, the second even when the first fails,
  and the result is an error exactly when one of them failed for another reason than being absent.
\<close>

theorem pg_data_deleted_on_request_only:
  "if sget (p_annotations cr) annotationDeleteData \<noteq> ''true''
   then run_state (deletePGDataOnRequest E cr) s = (Inr (), s)
   else \<exists>d1 d2. os_log (snd (run_state (deletePGDataOnRequest E cr) s)) = os_log s @
       [CDelete (key KSecret (p_namespace cr) (pgAuthSecretName (p_name cr))) '''' d1,
        CDelete (key KPersistentVolumeClaim (p_namespace cr) (pgVolumeName (pgName (p_name cr)))) '''' d2] \<and>
     (fst (run_state (deletePGDataOnRequest E cr) s) = Inr () \<longleftrightarrow>
        list_all (\<lambda>d. case d of Inl e \<Rightarrow> is_not_found e | Inr _ \<Rightarrow> True) [d1, d2])"
  by (auto simp: deletePGDataOnRequest_def client_defs delete_errors_def errors_join_def split: sum.splits)


text \<open>
  An existing Secret with neither of the two password keys is accepted: the password read from it is
  empty, and so is the one in the connection URL built from it.
\<close>

lemma secret_without_password_is_accepted:
  assumes "fst (fetch E (key KSecret (p_namespace cr) name) (os_world s)) = Inr x"
    and "map_of (se_data (as_secret x)) ''POSTGRESQL_PASSWORD'' = None" and "map_of (se_data (as_secret x)) ''POSTGRES_PASSWORD'' = None"
  shows "fst (run_state (reconcilePGSecret E cr name) s) = Inr ''''"
  using assms by (simp add: reconcilePGSecret_def client_defs run_bind_pair sget_def Let_def del: run_state_bind)

end
