(* ===== verification/MCPProps.thy ===== *)
theory MCPProps
  imports MCP
begin

text \<open>
  What is promised of the MCP server: its settings file reads back, under the rules of TOML, as the
  toolsets of the spec, and the server is confined: read-only rights without Secrets, reachable by
  the agent only, in a pod that meets the restricted profile.
\<close>

section \<open>Reading the settings back\<close>

text \<open>A reader for the TOML the operator writes: basic strings and arrays of them.\<close>

fun toml_escape :: "char \<Rightarrow> char option" where
  "toml_escape c =
     (if c = CHR 0x22 \<or> c = backslash then Some c else if c = CHR ''b'' then Some (CHR 0x08)
      else if c = CHR ''t'' then Some (CHR 0x09) else if c = CHR ''n'' then Some (CHR 0x0A)
      else if c = CHR ''f'' then Some (CHR 0x0C) else if c = CHR ''r'' then Some (CHR 0x0D) else None)"

text \<open>The value of a basic string from after its opening quote, and what follows the closing one.\<close>

fun toml_string :: "string \<Rightarrow> (string \<times> string) option" where
  "toml_string [] = None"
| "toml_string (c # cs) =
     (if c = CHR 0x22 then Some ([], cs)
      else if c = backslash
      then (case cs of
              [] \<Rightarrow> None
            | d # ds \<Rightarrow> (case toml_escape d of
                None \<Rightarrow> None
              | Some e \<Rightarrow> map_option (\<lambda>(v, r). (e # v, r)) (toml_string ds)))
      else if (of_char c :: nat) < 32 \<or> c = CHR 0x7F then None
      else map_option (\<lambda>(v, r). (c # v, r)) (toml_string cs))"

lemma toml_string_shorter: "toml_string s = Some (v, r) \<Longrightarrow> length r < length s"
proof (induction s arbitrary: v r rule: toml_string.induct)
  case (2 c cs)
  then show ?case
    by (fastforce split: if_splits list.splits option.splits simp del: toml_escape.simps)
qed simp

text \<open>The elements of an array from after its opening bracket.\<close>

function toml_array :: "string \<Rightarrow> (string list \<times> string) option" where
  "toml_array s =
     (case s of
        [] \<Rightarrow> None
      | c # cs \<Rightarrow>
          if c = CHR '']'' then Some ([], cs)
          else if c \<noteq> CHR 0x22 then None
          else (case toml_string cs of
                  None \<Rightarrow> None
                | Some (v, r) \<Rightarrow>
                    (case r of
                       d # ds \<Rightarrow>
                         if d = CHR '']'' then Some ([v], ds)
                         else (case ds of
                                 e # es \<Rightarrow> if d = CHR '','' \<and> e = CHR '' ''
                                           then map_option (\<lambda>(vs, t). (v # vs, t)) (toml_array es) else None
                               | [] \<Rightarrow> None)
                     | [] \<Rightarrow> None)))"
  by pat_completeness auto
termination
  by (relation "measure length") (auto dest!: toml_string_shorter)

declare toml_array.simps [simp del]

definition after :: "string \<Rightarrow> string \<Rightarrow> string option" where
  "after p s = (if prefix p s then Some (drop (length p) s) else None)"

lemma after_append [simp]: "after p (p @ s) = Some s"
  by (simp add: after_def)

text \<open>A comment line, the port and the toolsets.\<close>

definition read_settings :: "string \<Rightarrow> (string \<times> string list) option" where
  "read_settings s =
     (case cut (CHR 0x0A) s of
        None \<Rightarrow> None
      | Some (comment, s1) \<Rightarrow>
          if take 1 comment \<noteq> ''#'' then None
          else (case after (''port = '' @ quote_char) s1 of
                  None \<Rightarrow> None
                | Some s2 \<Rightarrow>
                    (case toml_string s2 of
                       None \<Rightarrow> None
                     | Some (port, s3) \<Rightarrow>
                         (case after (nl @ ''toolsets = ['') s3 of
                            None \<Rightarrow> None
                          | Some s4 \<Rightarrow>
                              (case toml_array s4 of
                                 None \<Rightarrow> None
                               | Some (ts, rest) \<Rightarrow> if rest = nl then Some (port, ts) else None)))))"

section \<open>Quoting\<close>

definition printable :: "char \<Rightarrow> bool" where
  "printable c \<longleftrightarrow> 32 \<le> (of_char c :: nat) \<and> (of_char c :: nat) \<le> 126"

lemma printableD: "printable c \<Longrightarrow> \<not> ((of_char c :: nat) < 32 \<or> c = CHR 0x7F)"
  by (auto simp: printable_def)

lemma control_not_printable [simp]:
  "\<not> printable (CHR 0x07)" "\<not> printable (CHR 0x08)" "\<not> printable (CHR 0x0C)" "\<not> printable (CHR 0x0A)"
  "\<not> printable (CHR 0x0D)" "\<not> printable (CHR 0x09)" "\<not> printable (CHR 0x0B)"
  by (simp_all add: printable_def)

lemma quote_byte_printable:
  assumes "printable c"
  shows "quote_byte c = (if c = CHR 0x22 \<or> c = backslash then [backslash, c] else [c])"
proof -
  have "c \<notin> {CHR 0x07, CHR 0x08, CHR 0x0C, CHR 0x0A, CHR 0x0D, CHR 0x09, CHR 0x0B}"
    using assms control_not_printable by blast
  with printableD [OF assms] show ?thesis
    unfolding quote_byte_def by simp
qed

lemma toml_string_plain:
  "c \<noteq> CHR 0x22 \<Longrightarrow> c \<noteq> backslash \<Longrightarrow> printable c \<Longrightarrow>
     toml_string (c # cs) = map_option (\<lambda>(v, r). (c # v, r)) (toml_string cs)"
  using printableD [of c] by (simp only: toml_string.simps(2) if_False de_Morgan_disj simp_thms)

lemma toml_string_escaped:
  "c = CHR 0x22 \<or> c = backslash \<Longrightarrow>
     toml_string (backslash # c # cs) = map_option (\<lambda>(v, r). (c # v, r)) (toml_string cs)"
  by (subst toml_string.simps) (auto simp: backslash_def)

lemma toml_string_quote:
  "list_all printable v \<Longrightarrow> toml_string (concat (map quote_byte v) @ CHR 0x22 # r) = Some (v, r)"
proof (induction v)
  case (Cons c v)
  then have "toml_string (concat (map quote_byte v) @ CHR 0x22 # r) = Some (v, r)" and "printable c"
    by simp_all
  then show ?case
    by (cases "c = CHR 0x22 \<or> c = backslash")
       (simp_all add: quote_byte_printable toml_string_plain toml_string_escaped del: toml_string.simps)
qed simp

lemma go_quote_shape:
  assumes "list_all printable v"
  obtains q where "go_quote v = CHR 0x22 # q" and "\<And>r. toml_string (q @ r) = Some (v, r)"
  using that [of "concat (map quote_byte v) @ quote_char"] toml_string_quote [OF assms]
  by (simp add: go_quote_def quote_char_def)

lemma toml_array_join:
  "list_all (list_all printable) vs \<Longrightarrow> toml_array (join '', '' (map go_quote vs) @ '']'' @ r) = Some (vs, r)"
proof (induction vs)
  case Nil
  then show ?case by (simp add: toml_array.simps)
next
  case (Cons v vs)
  from Cons.prems obtain q where q: "go_quote v = CHR 0x22 # q" "\<And>r. toml_string (q @ r) = Some (v, r)"
    by (auto elim: go_quote_shape)
  show ?case
  proof (cases vs)
    case Nil
    then show ?thesis
      by (subst toml_array.simps) (simp add: q)
  next
    case (Cons w ws)
    then have "toml_array (join '', '' (map go_quote vs) @ '']'' @ r) = Some (vs, r)"
      using Cons.IH Cons.prems by simp
    then show ?thesis
      using Cons by (subst toml_array.simps) (simp add: q)
  qed
qed

section \<open>The toolsets\<close>

lemma set_trim_space: "set (trim_space s) \<subseteq> set s"
proof -
  have "set (strip_front ws t) \<subseteq> set t" for ws t
    by (rule set_mono_suffix [OF strip_front_suffix])
  from this [of "map rev space_seqs" "rev (strip_front space_seqs s)"] this [of space_seqs s] show ?thesis
    unfolding trim_space_def by auto
qed

lemma set_split_on: "p \<in> set (split_on c s) \<Longrightarrow> set p \<subseteq> set s"
proof (induction c s arbitrary: p rule: split_on.induct)
  case (2 c x xs)
  then show ?case by (fastforce split: if_splits list.splits)
qed auto

lemma default_toolsets_printable: "list_all printable defaultMCPToolsets"
  by (simp add: defaultMCPToolsets_def printable_def)

lemma mcp_toolsets_printable:
  assumes "list_all printable (mc_toolsets (ag_mcp (agent_of cr)))"
  shows "list_all (list_all printable) (mcp_toolsets cr)"
proof -
  have "list_all printable t \<Longrightarrow> list_all (list_all printable) (map trim_space (split_on c t))" for c t
    using set_split_on set_trim_space by (fastforce simp: list_all_iff)
  then show ?thesis
    using assms default_toolsets_printable
    unfolding mcp_toolsets_def Let_def by (fastforce simp: list_all_iff)
qed

lemma port_text: "itoa mcpServerPort = ''8081''"
  by (simp add: mcpServerPort_def itoa_def nat_digits.simps digit_char_def char_of_def bit_0)

lemma read_written_settings:
  assumes "list_all (list_all printable) (mcp_toolsets cr)"
  shows "read_settings (buildMCPConfigTOML cr) = Some (''8081'', mcp_toolsets cr)"
proof -
  define tail where "tail = nl @ ''toolsets = ['' @ join '', '' (map go_quote (mcp_toolsets cr)) @ '']'' @ nl"
  have "toml_string (''8081'' @ CHR 0x22 # tail) = Some (''8081'', tail)"
    by (simp add: backslash_def)
  moreover have "after (nl @ ''toolsets = ['') tail = Some (join '', '' (map go_quote (mcp_toolsets cr)) @ '']'' @ nl)"
    unfolding tail_def using after_append [of "nl @ ''toolsets = [''"] by simp
  moreover have "cut (CHR 0x0A) (buildMCPConfigTOML cr) = Some (''# Managed by pulse-operator. Edits are reverted.'',
      (''port = '' @ quote_char) @ ''8081'' @ CHR 0x22 # tail)"
  proof -
    have "buildMCPConfigTOML cr = ''# Managed by pulse-operator. Edits are reverted.'' @ CHR 0x0A #
        ((''port = '' @ quote_char) @ ''8081'' @ CHR 0x22 # tail)"
      by (simp add: buildMCPConfigTOML_def tail_def nl_def quote_char_def go_quote_def port_text quote_byte_def backslash_def)
    then show ?thesis
      by (simp only:) (rule cut_append, simp)
  qed
  ultimately show ?thesis
    unfolding read_settings_def by (simp only: option.case prod.case after_append toml_array_join [OF assms]) simp
qed

section \<open>Properties\<close>

text \<open>
  C36: The settings file the operator writes reads back as what was asked for: under the rules of
  TOML it holds the port 8081 and exactly the trimmed non-empty entries of the comma-separated
  toolsets, in order, whatever printable characters (quotes and backslashes included) they hold.
\<close>

theorem mcp_settings_read_back:
  assumes "list_all printable (mc_toolsets (ag_mcp (agent_of cr)))"
  shows "read_settings (buildMCPConfigTOML cr) = Some (''8081'', mcp_toolsets cr)"
  by (rule read_written_settings [OF mcp_toolsets_printable [OF assms]])

definition ex_mcp :: pulse where
  "ex_mcp = (empty_pulse ''pulse'' ''ns'' ''u1'')\<lparr>p_spec := empty_spec\<lparr>sp_agent := (sp_agent empty_spec)
     \<lparr>ag_mcp := (ag_mcp (sp_agent empty_spec))\<lparr>mc_enabled := True, mc_toolsets := ''core, helm,''\<rparr>\<rparr>\<rparr>\<rparr>"

lemma ex_mcp_toolsets: "mc_toolsets (ag_mcp (agent_of ex_mcp)) = ''core, helm,''"
  by (simp add: ex_mcp_def empty_pulse_def)

theorem mcp_settings_read_back_witness:
  "read_settings (buildMCPConfigTOML ex_mcp) = Some (''8081'', mcp_toolsets ex_mcp)"
  by (rule mcp_settings_read_back) (simp add: ex_mcp_toolsets printable_def)

text \<open>
  C37: The MCP server is confined. Its ClusterRole only reads and names neither Secrets nor a
  wildcard; its port is reachable from the agent's pod in the instance's namespace only; the pod meets
  the restricted profile unless foreign init containers were added, and it carries the hash of the
  settings it was started with, while the replica count an administrator set is kept.
\<close>

theorem mcp_server_is_confined:
  "list_all (\<lambda>r. set (ru_verbs r) \<subseteq> {''get'', ''list'', ''watch''} \<and> ''secrets'' \<notin> set (ru_resources r) \<and>
     ''*'' \<notin> set (ru_apiGroups r @ ru_resources r @ ru_verbs r)) mcp_rules \<and>
   (ingress_admits (p_namespace cr) (mcp_np cr np) p proto port \<longleftrightarrow>
      proto = ''TCP'' \<and> port = mcpServerPort \<and> nt_namespace p = p_namespace cr \<and>
      map_of (nt_labels p) ''app'' = Some (agentResourceName (p_name cr))) \<and>
   np_selects (mcp_np cr np) (pt_labels (de_template (mcp_mutate E cr h d))) \<and>
   restricted_pod (pt_spec (de_template (mcp_mutate E cr h d))) =
     list_all restricted_container (po_initContainers (pt_spec (de_template d))) \<and>
   map_of (pt_annotations (de_template (mcp_mutate E cr h d))) mcpConfigHashAnnotation = Some h \<and>
   de_replicas (mcp_mutate E cr h d) = de_replicas d"
  by (auto simp: mcp_rules_def rule_def gl_def glw_def mcp_np_def np_semantics agentResourceName_def mcp_mutate_def Let_def
      restricted_pod_def mcp_container_def defaultPodSecCtx_def)

end
