(* ===== verification/PassFootprint.thy ===== *)
theory PassFootprint
  imports Reconcile PostgresProps MCPProps
begin

text \<open>
  The contract of a whole pass, put together from the contracts of the components (the
  interpretations of \<open>sub_reconciler\<close>): the keys it writes and deletes, and the reads that precede
  its deletions. The parts the root reconciler adds itself touch no object but the custom resource.
\<close>

section \<open>Actions of the root reconciler touch no object\<close>

lemmas status_defs =
  syncPhaseAndConditions_def dropStaleRollbacks_def trackUpgrade_def syncPhase_def set_phase_def announcePhase_def
  announceRunning_def syncConditions_def setReadyCondition_def setComponentReadyGauge_def reportPodProblems_def
  report_component_def diagnoseDeploymentPods_def reconcileAutoRollback_def rollback_agent_def rollback_ui_def

lemma touches_statusPass: "touches ws ds (statusPass E h)"
  unfolding statusPass_def status_defs Let_def by (intro allc.rules; simp)

lemma touches_read_health: "touches ws ds (read_health E cr)"
  unfolding read_health_def isDeploymentReady_def isRolledOut_def isStatefulSetReady_def Let_def
  by (intro allc.rules; simp)

lemma touches_record_version: "touches ws ds (record_version E cr)"
  unfolding record_version_def agentDeployment_def by (intro allc.rules; simp)

lemma touches_counted: "touches ws ds m \<Longrightarrow> touches ws ds (counted l msg m)"
  unfolding counted_def by (intro allc.rules)

lemma touches_with_event: "touches ws ds m \<Longrightarrow> touches ws ds (with_event r msg m)"
  unfolding with_event_def by (intro allc.rules)

lemma touches_warn: "touches ws ds (warn_no_backend cr)"
  unfolding warn_no_backend_def by (intro allc.rules)

lemma touches_finish_steps:
  "touches ws ds (read_health E cr)" "touches ws ds (record_version E cr)" "touches ws ds (statusPass E h)"
  "touches ws ds (warn_no_backend cr)"
  by (rule touches_read_health touches_record_version touches_statusPass touches_warn)+

section \<open>The footprint of a pass\<close>

definition pass_writes :: "pulse \<Rightarrow> okey set" where
  "pass_writes cr =
     pg_writes cr \<union> render_objects cr \<union> agent_writes cr \<union> np_writes cr \<union> pdb_keys cr \<union> monitoring_writes cr \<union>
     mcp_writes cr \<union> temporal_objects cr \<union> ui_writes cr"

definition pass_deletes :: "pulse \<Rightarrow> okey set" where
  "pass_deletes cr =
     pg_deletes cr \<union> render_objects cr \<union> agent_deletes cr \<union> pdb_keys cr \<union> mcp_stale cr \<union> mcp_removes cr \<union>
     temporal_objects cr \<union> ui_deletes cr"

lemma touches_components:
  "touches (pass_writes cr) (pass_deletes cr) (reconcilePostgres E cr)"
  "touches (pass_writes cr) (pass_deletes cr) (reconcileRender E cr)"
  "touches (pass_writes cr) (pass_deletes cr) (reconcileAgent E url cr)"
  "touches (pass_writes cr) (pass_deletes cr) (reconcileNetworkPolicies E cr)"
  "touches (pass_writes cr) (pass_deletes cr) (reconcileUIPodsDisruptionBudget E cr)"
  "touches (pass_writes cr) (pass_deletes cr) (reconcileMonitoring E cr)"
  "touches (pass_writes cr) (pass_deletes cr) (reconcileMCP E cr)"
  "touches (pass_writes cr) (pass_deletes cr) (removeMCP E cr)"
  "touches (pass_writes cr) (pass_deletes cr) (reconcileTemporal E cr)"
  "touches (pass_writes cr) (pass_deletes cr) (removeTemporal E cr)"
  "touches (pass_writes cr) (pass_deletes cr) (reconcileUI E cr)"
  unfolding pass_writes_def pass_deletes_def
  by (intro pg.touches_more render.touches_more agent.touches_more netpol.touches_more pdb.touches_more
      monitoring.touches_more mcp.touches_more mcp_removal.touches_more temporal.touches_more
      temporal_removal.touches_more ui.touches_more; auto)+

text \<open>A pass also writes the status of the custom resource.\<close>

definition or_status :: "okey set \<Rightarrow> okey set \<Rightarrow> call \<Rightarrow> bool" where
  "or_status ws ds c \<longleftrightarrow> (case c of CUpdateStatus _ _ \<Rightarrow> True | _ \<Rightarrow> within ws ds c)"

lemma or_status_simps [simp]:
  "or_status ws ds (CUpdateStatus q r)" "\<not> or_status ws ds (CUpdatePulse q r)"
  "within ws ds c \<Longrightarrow> or_status ws ds c"
  by (auto simp: or_status_def split: call.split)

abbreviation acts :: "okey set \<Rightarrow> okey set \<Rightarrow> ('w, 'a) action \<Rightarrow> bool" where
  "acts ws ds m \<equiv> steps (emitted (list_all (or_status ws ds))) m"

lemma acts_touches: "touches ws ds m \<Longrightarrow> acts ws ds m"
  by (erule emits_mono) simp

lemma acts_updateStatus: "acts ws ds (updateStatus E)" "acts ws ds (flushInstallingStatus E)"
  unfolding flushInstallingStatus_def updateStatus_def by (intro allc.rules; simp)+

lemma touches_operand_steps:
  "a \<in> set (operand_steps E cr) \<Longrightarrow> touches (pass_writes cr) (pass_deletes cr) a"
  unfolding operand_steps_def
  by (auto intro!: touches_counted touches_components allc.s_bind allc.s_ret touches_DetectClusterInfo)

lemma touches_operands: "touches (pass_writes cr) (pass_deletes cr) (run_all (operand_steps E cr))"
  by (rule allc.s_run_all) (rule touches_operand_steps)

lemma acts_reconcile_accepted: "acts (pass_writes cr) (pass_deletes cr) (reconcile_accepted E cr)"
  unfolding reconcile_accepted_def requeue_installing_def sync_status_def counted_def with_event_def
  by (intro allc.s_bindE allc.s_bind allc.s_prod allc.s_if allc.s_sum allc.s_ret allc.e_state_ops acts_updateStatus
      acts_touches [OF touches_components(1)] acts_touches [OF touches_components(2)]
      acts_touches [OF touches_components(3)] acts_touches [OF touches_components(11)]
      acts_touches [OF touches_metrics(1)] acts_touches [OF touches_finish_steps(1)] acts_touches [OF touches_finish_steps(2)]
      acts_touches [OF touches_finish_steps(3)] acts_touches [OF touches_finish_steps(4)]
      acts_touches [OF touches_operands])

section \<open>Reads before deletions\<close>

lemma guards_with:
  "guards permit seen m \<Longrightarrow> guards permit seen (counted l msg m)"
  "guards permit seen m \<Longrightarrow> guards permit seen (with_event r msg m)"
  unfolding counted_def with_event_def
  by (rule grd.s_bind, assumption, intro grd.s_bind grd.s_sum grd.s_ret grd.e_state_ops)+

lemma guards_root:
  "guards permit seen (read_health E cr)" "guards permit seen (record_version E cr)"
  "guards permit seen (statusPass E h)" "guards permit seen (warn_no_backend cr)"
  by (rule touches_guards [OF touches_finish_steps(1) [of "{}" "{}"]] touches_guards [OF touches_finish_steps(2) [of "{}" "{}"]]
      touches_guards [OF touches_finish_steps(3) [of "{}" "{}"]] touches_guards [OF touches_finish_steps(4) [of "{}" "{}"]], simp)+

lemma guards_updateStatus: "guards permit seen (updateStatus E)" "guards permit seen (flushInstallingStatus E)"
  unfolding flushInstallingStatus_def updateStatus_def by (intro grd.rules; simp)+

lemma guards_operand_steps:
  assumes "p_namespace cr \<noteq> ''''" and "a \<in> set (operand_steps E cr)"
  shows "follows_policy E cr a"
  using assms(2) unfolding operand_steps_def
  by (auto intro!: guards_with guards_netpol guards_pdb guards_monitoring guards_reconcileMCP guards_removeMCP
      guards_reconcileTemporal guards_removeTemporal grd.s_bind grd.s_ret guards_DetectClusterInfo simp: assms(1))

lemma guards_reconcile_accepted:
  assumes "p_namespace cr \<noteq> ''''"
  shows "follows_policy E cr (reconcile_accepted E cr)"
  unfolding reconcile_accepted_def requeue_installing_def sync_status_def
  by (intro grd.s_bindE grd.s_bind grd.s_prod grd.s_if grd.s_ret grd.e_state_ops guards_with guards_updateStatus
      guards_root guards_metrics grd.s_run_all guards_operand_steps guards_reconcilePostgres guards_reconcileRender
      guards_reconcileAgent guards_reconcileUI assms)

text \<open>
  The rejection acts on the resource the operator holds, which is the one it has just read: on a
  state that holds \<open>cr\<close>, \<open>handle_live E cr\<close> runs as \<open>live_of E cr\<close>, which names it.
\<close>

definition reject_of :: "'w env \<Rightarrow> pulse \<Rightarrow> string \<Rightarrow> ('w, unit) fallible" where
  "reject_of E cr reason =
     bindE (wrapE ''remove cluster-scoped resources of rejected OpenShiftPulse'' (deleteClusterScopedResources E cr))
       (\<lambda>_. do { reject_effects E reason; updateStatus E })"

definition accept_of :: "'w env \<Rightarrow> pulse \<Rightarrow> ('w, int) fallible" where
  "accept_of E cr =
     (if finalizerName \<notin> set (p_finalizers cr)
      then do { put_cr (addFinalizer cr); bindE (updatePulse E) (\<lambda>_. ok 0) }
      else reconcile_accepted E cr)"

definition live_of :: "'w env \<Rightarrow> pulse \<Rightarrow> ('w, int) fallible" where
  "live_of E cr =
     bindE (rejectionReason E cr) (\<lambda>reason.
       if reason \<noteq> '''' then bindE (reject_of E cr reason) (\<lambda>_. ok (5 * minute)) else accept_of E cr)"

definition pass_of :: "'w env \<Rightarrow> pulse \<Rightarrow> ('w, int) fallible" where
  "pass_of E cr = (if p_deletionTimestamp cr \<noteq> None then handle_deletion E cr else live_of E cr)"

lemma keeps_rejectionReason: "keeps g (rejectionReason E cr)"
  unfolding rejectionReason_def Let_def by (intro view.rules)

lemma run_handle_live:
  assumes "os_cr s = cr"
  shows "run_state (handle_live E cr) s = run_state (live_of E cr) s"
proof -
  define t where "t = snd (run_state (rejectionReason E cr) s)"
  have "os_cr t = cr"
    using keepsD [OF keeps_rejectionReason [of id E cr], of s] assms by (simp add: t_def)
  then have "run_state (reject E reason) t = run_state (reject_of E cr reason) t" for reason
    by (simp add: reject_def reject_of_def get_cr_def run_bind_pair del: run_state_bind)
  then show ?thesis
    by (cases "run_state (rejectionReason E cr) s") (auto simp: handle_live_def live_of_def accept_of_def t_def split: sum.split)
qed

text \<open>A pass over a resource that could be read: the state it goes on from.\<close>

definition after_read :: "'w env \<Rightarrow> string \<Rightarrow> string \<Rightarrow> pulse \<Rightarrow> 'w op_state \<Rightarrow> 'w op_state" where
  "after_read E ns name cr s =
     s\<lparr>os_world := snd (e_getPulse E ns name (os_world s)), os_log := os_log s @ [CGetPulse ns name (Inr cr)], os_cr := cr\<rparr>"

lemma after_read_sel [simp]:
  "os_cr (after_read E ns name cr s) = cr"
  "os_log (after_read E ns name cr s) = os_log s @ [CGetPulse ns name (Inr cr)]"
  by (simp_all add: after_read_def)

lemma run_ReconcilePulse:
  assumes "fst (e_getPulse E ns name (os_world s)) = Inr cr"
  shows "run_state (ReconcilePulse E ns name) s = run_state (pass_of E cr) (after_read E ns name cr s)"
  using assms run_handle_live [of "after_read E ns name cr s" cr E]
  by (simp add: ReconcilePulse_def pass_of_def client_defs put_cr_def run_bind_pair after_read_def del: run_state_bind)

text \<open>So what every run of \<open>pass_of E cr\<close> appends to the log, the pass appends after its read.\<close>

lemma pass_appends:
  assumes "fst (e_getPulse E ns name (os_world s)) = Inr cr" and "steps (emitted G) (pass_of E cr)"
  shows "\<exists>ys. os_log (snd (run_state (ReconcilePulse E ns name) s)) = os_log s @ CGetPulse ns name (Inr cr) # ys \<and> G ys"
  using assms(2) unfolding run_ReconcilePulse [OF assms(1)] steps_def emitted_def by (auto dest: spec [of _ "after_read E ns name cr s"])

lemma guards_rejectionReason: "guards permit seen (rejectionReason E cr)"
  unfolding rejectionReason_def Let_def by (intro grd.rules; simp)

lemma guards_reject_effects: "guards permit seen (reject_effects E reason)"
  unfolding reject_effects_def by (intro grd.rules; simp)

lemma guards_updatePulse: "guards permit seen (updatePulse E)"
  unfolding updatePulse_def by (intro grd.rules; simp)

lemma guards_handle_deletion: "follows_policy E cr (handle_deletion E cr)"
  if "p_namespace cr \<noteq> ''''"
proof -
  have "follows_policy E cr (deletePGDataOnRequest E cr)"
    unfolding deletePGDataOnRequest_def
    by (intro grd.rules) (use that in \<open>simp_all add: deletion_policy_def Let_def permitted_def\<close>)
  moreover have "follows_policy E cr (finish_deletion E cr)"
    unfolding finish_deletion_def by (intro grd.rules guards_metrics guards_updatePulse; simp)
  ultimately show ?thesis
    unfolding handle_deletion_def
    by (intro grd.s_if grd.s_ret grd.s_bindE guards_with guards_deleteClusterScopedResources)
qed

lemma guards_pass_of: "follows_policy E cr (pass_of E cr)"
  if "p_namespace cr \<noteq> ''''"
  unfolding pass_of_def live_of_def accept_of_def reject_of_def
  by (intro grd.s_if grd.s_ret grd.s_bindE grd.s_wrapE grd.s_bind grd.e_state_ops guards_handle_deletion
      guards_rejectionReason guards_deleteClusterScopedResources guards_reject_effects guards_updateStatus guards_updatePulse
      guards_reconcile_accepted that)

section \<open>What a whole pass touches\<close>

text \<open>Writes of the custom resource itself are left to the theory \<open>PassProps\<close>.\<close>

definition pass_call :: "okey set \<Rightarrow> okey set \<Rightarrow> call \<Rightarrow> bool" where
  "pass_call ws ds c \<longleftrightarrow> writes_pulse c \<or> within ws ds c"

lemma pass_call_simps [simp]:
  "pass_call ws ds (CUpdatePulse q r)" "pass_call ws ds (CUpdateStatus q r)" "within ws ds c \<Longrightarrow> pass_call ws ds c"
  by (simp_all add: pass_call_def)

abbreviation confined :: "okey set \<Rightarrow> okey set \<Rightarrow> ('w, 'a) action \<Rightarrow> bool" where
  "confined ws ds m \<equiv> steps (emitted (list_all (pass_call ws ds))) m"

lemma confined_touches: "touches ws ds m \<Longrightarrow> ws \<subseteq> ws' \<Longrightarrow> ds \<subseteq> ds' \<Longrightarrow> confined ws' ds' m"
  by (erule emits_mono) (simp add: pass_call_def within_mono)

lemma confined_acts: "acts ws ds m \<Longrightarrow> ds \<subseteq> ds' \<Longrightarrow> confined ws ds' m"
  by (erule emits_mono) (auto simp: or_status_def split: call.splits intro: within_mono)

lemma confined_updates: "confined ws ds (updateStatus E)" "confined ws ds (updatePulse E)"
  unfolding updateStatus_def updatePulse_def by (intro allc.rules; simp)+

lemma touches_root:
  "touches ws ds (rejectionReason E cr)" "touches ws ds (reject_effects E reason)"
  unfolding rejectionReason_def reject_effects_def Let_def by (intro allc.rules; simp)+

definition pg_data :: "pulse \<Rightarrow> okey set" where
  "pg_data cr =
     {key KSecret (p_namespace cr) (pgAuthSecretName (p_name cr)),
      key KPersistentVolumeClaim (p_namespace cr) (pgVolumeName (pgName (p_name cr)))}"

definition data_asked_for :: "pulse \<Rightarrow> bool" where
  "data_asked_for cr \<longleftrightarrow> p_deletionTimestamp cr \<noteq> None \<and> sget (p_annotations cr) annotationDeleteData = ''true''"

lemma touches_data_step:
  "touches {} (if sget (p_annotations cr) annotationDeleteData = ''true'' then pg_data cr else {}) (deletePGDataOnRequest E cr)"
  using touches_deletePGData [of cr E]
  by (auto simp: pg_data_def deletePGDataOnRequest_def intro: allc.s_ret)

lemma confined_handle_deletion:
  "confined {} (cluster_scoped_keys cr \<union> (if sget (p_annotations cr) annotationDeleteData = ''true'' then pg_data cr else {}))
     (handle_deletion E cr)"
  unfolding handle_deletion_def finish_deletion_def with_event_def
  by (intro allc.s_if allc.s_ret allc.s_bindE allc.s_bind allc.s_sum allc.e_state_ops allc.s_get_cr confined_updates
      confined_touches [OF touches_deleteClusterScopedResources] confined_touches [OF touches_data_step]
      confined_touches [OF touches_metrics(2) [of "{}" "{}"]]; simp)

lemma confined_live_of: "confined (pass_writes cr) (pass_deletes cr \<union> cluster_scoped_keys cr) (live_of E cr)"
  unfolding live_of_def reject_of_def accept_of_def
  by (intro allc.s_if allc.s_ret allc.s_bindE allc.s_wrapE allc.s_bind allc.e_state_ops confined_updates
      confined_acts [OF acts_reconcile_accepted] confined_touches [OF touches_deleteClusterScopedResources]
      confined_touches [OF touches_root(1) [of "{}" "{}"]] confined_touches [OF touches_root(2) [of "{}" "{}"]]; blast)

lemma confined_pass_of:
  "confined (pass_writes cr) (pass_deletes cr \<union> cluster_scoped_keys cr \<union> (if data_asked_for cr then pg_data cr else {}))
     (pass_of E cr)"
  unfolding pass_of_def data_asked_for_def
  by (intro allc.s_if; rule emits_mono [OF confined_handle_deletion] emits_mono [OF confined_live_of])
     (auto simp: pass_call_def intro: within_mono split: if_splits)

end
