(* ===== verification/PassProps.thy ===== *)
theory PassProps
  imports PassFootprint
begin

text \<open>
  The properties of a whole pass, whatever the cluster answers: which objects it writes and deletes
  and after which reads, what it writes back to the custom resource, when the finalizer goes and when
  the next pass is scheduled.
\<close>

section \<open>Calls made while a view of the resource is held\<close>

text \<open>
  \<open>held v c0 G m\<close>: started with a resource whose view \<open>v\<close> is \<open>c0\<close>, \<open>m\<close> makes only calls that satisfy \<open>G\<close>.
\<close>

definition held :: "(pulse \<Rightarrow> 'v) \<Rightarrow> 'v \<Rightarrow> (call \<Rightarrow> bool) \<Rightarrow> ('w, 'a) action \<Rightarrow> bool" where
  "held v c0 G m \<longleftrightarrow>
     (\<forall>s. v (os_cr s) = c0 \<longrightarrow> emitted (list_all G) s (snd (run_state m s)))"

lemma held_any: "steps (emitted (list_all G)) m \<Longrightarrow> held v c0 G m"
  by (simp add: held_def steps_def)

lemma held_bind:
  fixes m :: "('w, 'a) action" and f :: "'a \<Rightarrow> ('w, 'b) action"
  assumes "keeps v m" and "held v c0 G m" and "\<And>x. held v c0 G (f x)"
  shows "held v c0 G (State_Monad.bind m f)"
  unfolding held_def run_bind_pair
proof (intro allI impI)
  fix s :: "'w op_state" assume s: "v (os_cr s) = c0"
  let ?t = "snd (run_state m s)"
  have "v (os_cr ?t) = c0" using keepsD [OF assms(1)] s by metis
  then have "emitted (list_all G) ?t (snd (run_state (f (fst (run_state m s))) ?t))"
    using assms(3) unfolding held_def by blast
  moreover have "emitted (list_all G) s ?t" using assms(2) s unfolding held_def by blast
  ultimately show "emitted (list_all G) s (snd (run_state (f (fst (run_state m s))) ?t))"
    by (rule allc.R_trans [rotated])
qed

lemma held_last:
  fixes m :: "('w, 'a) action" and f :: "'a \<Rightarrow> ('w, 'b) action"
  assumes "held v c0 G m" and "\<And>x. steps (emitted (list_all G)) (f x)"
  shows "held v c0 G (State_Monad.bind m f)"
  unfolding held_def run_bind_pair
proof (intro allI impI)
  fix s :: "'w op_state" assume s: "v (os_cr s) = c0"
  show "emitted (list_all G) s (snd (run_state (f (fst (run_state m s))) (snd (run_state m s))))"
    using assms s unfolding held_def steps_def by (blast intro: allc.R_trans)
qed

lemma held_get_cr:
  assumes "\<And>p. v p = c0 \<Longrightarrow> held v c0 G (f p)"
  shows "held v c0 G (State_Monad.bind get_cr f)"
  using assms by (simp add: held_def get_cr_def)

lemma held_put_cr:
  fixes m :: "('w, 'a) action"
  assumes "held (\<lambda>p. p) q G m"
  shows "held v c0 G (State_Monad.bind (put_cr q) (\<lambda>_. m))"
  unfolding held_def
proof (intro allI impI)
  fix s :: "'w op_state"
  have "emitted (list_all G) (s\<lparr>os_cr := q\<rparr>) (snd (run_state m (s\<lparr>os_cr := q\<rparr>)))"
    using assms unfolding held_def by simp
  then show "emitted (list_all G) s (snd (run_state (State_Monad.bind (put_cr q) (\<lambda>_. m)) s))"
    by (simp add: put_cr_def emitted_def)
qed

lemma held_bindE:
  "keeps v m \<Longrightarrow> held v c0 G m \<Longrightarrow> (\<And>x. held v c0 G (f x)) \<Longrightarrow> held v c0 G (bindE m f)"
  unfolding bindE_def by (rule held_bind) (auto split: sum.split intro: held_any allc.s_ret)

lemma held_lastE:
  "held v c0 G m \<Longrightarrow> (\<And>x. steps (emitted (list_all G)) (f x)) \<Longrightarrow> held v c0 G (bindE m f)"
  unfolding bindE_def by (rule held_last) (auto split: sum.split intro: allc.s_ret)

lemma held_if: "(b \<Longrightarrow> held v c0 G m) \<Longrightarrow> (\<not> b \<Longrightarrow> held v c0 G n) \<Longrightarrow> held v c0 G (if b then m else n)"
  by simp

lemma held_prod: "(\<And>x y. r = (x, y) \<Longrightarrow> held v c0 G (f x y)) \<Longrightarrow> held v c0 G (case r of (x, y) \<Rightarrow> f x y)"
  by (cases r) simp

text \<open>Actions that keep the view and touch only objects.\<close>

lemma held_quiet:
  assumes "touches ws ds m" and "\<And>c. within ws ds c \<Longrightarrow> G c"
  shows "held v c0 G m"
  by (rule held_any) (rule emits_mono [OF assms])

section \<open>What the root reconciler keeps of the resource\<close>

lemma keeps_with:
  "keeps v m \<Longrightarrow> keeps v (counted l msg m)" "keeps v m \<Longrightarrow> keeps v (with_event r msg m)"
  unfolding counted_def with_event_def
  by (rule view.s_bind, assumption, intro view.s_bind view.s_sum view.s_ret view.v_local)+

lemma keeps_root:
  "keeps v (read_health E cr)" "keeps v (warn_no_backend cr)"
  "keeps identity_of (record_version E cr)" "keeps identity_of (statusPass E h)"
proof -
  show "keeps v (read_health E cr)" "keeps v (warn_no_backend cr)" "keeps identity_of (record_version E cr)"
    unfolding read_health_def isDeploymentReady_def isRolledOut_def isStatefulSetReady_def warn_no_backend_def
      record_version_def agentDeployment_def Let_def
    by (intro view.rules view.v_set_status; simp)+
  show "keeps identity_of (statusPass E h)"
    by (simp add: steps_def identity_after_pass)
qed

lemma keeps_operand_steps:
  "a \<in> set (operand_steps E cr) \<Longrightarrow> keeps v a"
  unfolding operand_steps_def
  by (auto intro!: keeps_with keeps_netpol keeps_pdb keeps_monitoring keeps_reconcileMCP keeps_removeMCP
      keeps_reconcileTemporal keeps_removeTemporal view.s_bind view.s_ret keeps_DetectClusterInfo)

lemma identity_components:
  "keeps identity_of (reconcileAgent E url cr)" "keeps identity_of (reconcileUI E cr)"
  "keeps identity_of (run_all (operand_steps E cr))"
  by (rule keeps_reconcileAgent keeps_reconcileUI view.s_run_all, simp_all add: keeps_operand_steps)+

lemma keeps_deleteClusterScopedResources: "keeps v (deleteClusterScopedResources E cr)"
  unfolding deleteClusterScopedResources_def del_cluster_scoped_def del_stale_def
  by (intro view.rules view.s_collect) (auto intro!: view.rules keeps_deletes split: prod.split)

lemma keeps_deletePGData: "keeps v (deletePGDataOnRequest E cr)"
  unfolding deletePGDataOnRequest_def by (intro view.rules)

section \<open>What is written back to the resource\<close>

text \<open>The two edits of the resource itself are those of the finalizer; a status update sends the spec as read.\<close>

definition own_update :: "pulse \<Rightarrow> call \<Rightarrow> bool" where
  "own_update cr c \<longleftrightarrow>
     (case c of
        CUpdatePulse q _ \<Rightarrow> q = addFinalizer cr \<or> q = removeFinalizer cr
      | CUpdateStatus q _ \<Rightarrow> identity_of q = identity_of cr
      | _ \<Rightarrow> True)"

lemma own_update_within: "within ws ds c \<Longrightarrow> own_update cr c"
  by (cases c) (simp_all add: own_update_def)

lemmas held_own = held_quiet [OF _ own_update_within]
lemmas any_own = emits_mono [OF _ own_update_within]

lemma held_updateStatus: "held identity_of (identity_of cr) (own_update cr) (updateStatus E)"
  unfolding updateStatus_def
  by (rule held_get_cr, rule held_any) (intro allc.rules; simp add: own_update_def)

lemma held_updatePulse:
  assumes "q = addFinalizer cr \<or> q = removeFinalizer cr"
  shows "held (\<lambda>p. p) q (own_update cr) (updatePulse E)"
  unfolding updatePulse_def
  by (rule held_get_cr, rule held_any) (intro allc.rules; use assms in \<open>simp add: own_update_def\<close>)

lemma held_with:
  assumes "held v c0 G m"
  shows "held v c0 G (counted l msg m)" "held v c0 G (with_event r msg m)"
  unfolding counted_def with_event_def
  by (rule held_last [OF assms], intro allc.s_sum allc.s_bind allc.s_ret allc.e_state_ops)+

abbreviation sends_own :: "pulse \<Rightarrow> ('w, 'a) action \<Rightarrow> bool" where
  "sends_own cr m \<equiv> held identity_of (identity_of cr) (own_update cr) m"

lemma sends_own_flush: "sends_own cr (requeue_installing E d)"
  unfolding requeue_installing_def flushInstallingStatus_def
  by (intro held_last held_bind held_updateStatus view.v_set_status allc.s_ret; simp add: held_any allc.e_state_ops)

lemma sends_own_sync: "sends_own cr (sync_status E cr)"
  unfolding sync_status_def
  by (intro held_bind held_bindE held_lastE held_with held_updateStatus keeps_root keeps_with keeps_metrics view.v_set_status
      held_own [OF touches_finish_steps(1) [of "{}" "{}"]] held_own [OF touches_finish_steps(2) [of "{}" "{}"]]
      held_own [OF touches_finish_steps(3) [of "{}" "{}"]] held_own [OF touches_metrics(1) [of "{}" "{}"]] allc.s_ret allc.s_if;
      simp add: held_any allc.e_state_ops)

lemma sends_own_accepted: "sends_own cr (reconcile_accepted E cr)"
  unfolding reconcile_accepted_def
  by (intro held_bind held_bindE held_prod held_if held_with keeps_with keeps_root identity_components
      keeps_reconcilePostgres keeps_reconcileRender sends_own_flush sends_own_sync
      held_own [OF touches_finish_steps(4) [of "{}" "{}"]] held_own [OF touches_components(1)] held_own [OF touches_components(2)]
      held_own [OF touches_components(3)] held_own [OF touches_components(11)] held_own [OF touches_operands])

lemma identity_reject_effects: "keeps identity_of (reject_effects E reason)"
  unfolding reject_effects_def by (intro view.rules view.v_set_status view.v_set_condition; simp)

lemma sends_own_live: "sends_own cr (live_of E cr)"
  unfolding live_of_def reject_of_def accept_of_def
  by (intro held_bindE held_lastE held_bind held_if held_put_cr held_updateStatus held_updatePulse sends_own_accepted
      keeps_rejectionReason view.s_wrapE keeps_deleteClusterScopedResources identity_reject_effects view.s_bindE
      held_own [OF touches_root(1) [of "{}" "{}"]] held_own [OF touches_root(2) [of "{}" "{}"]]
      held_own [OF allc.s_wrapE [OF touches_deleteClusterScopedResources]] allc.s_ret; simp)

lemma held_finish_deletion: "held (\<lambda>p. p) cr (own_update cr) (finish_deletion E cr)"
  unfolding finish_deletion_def
  by (intro held_bind held_get_cr held_put_cr held_updatePulse keeps_metrics view.v_local
      held_own [OF touches_metrics(2) [of "{}" "{}"]]; simp add: held_any allc.e_state_ops)

lemma held_handle_deletion: "held (\<lambda>p. p) cr (own_update cr) (handle_deletion E cr)"
  unfolding handle_deletion_def
  by (intro held_if held_bindE held_lastE held_with keeps_with keeps_deleteClusterScopedResources keeps_deletePGData
      held_finish_deletion held_own [OF touches_deleteClusterScopedResources] held_own [OF touches_deletePGData] allc.s_ret;
      simp add: held_any allc.s_ret)

lemma pass_sends_own:
  assumes "fst (e_getPulse E ns name (os_world s)) = Inr cr"
  shows "\<exists>ys. os_log (snd (run_state (ReconcilePulse E ns name) s)) = os_log s @ CGetPulse ns name (Inr cr) # ys \<and>
    list_all (own_update cr) ys"
proof -
  have "held (\<lambda>p. p) cr (own_update cr) (pass_of E cr)"
    using sends_own_live [of cr E] held_handle_deletion [of cr E] by (simp add: pass_of_def held_def)
  then have "emitted (list_all (own_update cr)) (after_read E ns name cr s)
      (snd (run_state (pass_of E cr) (after_read E ns name cr s)))"
    unfolding held_def by simp
  then show ?thesis
    by (auto simp: run_ReconcilePulse [OF assms] emitted_def)
qed

section \<open>Requeue delays\<close>

text \<open>\<open>yields P m\<close>: a value returned without an error satisfies \<open>P\<close>.\<close>

definition yields :: "('a \<Rightarrow> bool) \<Rightarrow> ('w, 'a) fallible \<Rightarrow> bool" where
  "yields P m \<longleftrightarrow> (\<forall>s. case fst (run_state m s) of Inl _ \<Rightarrow> True | Inr x \<Rightarrow> P x)"

lemma yields_ok: "P x \<Longrightarrow> yields P (ok x)"
  and yields_fail: "yields P (fail e)"
  by (simp_all add: yields_def)

lemma yields_bind: "(\<And>x. yields P (f x)) \<Longrightarrow> yields P (State_Monad.bind m f)"
  unfolding yields_def run_bind_pair by simp

lemma yields_bindE: "(\<And>x. yields P (f x)) \<Longrightarrow> yields P (bindE m f)"
  unfolding bindE_def by (rule yields_bind) (simp add: yields_fail split: sum.split)

lemma yields_bindE_val:
  assumes "yields Q m" and "\<And>x. Q x \<Longrightarrow> yields P (f x)"
  shows "yields P (bindE m f)"
  unfolding yields_def
proof
  fix s
  obtain r t where m: "run_state m s = (r, t)" by fastforce
  show "case fst (run_state (bindE m f) s) of Inl _ \<Rightarrow> True | Inr x \<Rightarrow> P x"
    using assms(1) [unfolded yields_def, rule_format, of s] assms(2) [unfolded yields_def, rule_format, of _ t]
    by (cases r) (simp_all add: m)
qed

lemma yields_sum:
  "(\<And>e. r = Inl e \<Longrightarrow> yields P (f e)) \<Longrightarrow> (\<And>x. r = Inr x \<Longrightarrow> yields P (g x)) \<Longrightarrow>
     yields P (case r of Inl e \<Rightarrow> f e | Inr x \<Rightarrow> g x)"
  by (cases r) auto

lemma yields_option:
  "(r = None \<Longrightarrow> yields P m) \<Longrightarrow> (\<And>x. r = Some x \<Longrightarrow> yields P (g x)) \<Longrightarrow>
     yields P (case r of None \<Rightarrow> m | Some x \<Rightarrow> g x)"
  by (cases r) auto

lemma yields_list:
  "(r = [] \<Longrightarrow> yields P m) \<Longrightarrow> (\<And>x xs. r = x # xs \<Longrightarrow> yields P (g x xs)) \<Longrightarrow>
     yields P (case r of [] \<Rightarrow> m | x # xs \<Rightarrow> g x xs)"
  by (cases r) auto

lemma yields_if: "(b \<Longrightarrow> yields P m) \<Longrightarrow> (\<not> b \<Longrightarrow> yields P n) \<Longrightarrow> yields P (if b then m else n)"
  by simp

lemma yields_prod: "(\<And>x y. r = (x, y) \<Longrightarrow> yields P (f x y)) \<Longrightarrow> yields P (case r of (x, y) \<Rightarrow> f x y)"
  by (cases r) simp

lemma yields_wrapE:
  assumes "yields P m"
  shows "yields P (wrapE msg m)"
  unfolding yields_def
proof
  fix s
  obtain r t where m: "run_state m s = (r, t)" by fastforce
  show "case fst (run_state (wrapE msg m) s) of Inl _ \<Rightarrow> True | Inr x \<Rightarrow> P x"
    using assms [unfolded yields_def, rule_format, of s] by (cases r) (simp_all add: m)
qed

lemma yields_with: "yields P m \<Longrightarrow> yields P (counted l msg m)" "yields P m \<Longrightarrow> yields P (with_event r msg m)"
  unfolding counted_def with_event_def
  by (auto simp: yields_def run_bind_pair simp del: run_state_bind split: sum.splits)

lemmas yields_rules = yields_ok yields_fail yields_bindE yields_bind yields_sum yields_option yields_if yields_prod

abbreviation soon :: "int \<Rightarrow> bool" where
  "soon d \<equiv> d = 0 \<or> d = 5 * second"

lemma agent_delay: "yields soon (reconcileAgent E url cr)"
  unfolding reconcileAgent_def agent_pass_def reconcileDeployment_def apply_agent_def Let_def
  by (intro yields_bindE_val [where Q = soon] yields_wrapE yields_rules; simp add: agentRequeueDelay_def)

lemma ui_delay: "yields soon (reconcileUI E cr)"
  unfolding reconcileUI_def finish_ui_def reconcileUIRoute_def Let_def
  by (intro yields_bindE_val [where Q = "\<lambda>r. soon (snd r)"] yields_wrapE yields_rules; simp add: routeRequeueDelay_def)

lemma pg_delay: "yields (\<lambda>r. soon (snd r)) (reconcilePostgres E cr)"
proof -
  have existing: "yields (case_sum soon (\<lambda>_. True)) (pg_existing E cr n d)" for n d
    unfolding pg_existing_def Let_def by (intro yields_bind yields_rules yields_list; simp add: pgRequeueDelay_def)
  have "yields soon (reconcilePGStatefulSet E cr n m)" for n m
    unfolding reconcilePGStatefulSet_def Let_def
    by (intro yields_bindE_val [OF existing] yields_rules; simp)
  then show ?thesis
    unfolding reconcilePostgres_def Let_def
    by (intro yields_bindE_val [where Q = soon] yields_wrapE yields_rules; simp)
qed

text \<open>The delays of a pass that ends without an error.\<close>

definition next_pass :: "int \<Rightarrow> bool" where
  "next_pass d \<longleftrightarrow> d \<in> {second, 5 * second, 30 * second}"

lemma accepted_delay: "yields next_pass (reconcile_accepted E cr)"
proof -
  have ends: "yields next_pass (requeue_installing E d)" if "soon d" "d > 0" for d
    unfolding requeue_installing_def using that by (intro yields_rules) (simp add: next_pass_def)
  have sync: "yields next_pass (sync_status E cr)"
    unfolding sync_status_def by (intro yields_rules) (simp add: next_pass_def)
  have ui: "yields next_pass (bindE (counted l m (reconcileUI E cr))
      (\<lambda>d. if d > 0 then requeue_installing E d else sync_status E cr))" for l m
    by (rule yields_bindE_val [OF yields_with(1) [OF ui_delay]]) (auto intro: ends sync)
  have agent: "yields next_pass (bindE (counted l m (with_event e f (reconcileAgent E url cr)))
      (\<lambda>d. if d > 0 then requeue_installing E d else g))" if "yields next_pass g" for l m e f url g
    by (rule yields_bindE_val [OF yields_with(1) [OF yields_with(2) [OF agent_delay]]]) (auto intro: ends that)
  show ?thesis
    unfolding reconcile_accepted_def
  proof (intro yields_bind yields_bindE_val [OF yields_with(1) [OF yields_with(2) [OF pg_delay]]] yields_prod yields_if)
    show "yields next_pass (requeue_installing E d)" if "soon (snd r)" "r = (url, d)" "d > 0" for r url d
      using that by (auto intro: ends)
  qed (intro yields_bindE agent ui)
qed

text \<open>How a pass over a live instance ends.\<close>

definition awake :: "pulse \<Rightarrow> int \<Rightarrow> 'w op_state \<Rightarrow> bool" where
  "awake cr delay t \<longleftrightarrow> delay \<in> {second, 5 * second, 30 * second, 5 * minute} \<or>
     delay = 0 \<and> finalizerName \<notin> set (p_finalizers cr) \<and> (\<exists>q. last (os_log t) = CUpdatePulse (addFinalizer cr) (Inr q))"

definition wakes :: "pulse \<Rightarrow> ('w, int) fallible \<Rightarrow> bool" where
  "wakes cr m \<longleftrightarrow> (\<forall>s delay t. run_state m s = (Inr delay, t) \<longrightarrow> awake cr delay t)"

lemma wakes_yields: "yields (\<lambda>d. d \<in> {second, 5 * second, 30 * second, 5 * minute}) m \<Longrightarrow> wakes cr m"
  unfolding yields_def wakes_def awake_def by (metis (no_types, lifting) fst_conv sum.simps(6))

lemma wakes_bindE: "(\<And>x. wakes cr (f x)) \<Longrightarrow> wakes cr (bindE m f)"
  unfolding wakes_def by (auto split: prod.splits sum.splits)

lemma wakes_live_of: "wakes cr (live_of E cr)"
proof -
  have "wakes cr (do { put_cr (addFinalizer cr); bindE (updatePulse E) (\<lambda>_. ok 0) })" if "finalizerName \<notin> set (p_finalizers cr)"
    unfolding wakes_def awake_def using that
    by (auto simp: put_cr_def updatePulse_def get_cr_def client_defs split: sum.splits)
  moreover have "wakes cr (reconcile_accepted E cr)"
    by (rule wakes_yields) (use accepted_delay [of E cr] in \<open>force simp: yields_def next_pass_def split: sum.splits\<close>)
  moreover have "wakes cr (bindE (reject_of E cr reason) (\<lambda>_. ok (5 * minute)))" for reason
    by (rule wakes_yields) (intro yields_rules; simp)
  ultimately show ?thesis
    unfolding live_of_def accept_of_def by (intro wakes_bindE) simp
qed

section \<open>When the finalizer goes\<close>

text \<open>
  A duty of the cleanup: a key, and the owner stamps that excuse leaving its object in place. A call
  fulfils it when the key was not found (or its kind does not exist on the cluster), when the object read
  carries such a stamp, or when the deletion succeeded or found nothing.
\<close>

type_synonym duty = "okey \<times> (string \<Rightarrow> bool)"

fun settles :: "duty \<Rightarrow> call \<Rightarrow> bool" where
  "settles (k, foreign) (CGet k' r) \<longleftrightarrow> k' = k \<and> (case r of Inl e \<Rightarrow> gone e | Inr x \<Rightarrow> foreign (owner_uid x))"
| "settles (k, foreign) (CDelete k' _ r) \<longleftrightarrow> k' = k \<and> (case r of Inl e \<Rightarrow> gone e | Inr _ \<Rightarrow> True)"
| "settles _ _ \<longleftrightarrow> False"

definition all_settled :: "duty list \<Rightarrow> call list \<Rightarrow> bool" where
  "all_settled ks cs \<longleftrightarrow> list_all (\<lambda>k. list_ex (settles k) cs) ks"

lemma all_settled_mono: "all_settled ks cs \<Longrightarrow> set cs \<subseteq> set cs' \<Longrightarrow> all_settled ks cs'"
  by (fastforce simp: all_settled_def list_all_iff list_ex_iff)

text \<open>Every update of the resource without the finalizer comes after all keys were settled.\<close>

fun released :: "duty list \<Rightarrow> call list \<Rightarrow> call list \<Rightarrow> bool" where
  "released ks before [] \<longleftrightarrow> True"
| "released ks before (CUpdatePulse q r # cs) \<longleftrightarrow>
     (finalizerName \<in> set (p_finalizers q) \<or> all_settled ks before) \<and> released ks (CUpdatePulse q r # before) cs"
| "released ks before (c # cs) \<longleftrightarrow> released ks (c # before) cs"

lemma released_append:
  "released ks b (xs @ ys) \<longleftrightarrow> released ks b xs \<and> released ks (rev xs @ b) ys"
  by (induction ks b xs rule: released.induct) auto

lemma released_no_update: "list_all (or_status ws ds) cs \<Longrightarrow> released ks b cs"
  by (induction ks b cs rule: released.induct) auto

text \<open>\<open>cleans ks good m\<close>: a run of \<open>m\<close> whose result is \<open>good\<close> settles all of \<open>ks\<close>.\<close>

definition cleans :: "duty list \<Rightarrow> ('a \<Rightarrow> bool) \<Rightarrow> ('w, 'a) action \<Rightarrow> bool" where
  "cleans ks good m \<longleftrightarrow>
     (\<forall>s. \<exists>xs. os_log (snd (run_state m s)) = os_log s @ xs \<and> (good (fst (run_state m s)) \<longrightarrow> all_settled ks xs))"

abbreviation no_errors :: "go_error list \<Rightarrow> bool" where
  "no_errors es \<equiv> es = []"

text \<open>
  Under a present name only the stamp of another instance excuses an object: one without a stamp dates from
  before the stamps and goes too. Under a former name, which two instances could share, a missing stamp
  excuses it as well. Nothing excuses the data once its deletion was asked for.
\<close>

definition duty_now :: "pulse \<Rightarrow> kind \<times> string \<times> string \<Rightarrow> duty" where
  "duty_now cr t = (target_key t, \<lambda>uid. uid \<noteq> '''' \<and> uid \<noteq> p_uid cr)"

definition duty_former :: "pulse \<Rightarrow> kind \<times> string \<times> string \<Rightarrow> duty" where
  "duty_former cr t = (target_key t, \<lambda>uid. uid \<noteq> p_uid cr)"

lemma cleans_del_cluster_scoped:
  fixes E :: "'w env"
  shows "cleans [duty_now cr t] no_errors (del_cluster_scoped E cr t)"
  unfolding cleans_def
proof
  fix s :: "'w op_state"
  obtain kd name d where t: "t = (kd, name, d)" by (cases t)
  let ?r = "fst (fetch E (key kd '''' name) (os_world s))"
  show "\<exists>xs. os_log (snd (run_state (del_cluster_scoped E cr t) s)) = os_log s @ xs \<and>
      (fst (run_state (del_cluster_scoped E cr t) s) = [] \<longrightarrow> all_settled [duty_now cr t] xs)"
    by (cases ?r)
       (auto simp: t del_cluster_scoped_def client_defs run_bind_pair all_settled_def duty_now_def simp del: run_state_bind
          split: sum.splits)
qed

lemma cleans_del_stale:
  fixes E :: "'w env"
  shows "cleans [duty_former cr t] no_errors (del_stale E cr t)"
  unfolding cleans_def
proof
  fix s :: "'w op_state"
  obtain kd name d where t: "t = (kd, name, d)" by (cases t)
  let ?r = "fst (fetch E (key kd '''' name) (os_world s))"
  show "\<exists>xs. os_log (snd (run_state (del_stale E cr t) s)) = os_log s @ xs \<and>
      (fst (run_state (del_stale E cr t) s) = [] \<longrightarrow> all_settled [duty_former cr t] xs)"
    by (cases ?r)
       (auto simp: t del_stale_def deleteStaleUnqualifiedClusterScopedResource_def client_defs run_bind_pair all_settled_def duty_former_def
          gone_def Let_def simp del: run_state_bind split: sum.splits)
qed

lemma cleans_collect:
  fixes as :: "('w, go_error list) action list"
  shows "list_all2 (\<lambda>k a. cleans [k] no_errors a) ks as \<Longrightarrow> cleans ks no_errors (collect as)"
proof (induction ks as rule: list_all2_induct)
  case Nil
  then show ?case by (simp add: cleans_def all_settled_def)
next
  case (Cons k ks a as)
  show ?case
    unfolding cleans_def
  proof
    fix s :: "'w op_state"
    let ?t = "snd (run_state a s)"
    from Cons.hyps obtain xs where xs: "os_log ?t = os_log s @ xs" "fst (run_state a s) = [] \<longrightarrow> all_settled [k] xs"
      unfolding cleans_def by blast
    from Cons.IH obtain ys where "os_log (snd (run_state (collect as) ?t)) = os_log ?t @ ys"
      "fst (run_state (collect as) ?t) = [] \<longrightarrow> all_settled ks ys"
      unfolding cleans_def by blast
    with xs show "\<exists>zs. os_log (snd (run_state (collect (a # as)) s)) = os_log s @ zs \<and>
        (fst (run_state (collect (a # as)) s) = [] \<longrightarrow> all_settled (k # ks) zs)"
      by (intro exI [of _ "xs @ ys"]) (auto simp: run_bind_pair all_settled_def list_all_iff simp del: run_state_bind)
  qed
qed

abbreviation no_error :: "go_error + 'a \<Rightarrow> bool" where
  "no_error r \<equiv> \<not> isl r"

definition cleanup_keys :: "pulse \<Rightarrow> okey list" where
  "cleanup_keys cr = map target_key (cluster_scoped_targets cr @ stale_targets cr @ [oauth_client_target cr])"

definition cleanup_duties :: "pulse \<Rightarrow> duty list" where
  "cleanup_duties cr =
     map (duty_now cr) (cluster_scoped_targets cr) @ map (duty_former cr) (stale_targets cr) @ [duty_now cr (oauth_client_target cr)]"

definition data_duties :: "pulse \<Rightarrow> duty list" where
  "data_duties cr =
     (if sget (p_annotations cr) annotationDeleteData = ''true''
      then [(key KSecret (p_namespace cr) (pgAuthSecretName (p_name cr)), \<lambda>_. False),
            (key KPersistentVolumeClaim (p_namespace cr) (pgVolumeName (pgName (p_name cr))), \<lambda>_. False)]
      else [])"

lemma cleans_deleteClusterScopedResources:
  fixes E :: "'w env"
  shows "cleans (cleanup_duties cr) no_error (deleteClusterScopedResources E cr)"
proof -
  let ?as = "map (del_cluster_scoped E cr) (cluster_scoped_targets cr) @ map (del_stale E cr) (stale_targets cr) @
    [del_cluster_scoped E cr (oauth_client_target cr)]"
  have "cleans (cleanup_duties cr) no_errors (collect ?as)"
    unfolding cleanup_duties_def
    by (rule cleans_collect)
       (auto simp: list_all2_map1 list_all2_map2 list_all2_same intro!: list_all2_appendI cleans_del_cluster_scoped cleans_del_stale)
  then show ?thesis
    by (auto simp: cleans_def deleteClusterScopedResources_def run_bind_pair errors_join_def simp del: run_state_bind)
qed

lemma cleans_deletePGData:
  fixes E :: "'w env"
  shows "cleans (data_duties cr) no_error (deletePGDataOnRequest E cr)"
  unfolding cleans_def
proof
  fix s :: "'w op_state"
  let ?m = "deletePGDataOnRequest E cr"
  show "\<exists>xs. os_log (snd (run_state ?m s)) = os_log s @ xs \<and> (no_error (fst (run_state ?m s)) \<longrightarrow> all_settled (data_duties cr) xs)"
    by (auto simp: deletePGDataOnRequest_def data_duties_def client_defs run_bind_pair all_settled_def errors_join_def
        delete_errors_def gone_def simp del: run_state_bind split: sum.splits)
qed

lemma cleans_with_event:
  assumes "cleans ks no_error m"
  shows "cleans ks no_error (with_event r msg m)"
  using assms unfolding cleans_def with_event_def
  by (auto simp: run_bind_pair emit_event_def simp del: run_state_bind split: sum.splits) (metis sum.disc(2))

lemma cleans_bindE:
  fixes m :: "('w, 'a) fallible" and f :: "'a \<Rightarrow> ('w, 'b) fallible"
  assumes "cleans ks no_error m" and "\<And>x. cleans ls no_error (f x)"
  shows "cleans (ks @ ls) no_error (bindE m f)"
  unfolding cleans_def
proof
  fix s :: "'w op_state"
  obtain r t where m: "run_state m s = (r, t)" by fastforce
  with assms(1) obtain xs where xs: "os_log t = os_log s @ xs" "no_error r \<longrightarrow> all_settled ks xs"
    unfolding cleans_def by (metis fst_conv snd_conv)
  show "\<exists>zs. os_log (snd (run_state (bindE m f) s)) = os_log s @ zs \<and>
      (no_error (fst (run_state (bindE m f) s)) \<longrightarrow> all_settled (ks @ ls) zs)"
  proof (cases r)
    case (Inl e)
    then show ?thesis using m xs by simp
  next
    case (Inr x)
    from assms(2) [of x] obtain ys where "os_log (snd (run_state (f x) t)) = os_log t @ ys"
      "no_error (fst (run_state (f x) t)) \<longrightarrow> all_settled ls ys"
      unfolding cleans_def by blast
    then show ?thesis
      using m xs Inr by (intro exI [of _ "xs @ ys"]) (auto simp: all_settled_def list_all_iff)
  qed
qed

lemma bindE_assoc: "bindE (bindE m f) g = bindE m (\<lambda>x. bindE (f x) g)"
  by (rule state_ext) (simp split: prod.split sum.split)

lemma released_handle_deletion:
  fixes E :: "'w env" and s :: "'w op_state"
  shows "\<exists>ys. os_log (snd (run_state (handle_deletion E cr) s)) = os_log s @ ys \<and>
    released (cleanup_duties cr @ data_duties cr) [] ys"
proof (cases "finalizerName \<in> set (p_finalizers cr)")
  case False
  then show ?thesis by (simp add: handle_deletion_def)
next
  case True
  let ?ks = "cleanup_duties cr @ data_duties cr"
  define D where "D = bindE (with_event ''DeleteFailed'' ''Some cluster-scoped resources could not be deleted: ''
      (deleteClusterScopedResources E cr)) (\<lambda>_. with_event ''DeleteFailed'' ''PostgreSQL data/credentials could not be deleted: ''
      (deletePGDataOnRequest E cr))"
  have run: "handle_deletion E cr = bindE D (\<lambda>_. bindE (finish_deletion E cr) (\<lambda>_. ok 0))"
    using True by (simp add: handle_deletion_def D_def bindE_assoc)
  obtain r t where D: "run_state D s = (r, t)" by fastforce
  have "cleans ?ks no_error D"
    unfolding D_def by (intro cleans_bindE cleans_with_event cleans_deleteClusterScopedResources cleans_deletePGData)
  then obtain xs where xs: "os_log t = os_log s @ xs" "no_error r \<longrightarrow> all_settled ?ks xs"
    using D unfolding cleans_def by (metis fst_conv snd_conv)
  have "acts {} (cluster_scoped_keys cr \<union> pg_data cr) D"
    unfolding D_def with_event_def
    by (intro allc.s_bindE allc.s_bind allc.s_sum allc.s_ret allc.e_state_ops
        acts_touches [OF touches_mono [OF touches_deleteClusterScopedResources]]
        acts_touches [OF touches_mono [OF touches_deletePGData]]) (auto simp: pg_data_def)
  with xs(1) D have quiet: "list_all (or_status {} (cluster_scoped_keys cr \<union> pg_data cr)) xs"
    unfolding steps_def emitted_def by (metis same_append_eq snd_conv)
  show ?thesis
  proof (cases r)
    case (Inl e)
    then show ?thesis using D xs(1) quiet by (auto simp: run intro: released_no_update)
  next
    case (Inr u)
    have fin: "os_log (snd (run_state (bindE (finish_deletion E cr) (\<lambda>_. ok (0::int))) t)) =
        os_log t @ [CUpdatePulse q (fst (e_updatePulse E q (os_world t)))]"
      if "q = removeFinalizer (os_cr t)" for q
      using that by (simp add: finish_deletion_def updatePulse_def emit_event_def forgetInstanceMetrics_def get_cr_def
          put_cr_def client_defs run_bind_pair split: prod.split sum.split)
    have "all_settled ?ks (rev xs)"
      using xs(2) Inr by (auto intro: all_settled_mono)
    then have "released ?ks [] (xs @ [CUpdatePulse q z])" for q z
      using released_no_update [OF quiet] by (simp add: released_append)
    then show ?thesis
      using D xs(1) Inr fin by (auto simp: run)
  qed
qed

lemma acts_live_with_finalizer:
  assumes "finalizerName \<in> set (p_finalizers cr)"
  shows "acts (pass_writes cr) (pass_deletes cr \<union> cluster_scoped_keys cr) (live_of E cr)"
proof -
  have accepted: "acts (pass_writes cr) (pass_deletes cr \<union> cluster_scoped_keys cr) (reconcile_accepted E cr)"
    using acts_reconcile_accepted by (rule emits_mono) (auto simp: or_status_def split: call.splits intro: within_mono)
  show ?thesis
    unfolding live_of_def reject_of_def accept_of_def
    by (intro allc.s_if allc.s_ret allc.s_bindE allc.s_wrapE allc.s_bind allc.e_state_ops acts_updateStatus accepted
        acts_touches [OF touches_mono [OF touches_deleteClusterScopedResources]] acts_touches [OF touches_root(1)]
        acts_touches [OF touches_root(2)]) (use assms in auto)
qed

lemma released_pass_of:
  assumes "finalizerName \<in> set (p_finalizers cr)"
  shows "steps (emitted (released (cleanup_duties cr @ data_duties cr) [])) (pass_of E cr)"
proof -
  have "steps (emitted (released (cleanup_duties cr @ data_duties cr) [])) (handle_deletion E cr)"
    by (simp add: steps_def emitted_def released_handle_deletion)
  moreover have "steps (emitted (released (cleanup_duties cr @ data_duties cr) [])) (live_of E cr)"
    by (rule steps_mono [OF acts_live_with_finalizer [OF assms]]) (auto simp: emitted_def intro: released_no_update)
  ultimately show ?thesis
    by (simp add: pass_of_def)
qed

section \<open>Names that never meet\<close>

text \<open>The database objects that hold data are deleted by no step but the one that asks for it.\<close>

lemma data_is_not_cleaned:
  assumes "k \<in> pg_data cr"
  shows "k \<notin> pass_deletes cr \<union> cluster_scoped_keys cr"
  using assms
  by (auto simp: pg_data_def pass_deletes_def pg_deletes_def render_objects_def render_owned_def agent_deletes_def
      pdb_keys_def mcp_stale_def mcp_removes_def mcp_owned_def temporal_objects_def ui_deletes_def cluster_scoped_keys_def
      cluster_scoped_targets_def stale_targets_def oauth_client_target_def Let_def pgAuthSecretName_def renderTokenSecretName_def)

text \<open>Every cluster-scoped object a pass may write is among those removed with the instance.\<close>

definition own_cluster_keys :: "pulse \<Rightarrow> okey list" where
  "own_cluster_keys cr = map target_key (cluster_scoped_targets cr @ [oauth_client_target cr])"

lemma writes_are_own:
  "k \<in> pass_writes cr \<Longrightarrow> k_namespace k = p_namespace cr \<or> k \<in> set (own_cluster_keys cr)"
  by (auto simp: pass_writes_def pg_writes_def render_objects_def render_owned_def agent_writes_def np_writes_def
      pdb_keys_def monitoring_writes_def mcp_writes_def temporal_objects_def ui_writes_def own_cluster_keys_def
      cluster_scoped_targets_def oauth_client_target_def Let_def)

section \<open>Properties\<close>

definition ex_instance :: pulse where
  "ex_instance = (empty_pulse ''pulse'' ''openshiftpulse'' ''u1'')\<lparr>p_finalizers := [finalizerName]\<rparr>"

definition ex_pass_state :: "sim_world op_state" where
  "ex_pass_state = sim_state (empty_world\<lparr>sw_pulses := [ex_instance]\<rparr>) ex_instance"

abbreviation ex_pass_log :: "call list" where
  "ex_pass_log \<equiv> os_log (snd (run_state (ReconcilePulse sim_env ''openshiftpulse'' ''pulse'') ex_pass_state))"

lemma ex_read: "fst (e_getPulse sim_env ''openshiftpulse'' ''pulse'' (os_world ex_pass_state)) = Inr ex_instance"
  by (simp add: ex_pass_state_def ex_instance_def sim_simps)

lemma ex_instance_sel [simp]:
  "p_name ex_instance = ''pulse''" "p_namespace ex_instance = ''openshiftpulse''" "p_deletionTimestamp ex_instance = None"
  "p_finalizers ex_instance = [finalizerName]" "os_log ex_pass_state = []"
  by (simp_all add: ex_instance_def ex_pass_state_def sim_state_def empty_pulse_def)

text \<open>
  C4: Every deletion of a pass follows the deletion policy, whatever the cluster answers at each call:
  a cluster-scoped object goes only after the operator has read it and found it unstamped or stamped
  with this instance's UID, a namespaced one only after it was found to be controlled by this
  instance; the exceptions are the two workloads, which must have been read with a selector that does
  not match, the stuck database pod, the former nginx ConfigMap and the data deleted on request.
\<close>

theorem every_deletion_is_permitted:
  assumes "fst (e_getPulse E ns name (os_world s)) = Inr cr" and "p_namespace cr \<noteq> ''''"
  shows "\<exists>ys. os_log (snd (run_state (ReconcilePulse E ns name) s)) = os_log s @ CGetPulse ns name (Inr cr) # ys \<and>
    guarded (deletion_policy E cr) [] ys"
  by (rule pass_appends [OF assms(1) guards_pass_of [OF assms(2)]])

theorem every_deletion_is_permitted_witness:
  "\<exists>ys. ex_pass_log = CGetPulse ''openshiftpulse'' ''pulse'' (Inr ex_instance) # ys \<and>
    guarded (deletion_policy sim_env ex_instance) [] ys"
  using every_deletion_is_permitted [OF ex_read] by simp

text \<open>
  C5: The database's credentials and its volume are never deleted unless the resource is itself being
  deleted and carries the annotation that asks for it.
\<close>

theorem data_outlives_the_operator:
  assumes "fst (e_getPulse E ns name (os_world s)) = Inr cr" and "\<not> data_asked_for cr"
  shows "\<exists>ys. os_log (snd (run_state (ReconcilePulse E ns name) s)) = os_log s @ CGetPulse ns name (Inr cr) # ys \<and>
    list_all (\<lambda>c. delete_key c \<noteq> Some (key KSecret (p_namespace cr) (pgAuthSecretName (p_name cr))) \<and>
      delete_key c \<noteq> Some (key KPersistentVolumeClaim (p_namespace cr) (pgVolumeName (pgName (p_name cr))))) ys"
proof (rule pass_appends [OF assms(1)])
  show "steps (emitted (list_all (\<lambda>c. delete_key c \<noteq> Some (key KSecret (p_namespace cr) (pgAuthSecretName (p_name cr))) \<and>
      delete_key c \<noteq> Some (key KPersistentVolumeClaim (p_namespace cr) (pgVolumeName (pgName (p_name cr))))))) (pass_of E cr)"
    using assms(2) data_is_not_cleaned [of _ cr]
    by (intro emits_mono [OF confined_pass_of]) (auto simp: pass_call_def within_def pg_data_def elim!: writes_pulse.elims)
qed

theorem data_outlives_the_operator_witness:
  "\<exists>ys. ex_pass_log = CGetPulse ''openshiftpulse'' ''pulse'' (Inr ex_instance) # ys \<and>
    list_all (\<lambda>c. delete_key c \<noteq> Some (key KSecret ''openshiftpulse'' ''pulse-pg-auth'')) ys"
proof -
  have "\<not> data_asked_for ex_instance" by (simp add: data_asked_for_def)
  from data_outlives_the_operator [OF ex_read this] show ?thesis
    by (auto simp: pgAuthSecretName_def list_all_iff)
qed

text \<open>
  C6: The finalizer goes only after the cleanup: whenever a pass over an instance with the finalizer
  writes the instance without it, every cluster-scoped object of the instance had been deleted before, or
  found absent, or found stamped by another instance. An object without a stamp must have been deleted
  when it has a present name; only under one of the unqualified former names, which instances of several
  namespaces share, is it left alone. The data, when its deletion was asked for, must have been deleted or
  found absent.
\<close>

theorem finalizer_outlives_the_cleanup:
  assumes "fst (e_getPulse E ns name (os_world s)) = Inr cr" and "finalizerName \<in> set (p_finalizers cr)"
  shows "\<exists>ys. os_log (snd (run_state (ReconcilePulse E ns name) s)) = os_log s @ CGetPulse ns name (Inr cr) # ys \<and>
    released (cleanup_duties cr @ data_duties cr) [] ys"
  by (rule pass_appends [OF assms(1) released_pass_of [OF assms(2)]])

theorem finalizer_outlives_the_cleanup_witness:
  "\<exists>ys. ex_pass_log = CGetPulse ''openshiftpulse'' ''pulse'' (Inr ex_instance) # ys \<and>
    released (cleanup_duties ex_instance @ data_duties ex_instance) [] ys"
  using finalizer_outlives_the_cleanup [OF ex_read] by simp

text \<open>The finalizers of everybody else, in their order.\<close>

definition foreign_finalizers :: "pulse \<Rightarrow> string list" where
  "foreign_finalizers p = filter (\<lambda>f. f \<noteq> finalizerName) (p_finalizers p)"

lemma own_update_keeps:
  shows "own_update cr (CUpdatePulse q r) \<Longrightarrow>
     q = cr\<lparr>p_finalizers := p_finalizers q\<rparr> \<and> foreign_finalizers q = foreign_finalizers cr"
  and "own_update cr (CUpdateStatus q r') \<Longrightarrow> identity_of q = identity_of cr"
  by (auto simp: own_update_def addFinalizer_def removeFinalizer_def foreign_finalizers_def)

text \<open>
  C11: The operator never edits what the user wrote: an update of the resource sends it as it was
  read, with the operator's own finalizer added or removed and nothing else changed, and a status
  update sends the metadata and the spec as they were read.
\<close>

theorem spec_is_never_edited:
  assumes "fst (e_getPulse E ns name (os_world s)) = Inr cr"
  shows "\<exists>ys. os_log (snd (run_state (ReconcilePulse E ns name) s)) = os_log s @ CGetPulse ns name (Inr cr) # ys \<and>
    list_all (\<lambda>c. case c of
        CUpdatePulse q _ \<Rightarrow> q = cr\<lparr>p_finalizers := p_finalizers q\<rparr> \<and> foreign_finalizers q = foreign_finalizers cr
      | CUpdateStatus q _ \<Rightarrow> identity_of q = identity_of cr
      | _ \<Rightarrow> True) ys"
proof -
  have "own_update cr c \<Longrightarrow> (case c of
        CUpdatePulse q _ \<Rightarrow> q = cr\<lparr>p_finalizers := p_finalizers q\<rparr> \<and> foreign_finalizers q = foreign_finalizers cr
      | CUpdateStatus q _ \<Rightarrow> identity_of q = identity_of cr
      | _ \<Rightarrow> True)" for c
    by (cases c) (simp_all add: own_update_keeps)
  then show ?thesis
    using pass_sends_own [OF assms] by (meson list.pred_mono_strong)
qed

theorem spec_is_never_edited_witness:
  "\<exists>ys. ex_pass_log = CGetPulse ''openshiftpulse'' ''pulse'' (Inr ex_instance) # ys \<and>
    list_all (\<lambda>c. case c of
        CUpdatePulse q _ \<Rightarrow> q = ex_instance\<lparr>p_finalizers := p_finalizers q\<rparr> \<and> foreign_finalizers q = foreign_finalizers ex_instance
      | CUpdateStatus q _ \<Rightarrow> identity_of q = identity_of ex_instance
      | _ \<Rightarrow> True) ys"
  using spec_is_never_edited [OF ex_read] by simp

text \<open>
  C12: A pass writes only in the namespace of its instance, except for cluster-scoped objects, and
  those are all among the ones that are removed with the instance: nothing it creates can be left
  behind.
\<close>

theorem writes_stay_inside:
  assumes "fst (e_getPulse E ns name (os_world s)) = Inr cr"
  shows "\<exists>ys. os_log (snd (run_state (ReconcilePulse E ns name) s)) = os_log s @ CGetPulse ns name (Inr cr) # ys \<and>
    list_all (\<lambda>c. case write_key c of None \<Rightarrow> True
      | Some k \<Rightarrow> k_namespace k = p_namespace cr \<or> k \<in> set (own_cluster_keys cr)) ys \<and>
    set (own_cluster_keys cr) \<subseteq> set (cleanup_keys cr)"
proof -
  have "steps (emitted (list_all (\<lambda>c. case write_key c of None \<Rightarrow> True
      | Some k \<Rightarrow> k_namespace k = p_namespace cr \<or> k \<in> set (own_cluster_keys cr)))) (pass_of E cr)"
    by (rule emits_mono [OF confined_pass_of])
       (auto simp: pass_call_def within_def dest: writes_are_own elim!: writes_pulse.elims split: option.split)
  from pass_appends [OF assms this] show ?thesis
    by (auto simp: own_cluster_keys_def cleanup_keys_def)
qed

theorem writes_stay_inside_witness:
  "\<exists>ys. ex_pass_log = CGetPulse ''openshiftpulse'' ''pulse'' (Inr ex_instance) # ys \<and>
    list_all (\<lambda>c. case write_key c of None \<Rightarrow> True
      | Some k \<Rightarrow> k_namespace k = p_namespace ex_instance \<or> k \<in> set (own_cluster_keys ex_instance)) ys \<and>
    set (own_cluster_keys ex_instance) \<subseteq> set (cleanup_keys ex_instance)"
  using writes_stay_inside [OF ex_read] by simp

text \<open>
  C15: The operator never goes to sleep on a live instance: a pass over an instance that is not being
  deleted fails, and is retried, or asks to be run again after 1, 5 or 30 seconds, or after five minutes
  when the instance was rejected. The one pass that asks for nothing is the first over a new instance,
  without the finalizer: it ends with a successful update of the resource, which the operator watches.
\<close>

theorem a_pass_schedules_the_next:
  assumes "fst (e_getPulse E ns name (os_world s)) = Inr cr" and "p_deletionTimestamp cr = None"
  shows "case run_state (ReconcilePulse E ns name) s of
      (Inl e, t) \<Rightarrow> True
    | (Inr delay, t) \<Rightarrow> delay \<in> {second, 5 * second, 30 * second, 5 * minute} \<or>
        delay = 0 \<and> finalizerName \<notin> set (p_finalizers cr) \<and> (\<exists>q. last (os_log t) = CUpdatePulse (addFinalizer cr) (Inr q))"
  using wakes_live_of [of cr E] assms(2) unfolding run_ReconcilePulse [OF assms(1)] pass_of_def wakes_def awake_def by (auto split: prod.split sum.split)

theorem a_pass_schedules_the_next_witness:
  "case fst (run_state (ReconcilePulse sim_env ''openshiftpulse'' ''pulse'') ex_pass_state) of
     Inl _ \<Rightarrow> True | Inr delay \<Rightarrow> delay > 0"
  using a_pass_schedules_the_next [OF ex_read] by (auto simp: second_def minute_def split: sum.splits prod.splits)

end
