(* ===== verification/PassBound.thy ===== *)
theory PassBound
  imports PassProps
begin

text \<open>
  A pass sends a bounded number of requests to the API server, whatever the server answers: the
  code has no retry loop and no request inside a loop over data from the cluster. The bound is built up
  from one rule per construct, as the bounds of the components.
\<close>

section \<open>Counting requests\<close>

text \<open>
  An entry of the log is one request, except create-or-update, which is a read and at most one write.
\<close>

definition requests :: "call \<Rightarrow> nat" where
  "requests c = (case c of CApply _ _ _ \<Rightarrow> 2 | _ \<Rightarrow> 1)"

definition total :: "call list \<Rightarrow> nat" where
  "total xs = sum_list (map requests xs)"

lemma total_simps [simp]: "total [] = 0" "total (c # xs) = requests c + total xs" "total (xs @ ys) = total xs + total ys"
  by (simp_all add: total_def)

definition calls :: "nat \<Rightarrow> ('w, 'a) action \<Rightarrow> bool" where
  "calls n m \<longleftrightarrow> (\<forall>s. \<exists>xs. os_log (snd (run_state m s)) = os_log s @ xs \<and> total xs \<le> n)"

lemma calls_mono: "calls n m \<Longrightarrow> n \<le> k \<Longrightarrow> calls k m"
  unfolding calls_def by (meson le_trans)

lemma n_ret: "calls 0 (State_Monad.return x)"
  by (simp add: calls_def)

lemma n_bind:
  fixes m :: "('w, 'a) action" and f :: "'a \<Rightarrow> ('w, 'b) action"
  assumes "calls n m" and "\<And>x. calls k (f x)"
  shows "calls (n + k) (State_Monad.bind m f)"
  unfolding calls_def
proof
  fix s :: "'w op_state"
  let ?t = "snd (run_state m s)"
  from assms(1) obtain xs where "os_log ?t = os_log s @ xs" "total xs \<le> n"
    unfolding calls_def by blast
  moreover from assms(2) obtain ys
    where "os_log (snd (run_state (f (fst (run_state m s))) ?t)) = os_log ?t @ ys" "total ys \<le> k"
    unfolding calls_def by blast
  ultimately show "\<exists>zs. os_log (snd (run_state (State_Monad.bind m f) s)) = os_log s @ zs \<and> total zs \<le> n + k"
    by (intro exI [of _ "xs @ ys"]) (simp add: run_bind_pair del: run_state_bind)
qed

lemma n_if: "(b \<Longrightarrow> calls n m) \<Longrightarrow> (\<not> b \<Longrightarrow> calls k p) \<Longrightarrow> calls (max n k) (if b then m else p)"
  by (auto intro: calls_mono [OF _ max.cobounded1] calls_mono [OF _ max.cobounded2])

lemma n_let: "(\<And>x. calls n (f x)) \<Longrightarrow> calls n (let x = t in f x)"
  by simp

lemma n_sum:
  "(\<And>e. calls n (f e)) \<Longrightarrow> (\<And>x. calls k (g x)) \<Longrightarrow> calls (max n k) (case r of Inl e \<Rightarrow> f e | Inr x \<Rightarrow> g x)"
  by (cases r) (auto intro: calls_mono [OF _ max.cobounded1] calls_mono [OF _ max.cobounded2])

lemma n_option:
  "calls n m \<Longrightarrow> (\<And>x. calls k (g x)) \<Longrightarrow> calls (max n k) (case r of None \<Rightarrow> m | Some x \<Rightarrow> g x)"
  by (cases r) (auto intro: calls_mono [OF _ max.cobounded1] calls_mono [OF _ max.cobounded2])

lemma n_list:
  "calls n m \<Longrightarrow> (\<And>x xs. calls k (g x xs)) \<Longrightarrow> calls (max n k) (case r of [] \<Rightarrow> m | x # xs \<Rightarrow> g x xs)"
  by (cases r) (auto intro: calls_mono [OF _ max.cobounded1] calls_mono [OF _ max.cobounded2])

lemma n_prod: "(\<And>x y. calls n (f x y)) \<Longrightarrow> calls n (case r of (x, y) \<Rightarrow> f x y)"
  by (cases r) simp

lemma n_bindE: "calls n m \<Longrightarrow> (\<And>x. calls k (f x)) \<Longrightarrow> calls (n + k) (bindE m f)"
  unfolding bindE_def by (rule n_bind) (auto split: sum.split intro: calls_mono [OF n_ret])

lemma n_wrapE: "calls n m \<Longrightarrow> calls n (wrapE msg m)"
  unfolding wrapE_def by (rule calls_mono, erule n_bind, rule n_ret) simp

lemma n_apiE: "calls n m \<Longrightarrow> calls n (apiE m)"
  unfolding apiE_def by (rule calls_mono, erule n_bind, rule n_ret) simp

lemma n_voidE: "calls n m \<Longrightarrow> calls n (voidE m)"
  unfolding voidE_def by (rule calls_mono, erule n_bindE, rule n_ret) simp

lemma n_liftE: "calls 0 (liftE r)"
  unfolding liftE_def by (rule n_ret)

lemma n_api:
  "calls 1 (api_get E k)" "calls 1 (api_list E kd ns ls)" "calls 1 (api_create E x)" "calls 1 (api_update E x)"
  "calls 1 (api_delete E k)" "calls 1 (api_delete_background E k)" "calls 2 (create_or_update E x h)"
  "calls 1 (api_getPulse E ns n)" "calls 1 (api_listPulses E ns)" "calls 1 (api_updatePulse E q)"
  "calls 1 (api_updateStatus E q)"
  unfolding client_defs by (simp_all add: calls_def requests_def)

lemma n_local:
  "calls 0 (gets f)" "calls 0 get_cr" "calls 0 (put_cr p)" "calls 0 (set_status g)" "calls 0 (set_condition E c)"
  "calls 0 (emit_event a b msg)" "calls 0 (recordEvent E a b msg)" "calls 0 (inc_self_heal a b)"
  "calls 0 (inc_reconcile_error a)" "calls 0 (set_gauge a p b v)" "calls 0 (time_now E)" "calls 0 (ask_world h)"
  unfolding local_defs time_now_def by (simp_all add: calls_def)

lemma n_modify: "(\<And>s. os_log (f s) = os_log s) \<Longrightarrow> calls 0 (modify f)"
  by (simp add: calls_def)

lemma n_rand: "calls 0 (rand_read E n)"
  unfolding rand_read_def by (rule calls_mono, rule n_bind, rule n_local, rule n_ret) simp

lemmas n_rules =
  n_ret n_bind n_if n_let n_sum n_option n_list n_prod n_bindE n_wrapE n_apiE n_voidE n_liftE n_api n_local n_rand

section \<open>The bounds of the components\<close>

lemma n_tokens: "calls 0 (generateToken E)" "calls 0 (generatePassword E n)" "calls 0 (generateCookieSecret E)"
  unfolding token_defs by (rule calls_mono, (rule n_rules)+, simp)+

lemma n_deletes:
  "calls 2 (deleteOwned E cr kd name)" "calls 2 (deleteOwnedClusterScoped E cr kd name)"
  "calls 2 (deleteStaleUnqualifiedClusterScopedResource E cr kd name)"
  unfolding deleteOwned_def deleteOwnedClusterScoped_def deleteStaleUnqualifiedClusterScopedResource_def Let_def
  by (rule calls_mono, (rule n_rules)+, simp)+

lemmas n_parts = n_rules n_tokens n_deletes

lemma n_DetectClusterInfo: "calls 4 (DetectClusterInfo E)"
  unfolding DetectClusterInfo_def detect_def Let_def
  by (rule calls_mono, (rule n_rules | (rule n_modify, simp))+) simp

lemma n_reconcilePostgres: "calls 20 (reconcilePostgres E cr)"
  unfolding reconcilePostgres_def pg_steps_defs Let_def by (rule calls_mono, (rule n_parts)+) simp

lemma n_reconcileRender: "calls 8 (reconcileRender E cr)"
  unfolding reconcileRender_def removeRender_def render_parts_defs render_owned_def list.map prod.case run_steps.simps
    run_all.simps Let_def
  by (rule calls_mono, (rule n_parts)+) simp

lemma n_reconcileAgent: "calls 24 (reconcileAgent E url cr)"
  unfolding reconcileAgent_def agent_pass_def reconcileDeployment_def apply_agent_def agent_steps_def agent_parts_defs
    run_steps.simps version_gates_def setAgentVersionCompatibleCondition_def setVersionSkewCondition_def Let_def
  by (rule calls_mono, (rule n_parts n_DetectClusterInfo)+) simp

lemma n_small:
  "calls 6 (reconcileNetworkPolicies E cr)" "calls 2 (reconcileUIPodsDisruptionBudget E cr)"
  "calls 4 (reconcileMonitoring E cr)"
  unfolding reconcileNetworkPolicies_def reconcileUIPodNetworkPolicy_def reconcilePGNetworkPolicy_def
    reconcileAgentNetworkPolicy_def apply_np_def reconcileUIPodsDisruptionBudget_def reconcileMonitoring_def
    reconcileServiceMonitor_def reconcilePrometheusRule_def run_steps.simps Let_def
  by (rule calls_mono, (rule n_parts)+, simp)+

lemma n_mcp: "calls 18 (reconcileMCP E cr)" "calls 14 (removeMCP E cr)"
  unfolding reconcileMCP_def mcp_parts_defs removeMCP_def mcp_owned_def list.map prod.case run_all.simps run_steps.simps Let_def
  by (rule calls_mono, (rule n_parts)+, simp)+

lemma n_temporal: "calls 11 (reconcileTemporal E cr)" "calls 10 (removeTemporal E cr)"
  unfolding reconcileTemporal_def temporal_parts_defs removeTemporal_def workload_objects_def list.map prod.case
    concat.simps append.simps run_all.simps run_steps.simps if_distrib [of run_steps] Let_def
  by (rule calls_mono, (rule n_parts)+, simp)+

lemma n_reconcileUI: "calls 36 (reconcileUI E cr)"
  unfolding reconcileUI_def finish_ui_def ui_rest_defs ui_steps_def ui_parts_defs run_steps.simps Let_def
  by (rule calls_mono, (rule n_parts n_DetectClusterInfo)+) simp

lemma n_deleteClusterScopedResources: "calls 32 (deleteClusterScopedResources E cr)"
  unfolding deleteClusterScopedResources_def del_cluster_scoped_def del_stale_def cluster_scoped_targets_def
    stale_targets_def oauth_client_target_def list.map append.simps collect.simps prod.case Let_def
  by (rule calls_mono, (rule n_parts)+) simp

lemma n_status:
  "calls 4 (read_health E cr)" "calls 1 (record_version E cr)" "calls 1 (reconcileObservedMemoryMetrics E cr d c v)"
  "calls 2 (statusPass E h)" "calls 1 (updateStatus E)" "calls 1 (updatePulse E)" "calls 0 (forgetInstanceMetrics ns n)"
  "calls 1 (flushInstallingStatus E)"
  unfolding read_health_def isDeploymentReady_def isRolledOut_def isStatefulSetReady_def record_version_def
    agentDeployment_def reconcileObservedMemoryMetrics_def check_due_def statusPass_def status_defs updateStatus_def
    updatePulse_def forgetInstanceMetrics_def flushInstallingStatus_def Let_def
  by (rule calls_mono, (rule n_parts | (rule n_modify, simp))+, simp)+

lemma n_with: "calls n m \<Longrightarrow> calls n (counted l msg m)" "calls n m \<Longrightarrow> calls n (with_event r msg m)"
  unfolding counted_def with_event_def by (rule calls_mono, erule n_bind, (rule n_rules)+, simp)+

lemmas n_components =
  n_reconcilePostgres n_reconcileRender n_reconcileAgent n_small n_mcp n_temporal n_reconcileUI n_DetectClusterInfo

lemma n_operand_steps: "calls 55 (run_all (operand_steps E cr))"
  unfolding operand_steps_def run_all.simps
  by (rule calls_mono, (rule n_bindE n_bind n_if n_ret n_with n_components)+) simp

lemma n_sync_status: "calls 10 (sync_status E cr)"
  unfolding sync_status_def Let_def by (rule calls_mono, (rule n_bindE n_bind n_if n_ret n_local n_with n_status)+) simp

lemma n_reconcile_accepted: "calls 153 (reconcile_accepted E cr)"
  unfolding reconcile_accepted_def requeue_installing_def warn_no_backend_def
  by (rule calls_mono, (rule n_bindE n_bind n_prod n_if n_ret n_local n_with n_status n_components n_operand_steps n_sync_status)+)
     simp

lemma n_pass_of: "calls 154 (pass_of E cr)"
  unfolding pass_of_def handle_deletion_def finish_deletion_def deletePGDataOnRequest_def live_of_def reject_of_def
    accept_of_def reject_effects_def rejectionReason_def Let_def
  by (rule calls_mono, (rule n_with n_deleteClusterScopedResources n_status n_reconcile_accepted n_parts)+) simp

text \<open>
  C16: The load a pass puts on the API server is bounded: whatever the server answers at each call, a
  pass sends at most 155 requests, where creating or updating an object counts as the two it is, a read
  and a write. There is no retry, and no loop over what the cluster returned, that sends requests.
\<close>

theorem a_pass_is_bounded:
  "\<exists>xs. os_log (snd (run_state (ReconcilePulse E ns name) s)) = os_log s @ xs \<and> total xs \<le> 155"
proof (cases "fst (e_getPulse E ns name (os_world s))")
  case (Inl e)
  then show ?thesis by (simp add: ReconcilePulse_def client_defs run_bind_pair requests_def del: run_state_bind)
next
  case (Inr cr)
  obtain ys where "os_log (snd (run_state (pass_of E cr) (after_read E ns name cr s))) =
      os_log (after_read E ns name cr s) @ ys" "total ys \<le> 154"
    using n_pass_of [of E cr] unfolding calls_def by blast
  then show ?thesis
    by (intro exI [of _ "CGetPulse ns name (Inr cr) # ys"]) (simp add: run_ReconcilePulse [OF Inr] requests_def)
qed

end
