(* ===== verification/UIProps.thy ===== *)
theory UIProps
  imports UI Render AgentProps PostgresProps MCPProps
begin

text \<open>
  Properties of the UI's Route and OAuth Secret, and of the pods of all components.
\<close>

section \<open>The Route\<close>

text \<open>The entries of a map under keys the operator does not manage.\<close>

definition foreign :: "smap \<Rightarrow> smap" where
  "foreign m = filter (\<lambda>(k, v). k \<notin> {''termination'', ''insecureEdgeTerminationPolicy''}) m"

lemma foreign_sput [simp]:
  "k \<in> {''termination'', ''insecureEdgeTerminationPolicy''} \<Longrightarrow> foreign (sput k v m) = foreign m"
  by (induction m) (auto simp: foreign_def sput_def)

lemma foreign_correct_route [simp]: "foreign (ro_tls (correct_route name ro)) = foreign (ro_tls ro)"
  by (simp add: correct_route_def want_tls_def)

lemma corrected_not_drifted [simp]: "\<not> route_drifted name (correct_route name ro)"
  by (simp add: route_drifted_def correct_route_def same_map_def want_tls_def list_all_iff)

text \<open>
  C30: Drift of the Route is corrected and only drift: what was read is left alone when it routes to
  the UI service on the proxy's port with re-encryption and redirect; otherwise one update writes it
  back with these fields, and with the TLS entries of others (certificates) and the host as they were
  read; the corrected Route is not seen as drifted again, so the operator does not fight over it.
\<close>

theorem route_drift_is_corrected:
  "let name = uiResourceName (p_name cr); k = key KRoute (p_namespace cr) name; r = fst (fetch E k (os_world s));
       log = os_log (snd (run_state (reconcileUIRoute E cr info) s))
   in case r of
        Inr x \<Rightarrow>
          (if route_drifted name (as_route x)
           then \<exists>u. log = os_log s @ [CGet k r, CUpdate (x\<lparr>o_body := BRoute (correct_route name (as_route x))\<rparr>) u]
           else log = os_log s @ [CGet k r]) \<and>
          \<not> route_drifted name (correct_route name (as_route x)) \<and>
          foreign (ro_tls (correct_route name (as_route x))) = foreign (ro_tls (as_route x)) \<and>
          ro_host (correct_route name (as_route x)) = ro_host (as_route x)
      | Inl e \<Rightarrow>
          (if is_not_found e
           then (case set_controller E cr (new_route cr info) of
                   Inl _ \<Rightarrow> log = os_log s @ [CGet k r]
                 | Inr d \<Rightarrow> \<exists>c. log = os_log s @ [CGet k r, CCreate (d\<lparr>o_body := BRoute (new_route_spec name)\<rparr>) c])
           else log = os_log s @ [CGet k r]) \<and>
          \<not> route_drifted name (new_route_spec name)"
proof -
  have new: "\<not> route_drifted name (new_route_spec name)" for name
    by (simp add: route_drifted_def new_route_spec_def same_map_def want_tls_def sget_def list_all_iff)
  have host: "ro_host (correct_route name ro) = ro_host ro" for name ro
    by (simp add: correct_route_def)
  show ?thesis
    by (auto simp: reconcileUIRoute_def client_defs inc_self_heal_def liftE_def run_bind_pair new host Let_def
        simp del: run_state_bind split: sum.split prod.split)
qed

section \<open>The OAuth Secret\<close>

text \<open>
  C31: The OAuth client secret is never rotated, and a cookie secret exactly when it cannot be used: an
  existing Secret with 32 printable bytes is not written at all; a malformed one is replaced, in one update
  of the Secret that was read, by a usable value of 24 fresh random bytes, which leaves the client secret,
  and every other entry, as it was; only when the random source fails is there no write, and then the step
  fails. A Secret is created only when it is missing.
\<close>

theorem client_secret_is_never_rotated:
  "let k = key KSecret (p_namespace cr) (uiOAuthSecretsName (p_name cr)); r = fst (fetch E k (os_world s));
       usable = (\<lambda>b. length b = 32 \<and> list_all (\<lambda>c. 32 < (of_char c :: nat) \<and> of_char c < (127 :: nat)) b);
       w = os_world (snd (run_state (api_get E k) s));
       (result, t) = run_state (reconcileUIOAuthSecrets E cr) s
   in case r of
        Inr x \<Rightarrow>
          if usable (sget (se_data (as_secret x)) ''cookie-secret'') then os_log t = os_log s @ [CGet k r]
          else (case fst (e_rand E w) of
              Inl e \<Rightarrow> os_log t = os_log s @ [CGet k r] \<and> isl result
            | Inr bytes \<Rightarrow>
                let c = b64_encode (map bytes [0..<24]); y = with_cookie c x
                in (\<exists>u. os_log t = os_log s @ [CGet k r, CUpdate y u] \<and> isl result = isl u) \<and> usable c \<and>
                   se_data (as_secret y) = sput ''cookie-secret'' c (se_data (as_secret x)) \<and>
                   sget (se_data (as_secret y)) ''client-secret'' = sget (se_data (as_secret x)) ''client-secret'')
      | Inl e \<Rightarrow> os_log t = os_log s @ [CGet k r] \<and> isl result \<or>
          is_not_found e \<and> (\<exists>x c. os_log t = os_log s @ [CGet k r, CCreate x c] \<and> o_key x = k \<and> isl result = isl c)"
proof -
  have usable: "(\<lambda>b. length b = 32 \<and> list_all (\<lambda>c. 32 < (of_char c :: nat) \<and> of_char c < (127 :: nat)) b) = isValidCookieSecret"
    by (rule ext) (auto simp: isValidCookieSecret_def list_all_iff)
  have cookie: "run_state (generateCookieSecret E) t = (case e_rand E (os_world t) of
      (Inl e, w) \<Rightarrow> (Inl (Wrap ''crypto/rand'' e), t\<lparr>os_world := w\<rparr>)
    | (Inr f, w) \<Rightarrow> (Inr (b64_encode (map f [0..<24])), t\<lparr>os_world := w\<rparr>))" for t
    by (simp add: generateCookieSecret_def run_rand_read split: prod.splits sum.splits)
  have data: "as_secret (with_cookie c x) = (as_secret x)\<lparr>se_data := sput ''cookie-secret'' c (se_data (as_secret x))\<rparr>" for c x
    by (simp add: with_cookie_def Let_def)
  show ?thesis
    unfolding usable
    by (auto simp: reconcileUIOAuthSecrets_def client_defs inc_self_heal_def recordEvent_def emit_event_def liftE_def voidE_def
        run_bind_pair cookie data b64_24_valid generatePassword_def run_rand_read Let_def dest!: set_controller_key simp del: run_state_bind split: sum.split prod.split)
qed

section \<open>Pods\<close>

lemma restricted_pin_image:
  "restricted_pod (pt_spec (de_template d)) \<Longrightarrow> restricted_pod (pt_spec (de_template (pin_image c x d)))"
  by (auto simp: pin_image_def restricted_pod_def restricted_container_def split: list.split if_splits)

lemma restricted_agent: "restricted_pod (pt_spec (de_template (buildDeploymentSpec E h cr info)))"
  unfolding buildDeploymentSpec_def Let_def agent_pod_def
  by (rule restricted_podI) (auto simp: agent_container_def pod_spec0_def)

text \<open>
  C32: Every pod the operator writes meets the restricted profile: it runs as a non-root user under the
  default seccomp profile, and each of its containers drops all capabilities and forbids escalation.
  This holds of the pods of the agent (the updates included, with a pinned image too), the database,
  the UI and its proxy and the Temporal server; the pods of the Temporal UI, the renderer and the MCP
  server meet it exactly when the init containers somebody else added to the Deployment do.
\<close>

theorem every_pod_is_restricted:
  "restricted_pod (pt_spec (de_template (buildDeploymentSpec E h cr info))) \<and>
   restricted_pod (pt_spec (de_template (as_deployment (updated_agent E h cr info compatible x)))) \<and>
   restricted_pod (pt_spec (pg_template cr secretName img h)) \<and>
   restricted_pod (pt_spec (ui_template E cr info h)) \<and>
   restricted_pod (pt_spec (de_template (temporal_mutate E cr h d))) \<and>
   (let inits = list_all restricted_container (po_initContainers (pt_spec (de_template d))) in
     restricted_pod (pt_spec (de_template (temporal_ui_mutate E cr d))) = inits \<and>
     restricted_pod (pt_spec (de_template (render_mutate E cr d))) = inits \<and>
     restricted_pod (pt_spec (de_template (mcp_mutate E cr h d))) = inits)"
proof -
  have "restricted_pod (pt_spec (de_template (as_deployment (updated_agent E h cr info compatible x))))"
    using restricted_pin_image [of "replace_spec (buildDeploymentSpec E h cr info) (as_deployment x)" compatible]
    by (simp add: updated_agent_def Let_def replace_spec_def restricted_agent)
  moreover have "restricted_pod (pt_spec (pg_template cr secretName img h))"
    unfolding pg_template_def by (rule restricted_podI) (auto simp: pg_container_def Let_def pod_spec0_def)
  moreover have "restricted_pod (pt_spec (ui_template E cr info h))"
    unfolding ui_template_def
    by (rule restricted_podI) (auto simp: ui_container_def oauth_proxy_container_def Let_def pod_spec0_def)
  moreover have "restricted_pod (pt_spec (de_template (temporal_mutate E cr h d)))"
    unfolding temporal_mutate_def Let_def
    by (rule restricted_podI) (auto simp: temporal_init_def temporal_container_def Let_def)
  moreover have "restricted_container (temporal_ui_container E cr)" "restricted_container (render_container E cr)"
    "restricted_container (mcp_container E cr)"
    by (simp_all add: temporal_ui_container_def render_container_def mcp_container_def Let_def)
  then have "restricted_pod (pt_spec (de_template (temporal_ui_mutate E cr d))) =
      list_all restricted_container (po_initContainers (pt_spec (de_template d)))"
    "restricted_pod (pt_spec (de_template (render_mutate E cr d))) =
      list_all restricted_container (po_initContainers (pt_spec (de_template d)))"
    "restricted_pod (pt_spec (de_template (mcp_mutate E cr h d))) =
      list_all restricted_container (po_initContainers (pt_spec (de_template d)))"
    by (simp_all add: restricted_pod_def defaultPodSecCtx_def temporal_ui_mutate_def render_mutate_def
        mcp_mutate_def Let_def)
  ultimately show ?thesis
    unfolding Let_def using restricted_agent by simp
qed

end
