(* ===== verification/RolloutRefinement.thy ===== *)
theory RolloutRefinement
  imports RolloutInvariant
begin

text \<open>
  An abstract specification of the rollout, and the refinement: in every reachable state the status
  pass of \<open>status.go\<close>, seen through the abstraction, is one step of the specification. A component
  has never been healthy, or is stable on an image, or was rolled back from a requested image to the
  one it was last healthy on; the fields of the status (two optional records, two images, a clock)
  hold nothing else that decides what runs.
\<close>

section \<open>The specification\<close>

datatype rollout = Fresh | Stable (good: string) | RolledBack (bad: string) (good: string)

text \<open>The image a component runs when \<open>req\<close> is asked for.\<close>

fun target :: "rollout \<Rightarrow> string \<Rightarrow> string" where
  "target (RolledBack b g) req = (if req = b then g else req)"
| "target _ req = req"

text \<open>An upgrade is in progress: the target, not the good image, and not rolled out.\<close>

fun upgrading :: "rollout \<Rightarrow> string \<Rightarrow> bool \<Rightarrow> bool" where
  "upgrading Fresh req rolledOut \<longleftrightarrow> False"
| "upgrading c req rolledOut \<longleftrightarrow> \<not> rolledOut \<and> target c req \<noteq> good c"

text \<open>
  A new request ends a rollback; an image that rolled out becomes the good one, unless the component
  stays rolled back, on the good image it already has.
\<close>

fun observe :: "rollout \<Rightarrow> string \<Rightarrow> bool \<Rightarrow> rollout" where
  "observe (RolledBack b g) req rolledOut =
     (if req = b then RolledBack b g else if rolledOut then Stable req else Stable g)"
| "observe c req rolledOut = (if rolledOut then Stable req else c)"

fun roll_back :: "rollout \<Rightarrow> string \<Rightarrow> rollout" where
  "roll_back (Stable g) req = RolledBack req g"
| "roll_back c req = c"

record rollout_state =
  rs_agent :: rollout
  rs_ui :: rollout
  rs_since :: "int option"
  rs_phase :: string

text \<open>What a pass observes: requests, rolled-out flags, readiness, the version gate and the clock twice.\<close>

record observation =
  ob_agent :: string
  ob_ui :: string
  ob_agentOut :: bool
  ob_uiOut :: bool
  ob_ready :: bool
  ob_gated :: bool
  ob_first :: int
  ob_later :: int

definition spec_pass :: "observation \<Rightarrow> rollout_state \<Rightarrow> rollout_state \<times> bool" where
  "spec_pass ob rs =
     (let a = upgrading (rs_agent rs) (ob_agent ob) (ob_agentOut ob);
          u = upgrading (rs_ui rs) (ob_ui ob) (ob_uiOut ob);
          since = (if a \<or> u then Some (case rs_since rs of None \<Rightarrow> ob_first ob | Some t \<Rightarrow> t) else None);
          late = (case since of None \<Rightarrow> False | Some t \<Rightarrow> ob_later ob - t \<ge> 5 * minute);
          agentBack = (late \<and> a \<and> \<not> ob_gated ob); uiBack = (late \<and> u);
          agent = observe (rs_agent rs) (ob_agent ob) (ob_agentOut ob);
          ui = observe (rs_ui rs) (ob_ui ob) (ob_uiOut ob)
      in (\<lparr>rs_agent = (if agentBack then roll_back agent (ob_agent ob) else agent),
           rs_ui = (if uiBack then roll_back ui (ob_ui ob) else ui),
           rs_since = (if agentBack \<or> uiBack then None else since),
           rs_phase =
             (if a \<or> u then ''Upgrading'' else if ob_ready ob then ''Running''
              else if rs_phase rs \<in> {''Running'', ''Upgrading''} then ''Degraded'' else ''Installing'')\<rparr>,
          agentBack \<or> uiBack))"

section \<open>The abstraction\<close>

definition abs_component :: "image_rollback option \<Rightarrow> string \<Rightarrow> rollout" where
  "abs_component rb healthy =
     (if healthy = '''' then Fresh
      else case rb of None \<Rightarrow> Stable healthy | Some r \<Rightarrow> RolledBack (rb_from r) healthy)"

definition abs_state :: "pulse \<Rightarrow> rollout_state" where
  "abs_state p =
     (let st = p_status p in
      \<lparr>rs_agent = abs_component (st_agentRollback st) (st_lastHealthyAgentImage st),
       rs_ui = abs_component (st_uiRollback st) (st_lastHealthyUIImage st),
       rs_since = st_upgradeStartedAt st, rs_phase = st_phase st\<rparr>)"

definition observed :: "'w env \<Rightarrow> component_health \<Rightarrow> 'w op_state \<Rightarrow> observation" where
  "observed E h s =
     \<lparr>ob_agent = requestedImage E (os_cr s), ob_ui = requestedUIImage E (os_cr s),
      ob_agentOut = ch_agentRolledOut h, ob_uiOut = ch_uiRolledOut h, ob_ready = all_ready h (os_cr s),
      ob_gated = agent_gated E h s, ob_first = first_time E s, ob_later = first_time E (synced E h s)\<rparr>"

section \<open>One component\<close>

lemmas component_simps =
  abs_component_def is_upgrading_def record_healthy_def applyRollback_def drop_stale_def

lemma component_upgrading:
  assumes "record_ok rb lh" and "req \<noteq> ''''"
  shows "is_upgrading out (applyRollback req (drop_stale req rb)) lh = upgrading (abs_component rb lh) req out"
proof (cases rb)
  case None
  then show ?thesis by (cases "lh = ''''") (simp_all add: component_simps)
next
  case (Some r)
  with assms show ?thesis by (cases "rb_from r = req") (simp_all add: component_simps)
qed

lemma component_observe:
  assumes "record_ok rb lh" and "req \<noteq> ''''"
  shows "abs_component (drop_stale req rb) (record_healthy out (applyRollback req (drop_stale req rb)) lh) =
    observe (abs_component rb lh) req out"
proof (cases rb)
  case None
  with assms(2) show ?thesis by (cases "lh = ''''") (simp_all add: component_simps)
next
  case (Some r)
  with assms show ?thesis by (cases "rb_from r = req") (simp_all add: component_simps)
qed

text \<open>A rollback during an upgrade: the abstract step turns the stable component into a rolled back one.\<close>

lemma component_roll_back:
  assumes "record_ok rb lh" and "req \<noteq> ''''" and "is_upgrading out (applyRollback req (drop_stale req rb)) lh"
  shows "abs_component (Some \<lparr>rb_from = req, rb_to = lh', rb_at = t\<rparr>)
      (record_healthy out (applyRollback req (drop_stale req rb)) lh) =
    roll_back (observe (abs_component rb lh) req out) req"
proof (cases rb)
  case None
  with assms(3) show ?thesis by (simp add: component_simps)
next
  case (Some r)
  with assms show ?thesis by (cases "rb_from r = req") (simp_all add: component_simps)
qed

section \<open>One pass\<close>

text \<open>The status after a pass, by the four facts that decide it.\<close>

lemma status_by_decision:
  fixes E :: "'w env" and h :: component_health and s :: "'w op_state"
  assumes "rollout_inv A U (os_cr s)"
  defines "p \<equiv> os_cr s" and "st \<equiv> p_status (os_cr (synced E h s))"
  defines "late \<equiv> upgrade_age E h s \<ge> upgradeHealthTimeout"
  defines "a \<equiv> late \<and> agent_upgrading E h p \<and> \<not> agent_gated E h s" and "u \<equiv> late \<and> ui_upgrading E h p"
  shows "st_agentRollback (p_status (after_pass E h s)) =
      (if a then Some \<lparr>rb_from = requestedImage E p, rb_to = st_lastHealthyAgentImage st,
         rb_at = second_time E (synced E h s)\<rparr> else st_agentRollback st)"
    and "st_uiRollback (p_status (after_pass E h s)) =
      (if u then Some \<lparr>rb_from = requestedUIImage E p, rb_to = st_lastHealthyUIImage st,
         rb_at = second_time E (synced E h s)\<rparr> else st_uiRollback st)"
    and "st_upgradeStartedAt (p_status (after_pass E h s)) = (if a \<or> u then None else st_upgradeStartedAt st)"
    and "st_lastHealthyAgentImage (p_status (after_pass E h s)) = st_lastHealthyAgentImage st"
    and "st_lastHealthyUIImage (p_status (after_pass E h s)) = st_lastHealthyUIImage st"
    and "fst (run_state (statusPass E h) s) = Inr (a \<or> u)"
proof -
  note facts = fires_synced [OF assms(1), of E h] timed_out_synced [of E h s]
  have "p_status (after_pass E h s) =
     (if a \<or> u then st\<lparr>
           st_agentRollback := (if agent_upgrading E h p \<and> \<not> agent_gated E h s
             then Some \<lparr>rb_from = requestedImage E p, rb_to = st_lastHealthyAgentImage st,
                rb_at = second_time E (synced E h s)\<rparr>
             else st_agentRollback st),
           st_uiRollback := (if ui_upgrading E h p
             then Some \<lparr>rb_from = requestedUIImage E p, rb_to = st_lastHealthyUIImage st,
                rb_at = second_time E (synced E h s)\<rparr>
             else st_uiRollback st),
           st_upgradeStartedAt := None\<rparr> else st)"
    unfolding status_after_pass rollback_core_def Let_def facts requested_synced
    unfolding p_def st_def a_def u_def late_def by auto
  note after = this
  show "st_agentRollback (p_status (after_pass E h s)) =
      (if a then Some \<lparr>rb_from = requestedImage E p, rb_to = st_lastHealthyAgentImage st,
         rb_at = second_time E (synced E h s)\<rparr> else st_agentRollback st)"
    unfolding after by (auto simp: a_def u_def)
  show "st_uiRollback (p_status (after_pass E h s)) =
      (if u then Some \<lparr>rb_from = requestedUIImage E p, rb_to = st_lastHealthyUIImage st,
         rb_at = second_time E (synced E h s)\<rparr> else st_uiRollback st)"
    unfolding after by (auto simp: a_def u_def)
  show "st_upgradeStartedAt (p_status (after_pass E h s)) = (if a \<or> u then None else st_upgradeStartedAt st)"
    and "st_lastHealthyAgentImage (p_status (after_pass E h s)) = st_lastHealthyAgentImage st"
    and "st_lastHealthyUIImage (p_status (after_pass E h s)) = st_lastHealthyUIImage st"
    unfolding after by simp_all
  show "fst (run_state (statusPass E h) s) = Inr (a \<or> u)"
    unfolding statusPass_run run_reconcileAutoRollback(1) facts
    unfolding a_def u_def late_def p_def by auto
qed

text \<open>The decisions, seen through the abstraction.\<close>

lemma abs_decisions:
  fixes E :: "'w env" and s :: "'w op_state"
  assumes "rollout_inv A U (os_cr s)"
  shows "agent_upgrading E h (os_cr s) =
      upgrading (rs_agent (abs_state (os_cr s))) (ob_agent (observed E h s)) (ob_agentOut (observed E h s))"
    and "ui_upgrading E h (os_cr s) =
      upgrading (rs_ui (abs_state (os_cr s))) (ob_ui (observed E h s)) (ob_uiOut (observed E h s))"
  using assms
  by (simp_all add: rollout_inv_def Let_def agent_upgrading_def ui_upgrading_def resolved_drop_core
      abs_state_def observed_def component_upgrading requestedImage_nonempty requestedUIImage_nonempty)

lemma abs_agent_after:
  fixes E :: "'w env" and s :: "'w op_state"
  assumes inv: "rollout_inv A U (os_cr s)"
  shows "rs_agent (abs_state (after_pass E h s)) =
      (let c = observe (rs_agent (abs_state (os_cr s))) (requestedImage E (os_cr s)) (ch_agentRolledOut h)
       in if upgrade_age E h s \<ge> upgradeHealthTimeout \<and> agent_upgrading E h (os_cr s) \<and> \<not> agent_gated E h s
          then roll_back c (requestedImage E (os_cr s)) else c)"
proof -
  have ok: "record_ok (st_agentRollback (p_status (os_cr s))) (st_lastHealthyAgentImage (p_status (os_cr s)))"
    using inv by (simp add: rollout_inv_def Let_def)
  note component = component_observe [OF ok requestedImage_nonempty] component_roll_back [OF ok requestedImage_nonempty]
  show ?thesis
    unfolding abs_state_def Let_def status_by_decision [OF inv]
    by (simp add: synced_fields resolved_drop_core component agent_upgrading_def)
qed

lemma abs_ui_after:
  fixes E :: "'w env" and s :: "'w op_state"
  assumes inv: "rollout_inv A U (os_cr s)"
  shows "rs_ui (abs_state (after_pass E h s)) =
      (let c = observe (rs_ui (abs_state (os_cr s))) (requestedUIImage E (os_cr s)) (ch_uiRolledOut h)
       in if upgrade_age E h s \<ge> upgradeHealthTimeout \<and> ui_upgrading E h (os_cr s)
          then roll_back c (requestedUIImage E (os_cr s)) else c)"
proof -
  have ok: "record_ok (st_uiRollback (p_status (os_cr s))) (st_lastHealthyUIImage (p_status (os_cr s)))"
    using inv by (simp add: rollout_inv_def Let_def)
  note component = component_observe [OF ok requestedUIImage_nonempty] component_roll_back [OF ok requestedUIImage_nonempty]
  show ?thesis
    unfolding abs_state_def Let_def status_by_decision [OF inv]
    by (simp add: synced_fields resolved_drop_core component ui_upgrading_def)
qed

text \<open>
  C7: Refinement. In every reachable state a status pass, seen through the abstraction, is one step of
  the specification: the components move as it says (a new request ends a rollback, a rolled-out
  image becomes the good one, an upgrade five minutes old is rolled back unless the agent is gated),
  the deadline and the phase are its, and the pass asks for a requeue exactly when it rolled back.
\<close>

theorem status_pass_refines_the_specification:
  assumes "rollout_reach Es (os_cr s) A U"
  shows "(abs_state (after_pass E h s), fst (run_state (statusPass E h) s)) =
    (fst (spec_pass (observed E h s) (abs_state (os_cr s))),
     Inr (snd (spec_pass (observed E h s) (abs_state (os_cr s)))))"
proof -
  note inv = rollout_inv_reach [OF assms]
  let ?ob = "observed E h s" and ?rs = "abs_state (os_cr s)"
  note decisions = abs_decisions [OF inv, of E h, symmetric]
  have parts: "ob_agent ?ob = requestedImage E (os_cr s)" "ob_ui ?ob = requestedUIImage E (os_cr s)"
    "ob_agentOut ?ob = ch_agentRolledOut h" "ob_uiOut ?ob = ch_uiRolledOut h"
    "ob_ready ?ob = all_ready h (os_cr s)" "ob_gated ?ob = agent_gated E h s"
    "ob_first ?ob = first_time E s" "ob_later ?ob = first_time E (synced E h s)"
    "rs_since ?rs = st_upgradeStartedAt (p_status (os_cr s))" "rs_phase ?rs = st_phase (p_status (os_cr s))"
    by (simp_all add: observed_def abs_state_def Let_def)
  note flags = decisions [unfolded parts]
  have since: "rs_since (abs_state (after_pass E h s)) = st_upgradeStartedAt (p_status (after_pass E h s))"
    "rs_phase (abs_state (after_pass E h s)) = st_phase (p_status (after_pass E h s))"
    by (simp_all add: abs_state_def Let_def)
  have "abs_state (after_pass E h s) =
    \<lparr>rs_agent = rs_agent (abs_state (after_pass E h s)), rs_ui = rs_ui (abs_state (after_pass E h s)),
      rs_since = st_upgradeStartedAt (p_status (after_pass E h s)),
      rs_phase = st_phase (p_status (after_pass E h s))\<rparr>"
    by (simp add: abs_state_def Let_def)
  note after = this [unfolded abs_agent_after [OF inv] abs_ui_after [OF inv] phase_of_pass
    status_by_decision(3) [OF inv] synced_fields(5) next_phase_def]
  show ?thesis
    unfolding after status_by_decision(6) [OF inv] spec_pass_def parts flags
    by (cases "agent_upgrading E h (os_cr s)"; cases "ui_upgrading E h (os_cr s)";
        cases "st_upgradeStartedAt (p_status (os_cr s))")
       (simp_all add: Let_def tracked_start_def upgrade_age_def upgradeHealthTimeout_def)
qed

theorem status_pass_refines_the_specification_witness:
  "rs_agent (abs_state ex_rolled_back) = RolledBack ''repo:2'' ''repo:1''"
proof -
  let ?s = "sim_state (at_clock (5 * minute)) ex_upgrading"
  have "rollout_reach {sim_env} (os_cr ?s) {''repo:1''} {}"
    using ex_reach(2) by (simp add: sim_state_def)
  from status_pass_refines_the_specification [OF this, of sim_env "health_of False"]
  have "abs_state (after_pass sim_env (health_of False) ?s) =
      fst (spec_pass (observed sim_env (health_of False) ?s) (abs_state (os_cr ?s)))"
    by simp
  then show ?thesis
    unfolding ex_rolled_back_def
    by (simp add: spec_pass_def observed_def abs_state_def abs_component_def first_time_def synced_def
        agent_gated_def pass_exec ex_upgrading_def ex_simps Let_def cong: prod.case_cong_weak)
qed

end
