(* ===== verification/Wiring.thy ===== *)
theory Wiring
  imports PassProps UIProps
begin

text \<open>
  How the objects of the components fit together, across the reconcilers that write them: each Service
  selects the pods of its own workload and none other and targets ports their containers open, the
  addresses handed to the pods name these Services, the NetworkPolicies admit the connections the
  components make, and no two components write the same object.
\<close>

section \<open>Services and pods\<close>

text \<open>The documented meaning of a selector of equalities, and of a target port left out.\<close>

definition selects :: "smap \<Rightarrow> smap \<Rightarrow> bool" where
  "selects sel labels \<longleftrightarrow> sel \<noteq> [] \<and> list_all (\<lambda>(k, v). map_of labels k = Some v) sel"

definition target_port :: "service_port \<Rightarrow> int" where
  "target_port p = (case sv_targetPort p of None \<Rightarrow> sv_port p | Some t \<Rightarrow> t)"

definition target_ports :: "service \<Rightarrow> int list" where
  "target_ports v = map target_port (se_ports v)"

definition open_ports :: "pod_template \<Rightarrow> int list" where
  "open_ports t = concat (map (\<lambda>c. map cp_port (co_ports c)) (po_containers (pt_spec t)))"

definition service_reaches :: "service \<Rightarrow> pod_template \<Rightarrow> bool" where
  "service_reaches v t \<longleftrightarrow>
     selects (se_selector v) (pt_labels t) \<and> list_all (\<lambda>p. p \<in> set (open_ports t)) (target_ports v)"

text \<open>
  The pods of an instance, by the name of the workload, and its Services, by the name of the workload
  they stand for. \<open>d\<close> and \<open>v\<close> are what the cluster holds under these names before the pass.
\<close>

definition instance_pods ::
  "'w env \<Rightarrow> pulse \<Rightarrow> cluster_info \<Rightarrow> string \<Rightarrow> string \<Rightarrow> (string \<Rightarrow> deployment) \<Rightarrow> (string \<times> pod_template) list" where
  "instance_pods E cr info img h d =
     (let n = p_name cr in
      [(agentResourceName n, de_template (buildDeploymentSpec E h cr info)),
       (pgName n, pg_template cr (pgAuthSecretName n) img h),
       (uiResourceName n, de_template (ui_mutate E cr info h (d (uiResourceName n)))),
       (temporalResourceName n, de_template (temporal_mutate E cr h (d (temporalResourceName n)))),
       (temporalUIName n, de_template (temporal_ui_mutate E cr (d (temporalUIName n)))),
       (renderResourceName n, de_template (render_mutate E cr (d (renderResourceName n)))),
       (mcpResourceName n, de_template (mcp_mutate E cr h (d (mcpResourceName n))))])"

definition instance_services :: "pulse \<Rightarrow> bool \<Rightarrow> (string \<Rightarrow> service) \<Rightarrow> (string \<times> service) list" where
  "instance_services cr headless v =
     (let n = p_name cr in
      [(agentResourceName n, agent_service cr (v (agentResourceName n))),
       (pgName n, pg_service cr headless (v (pgName n))),
       (uiResourceName n, ui_service cr (v (uiResourceName n))),
       (temporalResourceName n, temporal_service cr (v (temporalResourceName n))),
       (temporalUIName n, temporal_ui_service cr (v (temporalUIName n))),
       (renderResourceName n, render_service cr (v (renderResourceName n))),
       (mcpResourceName n, mcp_service cr)])"

lemma pod_labels [simp]:
  "pt_labels (de_template (buildDeploymentSpec E h cr info)) = [(''app'', agentResourceName (p_name cr))]"
  "pt_labels (pg_template cr sec img h) = pgLabels (p_name cr)"
  "pt_labels (de_template (ui_mutate E cr info h d)) = [(''app'', uiResourceName (p_name cr))]"
  "pt_labels (de_template (temporal_mutate E cr h d)) = [(''app'', temporalResourceName (p_name cr))]"
  "pt_labels (de_template (temporal_ui_mutate E cr d)) = [(''app'', temporalUIName (p_name cr))]"
  "pt_labels (de_template (render_mutate E cr d)) = [(''app'', renderResourceName (p_name cr))]"
  "pt_labels (de_template (mcp_mutate E cr h d)) = [(''app'', mcpResourceName (p_name cr))]"
  by (simp_all add: buildDeploymentSpec_def pg_template_def ui_mutate_def ui_template_def
      temporal_mutate_def temporal_ui_mutate_def render_mutate_def mcp_mutate_def Let_def)

lemma pod_ports [simp]:
  "open_ports (de_template (buildDeploymentSpec E h cr info)) = [agentPort]"
  "open_ports (pg_template cr sec img h) = [pgPort]"
  "open_ports (de_template (ui_mutate E cr info h d)) = uiHTTPPort # (if renderEnabled cr then [uiRenderPort] else []) @ [uiProxyPort]"
  "open_ports (de_template (temporal_mutate E cr h d)) = [temporalFrontendPort]"
  "open_ports (de_template (temporal_ui_mutate E cr d)) = [temporalUIPort]"
  "open_ports (de_template (render_mutate E cr d)) = [renderPort]"
  "open_ports (de_template (mcp_mutate E cr h d)) = [mcpServerPort]"
  by (simp_all add: open_ports_def buildDeploymentSpec_def agent_pod_def agent_container_def pg_template_def pg_container_def
      ui_mutate_def ui_template_def ui_container_def uiContainerPorts_def oauth_proxy_container_def
      temporal_mutate_def temporal_container_def temporal_ui_mutate_def temporal_ui_container_def
      render_mutate_def render_container_def mcp_mutate_def mcp_container_def Let_def)

lemma service_selectors [simp]:
  "se_selector (agent_service cr s) = [(''app'', agentResourceName (p_name cr))]"
  "se_selector (pg_service cr headless s) = pgLabels (p_name cr)"
  "se_selector (ui_service cr s) = [(''app'', uiResourceName (p_name cr))]"
  "se_selector (temporal_service cr s) = [(''app'', temporalResourceName (p_name cr))]"
  "se_selector (temporal_ui_service cr s) = [(''app'', temporalUIName (p_name cr))]"
  "se_selector (render_service cr s) = [(''app'', renderResourceName (p_name cr))]"
  "se_selector (mcp_service cr) = [(''app'', mcpResourceName (p_name cr))]"
  by (simp_all add: agent_service_def pg_service_def ui_service_def temporal_service_def temporal_ui_service_def
      render_service_def mcp_service_def)

lemma service_ports [simp]:
  "target_ports (agent_service cr s) = [agentPort]"
  "target_ports (pg_service cr headless s) = [pgPort]"
  "target_ports (ui_service cr s) = uiProxyPort # (if renderEnabled cr then [uiRenderPort] else [])"
  "target_ports (temporal_service cr s) = [temporalFrontendPort]"
  "target_ports (temporal_ui_service cr s) = [temporalUIPort]"
  "target_ports (render_service cr s) = [renderPort]"
  "target_ports (mcp_service cr) = [mcpServerPort]"
  by (simp_all add: target_ports_def target_port_def agent_service_def pg_service_def ui_service_def ui_ports_def temporal_service_def
      temporal_ui_service_def render_service_def mcp_service_def)

lemma names_differ [simp]:
  "agentResourceName n \<noteq> uiResourceName n" "agentResourceName n \<noteq> temporalResourceName n"
  "agentResourceName n \<noteq> temporalUIName n" "agentResourceName n \<noteq> renderResourceName n"
  "agentResourceName n \<noteq> mcpResourceName n" "uiResourceName n \<noteq> temporalResourceName n"
  "uiResourceName n \<noteq> temporalUIName n" "uiResourceName n \<noteq> renderResourceName n"
  "uiResourceName n \<noteq> mcpResourceName n" "temporalResourceName n \<noteq> temporalUIName n"
  "temporalResourceName n \<noteq> renderResourceName n" "temporalResourceName n \<noteq> mcpResourceName n"
  "temporalUIName n \<noteq> renderResourceName n" "temporalUIName n \<noteq> mcpResourceName n"
  "renderResourceName n \<noteq> mcpResourceName n"
  by (simp_all add: agentResourceName_def uiResourceName_def temporalResourceName_def temporalUIName_def
      renderResourceName_def mcpResourceName_def)

lemma selects_app [simp]:
  "selects [(''app'', a)] [(''app'', b)] \<longleftrightarrow> a = b" "\<not> selects (pgLabels n) [(''app'', b)]"
  "\<not> selects [(''app'', a)] (pgLabels n)" "selects (pgLabels n) (pgLabels n)"
  by (auto simp: selects_def pgLabels_def)

text \<open>
  C21: Every Service of an instance finds its pods, and only those: whatever the cluster held before, the
  Services the reconcilers of the seven workloads write select, of the pods the same reconcilers
  describe, exactly the ones of their own workload, and every target port is opened by a container of
  that pod; the render listener is there in the UI's Service exactly when it is in the UI's pod.
\<close>

theorem services_reach_their_pods:
  "let pods = instance_pods E cr info img h d; services = instance_services cr headless v in
   map (\<lambda>(n, s). map fst (filter (\<lambda>(m, t). selects (se_selector s) (pt_labels t)) pods)) services = map (\<lambda>(n, s). [n]) services \<and>
   list_all2 (\<lambda>(n, s) (m, t). n = m \<and> service_reaches s t) services pods \<and>
   (uiRenderPort \<in> set (target_ports (ui_service cr s)) \<longleftrightarrow>
    uiRenderPort \<in> set (open_ports (ui_template E cr info h)))"
proof -
  have "uiRenderPort \<in> set (open_ports (ui_template E cr info h)) \<longleftrightarrow> renderEnabled cr"
    by (cases "renderEnabled cr") (simp_all add: open_ports_def ui_template_def ui_container_def uiContainerPorts_def
        oauth_proxy_container_def uiRenderPort_def uiHTTPPort_def uiProxyPort_def)
  then show ?thesis
    unfolding Let_def
    by (intro conjI)
       (simp_all add: instance_pods_def instance_services_def Let_def service_reaches_def names_differ [symmetric]
         uiRenderPort_def uiProxyPort_def)
qed


section \<open>Connections\<close>

text \<open>A pod of the instance's namespace, and the address a Service is reached at.\<close>

definition pod_in :: "pulse \<Rightarrow> smap \<Rightarrow> pod_template \<Rightarrow> net_pod" where
  "pod_in cr nsLabels t = \<lparr>nt_namespace = p_namespace cr, nt_nsLabels = nsLabels, nt_labels = pt_labels t\<rparr>"

definition first_port :: "service \<Rightarrow> int" where
  "first_port v = (case se_ports v of [] \<Rightarrow> 0 | p # _ \<Rightarrow> sv_port p)"

definition address :: "string \<Rightarrow> service \<Rightarrow> string" where
  "address name v = name @ '':'' @ itoa (first_port v)"

lemma first_ports [simp]:
  "first_port (agent_service cr s) = agentPort" "first_port (pg_service cr headless s) = pgPort"
  "first_port (temporal_service cr s) = temporalFrontendPort" "first_port (render_service cr s) = renderPort"
  "first_port (mcp_service cr) = mcpServerPort"
  by (simp_all add: first_port_def agent_service_def pg_service_def temporal_service_def render_service_def mcp_service_def)

lemma pod_in_sel [simp]:
  "nt_namespace (pod_in cr l t) = p_namespace cr" "nt_nsLabels (pod_in cr l t) = l"
  "nt_labels (pod_in cr l t) = pt_labels t"
  by (simp_all add: pod_in_def)

lemma app_of_labels [simp]: "map_of (pgLabels n) ''app'' = None"
  by (simp add: pgLabels_def)

lemma resource_names:
  "n @ ''-openshift-sre-agent'' = agentResourceName n" "n @ ''-openshiftpulse'' = uiResourceName n"
  by (simp_all add: agentResourceName_def uiResourceName_def)

text \<open>The value of a variable of a container.\<close>

definition env_of :: "env_var list \<Rightarrow> string \<Rightarrow> env_source option" where
  "env_of es = map_of (map (\<lambda>e. (ev_name e, ev_source e)) es)"

lemma env_of_simps [simp]:
  "env_of [] x = None" "env_of (e # es) x = (if x = ev_name e then Some (ev_source e) else env_of es x)"
  "env_of (es @ fs) x = (case env_of es x of None \<Rightarrow> env_of fs x | Some v \<Rightarrow> Some v)"
  by (simp_all add: env_of_def map_add_def split: option.split)

lemma env_of_if [simp]: "env_of (if b then es else fs) x = (if b then env_of es x else env_of fs x)"
  by simp

lemma env_var_sel [simp]:
  "ev_name (env_value n v) = n" "ev_source (env_value n v) = EnvValue v"
  "ev_name (env_secret n a b) = n" "ev_source (env_secret n a b) = EnvSecretKey a b"
  by (simp_all add: env_value_def env_secret_def)

lemma ai_env_names:
  "x \<notin> {''ANTHROPIC_VERTEX_PROJECT_ID'', ''CLOUD_ML_REGION'', ''GOOGLE_APPLICATION_CREDENTIALS'', ''ANTHROPIC_API_KEY''} \<Longrightarrow>
     env_of (ai_env cr) x = None"
  by (auto simp: ai_env_def split: option.split)

lemma agent_env_urls:
  "env_of (agent_env cr info) ''PULSE_MCP_URL'' =
     (if mc_enabled (ag_mcp (agent_of cr)) then Some (EnvValue (MCPServiceURL (p_name cr) (p_namespace cr))) else None)"
  "env_of (agent_env cr info) ''PULSE_AGENT_TEMPORAL_HOST'' =
     (if temporalEnabled cr then Some (EnvValue (TemporalHostFor (p_name cr))) else None)"
  "env_of (agent_env cr info) ''PULSE_AGENT_RENDER_URL'' =
     (if renderEnabled cr then Some (EnvValue (RenderServiceURL (p_name cr))) else None)"
  by (simp_all add: agent_env_def Let_def ai_env_names)


text \<open>
  C35: The pods of the agent and of the UI are fenced: their policies select the pods the operator
  describes for them, the agent's port is reachable from the UI pod of the instance and from the
  user-workload monitoring namespace only, and the UI pod only through the router on 8443 and, when
  rendering is enabled, from the render pod on the render listener: never on its plain port 8080.
\<close>

theorem agent_and_ui_are_fenced:
  "let agent = de_template (buildDeploymentSpec E h cr info); ui = de_template (ui_mutate E cr info h d)
   in np_selects (agent_np cr np) (pt_labels agent) \<and> np_selects (ui_np cr np) (pt_labels ui) \<and>
   (ingress_admits (p_namespace cr) (agent_np cr np) p proto port \<longleftrightarrow>
      proto = ''TCP'' \<and> port = 8080 \<and>
      (nt_namespace p = p_namespace cr \<and> map_of (nt_labels p) ''app'' = Some (uiResourceName (p_name cr)) \<or>
       map_of (nt_nsLabels p) ''kubernetes.io/metadata.name'' = Some ''openshift-user-workload-monitoring'')) \<and>
   (ingress_admits (p_namespace cr) (ui_np cr np) p proto port \<longleftrightarrow>
      proto = ''TCP'' \<and>
      (port = 8443 \<and> (map_of (nt_nsLabels p) ''network.openshift.io/policy-group'' = Some ''ingress'' \<or>
                      map_of (nt_nsLabels p) ''policy-group.network.openshift.io/host-network'' = Some '''') \<or>
       port = uiRenderPort \<and> renderEnabled cr \<and> nt_namespace p = p_namespace cr \<and>
       map_of (nt_labels p) ''app'' = Some (renderResourceName (p_name cr)))) \<and>
   \<not> ingress_admits (p_namespace cr) (ui_np cr np) p proto uiHTTPPort"
  by (auto simp: agent_np_def ui_np_def ui_ingress_def np_semantics uiResourceName_def agentResourceName_def uiRenderPort_def uiHTTPPort_def Let_def)


section \<open>Addresses\<close>

definition pod_env :: "pod_template \<Rightarrow> env_var list" where
  "pod_env t = concat (map co_env (po_containers (pt_spec t)))"

lemma pod_envs [simp]:
  "pod_env (de_template (buildDeploymentSpec E h cr info)) = agent_env cr info"
  "pod_env (de_template (temporal_mutate E cr h d)) = temporal_env cr"
  "pod_env (de_template (temporal_ui_mutate E cr d)) = co_env (temporal_ui_container E cr)"
  "pod_env (de_template (render_mutate E cr d)) = co_env (render_container E cr)"
  by (simp_all add: pod_env_def buildDeploymentSpec_def agent_pod_def agent_container_def temporal_mutate_def temporal_container_def
      temporal_ui_mutate_def render_mutate_def Let_def)

lemma in_text_lines: "l \<in> set ls \<Longrightarrow> sublist l (text_lines ls)"
proof (induction ls)
  case (Cons a ls)
  then show ?case
    by (auto simp: text_lines_def intro: sublist_appendI [of _ "[]", simplified] dest: sublist_order.order_trans [OF _ sublist_append_leftI])
qed simp

lemma nginx_names_the_agent: "sublist (''proxy_pass http://'' @ agentSvc @ '':8080/;'') (nginx_conf agentSvc token static renderServer)"
proof -
  let ?l = "''      proxy_pass http://'' @ agentSvc @ '':8080/;''"
  have "sublist ?l (nginx_conf agentSvc token static renderServer)"
    unfolding nginx_conf_def by (rule in_text_lines) simp
  moreover have "sublist (''proxy_pass http://'' @ agentSvc @ '':8080/;'') ?l"
    using sublist_append_leftI [of "''proxy_pass http://'' @ agentSvc @ '':8080/;''" "''      ''"] by simp
  ultimately show ?thesis by (meson sublist_order.order_trans)
qed

lemma database_url: "yields (\<lambda>(url, d). url = '''' \<or> (\<exists>pw. url = pg_url pw (pgName (p_name cr)))) (reconcilePostgres E cr)"
  unfolding reconcilePostgres_def Let_def by (intro yields_rules) auto

lemma digits [simp]: "itoa pgPort = ''5432''" "itoa agentPort = ''8080''"
  by (simp_all add: pgPort_def agentPort_def itoa_def nat_digits.simps digit_char_def char_of_def bit_0)

text \<open>The keys some run of an action writes or deletes.\<close>

definition changes :: "('w, 'a) action \<Rightarrow> okey set" where
  "changes m =
     {k. \<exists>s xs c. os_log (snd (run_state m s)) = os_log s @ xs \<and> c \<in> set xs \<and> (write_key c = Some k \<or> delete_key c = Some k)}"

lemma changes_within:
  assumes "touches ws ds m"
  shows "changes m \<subseteq> ws \<union> ds"
proof
  fix k assume "k \<in> changes m"
  then obtain s xs c where log: "os_log (snd (run_state m s)) = os_log s @ xs" and c: "c \<in> set xs" "write_key c = Some k \<or> delete_key c = Some k"
    unfolding changes_def by blast
  from assms log have "list_all (within ws ds) xs"
    unfolding steps_def emitted_def by (metis same_append_eq)
  with c show "k \<in> ws \<union> ds" by (auto simp: list_all_iff within_def)
qed

lemma changes_create_or_update: "changes (create_or_update E x f) = {o_key x}"
  unfolding changes_def create_or_update_def call_api_def by (auto split: prod.split)

lemma services_written:
  "changes (reconcilePGService E cr n hl) = {key KService (p_namespace cr) n}"
  "changes (reconcileRenderService E cr) = {key KService (p_namespace cr) (renderResourceName (p_name cr))}"
  "changes (reconcileTemporalService E cr) = {key KService (p_namespace cr) (temporalResourceName (p_name cr))}"
  "changes (reconcileUIService E cr) = {key KService (p_namespace cr) (uiResourceName (p_name cr))}"
  "changes (reconcileService E cr) = {key KService (p_namespace cr) (agentResourceName (p_name cr))}"
  by (simp_all add: reconcilePGService_def reconcileRenderService_def reconcileTemporalService_def apply_service_def
      reconcileUIService_def reconcileService_def Let_def changes_create_or_update)

lemma mcp_service_written: "changes (reconcileMCPService E cr) \<subseteq> {key KService (p_namespace cr) (mcpResourceName (p_name cr))}"
proof -
  have "touches {key KService (p_namespace cr) (mcpResourceName (p_name cr))} {} (reconcileMCPService E cr)"
    unfolding reconcileMCPService_def Let_def by (intro allc.rules) (auto simp: set_controller_Inr)
  then show ?thesis using changes_within by fastforce
qed


section \<open>One writer per object\<close>

fun pairwise_disjoint :: "'a set list \<Rightarrow> bool" where
  "pairwise_disjoint [] \<longleftrightarrow> True"
| "pairwise_disjoint (A # As) \<longleftrightarrow> list_all (\<lambda>B. A \<inter> B = {}) As \<and> pairwise_disjoint As"

lemma pairwise_disjoint_mono:
  "list_all2 (\<subseteq>) As Bs \<Longrightarrow> pairwise_disjoint Bs \<Longrightarrow> pairwise_disjoint As"
proof (induction rule: list_all2_induct)
  case (Cons A As B Bs)
  from Cons.hyps(2) Cons.prems Cons.hyps(1) have "list_all (\<lambda>A'. A \<inter> A' = {}) As"
    by (fastforce simp: list_all_iff list_all2_conv_all_nth in_set_conv_nth)
  with Cons show ?case by simp
qed simp

text \<open>The keys of the contracts of the components, in the order the pass runs them.\<close>

definition component_keys :: "pulse \<Rightarrow> okey set list" where
  "component_keys cr =
     [pg_writes cr \<union> pg_deletes cr, render_objects cr, agent_writes cr \<union> agent_deletes cr, np_writes cr, pdb_keys cr,
      monitoring_writes cr, mcp_writes cr \<union> mcp_stale cr \<union> mcp_removes cr, temporal_objects cr, ui_writes cr \<union> ui_deletes cr]"

lemma component_keys_disjoint: "pairwise_disjoint (component_keys cr)"
  unfolding component_keys_def
  by (simp add: pg_writes_def render_objects_def render_owned_def agent_writes_def np_writes_def pdb_keys_def
      monitoring_writes_def mcp_writes_def temporal_objects_def ui_writes_def pg_deletes_def agent_deletes_def mcp_stale_def mcp_removes_def
      mcp_owned_def ui_deletes_def Let_def agentResourceName_def memoryPVCName_def
      wsTokenSecretName_def uiResourceName_def uiOAuthSecretsName_def uiNginxSecretName_def uiServiceCABundleName_def
      mcpResourceName_def mcpConfigName_def temporalResourceName_def temporalNetworkPolicyName_def temporalUIName_def
      renderResourceName_def renderTokenSecretName_def pgName_def pgAuthSecretName_def pgVolumeName_def
      agentClusterRoleName_def agentMonitoringViewBindingName_def uiClusterRoleNameUnqualified_def uiClusterRoleName_def
      mcpClusterRoleName_def oauthClientName_def prometheusRuleName_def)

text \<open>
  C34: No two components work on the same object: an object that some run of one of the nine
  component reconcilers of a pass writes or deletes, from whatever state and whatever the cluster answers,
  is written or deleted by no run of another, whatever the name and the namespace of the instance.
  Components that can be switched off count with their removal.
\<close>

theorem components_are_disjoint:
  "pairwise_disjoint
     [changes (reconcilePostgres E cr), changes (reconcileRender E cr), changes (reconcileAgent E url cr),
      changes (reconcileNetworkPolicies E cr), changes (reconcileUIPodsDisruptionBudget E cr), changes (reconcileMonitoring E cr),
      changes (reconcileMCP E cr) \<union> changes (removeMCP E cr), changes (reconcileTemporal E cr) \<union> changes (removeTemporal E cr),
      changes (reconcileUI E cr)]"
  by (rule pairwise_disjoint_mono [OF _ component_keys_disjoint [of cr]])
     (auto simp: component_keys_def dest!: changes_within [OF pg.footprint, THEN subsetD] changes_within [OF render.footprint, THEN subsetD]
       changes_within [OF agent.footprint, THEN subsetD] changes_within [OF netpol.footprint, THEN subsetD]
       changes_within [OF pdb.footprint, THEN subsetD] changes_within [OF monitoring.footprint, THEN subsetD]
       changes_within [OF mcp.footprint, THEN subsetD] changes_within [OF mcp_removal.footprint, THEN subsetD]
       changes_within [OF temporal.footprint, THEN subsetD] changes_within [OF temporal_removal.footprint, THEN subsetD]
       changes_within [OF ui.footprint, THEN subsetD])

end
