(* ===== verification/Supply.thy ===== *)
theory Supply
  imports PassFootprint
begin

text \<open>
  What a workload needs before its pods can start, and a small program logic for the order in which an
  action makes it available. \<open>supplied cr seen xs\<close> judges a log: whenever a Deployment or a
  StatefulSet is written, every object its pods newly refer to (ServiceAccount, Secrets, ConfigMaps,
  volume claims) is in \<open>seen\<close>, the keys that were read or written with success earlier and not deleted
  since. \<open>supplies cr A m K\<close> is a triple: started with \<open>A\<close> available, \<open>m\<close> logs only such calls, and a
  result \<open>r\<close> leaves \<open>K r\<close> available.
\<close>

section \<open>What a workload refers to\<close>

definition volume_refs :: "string \<Rightarrow> volume_source \<Rightarrow> okey list" where
  "volume_refs ns v =
     (case v of VEmptyDir _ \<Rightarrow> [] | VConfigMap n \<Rightarrow> [key KConfigMap ns n] | VSecret n \<Rightarrow> [key KSecret ns n]
      | VClaim n \<Rightarrow> [key KPersistentVolumeClaim ns n])"

definition env_refs :: "string \<Rightarrow> env_var \<Rightarrow> okey list" where
  "env_refs ns e = (case ev_source e of EnvSecretKey n _ \<Rightarrow> [key KSecret ns n] | _ \<Rightarrow> [])"

definition container_refs :: "string \<Rightarrow> container \<Rightarrow> okey list" where
  "container_refs ns c = concat (map (env_refs ns) (co_env c)) @ map (key KSecret ns) (co_envFromSecrets c)"

definition pod_refs :: "string \<Rightarrow> pod_spec \<Rightarrow> okey list" where
  "pod_refs ns ps =
     (if po_serviceAccountName ps = '''' then [] else [key KServiceAccount ns (po_serviceAccountName ps)]) @
     concat (map (volume_refs ns \<circ> snd) (po_volumes ps)) @
     concat (map (container_refs ns) (po_initContainers ps @ po_containers ps))"

text \<open>The references of an object written under a key: only workloads have any.\<close>

definition workload_refs :: "okey \<Rightarrow> kobj \<Rightarrow> okey list" where
  "workload_refs k x =
     (case k_kind k of
        KDeployment \<Rightarrow> pod_refs (k_namespace k) (pt_spec (de_template (as_deployment x)))
      | KStatefulSet \<Rightarrow> pod_refs (k_namespace k) (pt_spec (ss_template (as_stateful_set x)))
      | _ \<Rightarrow> [])"

text \<open>
  The Secrets the user names in the spec are theirs to provide. The serving certificate of the UI is
  issued by OpenShift for the Service that asks for it, so the Service stands for it.
\<close>

definition user_secrets :: "pulse \<Rightarrow> okey set" where
  "user_secrets cr =
     {key KSecret (p_namespace cr) (credential_secret cr),
      key KSecret (p_namespace cr) (case sp_anthropicApiKey (p_spec cr) of None \<Rightarrow> '''' | Some a \<Rightarrow> ak_existingSecret a)}"

definition brought_by :: "pulse \<Rightarrow> okey \<Rightarrow> okey" where
  "brought_by cr k =
     (if k = key KSecret (p_namespace cr) (uiTLSSecretName (p_name cr))
      then key KService (p_namespace cr) (uiResourceName (p_name cr)) else k)"

definition needs :: "pulse \<Rightarrow> okey \<Rightarrow> kobj \<Rightarrow> okey set" where
  "needs cr k x = brought_by cr ` (set (workload_refs k x) - user_secrets cr)"

section \<open>Logs in which nothing is used before it is there\<close>

fun provides :: "call \<Rightarrow> okey set" where
  "provides (CGet k (Inr _)) = {k}"
| "provides (CCreate x (Inr _)) = {o_key x}"
| "provides (CUpdate x (Inr _)) = {o_key x}"
| "provides (CApply x _ (Inr _)) = {o_key x}"
| "provides _ = {}"

definition available :: "okey set \<Rightarrow> call \<Rightarrow> okey set" where
  "available seen c = (seen - {k. delete_key c = Some k}) \<union> provides c"

text \<open>
  A create or an update writes the object it is given. A create-or-update writes what its mutate
  function makes of the object that is there, whose own references are not the operator's concern.
\<close>

definition ready :: "pulse \<Rightarrow> okey set \<Rightarrow> call \<Rightarrow> bool" where
  "ready cr seen c \<longleftrightarrow>
     (case c of
        CCreate x _ \<Rightarrow> needs cr (o_key x) x \<subseteq> seen
      | CUpdate x _ \<Rightarrow> needs cr (o_key x) x \<subseteq> seen
      | CApply x f _ \<Rightarrow> \<forall>y z. f y = Inr z \<longrightarrow> needs cr (o_key x) z \<subseteq> seen \<union> needs cr (o_key x) y
      | _ \<Rightarrow> True)"

fun supplied :: "pulse \<Rightarrow> okey set \<Rightarrow> call list \<Rightarrow> bool" where
  "supplied cr seen [] \<longleftrightarrow> True"
| "supplied cr seen (c # cs) \<longleftrightarrow> ready cr seen c \<and> supplied cr (available seen c) cs"

lemma ready_mono: "ready cr seen c \<Longrightarrow> seen \<subseteq> seen' \<Longrightarrow> ready cr seen' c"
  by (cases c; simp add: ready_def; blast)

lemma available_mono: "seen \<subseteq> seen' \<Longrightarrow> available seen c \<subseteq> available seen' c"
  by (auto simp: available_def)

lemma foldl_available_mono: "seen \<subseteq> seen' \<Longrightarrow> foldl available seen xs \<subseteq> foldl available seen' xs"
  by (induction xs arbitrary: seen seen') (simp_all add: available_mono)

lemma supplied_append:
  "supplied cr seen (xs @ ys) \<longleftrightarrow> supplied cr seen xs \<and> supplied cr (foldl available seen xs) ys"
  by (induction xs arbitrary: seen) auto

lemma supplied_mono: "supplied cr seen xs \<Longrightarrow> seen \<subseteq> seen' \<Longrightarrow> supplied cr seen' xs"
proof (induction xs arbitrary: seen seen')
  case (Cons c cs)
  then show ?case using ready_mono [of cr seen c seen'] available_mono [of seen seen' c] by auto
qed simp

text \<open>Calls that write no workload are always in order, and lose only what they delete.\<close>

definition is_workload :: "okey \<Rightarrow> bool" where
  "is_workload k \<longleftrightarrow> k_kind k = KDeployment \<or> k_kind k = KStatefulSet"

lemma needs_plain [simp]: "\<not> is_workload k \<Longrightarrow> needs cr k x = {}"
  by (auto simp: needs_def workload_refs_def is_workload_def split: kind.split)

lemma supplied_confined:
  assumes "list_all (pass_call ws ds) xs" and "\<And>k. k \<in> ws \<Longrightarrow> \<not> is_workload k" and "A \<inter> ds = {}" and "A \<subseteq> seen"
  shows "supplied cr seen xs \<and> A \<subseteq> foldl available seen xs"
  using assms(1,4)
proof (induction xs arbitrary: seen)
  case Nil
  then show ?case by simp
next
  case (Cons c cs)
  have "ready cr seen c"
    using Cons.prems(1) assms(2) by (cases c) (auto simp: ready_def pass_call_def)
  moreover have "A \<subseteq> available seen c"
    using Cons.prems assms(3) by (cases c) (auto simp: available_def pass_call_def)
  ultimately show ?case using Cons by simp
qed


section \<open>The triples\<close>

definition supplies :: "pulse \<Rightarrow> okey set \<Rightarrow> ('w, 'r) action \<Rightarrow> ('r \<Rightarrow> okey set) \<Rightarrow> bool" where
  "supplies cr A m K \<longleftrightarrow>
     (\<forall>s. \<exists>xs. os_log (snd (run_state m s)) = os_log s @ xs \<and>
        (\<forall>seen. A \<subseteq> seen \<longrightarrow> supplied cr seen xs \<and> K (fst (run_state m s)) \<subseteq> foldl available seen xs))"

text \<open>Nothing is promised of a failed action.\<close>

abbreviation on_ok :: "('a \<Rightarrow> okey set) \<Rightarrow> go_error + 'a \<Rightarrow> okey set" where
  "on_ok K \<equiv> case_sum (\<lambda>_. {}) K"

lemma suppliesI:
  fixes m :: "('w, 'r) action"
  assumes "\<And>s :: 'w op_state. \<exists>xs. os_log (snd (run_state m s)) = os_log s @ xs \<and>
    (\<forall>seen. A \<subseteq> seen \<longrightarrow> supplied cr seen xs \<and> K (fst (run_state m s)) \<subseteq> foldl available seen xs)"
  shows "supplies cr A m K"
  using assms unfolding supplies_def by blast

lemma supplies_weaken:
  assumes "supplies cr A m K" and "A \<subseteq> A'" and "\<And>r. K' r \<subseteq> K r"
  shows "supplies cr A' m K'"
  using assms unfolding supplies_def by (meson order_trans)

lemma supplies_ret: "K x \<subseteq> A \<Longrightarrow> supplies cr A (ret x) K"
  by (auto simp: supplies_def)

lemma supplies_bind:
  fixes m :: "('w, 'r) action" and f :: "'r \<Rightarrow> ('w, 'q) action"
  assumes "supplies cr A m K" and "\<And>r. supplies cr (K r) (f r) L"
  shows "supplies cr A (State_Monad.bind m f) L"
proof (rule suppliesI)
  fix s :: "'w op_state"
  let ?r = "fst (run_state m s)" and ?t = "snd (run_state m s)"
  from assms(1) obtain xs where xs: "os_log ?t = os_log s @ xs"
    "\<And>seen. A \<subseteq> seen \<Longrightarrow> supplied cr seen xs \<and> K ?r \<subseteq> foldl available seen xs"
    unfolding supplies_def by blast
  from assms(2) [of ?r] obtain ys where ys: "os_log (snd (run_state (f ?r) ?t)) = os_log ?t @ ys"
    "\<And>seen. K ?r \<subseteq> seen \<Longrightarrow> supplied cr seen ys \<and> L (fst (run_state (f ?r) ?t)) \<subseteq> foldl available seen ys"
    unfolding supplies_def by blast
  show "\<exists>xs. os_log (snd (run_state (State_Monad.bind m f) s)) = os_log s @ xs \<and>
      (\<forall>seen. A \<subseteq> seen \<longrightarrow> supplied cr seen xs \<and> L (fst (run_state (State_Monad.bind m f) s)) \<subseteq> foldl available seen xs)"
    unfolding run_bind_pair using xs ys
    by (intro exI [of _ "xs @ ys"]) (simp add: supplied_append)
qed

lemma supplies_bindE:
  assumes "supplies cr A m (on_ok K)" and "\<And>x. supplies cr (K x) (f x) (on_ok L)"
  shows "supplies cr A (bindE m f) (on_ok L)"
  unfolding bindE_def
  by (rule supplies_bind [OF assms(1)]) (auto intro: supplies_ret assms(2) split: sum.split)

lemma supplies_wrapE: "supplies cr A m (on_ok K) \<Longrightarrow> supplies cr A (wrapE msg m) (on_ok K)"
  unfolding wrapE_def by (erule supplies_bind) (auto intro: supplies_ret split: sum.split)

lemma supplies_apiE: "supplies cr A m (case_sum (\<lambda>_. {}) K) \<Longrightarrow> supplies cr A (apiE m) (on_ok K)"
  unfolding apiE_def by (erule supplies_bind) (auto intro: supplies_ret split: sum.split)

lemma supplies_voidE: "supplies cr A m (on_ok (\<lambda>_. B)) \<Longrightarrow> supplies cr A (voidE m) (on_ok (\<lambda>_. B))"
  unfolding voidE_def by (rule supplies_bindE) (auto intro: supplies_ret)

lemma supplies_liftE: "(\<And>x. r = Inr x \<Longrightarrow> supplies cr A (f x) (on_ok L)) \<Longrightarrow> supplies cr A (bindE (liftE r) f) (on_ok L)"
  unfolding bindE_def liftE_def by (cases r) (auto simp: supplies_def)

lemma supplies_wrap_liftE:
  "(\<And>x. r = Inr x \<Longrightarrow> supplies cr A (f x) (on_ok L)) \<Longrightarrow> supplies cr A (bindE (wrapE msg (liftE r)) f) (on_ok L)"
  unfolding bindE_def wrapE_def liftE_def by (cases r) (auto simp: supplies_def)

lemma supplies_if: "(b \<Longrightarrow> supplies cr A m K) \<Longrightarrow> (\<not> b \<Longrightarrow> supplies cr A n K) \<Longrightarrow> supplies cr A (if b then m else n) K"
  by simp

lemma supplies_sum:
  "(\<And>e. r = Inl e \<Longrightarrow> supplies cr A (f e) K) \<Longrightarrow> (\<And>x. r = Inr x \<Longrightarrow> supplies cr A (g x) K) \<Longrightarrow>
     supplies cr A (case r of Inl e \<Rightarrow> f e | Inr x \<Rightarrow> g x) K"
  by (cases r) auto

lemma supplies_option:
  "(r = None \<Longrightarrow> supplies cr A m K) \<Longrightarrow> (\<And>x. r = Some x \<Longrightarrow> supplies cr A (g x) K) \<Longrightarrow>
     supplies cr A (case r of None \<Rightarrow> m | Some x \<Rightarrow> g x) K"
  by (cases r) auto

lemma supplies_prod: "(\<And>x y. r = (x, y) \<Longrightarrow> supplies cr A (f x y) K) \<Longrightarrow> supplies cr A (case r of (x, y) \<Rightarrow> f x y) K"
  by (cases r) auto

section \<open>The calls\<close>

lemma supplies_get_bind:
  fixes f :: "api_error + kobj \<Rightarrow> ('w, 'r) action"
  assumes "\<And>e. supplies cr A (f (Inl e)) K" and "\<And>x. o_key x = k \<Longrightarrow> supplies cr (insert k A) (f (Inr x)) K"
  shows "supplies cr A (State_Monad.bind (api_get E k) f) K"
proof (rule suppliesI)
  fix s :: "'w op_state"
  define r where "r = fst (fetch E k (os_world s))"
  define t where "t = s\<lparr>os_world := snd (fetch E k (os_world s)), os_log := os_log s @ [CGet k r]\<rparr>"
  have run: "run_state (State_Monad.bind (api_get E k) f) s = run_state (f r) t"
    by (simp add: client_defs t_def r_def)
  have "supplies cr (provides (CGet k r) \<union> A) (f r) K"
  proof (cases r)
    case (Inl e)
    then show ?thesis using assms(1) [of e] by simp
  next
    case (Inr x)
    then show ?thesis using assms(2) [OF fetch_key [OF Inr [unfolded r_def]]] by simp
  qed
  then obtain xs where "os_log (snd (run_state (f r) t)) = os_log t @ xs"
    "\<And>seen. provides (CGet k r) \<union> A \<subseteq> seen \<Longrightarrow> supplied cr seen xs \<and> K (fst (run_state (f r) t)) \<subseteq> foldl available seen xs"
    unfolding supplies_def by blast
  then show "\<exists>xs. os_log (snd (run_state (State_Monad.bind (api_get E k) f) s)) = os_log s @ xs \<and>
      (\<forall>seen. A \<subseteq> seen \<longrightarrow> supplied cr seen xs \<and> K (fst (run_state (State_Monad.bind (api_get E k) f) s)) \<subseteq> foldl available seen xs)"
    unfolding run by (intro exI [of _ "CGet k r # xs"]) (auto simp: t_def ready_def available_def)
qed

lemma supplies_call:
  assumes "\<And>r. ready cr A (mk r)" and "\<And>r. K r \<subseteq> available A (mk r)"
  shows "supplies cr A (call_api f mk) K"
proof (rule suppliesI, intro exI conjI allI impI)
  fix s :: "'b op_state" and seen
  let ?r = "fst (f (os_world s))"
  show "os_log (snd (run_state (call_api f mk) s)) = os_log s @ [mk ?r]"
    by simp
  assume "A \<subseteq> seen"
  then show "supplied cr seen [mk ?r]" and "K (fst (run_state (call_api f mk) s)) \<subseteq> foldl available seen [mk ?r]"
    using ready_mono [OF assms(1)] available_mono [of A seen "mk ?r"] assms(2) [of ?r] by auto
qed

lemma supplies_create:
  assumes "needs cr (o_key x) x \<subseteq> A"
  shows "supplies cr A (apiE (api_create E x)) (on_ok (\<lambda>_. insert (o_key x) A))"
  unfolding api_create_def
  by (intro supplies_apiE supplies_call) (use assms in \<open>auto simp: ready_def available_def split: sum.split\<close>)

lemma supplies_update:
  assumes "needs cr (o_key x) x \<subseteq> A"
  shows "supplies cr A (apiE (api_update E x)) (on_ok (\<lambda>_. insert (o_key x) A))"
  unfolding api_update_def
  by (intro supplies_apiE supplies_call) (use assms in \<open>auto simp: ready_def available_def split: sum.split\<close>)

lemma supplies_apply:
  assumes "\<And>y z. f y = Inr z \<Longrightarrow> needs cr (o_key x) z \<subseteq> A \<union> needs cr (o_key x) y"
  shows "supplies cr A (create_or_update E x f) (on_ok (\<lambda>_. insert (o_key x) A))"
  unfolding create_or_update_def
proof (rule supplies_call)
  show "ready cr A (CApply x f r)" for r
    using assms by (simp add: ready_def)
  show "on_ok (\<lambda>_. insert (o_key x) A) r \<subseteq> available A (CApply x f r)" for r
    by (cases r) (auto simp: available_def)
qed

lemma supplies_confined:
  assumes "confined ws ds m" and "\<And>k. k \<in> ws \<Longrightarrow> \<not> is_workload k" and "A \<inter> ds = {}"
  shows "supplies cr A m (\<lambda>_. A)"
proof -
  have "\<exists>xs. os_log (snd (run_state m s)) = os_log s @ xs \<and> list_all (pass_call ws ds) xs" for s
    using assms(1) unfolding steps_def emitted_def by blast
  then show ?thesis
    unfolding supplies_def using supplied_confined [OF _ assms(2,3)] by meson
qed

lemma supplies_quiet:
  "touches ws ds m \<Longrightarrow> (\<And>k. k \<in> ws \<Longrightarrow> \<not> is_workload k) \<Longrightarrow> A \<inter> ds = {} \<Longrightarrow> supplies cr A m (\<lambda>_. A)"
  by (rule supplies_confined [OF confined_touches [OF _ subset_refl subset_refl]])

lemma supplies_quietE:
  "touches ws ds m \<Longrightarrow> (\<And>k. k \<in> ws \<Longrightarrow> \<not> is_workload k) \<Longrightarrow> A \<inter> ds = {} \<Longrightarrow> supplies cr A m (on_ok (\<lambda>_. A))"
  by (rule supplies_weaken [OF supplies_quiet]) (auto split: sum.split)

text \<open>Lists of steps.\<close>

lemma supplies_step:
  assumes "supplies cr A a (on_ok (\<lambda>_. B))" and "supplies cr B (run_steps xs) (on_ok K)"
  shows "supplies cr A (run_steps ((n, a) # xs)) (on_ok K)"
  using assms(2) by (simp, intro supplies_bindE [OF supplies_wrapE [OF assms(1)]])

lemma supplies_no_step: "K () \<subseteq> A \<Longrightarrow> supplies cr A (run_steps []) (on_ok K)"
  by (simp add: supplies_ret)

lemma supplies_run_all:
  "(\<And>a. a \<in> set as \<Longrightarrow> supplies cr A a (on_ok (\<lambda>_. A))) \<Longrightarrow> supplies cr A (run_all as) (on_ok (\<lambda>_. A))"
  by (induction as) (auto intro!: supplies_ret supplies_bindE)

end
