(* ===== verification/PassOrder.thy ===== *)
theory PassOrder
  imports Supply
begin

text \<open>
  The order of a pass, judged by what the pods it starts refer to: the triples of \<open>Supply\<close> for the
  operations of the components and, put together through the contract \<open>supplier\<close>, for a whole pass.
\<close>

section \<open>What the workloads refer to\<close>

lemma refs_of_kinds [simp]:
  "workload_refs (key KDeployment ns n) x = pod_refs ns (pt_spec (de_template (as_deployment x)))"
  "workload_refs (key KStatefulSet ns n) x = pod_refs ns (pt_spec (ss_template (as_stateful_set x)))"
  by (simp_all add: workload_refs_def)

lemma is_workload_kinds [simp]:
  "is_workload (key kd ns n) \<longleftrightarrow> kd = KDeployment \<or> kd = KStatefulSet"
  by (simp add: is_workload_def)

lemma needs_subset:
  assumes "set (workload_refs k x) \<subseteq> R \<union> set (workload_refs k y) \<union> user_secrets cr" and "brought_by cr ` R \<subseteq> A"
  shows "needs cr k x \<subseteq> A \<union> needs cr k y"
  using assms unfolding needs_def by blast

lemma needs_all:
  assumes "set (workload_refs k x) \<subseteq> R \<union> user_secrets cr" and "brought_by cr ` R \<subseteq> A"
  shows "needs cr k x \<subseteq> A"
  using assms unfolding needs_def by blast

lemma brought_by_other [simp]: "k_name k \<noteq> uiTLSSecretName (p_name cr) \<Longrightarrow> brought_by cr k = k"
  by (auto simp: brought_by_def)

definition agent_refs :: "pulse \<Rightarrow> okey set" where
  "agent_refs cr =
     (let n = p_name cr; ns = p_namespace cr in
      {key KServiceAccount ns (agentResourceName n), key KPersistentVolumeClaim ns (memoryPVCName n),
       key KSecret ns (wsTokenSecretName n)} \<union>
      (if databaseEnabled cr then {key KSecret ns (n @ ''-postgresql'')} else {}) \<union>
      (if renderEnabled cr then {key KSecret ns (renderTokenSecretName n)} else {}))"

definition pg_refs :: "pulse \<Rightarrow> okey set" where
  "pg_refs cr = {key KConfigMap (p_namespace cr) (p_name cr @ ''-pg-start''), key KSecret (p_namespace cr) (pgAuthSecretName (p_name cr))}"

definition ui_refs :: "pulse \<Rightarrow> okey set" where
  "ui_refs cr =
     (let n = p_name cr; ns = p_namespace cr in
      {key KServiceAccount ns (uiResourceName n), key KSecret ns (uiNginxSecretName n),
       key KConfigMap ns (uiServiceCABundleName n), key KSecret ns (uiTLSSecretName n), key KSecret ns (uiOAuthSecretsName n)})"

definition mcp_refs :: "pulse \<Rightarrow> okey set" where
  "mcp_refs cr =
     {key KServiceAccount (p_namespace cr) (mcpResourceName (p_name cr)),
      key KConfigMap (p_namespace cr) (mcpConfigName (p_name cr))}"

lemmas ref_defs = pod_refs_def container_refs_def env_refs_def volume_refs_def

lemma env_refs_simps [simp]:
  "env_refs ns (env_value n v) = []" "env_refs ns (env_secret n s f) = [key KSecret ns s]"
  by (simp_all add: env_refs_def env_value_def env_secret_def)

lemma ai_env_refs: "set (concat (map (env_refs (p_namespace cr)) (ai_env cr))) \<subseteq> user_secrets cr"
  by (auto simp: ai_env_def user_secrets_def split: option.splits if_splits)

lemma agent_env_refs:
  "set (concat (map (env_refs (p_namespace cr)) (agent_env cr info))) \<subseteq> agent_refs cr \<union> user_secrets cr"
  using ai_env_refs [of cr] by (auto simp: agent_env_def agent_refs_def Let_def split: if_splits)

lemma agent_pod_refs:
  "set (pod_refs (p_namespace cr) (agent_pod E cr info)) \<subseteq> agent_refs cr \<union> user_secrets cr"
  using agent_env_refs [of cr info]
  by (auto simp: pod_refs_def container_refs_def volume_refs_def agent_pod_def agent_container_def container0_def pod_spec0_def
      agent_refs_def Let_def user_secrets_def split: if_splits)

lemma pg_pod_refs:
  "set (pod_refs (p_namespace cr) (pt_spec (pg_template cr (pgAuthSecretName (p_name cr)) img h))) \<subseteq> pg_refs cr"
  by (auto simp: ref_defs pg_template_def pg_container_def container0_def pod_spec0_def pg_refs_def)

lemma ui_pod_refs:
  "set (pod_refs (p_namespace cr) (pt_spec (ui_template E cr info h))) \<subseteq> ui_refs cr"
  by (auto simp: ref_defs ui_template_def ui_volumes_def ui_container_def oauth_proxy_container_def container0_def pod_spec0_def ui_refs_def Let_def)

lemma temporal_pod_refs:
  "set (pod_refs (p_namespace cr) (pt_spec (de_template (temporal_mutate E cr h d)))) \<subseteq>
     {key KSecret (p_namespace cr) (pgAuthSecretName (p_name cr))} \<union> set (pod_refs (p_namespace cr) (pt_spec (de_template d)))"
  by (auto simp: ref_defs temporal_mutate_def temporal_init_def temporal_container_def temporal_env_def container0_def
      pgAuthSecretName_def env_value_def env_secret_def Let_def)

lemma temporal_ui_pod_refs:
  "set (pod_refs (p_namespace cr) (pt_spec (de_template (temporal_ui_mutate E cr d)))) \<subseteq>
     set (pod_refs (p_namespace cr) (pt_spec (de_template d)))"
  by (auto simp: ref_defs temporal_ui_mutate_def temporal_ui_container_def container0_def env_value_def Let_def)

lemma render_pod_refs:
  "set (pod_refs (p_namespace cr) (pt_spec (de_template (render_mutate E cr d)))) \<subseteq>
     {key KSecret (p_namespace cr) (renderTokenSecretName (p_name cr))} \<union> set (pod_refs (p_namespace cr) (pt_spec (de_template d)))"
  by (auto simp: ref_defs render_mutate_def render_container_def container0_def env_value_def env_secret_def Let_def)

lemma mcp_pod_refs:
  "set (pod_refs (p_namespace cr) (pt_spec (de_template (mcp_mutate E cr h d)))) \<subseteq>
     mcp_refs cr \<union> set (pod_refs (p_namespace cr) (pt_spec (de_template d)))"
  by (auto simp: ref_defs mcp_mutate_def mcp_container_def container0_def mcp_refs_def Let_def)


lemma pin_image_refs: "pod_refs ns (pt_spec (de_template (pin_image c old d))) = pod_refs ns (pt_spec (de_template d))"
  by (auto simp: pin_image_def pod_refs_def container_refs_def split: list.split)

lemma updated_agent_refs:
  "set (pod_refs (p_namespace cr) (pt_spec (de_template (as_deployment (updated_agent E h cr info c x))))) \<subseteq>
     agent_refs cr \<union> user_secrets cr"
  using agent_pod_refs [of cr E info]
  by (simp add: updated_agent_def Let_def pin_image_refs replace_spec_def buildDeploymentSpec_def)

section \<open>The operations that write a workload\<close>

text \<open>Setting the owner changes neither key nor body.\<close>

lemma set_controller_body: "set_controller E cr x = Inr y \<Longrightarrow> o_body y = o_body x"
  by (auto simp: set_controller_def split: sum.splits)

lemma as_same_body:
  "o_body y = o_body x \<Longrightarrow> as_deployment y = as_deployment x" "o_body y = o_body x \<Longrightarrow> as_stateful_set y = as_stateful_set x"
  by (simp_all add: as_deployment_def as_stateful_set_def)

lemma needs_same_body:
  assumes "o_body y = o_body x"
  shows "needs cr k y = needs cr k x"
  unfolding needs_def workload_refs_def as_same_body(1) [OF assms] as_same_body(2) [OF assms] ..

lemma supplies_apply_deployment:
  assumes "\<And>d. set (pod_refs (p_namespace cr) (pt_spec (de_template (f d)))) \<subseteq>
      R \<union> set (pod_refs (p_namespace cr) (pt_spec (de_template d)))"
    and "brought_by cr ` R \<subseteq> A"
  shows "supplies cr A (apply_deployment E cr name f) (on_ok (\<lambda>_. A))"
  unfolding apply_deployment_def
proof (rule supplies_weaken [OF supplies_apply])
  show "needs cr (o_key (new_obj (key KDeployment (p_namespace cr) name) (BDeployment deployment0))) z \<subseteq>
      A \<union> needs cr (o_key (new_obj (key KDeployment (p_namespace cr) name) (BDeployment deployment0))) y"
    if z: "owned_by E cr (\<lambda>y. Inr (y\<lparr>o_body := BDeployment (f (as_deployment y))\<rparr>)) y = Inr z" for y z
  proof (rule needs_subset [OF _ assms(2)])
    from z obtain x where x: "set_controller E cr y = Inr x" "z = x\<lparr>o_body := BDeployment (f (as_deployment x))\<rparr>"
      by (auto simp: owned_by_Inr)
    then show "set (workload_refs (o_key (new_obj (key KDeployment (p_namespace cr) name) (BDeployment deployment0))) z) \<subseteq>
        R \<union> set (workload_refs (o_key (new_obj (key KDeployment (p_namespace cr) name) (BDeployment deployment0))) y) \<union>
        user_secrets cr"
      using assms(1) [of "as_deployment y"] as_same_body(1) [OF set_controller_body [OF x(1)]] by auto
  qed
qed (auto split: sum.split)

lemma supplies_create_owned:
  assumes "set_controller E cr x = Inr y" and "needs cr (o_key x) x \<subseteq> A"
  shows "supplies cr A (voidE (apiE (api_create E y))) (on_ok (\<lambda>_. insert (o_key x) A))"
proof -
  have "needs cr (o_key y) y \<subseteq> A"
    using assms(2) by (simp add: set_controller_key [OF assms(1)] needs_same_body [OF set_controller_body [OF assms(1)]])
  from supplies_create [OF this] show ?thesis
    unfolding voidE_def set_controller_key [OF assms(1), symmetric] by (rule supplies_bindE) (simp add: supplies_ret)
qed

lemma supplies_create_if_missing:
  assumes "\<And>e. supplies cr A (create e) (on_ok (\<lambda>_. insert k A))"
  shows "supplies cr A (create_if_missing E k create) (on_ok (\<lambda>_. insert k A))"
  unfolding create_if_missing_def by (intro supplies_get_bind) (auto intro: supplies_ret assms)

text \<open>An action that touches no workload and deletes nothing that is available.\<close>

lemma supplies_tokens:
  "supplies cr A (generateToken E) (on_ok (\<lambda>_. A))" "supplies cr A (generatePassword E n) (on_ok (\<lambda>_. A))"
  "supplies cr A (generateCookieSecret E) (on_ok (\<lambda>_. A))"
  by (rule supplies_quietE [OF touches_tokens(1) [of "{}" "{}"]] supplies_quietE [OF touches_tokens(2) [of "{}" "{}"]]
      supplies_quietE [OF touches_tokens(3) [of "{}" "{}"]]; simp)+


section \<open>PostgreSQL\<close>

text \<open>What a finished database leaves for the others: its credentials and the connection Secret.\<close>

definition pg_gives :: "pulse \<Rightarrow> string \<times> int \<Rightarrow> okey set" where
  "pg_gives cr r =
     (if snd r > 0 then {}
      else {key KSecret (p_namespace cr) (pgAuthSecretName (p_name cr)), key KSecret (p_namespace cr) (p_name cr @ ''-postgresql'')})"

lemma brought_by_pg [simp]: "brought_by cr ` pg_refs cr = pg_refs cr"
  by (simp add: pg_refs_def uiTLSSecretName_def pgAuthSecretName_def)

lemma supplies_pg_start: "supplies cr {} (reconcilePGStartScripts E cr)
    (on_ok (\<lambda>_. {key KConfigMap (p_namespace cr) (p_name cr @ ''-pg-start'')}))"
  unfolding reconcilePGStartScripts_def
  by (rule supplies_weaken [OF supplies_apply]) (auto split: sum.split)

lemma supplies_pg_secret:
  "supplies cr A (reconcilePGSecret E cr name) (on_ok (\<lambda>_. insert (key KSecret (p_namespace cr) name) A))"
proof -
  let ?k = "key KSecret (p_namespace cr) name"
  have new: "supplies cr A (bindE (wrapE ''generate password'' (generatePassword E 24)) (\<lambda>password.
      bindE (apiE (api_create E (new_pg_secret cr name password))) (\<lambda>_. ok password))) (on_ok (\<lambda>_. insert ?k A))"
    by (rule supplies_bindE [OF supplies_wrapE [OF supplies_tokens(2)]], rule supplies_bindE [OF supplies_create])
       (simp_all add: new_pg_secret_def supplies_ret)
  have migrate: "supplies cr (insert ?k A) (bindE (wrapE ''migrate pg-auth secret keys'' (apiE (api_update E (x\<lparr>o_body := b\<rparr>))))
      (\<lambda>_. ok pw)) (on_ok (\<lambda>_. insert ?k A))" if "o_key x = ?k" for x :: kobj and b pw
    by (rule supplies_bindE [OF supplies_wrapE [OF supplies_update]]) (simp_all add: that supplies_ret)
  show ?thesis
    unfolding reconcilePGSecret_def Let_def
    by (rule supplies_get_bind) (auto intro!: new migrate supplies_ret split: option.split)
qed

lemma pg_set_template_refs:
  "set (pod_refs (p_namespace cr) (pt_spec (ss_template (pg_set_template cr (pgAuthSecretName (p_name cr)) img h fresh ss)))) \<subseteq>
     pg_refs cr \<union> (if fresh then {} else set (pod_refs (p_namespace cr) (pt_spec (ss_template ss))))"
  using pg_pod_refs [of cr img h] by (auto simp: pg_set_template_def)

lemma pg_mutate_refs:
  assumes "pg_mutate E cr stsName (pgAuthSecretName (p_name cr)) img h qty y = Inr z"
  shows "set (pod_refs (p_namespace cr) (pt_spec (ss_template (as_stateful_set z)))) \<subseteq>
    pg_refs cr \<union> set (pod_refs (p_namespace cr) (pt_spec (ss_template (as_stateful_set y))))"
proof -
  define x where "x = projr (set_controller E cr (y\<lparr>o_labels := pgLabels (p_name cr)\<rparr>))"
  from assms have own: "set_controller E cr (y\<lparr>o_labels := pgLabels (p_name cr)\<rparr>) = Inr x"
    by (auto simp: pg_mutate_def owned_by_Inr x_def)
  with assms obtain ss where x:
    "as_stateful_set z = pg_set_template cr (pgAuthSecretName (p_name cr)) img h (o_creationTimestamp x = None) ss"
    "o_creationTimestamp x \<noteq> None \<Longrightarrow> ss = as_stateful_set x"
    by (cases qty; cases "o_creationTimestamp x") (auto simp: pg_mutate_def owned_by_def Let_def)
  have "as_stateful_set x = as_stateful_set y"
    by (rule as_same_body(2)) (use set_controller_body [OF own] in simp)
  then show ?thesis
    using pg_set_template_refs [of cr img h "o_creationTimestamp x = None" ss] x by (auto split: if_splits)
qed

lemma touches_expandPGVolume:
  "touches {key KPersistentVolumeClaim (p_namespace cr) (pgVolumeName n)} {} (expandPGVolume E cr n w)"
  unfolding expandPGVolume_def Let_def by (intro allc.rules; simp add: resized_def Let_def)

lemma supplies_pg_sts:
  "supplies cr (pg_refs cr) (reconcilePGStatefulSet E cr (pgName (p_name cr)) (pgAuthSecretName (p_name cr)))
     (on_ok (\<lambda>_. pg_refs cr))"
proof -
  let ?A = "pg_refs cr"
  let ?auth = "pgAuthSecretName (p_name cr)"
  have existing: "supplies cr ?A (pg_existing E cr (pgName (p_name cr)) img) (on_ok (\<lambda>_. ?A))" for img
    by (rule supplies_quietE [of "{}" "pg_deletes cr"])
       (auto simp: pg_refs_def pg_existing_def guardPGMajorVersion_def pg_deletes_def Let_def intro!: allc.rules)
  have hash: "supplies cr ?A (pgCredentialHash E (p_namespace cr) ?auth) (\<lambda>_. ?A)"
    unfolding pgCredentialHash_def by (intro supplies_get_bind supplies_ret) auto
  have vol: "supplies cr ?A (expandPGVolume E cr n w) (on_ok (\<lambda>_. ?A))" for n w
    by (rule supplies_quietE [OF touches_expandPGVolume]) (auto simp: pg_refs_def)
  have sts: "supplies cr ?A (create_or_update E (new_obj (key KStatefulSet (p_namespace cr) n) (BStatefulSet stateful_set0))
      (pg_mutate E cr n ?auth img h qty)) (on_ok (\<lambda>_. ?A))" for n img h qty
    by (rule supplies_weaken [OF supplies_apply], rule needs_subset [of _ _ "pg_refs cr"])
       (auto dest!: pg_mutate_refs split: sum.split)
  have warn: "supplies cr ?A (recordEvent E a b c) (\<lambda>_. ?A)" for a b c
    by (rule supplies_quiet [OF allc.e_state_ops(5)]) auto
  show ?thesis
    unfolding reconcilePGStatefulSet_def Let_def
    by (intro supplies_bind [OF hash] supplies_bindE [OF existing] supplies_bindE [OF sts] supplies_bindE [OF vol]
        supplies_bind [OF warn] supplies_sum supplies_ret) auto
qed

lemma supplies_conn_secret:
  "supplies cr A (reconcile_conn_secret E cr url) (on_ok (\<lambda>_. insert (key KSecret (p_namespace cr) (p_name cr @ ''-postgresql'')) A))"
proof -
  let ?k = "key KSecret (p_namespace cr) (p_name cr @ ''-postgresql'')"
  have new: "supplies cr A (bindE (wrapE m (liftE (set_controller E cr (new_conn_secret cr url))))
      (\<lambda>x. voidE (wrapE m' (apiE (api_create E x))))) (on_ok (\<lambda>_. insert ?k A))" for m m'
  proof (rule supplies_wrap_liftE, intro supplies_voidE supplies_wrapE)
    fix x assume "set_controller E cr (new_conn_secret cr url) = Inr x"
    then have "o_key x = ?k" by (simp add: set_controller_key new_conn_secret_def)
    then show "supplies cr A (apiE (api_create E x)) (on_ok (\<lambda>_. insert ?k A))"
      using supplies_create [of cr x A E] by simp
  qed
  have change: "supplies cr (insert ?k A) (voidE (wrapE m (apiE (api_update E (x\<lparr>o_body := b\<rparr>))))) (on_ok (\<lambda>_. insert ?k A))"
    if "o_key x = ?k" for x :: kobj and b m
    using supplies_update [of cr "x\<lparr>o_body := b\<rparr>" "insert ?k A" E] that by (intro supplies_voidE supplies_wrapE) simp
  show ?thesis
    unfolding reconcile_conn_secret_def
    by (rule supplies_get_bind) (auto intro!: new change supplies_ret)
qed

lemma supplies_postgres: "supplies cr {} (reconcilePostgres E cr) (on_ok (pg_gives cr))"
proof -
  let ?auth = "key KSecret (p_namespace cr) (pgAuthSecretName (p_name cr))"
  have secret: "supplies cr {key KConfigMap (p_namespace cr) (p_name cr @ ''-pg-start'')}
      (reconcilePGSecret E cr (pgAuthSecretName (p_name cr))) (on_ok (\<lambda>_. pg_refs cr))"
    by (rule supplies_weaken [OF supplies_pg_secret [of _ "{key KConfigMap (p_namespace cr) (p_name cr @ ''-pg-start'')}"]])
       (auto simp: pg_refs_def split: sum.split)
  have pod: "supplies cr (pg_refs cr) (deletePendingPGPodIfStale E cr (pgName (p_name cr))) (\<lambda>_. {?auth})"
  proof (rule supplies_weaken [OF supplies_quiet [of _ _ _ "{?auth}"]])
    show "touches {} {key KPod (p_namespace cr) (pgName (p_name cr) @ ''-0'')} (deletePendingPGPodIfStale E cr (pgName (p_name cr)))"
      unfolding deletePendingPGPodIfStale_def Let_def by (intro allc.rules; simp)
  qed (auto simp: pg_refs_def)
  have service: "supplies cr {?auth} (reconcilePGService E cr n h) (on_ok (\<lambda>_. {?auth}))" for n h
  proof (rule supplies_quietE)
    show "touches {key KService (p_namespace cr) n} {} (reconcilePGService E cr n h)"
      unfolding reconcilePGService_def by (intro allc.rules; simp)
  qed auto
  show ?thesis
    unfolding reconcilePostgres_def Let_def
    by (rule supplies_bindE [OF supplies_wrapE [OF supplies_pg_start]], rule supplies_bindE [OF supplies_wrapE [OF secret]],
        rule supplies_bindE [OF supplies_wrapE [OF supplies_pg_sts]], rule supplies_if, simp add: supplies_ret pg_gives_def,
        rule supplies_bind [OF pod], rule supplies_bindE [OF supplies_wrapE [OF service]],
        rule supplies_bindE [OF supplies_wrapE [OF service]], rule supplies_bindE [OF supplies_conn_secret])
       (auto simp: pg_gives_def intro!: supplies_ret)
qed


section \<open>The render service\<close>

definition render_gives :: "pulse \<Rightarrow> okey set" where
  "render_gives cr = (if renderEnabled cr then {key KSecret (p_namespace cr) (renderTokenSecretName (p_name cr))} else {})"

lemma supplies_token_secret:
  "supplies cr A (create_if_missing E k (\<lambda>_. bindE (generateToken E) (\<lambda>token.
      bindE (liftE (set_controller E cr (new_obj k (f token)))) (\<lambda>desired. voidE (apiE (api_create E desired))))))
     (on_ok (\<lambda>_. insert k A))" if "\<not> is_workload k"
proof (rule supplies_create_if_missing, rule supplies_bindE [OF supplies_tokens(1)], rule supplies_liftE)
  fix token y assume y: "set_controller E cr (new_obj k (f token)) = Inr y"
  show "supplies cr A (voidE (apiE (api_create E y))) (on_ok (\<lambda>_. insert k A))"
    using supplies_create_owned [OF y, of A] that by simp
qed

lemma touches_render_rest:
  "touches {key KService (p_namespace cr) (renderResourceName (p_name cr)),
            key KNetworkPolicy (p_namespace cr) (renderResourceName (p_name cr))} {} (reconcileRenderService E cr)"
  "touches {key KService (p_namespace cr) (renderResourceName (p_name cr)),
            key KNetworkPolicy (p_namespace cr) (renderResourceName (p_name cr))} {} (reconcileRenderNetworkPolicy E cr)"
  unfolding render_parts_defs by (intro allc.rules; simp)+

lemma supplies_render:
  assumes "A \<inter> render_objects cr = {}"
  shows "supplies cr A (reconcileRender E cr) (on_ok (\<lambda>_. A \<union> render_gives cr))"
proof (cases "renderEnabled cr")
  case False
  have "touches {} (render_objects cr) (removeRender E cr)"
    unfolding removeRender_def
    by (rule allc.s_run_all) (auto simp: render_objects_def intro!: allc.s_wrapE touches_mono [OF touches_deleteOwned])
  from supplies_quietE [OF this _ assms] False show ?thesis
    by (simp add: reconcileRender_def render_gives_def)
next
  case True
  let ?k = "key KSecret (p_namespace cr) (renderTokenSecretName (p_name cr))"
  have token: "supplies cr A (reconcileRenderToken E cr) (on_ok (\<lambda>_. insert ?k A))"
    unfolding reconcileRenderToken_def Let_def by (rule supplies_token_secret) simp
  have deploy: "supplies cr (insert ?k A) (reconcileRenderDeployment E cr) (on_ok (\<lambda>_. insert ?k A))"
    unfolding reconcileRenderDeployment_def
    by (rule supplies_apply_deployment [OF render_pod_refs]) (simp add: renderTokenSecretName_def uiTLSSecretName_def)
  have rest: "supplies cr (insert ?k A) (reconcileRenderService E cr) (on_ok (\<lambda>_. insert ?k A))"
    "supplies cr (insert ?k A) (reconcileRenderNetworkPolicy E cr) (on_ok (\<lambda>_. insert ?k A))"
    by (rule supplies_quietE [OF touches_render_rest(1)] supplies_quietE [OF touches_render_rest(2)]; auto)+
  show ?thesis
    using True unfolding reconcileRender_def render_gives_def
    by (simp del: run_steps.simps, intro supplies_step [OF token] supplies_step [OF deploy] supplies_step [OF rest(1)]
        supplies_step [OF rest(2)] supplies_no_step) simp
qed

section \<open>The agent\<close>

lemma touches_agent_quiet:
  "touches (agent_writes cr - {key KDeployment (p_namespace cr) (agentResourceName (p_name cr))}) (agent_deletes cr)
     (reconcileClusterRole E cr)"
  "touches (agent_writes cr - {key KDeployment (p_namespace cr) (agentResourceName (p_name cr))}) (agent_deletes cr)
     (reconcileClusterRoleBinding E cr)"
  "touches (agent_writes cr - {key KDeployment (p_namespace cr) (agentResourceName (p_name cr))}) (agent_deletes cr)
     (reconcileAgentMonitoringViewBinding E cr)"
  "touches (agent_writes cr - {key KDeployment (p_namespace cr) (agentResourceName (p_name cr))}) (agent_deletes cr)
     (reconcileService E cr)"
  unfolding agent_parts_defs Let_def
  by (intro allc.rules touches_mono [OF touches_deleteStale]; auto simp: agent_writes_def agent_deletes_def Let_def)+

lemma quiet_agent_writes:
  "k \<in> agent_writes cr - {key KDeployment (p_namespace cr) (agentResourceName (p_name cr))} \<Longrightarrow> \<not> is_workload k"
  by (auto simp: agent_writes_def Let_def)

lemma supplies_agent_quiet:
  assumes "A \<inter> agent_deletes cr = {}"
  shows "supplies cr A (reconcileClusterRole E cr) (on_ok (\<lambda>_. A))"
    "supplies cr A (reconcileClusterRoleBinding E cr) (on_ok (\<lambda>_. A))"
    "supplies cr A (reconcileAgentMonitoringViewBinding E cr) (on_ok (\<lambda>_. A))"
    "supplies cr A (reconcileService E cr) (on_ok (\<lambda>_. A))"
  by (rule supplies_quietE, rule touches_agent_quiet, erule quiet_agent_writes, rule assms)+

lemma supplies_agent_parts:
  "supplies cr A (reconcileServiceAccount E cr) (on_ok (\<lambda>_. insert (key KServiceAccount (p_namespace cr) (agentResourceName (p_name cr))) A))"
  "supplies cr A (reconcileWSTokenSecret E cr) (on_ok (\<lambda>_. insert (key KSecret (p_namespace cr) (wsTokenSecretName (p_name cr))) A))"
  "supplies cr A (reconcileMemoryPVC E cr) (on_ok (\<lambda>_. insert (key KPersistentVolumeClaim (p_namespace cr) (memoryPVCName (p_name cr))) A))"
proof -
  let ?sa = "key KServiceAccount (p_namespace cr) (agentResourceName (p_name cr))"
  show "supplies cr A (reconcileServiceAccount E cr) (on_ok (\<lambda>_. insert ?sa A))"
    unfolding reconcileServiceAccount_def Let_def
  proof (rule supplies_liftE, rule supplies_create_if_missing)
    fix e y assume y: "set_controller E cr (new_obj ?sa BNone) = Inr y"
    show "supplies cr A (voidE (apiE (api_create E y))) (on_ok (\<lambda>_. insert ?sa A))"
      using supplies_create_owned [OF y, of A] by simp
  qed
  show "supplies cr A (reconcileWSTokenSecret E cr) (on_ok (\<lambda>_. insert (key KSecret (p_namespace cr) (wsTokenSecretName (p_name cr))) A))"
    unfolding reconcileWSTokenSecret_def Let_def by (rule supplies_token_secret) simp
  let ?pvc = "key KPersistentVolumeClaim (p_namespace cr) (memoryPVCName (p_name cr))"
  show "supplies cr A (reconcileMemoryPVC E cr) (on_ok (\<lambda>_. insert ?pvc A))"
    unfolding reconcileMemoryPVC_def Let_def
  proof (rule supplies_create_if_missing, rule supplies_liftE)
    fix e y assume y: "set_controller E cr (new_obj ?pvc (BPVC (pvc0\<lparr>pv_accessModes := [''ReadWriteOnce''],
      pv_requests := Some [(''storage'', ''1Gi'')]\<rparr>))) = Inr y"
    show "supplies cr A (voidE (apiE (api_create E y))) (on_ok (\<lambda>_. insert ?pvc A))"
      using supplies_create_owned [OF y, of A] by simp
  qed
qed


lemma supplies_gates:
  "supplies cr A (DetectClusterInfo E) (\<lambda>_. A)" "supplies cr A (version_gates E cr) (\<lambda>_. A)"
  by (rule supplies_quiet [OF touches_DetectClusterInfo [of "{}" "{}"]] supplies_quiet [OF touches_version_gates [of "{}" "{}"]]; simp)+

lemma brought_by_agent [simp]: "brought_by cr ` agent_refs cr = agent_refs cr"
proof -
  have "brought_by cr k = k" if "k \<in> agent_refs cr" for k
    using that by (auto simp: agent_refs_def Let_def uiTLSSecretName_def agentResourceName_def memoryPVCName_def
        wsTokenSecretName_def renderTokenSecretName_def split: if_splits)
  then show ?thesis by force
qed

lemma supplies_apply_agent:
  fixes E :: "'w env"
  assumes "agent_refs cr \<subseteq> A" and "A \<inter> agent_deletes cr = {}"
  shows "supplies cr A (apply_agent E h cr info compatible) (on_ok (\<lambda>_. A))"
proof -
  let ?k = "key KDeployment (p_namespace cr) (agentResourceName (p_name cr))"
  have create: "supplies cr A (bindE (liftE (set_controller E cr (new_obj ?k (BDeployment (buildDeploymentSpec E h cr info)))))
      (\<lambda>x. bindE (apiE (api_create E x)) (\<lambda>_. ok 0))) (on_ok (\<lambda>_. A))"
  proof (rule supplies_liftE)
    fix x assume x: "set_controller E cr (new_obj ?k (BDeployment (buildDeploymentSpec E h cr info))) = Inr x"
    have "needs cr ?k x \<subseteq> A"
      unfolding needs_same_body [OF set_controller_body [OF x]]
      by (rule needs_all [of _ _ "agent_refs cr"]) (use agent_pod_refs [of cr E info] assms in \<open>simp_all add: buildDeploymentSpec_def Let_def\<close>)
    then show "supplies cr A (bindE (apiE (api_create E x)) (\<lambda>_. ok 0)) (on_ok (\<lambda>_. A))"
      using set_controller_key [OF x] by (intro supplies_bindE [OF supplies_create]) (auto intro: supplies_ret)
  qed
  have update: "supplies cr (insert ?k A) (bindE (liftE (set_controller E cr (updated_agent E h cr info compatible y)))
      (\<lambda>x. bindE (apiE (api_update E x)) (\<lambda>_. ok 0))) (on_ok (\<lambda>_. A))" if y: "o_key y = ?k" for y
  proof (rule supplies_liftE)
    fix x assume x: "set_controller E cr (updated_agent E h cr info compatible y) = Inr x"
    have "needs cr ?k x \<subseteq> insert ?k A"
      unfolding needs_same_body [OF set_controller_body [OF x]]
      by (rule needs_all [of _ _ "agent_refs cr"]) (use updated_agent_refs [of cr E h info compatible y] assms in auto)
    then show "supplies cr (insert ?k A) (bindE (apiE (api_update E x)) (\<lambda>_. ok 0)) (on_ok (\<lambda>_. A))"
      using set_controller_key [OF x] y by (intro supplies_bindE [OF supplies_update]) (auto intro: supplies_ret)
  qed
  have recreate: "supplies cr (insert ?k A) (State_Monad.bind (api_delete E ?k) f) (on_ok (\<lambda>_. A))"
    if "\<And>d. supplies cr A (f d) (on_ok (\<lambda>_. A))" for f :: "api_error + unit \<Rightarrow> ('w, int) fallible"
  proof (rule supplies_bind [OF supplies_weaken [OF supplies_quiet [of "{}" "{?k}" _ A]]])
    show "touches {} {?k} (api_delete E ?k)" by (intro allc.rules) simp
    show "A \<inter> {?k} = {}" using assms(2) by (auto simp: agent_deletes_def)
  qed (use that in auto)
  have say: "supplies cr A (recordEvent E a b c) (\<lambda>_. A)" "supplies cr A (inc_self_heal a b) (\<lambda>_. A)" for a b c
    by (rule supplies_quiet [of "{}" "{}", OF allc.e_state_ops(5)] supplies_quiet [of "{}" "{}", OF allc.e_state_ops(6)]; simp)+
  show ?thesis
    unfolding apply_agent_def Let_def
    by (rule supplies_get_bind)
       (auto intro!: create update recreate supplies_ret supplies_bind [OF say(1)] supplies_bind [OF say(2)] split: option.split)
qed

text \<open>What the agent's pass starts from, and what is left of it.\<close>

lemma supplies_agent_pass:
  fixes A :: "okey set"
  assumes "A \<inter> agent_deletes cr = {}" and "agent_refs cr \<subseteq> A \<union> {key KServiceAccount (p_namespace cr) (agentResourceName (p_name cr)),
      key KSecret (p_namespace cr) (wsTokenSecretName (p_name cr)), key KPersistentVolumeClaim (p_namespace cr) (memoryPVCName (p_name cr))}"
  shows "supplies cr A (agent_pass E h cr) (on_ok (\<lambda>_. A))"
proof -
  let ?sa = "key KServiceAccount (p_namespace cr) (agentResourceName (p_name cr))"
  let ?ws = "key KSecret (p_namespace cr) (wsTokenSecretName (p_name cr))"
  let ?pvc = "key KPersistentVolumeClaim (p_namespace cr) (memoryPVCName (p_name cr))"
  let ?B = "insert ?pvc (insert ?ws (insert ?sa A))"
  have sa: "insert ?sa A \<inter> agent_deletes cr = {}" and B: "?B \<inter> agent_deletes cr = {}" "agent_refs cr \<subseteq> ?B"
    using assms by (auto simp: agent_deletes_def)
  have steps: "supplies cr A (run_steps (agent_steps E cr)) (on_ok (\<lambda>_. ?B))"
    unfolding agent_steps_def
    by (rule supplies_step [OF supplies_agent_parts(1)], rule supplies_step [OF supplies_agent_quiet(1) [OF sa]],
        rule supplies_step [OF supplies_agent_quiet(2) [OF sa]], rule supplies_step [OF supplies_agent_quiet(3) [OF sa]],
        rule supplies_step [OF supplies_agent_parts(2)], rule supplies_step [OF supplies_agent_parts(3)], rule supplies_no_step) simp
  have deploy: "supplies cr ?B (reconcileDeployment E h cr) (on_ok (\<lambda>_. ?B))"
    unfolding reconcileDeployment_def by (intro supplies_bind [OF supplies_gates(1)] supplies_bind [OF supplies_gates(2)] supplies_apply_agent B)
  show ?thesis
    unfolding agent_pass_def
    by (rule supplies_bindE [OF steps], rule supplies_bindE [OF supplies_wrapE [OF deploy]], rule supplies_if)
       (auto intro!: supplies_ret supplies_bindE [OF supplies_wrapE [OF supplies_agent_quiet(4) [OF B(1)]]])
qed


section \<open>MCP server and Temporal\<close>

lemma mcp_name_ok [simp]: "brought_by cr ` mcp_refs cr = mcp_refs cr"
  by (simp add: mcp_refs_def mcpResourceName_def mcpConfigName_def uiTLSSecretName_def)

lemma touches_mcp_quiet:
  "touches (mcp_writes cr - {key KDeployment (p_namespace cr) (mcpResourceName (p_name cr))}) (mcp_stale cr) (reconcileMCPClusterRole E cr)"
  "touches (mcp_writes cr - {key KDeployment (p_namespace cr) (mcpResourceName (p_name cr))}) (mcp_stale cr) (reconcileMCPClusterRoleBinding E cr)"
  "touches (mcp_writes cr - {key KDeployment (p_namespace cr) (mcpResourceName (p_name cr))}) (mcp_stale cr) (reconcileMCPService E cr)"
  "touches (mcp_writes cr - {key KDeployment (p_namespace cr) (mcpResourceName (p_name cr))}) (mcp_stale cr) (reconcileMCPNetworkPolicy E cr)"
  unfolding mcp_parts_defs Let_def
  by (intro allc.rules touches_mono [OF touches_deleteStale]; auto simp: mcp_writes_def mcp_stale_def Let_def dest!: set_controller_key)+

lemma quiet_mcp_writes:
  "k \<in> mcp_writes cr - {key KDeployment (p_namespace cr) (mcpResourceName (p_name cr))} \<Longrightarrow> \<not> is_workload k"
  by (auto simp: mcp_writes_def Let_def)

lemma supplies_mcp_quiet:
  assumes "A \<inter> mcp_stale cr = {}"
  shows "supplies cr A (reconcileMCPClusterRole E cr) (on_ok (\<lambda>_. A))"
    "supplies cr A (reconcileMCPClusterRoleBinding E cr) (on_ok (\<lambda>_. A))"
    "supplies cr A (reconcileMCPService E cr) (on_ok (\<lambda>_. A))"
    "supplies cr A (reconcileMCPNetworkPolicy E cr) (on_ok (\<lambda>_. A))"
  by (rule supplies_quietE, rule touches_mcp_quiet, erule quiet_mcp_writes, rule assms)+

lemma supplies_mcp:
  assumes "A \<inter> mcp_stale cr = {}"
  shows "supplies cr A (reconcileMCP E cr) (on_ok (\<lambda>_. A))"
proof -
  let ?sa = "key KServiceAccount (p_namespace cr) (mcpResourceName (p_name cr))"
  let ?cm = "key KConfigMap (p_namespace cr) (mcpConfigName (p_name cr))"
  let ?B = "insert ?cm (insert ?sa A)"
  have A: "insert ?sa A \<inter> mcp_stale cr = {}" "?B \<inter> mcp_stale cr = {}"
    using assms by (auto simp: mcp_stale_def)
  have sa: "supplies cr A (reconcileMCPServiceAccount E cr) (on_ok (\<lambda>_. insert ?sa A))"
    unfolding reconcileMCPServiceAccount_def by (rule supplies_weaken [OF supplies_apply]) (auto split: sum.split)
  have config: "supplies cr (insert ?sa A) (reconcileMCPConfig E cr) (on_ok (\<lambda>_. ?B))"
    unfolding reconcileMCPConfig_def by (rule supplies_bindE [OF supplies_apply]) (auto intro: supplies_ret)
  have deploy: "supplies cr ?B (reconcileMCPDeployment E cr h) (on_ok (\<lambda>_. ?B))" for h
    unfolding reconcileMCPDeployment_def
    by (rule supplies_apply_deployment [OF mcp_pod_refs]) (simp add: mcp_refs_def [of cr, symmetric], simp add: mcp_refs_def)
  show ?thesis
    unfolding reconcileMCP_def
    by (rule supplies_if, simp add: supplies_ret, rule supplies_bindE, rule supplies_step [OF sa],
        rule supplies_step [OF supplies_mcp_quiet(1) [OF A(1)]], rule supplies_step [OF supplies_mcp_quiet(2) [OF A(1)]],
        rule supplies_no_step, rule subset_refl, rule supplies_bindE [OF supplies_wrapE [OF config]], rule supplies_step [OF deploy],
        rule supplies_step [OF supplies_mcp_quiet(3) [OF A(2)]], rule supplies_step [OF supplies_mcp_quiet(4) [OF A(2)]],
        rule supplies_no_step) auto
qed

lemma supplies_temporal:
  assumes "key KSecret (p_namespace cr) (pgAuthSecretName (p_name cr)) \<in> A"
  shows "supplies cr A (reconcileTemporal E cr) (on_ok (\<lambda>_. A))"
proof -
  have services: "supplies cr A (apply_service E cr n f) (on_ok (\<lambda>_. A))" for n f
    unfolding apply_service_def by (rule supplies_weaken [OF supplies_apply]) (auto split: sum.split)
  have np: "supplies cr A (reconcileTemporalNetworkPolicy E cr) (on_ok (\<lambda>_. A))"
    unfolding reconcileTemporalNetworkPolicy_def apply_np_def by (rule supplies_weaken [OF supplies_apply]) (auto split: sum.split)
  have server: "supplies cr B (apply_deployment E cr n (temporal_mutate E cr h)) (on_ok (\<lambda>_. A))" if "A \<subseteq> B" for B n h
    by (rule supplies_weaken [OF supplies_apply_deployment [OF temporal_pod_refs, of cr B]])
       (use assms that in \<open>auto simp: pgAuthSecretName_def uiTLSSecretName_def split: sum.split\<close>)
  have web: "supplies cr A (apply_deployment E cr n (temporal_ui_mutate E cr)) (on_ok (\<lambda>_. A))" for n
    by (rule supplies_apply_deployment [of cr _ "{}"]) (use temporal_ui_pod_refs in auto)
  have deploy: "supplies cr A (reconcileTemporalDeployment E cr) (on_ok (\<lambda>_. A))"
    unfolding reconcileTemporalDeployment_def Let_def by (rule supplies_get_bind) (auto intro!: server)
  show ?thesis
    unfolding reconcileTemporal_def reconcileTemporalService_def reconcileTemporalUI_def Let_def
    by (intro supplies_if supplies_ret; simp del: run_steps.simps)
       (auto simp del: run_steps.simps intro!: supplies_step [OF deploy] supplies_step [OF services] supplies_step [OF np]
         supplies_step [OF supplies_bindE [OF web services]] supplies_no_step)
qed


section \<open>The UI\<close>

definition ui_quiet :: "pulse \<Rightarrow> okey set" where
  "ui_quiet cr = ui_writes cr - {key KDeployment (p_namespace cr) (uiResourceName (p_name cr))}"

lemma quiet_ui_writes: "k \<in> ui_quiet cr \<Longrightarrow> \<not> is_workload k"
  by (auto simp: ui_quiet_def ui_writes_def Let_def)

lemma touches_ui_quiet:
  "touches (ui_quiet cr) (ui_deletes cr) (reconcileUIClusterRole E cr)"
  "touches (ui_quiet cr) (ui_deletes cr) (reconcileUIClusterRoleBinding E cr)"
  "touches (ui_quiet cr) (ui_deletes cr) (reconcileUIAuthDelegatorBinding E cr)"
  "touches (ui_quiet cr) (ui_deletes cr) (reconcileUIRoute E cr info)"
  "touches (ui_quiet cr) (ui_deletes cr) (finish_ui E cr host)"
  unfolding ui_parts_defs ui_rest_defs finish_ui_def Let_def
  by (intro allc.rules touches_mono [OF touches_deleteStale];
      auto simp: ui_quiet_def ui_writes_def ui_deletes_def Let_def dest!: set_controller_key)+

lemma supplies_ui_quiet:
  assumes "A \<inter> ui_deletes cr = {}"
  shows "supplies cr A (reconcileUIClusterRole E cr) (on_ok (\<lambda>_. A))"
    "supplies cr A (reconcileUIClusterRoleBinding E cr) (on_ok (\<lambda>_. A))"
    "supplies cr A (reconcileUIAuthDelegatorBinding E cr) (on_ok (\<lambda>_. A))"
    "supplies cr A (reconcileUIRoute E cr info) (on_ok (\<lambda>_. A))"
    "supplies cr A (finish_ui E cr host) (on_ok (\<lambda>_. A))"
  by (rule supplies_quietE, rule touches_ui_quiet, erule quiet_ui_writes, rule assms)+

lemma supplies_ui_sa:
  "supplies cr A (reconcileUIServiceAccount E cr) (on_ok (\<lambda>_. insert (key KServiceAccount (p_namespace cr) (uiResourceName (p_name cr))) A))"
proof -
  let ?k = "key KServiceAccount (p_namespace cr) (uiResourceName (p_name cr))"
  have change: "supplies cr (insert ?k A) (voidE (apiE (api_update E x))) (on_ok (\<lambda>_. insert ?k A))" if "o_key x = ?k" for x
    using supplies_update [of cr x "insert ?k A" E] that by (intro supplies_voidE) simp
  show ?thesis
    unfolding reconcileUIServiceAccount_def Let_def
  proof (rule supplies_liftE, rule supplies_get_bind)
    fix y e assume y: "set_controller E cr ((new_obj ?k BNone)\<lparr>o_annotations := [(redirectAnnotation, redirect_ref (uiResourceName (p_name cr)))]\<rparr>) = Inr y"
    show "supplies cr A (case Inl e of Inl e \<Rightarrow> if is_not_found e then voidE (apiE (api_create E y)) else fail (Api e) | Inr existing \<Rightarrow>
        voidE (apiE (api_update E (existing\<lparr>o_annotations := sput redirectAnnotation (redirect_ref (uiResourceName (p_name cr))) (o_annotations existing)\<rparr>))))
        (on_ok (\<lambda>_. insert ?k A))"
      using supplies_create_owned [OF y, of A] by (simp add: supplies_ret)
  qed (simp add: change)
qed

lemma supplies_ui_oauth:
  "supplies cr A (reconcileUIOAuthSecrets E cr) (on_ok (\<lambda>_. insert (key KSecret (p_namespace cr) (uiOAuthSecretsName (p_name cr))) A))"
proof -
  let ?k = "key KSecret (p_namespace cr) (uiOAuthSecretsName (p_name cr))"
  have say: "supplies cr B (recordEvent E a b c) (\<lambda>_. B)" "supplies cr B (inc_self_heal a b) (\<lambda>_. B)" for a b c B
    by (rule supplies_quiet [of "{}" "{}", OF allc.e_state_ops(5)] supplies_quiet [of "{}" "{}", OF allc.e_state_ops(6)]; simp)+
  have renew: "supplies cr (insert ?k A) (bindE (apiE (api_update E (with_cookie c x)))
      (\<lambda>_. do { recordEvent E a b d; inc_self_heal e f; ok () })) (on_ok (\<lambda>_. insert ?k A))" if "o_key x = ?k" for x a b c d e f
    by (rule supplies_bindE [OF supplies_update])
       (auto simp: that intro!: supplies_bind [OF say(1)] supplies_bind [OF say(2)] supplies_ret)
  have create: "supplies cr A (bindE (liftE (set_controller E cr (new_obj ?k b))) (\<lambda>desired. voidE (apiE (api_create E desired))))
      (on_ok (\<lambda>_. insert ?k A))" for b
  proof (rule supplies_liftE)
    fix y assume y: "set_controller E cr (new_obj ?k b) = Inr y"
    show "supplies cr A (voidE (apiE (api_create E y))) (on_ok (\<lambda>_. insert ?k A))"
      using supplies_create_owned [OF y, of A] by simp
  qed
  show ?thesis
    unfolding reconcileUIOAuthSecrets_def Let_def
    by (rule supplies_get_bind)
       (auto intro!: renew supplies_ret supplies_bindE [OF supplies_wrapE [OF supplies_tokens(2)]]
         supplies_bindE [OF supplies_wrapE [OF supplies_tokens(3)]] create)
qed

lemma supplies_ui_applied:
  "supplies cr A (reconcileUIServiceCABundle E cr) (on_ok (\<lambda>_. insert (key KConfigMap (p_namespace cr) (uiServiceCABundleName (p_name cr))) A))"
  "supplies cr A (reconcileUIService E cr) (on_ok (\<lambda>_. insert (key KService (p_namespace cr) (uiResourceName (p_name cr))) A))"
  unfolding reconcileUIServiceCABundle_def reconcileUIService_def Let_def
  by (rule supplies_weaken [OF supplies_apply]; auto split: sum.split)+

lemma supplies_nginx:
  assumes "A \<inter> ui_deletes cr = {}"
  shows "supplies cr A (reconcileUINginxConfigMap E cr) (on_ok (\<lambda>_. insert (key KSecret (p_namespace cr) (uiNginxSecretName (p_name cr))) A))"
proof -
  let ?k = "key KSecret (p_namespace cr) (uiNginxSecretName (p_name cr))" and ?old = "key KConfigMap (p_namespace cr) (uiNginxSecretName (p_name cr))"
  have token: "supplies cr A (read_ws_token E cr) (\<lambda>_. A)"
    unfolding read_ws_token_def by (intro supplies_get_bind supplies_ret) auto
  have cond: "supplies cr A (setHelmRunnerCondition E cr h) (\<lambda>_. A)" for h
    by (rule supplies_quiet [of "{}" "{}"]) (auto simp: setHelmRunnerCondition_def intro!: allc.rules)
  have stale: "supplies cr (insert ?k A) (api_delete E ?old) (\<lambda>_. insert ?k A)"
    by (rule supplies_quiet [of "{}" "{?old}"]) (use assms in \<open>auto simp: ui_deletes_def Let_def intro!: allc.rules\<close>)
  show ?thesis
    unfolding reconcileUINginxConfigMap_def Let_def
    by (rule supplies_bind [OF token], rule supplies_bind [OF cond], rule supplies_bindE [OF supplies_apply], simp, simp,
        rule supplies_bind [OF stale]) (auto intro: supplies_ret split: sum.split)
qed


lemma supplies_ui_deployment:
  assumes "brought_by cr ` ui_refs cr \<subseteq> A"
  shows "supplies cr A (reconcileUIDeployment E cr info h) (on_ok (\<lambda>_. A))"
  unfolding reconcileUIDeployment_def
  by (rule supplies_apply_deployment [of cr _ "ui_refs cr"]) (use ui_pod_refs [of cr E info h] assms in \<open>auto simp: ui_mutate_def\<close>)

lemma brought_by_ui:
  "brought_by cr ` ui_refs cr =
     {key KServiceAccount (p_namespace cr) (uiResourceName (p_name cr)), key KSecret (p_namespace cr) (uiNginxSecretName (p_name cr)),
      key KConfigMap (p_namespace cr) (uiServiceCABundleName (p_name cr)), key KService (p_namespace cr) (uiResourceName (p_name cr)),
      key KSecret (p_namespace cr) (uiOAuthSecretsName (p_name cr))}"
  by (simp add: ui_refs_def Let_def brought_by_def uiNginxSecretName_def uiServiceCABundleName_def uiTLSSecretName_def
      uiOAuthSecretsName_def uiResourceName_def insert_commute)

lemma supplies_ui: "supplies cr {} (reconcileUI E cr) (on_ok (\<lambda>_. {}))"
proof -
  let ?n = "p_name cr" and ?ns = "p_namespace cr"
  let ?A1 = "{key KServiceAccount ?ns (uiResourceName ?n)}"
  let ?A2 = "insert (key KSecret ?ns (uiOAuthSecretsName ?n)) ?A1"
  let ?A3 = "insert (key KConfigMap ?ns (uiServiceCABundleName ?n)) ?A2"
  let ?A4 = "insert (key KService ?ns (uiResourceName ?n)) ?A3"
  let ?A5 = "insert (key KSecret ?ns (uiNginxSecretName ?n)) ?A4"
  have safe: "?A1 \<inter> ui_deletes cr = {}" "?A4 \<inter> ui_deletes cr = {}" "?A5 \<inter> ui_deletes cr = {}"
    by (simp_all add: ui_deletes_def Let_def uiServiceCABundleName_def uiNginxSecretName_def)
  have steps: "supplies cr {} (run_steps (ui_steps E cr)) (on_ok (\<lambda>_. ?A4))"
    unfolding ui_steps_def
    by (rule supplies_step [OF supplies_ui_sa], rule supplies_step [OF supplies_ui_quiet(1) [OF safe(1)]],
        rule supplies_step [OF supplies_ui_quiet(2) [OF safe(1)]], rule supplies_step [OF supplies_ui_quiet(3) [OF safe(1)]],
        rule supplies_step [OF supplies_ui_oauth], rule supplies_step [OF supplies_ui_applied(1)],
        rule supplies_step [OF supplies_ui_applied(2)], rule supplies_no_step) simp
  have deploy: "supplies cr ?A5 (reconcileUIDeployment E cr info h) (on_ok (\<lambda>_. ?A5))" for info h
    by (rule supplies_ui_deployment) (simp add: brought_by_ui)
  show ?thesis
    unfolding reconcileUI_def
    by (rule supplies_bind [OF supplies_gates(1)], rule supplies_bindE [OF steps],
        rule supplies_bindE [OF supplies_wrapE [OF supplies_nginx [OF safe(2)]]], rule supplies_bindE [OF supplies_wrapE [OF deploy]],
        rule supplies_bindE [OF supplies_wrapE [OF supplies_ui_quiet(4) [OF safe(3)]]])
       (auto intro!: supplies_ret supplies_weaken [OF supplies_ui_quiet(5) [OF safe(3)]] split: sum.split)
qed

section \<open>The whole pass\<close>

lemma supplies_counted: "supplies cr A m (on_ok K) \<Longrightarrow> supplies cr A (counted l msg m) (on_ok K)"
  unfolding counted_def
  by (erule supplies_bind, rule supplies_sum)
     (auto intro!: supplies_ret supplies_bind [OF supplies_quiet [of "{}" "{}", OF allc.e_state_ops(7)]])

text \<open>
  The contract between the root reconciler and the components it calls in this order: what must be
  available before one starts, and what it leaves.
\<close>

locale supplier =
  fixes act :: "'w env \<Rightarrow> pulse \<Rightarrow> ('w, 'a) fallible"
    and before :: "pulse \<Rightarrow> okey set"
    and gives :: "pulse \<Rightarrow> 'a \<Rightarrow> okey set"
  assumes order: "supplies cr (before cr) (act E cr) (on_ok (gives cr))"
begin

lemma in_pass: "supplies cr (before cr) (counted l msg (act E cr)) (on_ok (gives cr))"
  by (rule supplies_counted [OF order])

end

definition secrets_of_pass :: "pulse \<Rightarrow> okey set" where
  "secrets_of_pass cr =
     {key KSecret (p_namespace cr) (pgAuthSecretName (p_name cr)), key KSecret (p_namespace cr) (p_name cr @ ''-postgresql'')}"

lemma supplies_with_event: "supplies cr A m (on_ok K) \<Longrightarrow> supplies cr A (with_event r msg m) (on_ok K)"
  unfolding with_event_def
  by (erule supplies_bind, rule supplies_sum)
     (auto intro!: supplies_ret supplies_bind [OF supplies_quiet [of "{}" "{}", OF allc.e_state_ops(4)]])

interpretation pg_first: supplier
  "\<lambda>E cr. with_event ''ReconcileFailed'' ''PostgreSQL reconcile failed: '' (reconcilePostgres E cr)" "\<lambda>_. {}" pg_gives
  by unfold_locales (intro supplies_with_event supplies_postgres)

interpretation render_second: supplier reconcileRender secrets_of_pass "\<lambda>cr _. secrets_of_pass cr \<union> render_gives cr"
  by unfold_locales
     (rule supplies_render, simp add: secrets_of_pass_def render_objects_def render_owned_def Let_def pgAuthSecretName_def
       renderTokenSecretName_def renderResourceName_def)

interpretation agent_third: supplier
  "\<lambda>E cr. with_event ''ReconcileFailed'' ''Agent reconcile failed: '' (reconcileAgent E url cr)"
  "\<lambda>cr. secrets_of_pass cr \<union> render_gives cr" "\<lambda>cr _. secrets_of_pass cr" for url
proof
  show "supplies cr (secrets_of_pass cr \<union> render_gives cr)
      (with_event ''ReconcileFailed'' ''Agent reconcile failed: '' (reconcileAgent E url cr)) (on_ok (\<lambda>_. secrets_of_pass cr))" for cr E
    unfolding reconcileAgent_def
    by (rule supplies_with_event, rule supplies_weaken [OF supplies_agent_pass [of "secrets_of_pass cr \<union> render_gives cr"]])
       (auto simp: secrets_of_pass_def render_gives_def agent_refs_def agent_deletes_def Let_def split: sum.split)
qed


interpretation ui_last: supplier reconcileUI "\<lambda>_. {}" "\<lambda>_ _. {}"
  by unfold_locales (rule supplies_ui)

lemma pass_secrets_kept:
  "secrets_of_pass cr \<inter> mcp_stale cr = {}" "secrets_of_pass cr \<inter> mcp_removes cr = {}"
  "secrets_of_pass cr \<inter> temporal_objects cr = {}"
  by (auto simp: secrets_of_pass_def mcp_stale_def mcp_removes_def mcp_owned_def temporal_objects_def Let_def)

lemma supplies_operands:
  "supplies cr (secrets_of_pass cr) (run_all (operand_steps E cr)) (on_ok (\<lambda>_. secrets_of_pass cr))"
proof (rule supplies_run_all)
  fix a assume a: "a \<in> set (operand_steps E cr)"
  note quiet = supplies_quietE [of _ _ _ "secrets_of_pass cr" cr]
  have "supplies cr (secrets_of_pass cr) (reconcileNetworkPolicies E cr) (on_ok (\<lambda>_. secrets_of_pass cr))"
    by (rule quiet [OF netpol.footprint]) (auto simp: np_writes_def)
  moreover have "supplies cr (secrets_of_pass cr) (reconcileUIPodsDisruptionBudget E cr) (on_ok (\<lambda>_. secrets_of_pass cr))"
    by (rule quiet [OF pdb.footprint]) (auto simp: pdb_keys_def secrets_of_pass_def)
  moreover have "supplies cr (secrets_of_pass cr) (reconcileMonitoring E cr) (on_ok (\<lambda>_. secrets_of_pass cr))"
    by (rule quiet [OF monitoring.footprint]) (auto simp: monitoring_writes_def)
  moreover have "supplies cr (secrets_of_pass cr) (removeMCP E cr) (on_ok (\<lambda>_. secrets_of_pass cr))"
    by (rule quiet [OF mcp_removal.footprint]) (auto simp: pass_secrets_kept)
  moreover have "supplies cr (secrets_of_pass cr) (removeTemporal E cr) (on_ok (\<lambda>_. secrets_of_pass cr))"
    by (rule quiet [OF temporal_removal.footprint]) (auto simp: pass_secrets_kept)
  ultimately show "supplies cr (secrets_of_pass cr) a (on_ok (\<lambda>_. secrets_of_pass cr))"
    using a supplies_mcp [OF pass_secrets_kept(1), where E = E] supplies_temporal [of cr "secrets_of_pass cr", where E = E]
    unfolding operand_steps_def
    by (auto intro!: supplies_counted supplies_bind [OF supplies_gates(1)] supplies_ret simp: secrets_of_pass_def)
qed

lemma confined_finish: "confined {} {} (sync_status E cr)" "confined {} {} (requeue_installing E d)"
proof -
  have "acts {} {} (sync_status E cr)"
    unfolding sync_status_def counted_def
    by (intro allc.s_bindE allc.s_bind allc.s_if allc.s_sum allc.s_ret allc.e_state_ops acts_updateStatus
        acts_touches [OF touches_metrics(1)] acts_touches [OF touches_finish_steps(1)]
        acts_touches [OF touches_finish_steps(2)] acts_touches [OF touches_finish_steps(3)])
  then show "confined {} {} (sync_status E cr)" by (rule confined_acts) simp
  have "acts {} {} (requeue_installing E d)"
    unfolding requeue_installing_def by (intro allc.s_bind allc.s_ret acts_updateStatus)
  then show "confined {} {} (requeue_installing E d)" by (rule confined_acts) simp
qed

text \<open>A step that touches no workload may come at any point.\<close>

lemma supplies_any:
  assumes "confined {} ds m"
  shows "supplies cr A m (on_ok (\<lambda>_. {}))"
  by (rule supplies_weaken [OF supplies_confined [OF assms, of "{}"]]) (auto split: sum.split)

lemmas supplies_finish = supplies_any [OF confined_finish(1)] supplies_any [OF confined_finish(2)]

lemma pg_gives_done: "\<not> snd r > 0 \<Longrightarrow> pg_gives cr r = secrets_of_pass cr"
  by (simp add: pg_gives_def secrets_of_pass_def)

lemma supplies_accepted: "supplies cr {} (reconcile_accepted E cr) (on_ok (\<lambda>_. {}))"
proof -
  have rest: "supplies cr (secrets_of_pass cr) (bindE (counted ''render'' ''reconcileRender'' (reconcileRender E cr)) (\<lambda>_.
      bindE (counted ''agent'' ''reconcileAgent''
        (with_event ''ReconcileFailed'' ''Agent reconcile failed: '' (reconcileAgent E dbURL cr))) (\<lambda>agentDelay.
      if agentDelay > 0 then requeue_installing E agentDelay
      else bindE (run_all (operand_steps E cr)) (\<lambda>_.
        bindE (counted ''ui'' ''reconcileUI'' (reconcileUI E cr)) (\<lambda>uiDelay.
        if uiDelay > 0 then requeue_installing E uiDelay else sync_status E cr))))) (on_ok (\<lambda>_. {}))" for dbURL
    by (rule supplies_bindE [OF render_second.in_pass], rule supplies_bindE [OF agent_third.in_pass],
        intro supplies_if supplies_finish supplies_bindE [OF supplies_operands]
          supplies_bindE [OF supplies_weaken [OF ui_last.in_pass empty_subsetI subset_refl]])
  show ?thesis
    unfolding reconcile_accepted_def
  proof (rule supplies_bind [OF supplies_quiet [of "{}" "{}", OF touches_warn]])
    show "supplies cr {} (bindE (counted ''postgres'' ''reconcilePostgres''
          (with_event ''ReconcileFailed'' ''PostgreSQL reconcile failed: '' (reconcilePostgres E cr))) (\<lambda>(dbURL, pgDelay).
        if pgDelay > 0 then requeue_installing E pgDelay
        else bindE (counted ''render'' ''reconcileRender'' (reconcileRender E cr)) (\<lambda>_.
          bindE (counted ''agent'' ''reconcileAgent''
            (with_event ''ReconcileFailed'' ''Agent reconcile failed: '' (reconcileAgent E dbURL cr))) (\<lambda>agentDelay.
          if agentDelay > 0 then requeue_installing E agentDelay
          else bindE (run_all (operand_steps E cr)) (\<lambda>_.
            bindE (counted ''ui'' ''reconcileUI'' (reconcileUI E cr)) (\<lambda>uiDelay.
            if uiDelay > 0 then requeue_installing E uiDelay else sync_status E cr)))))) (on_ok (\<lambda>_. {}))" for r :: unit
      using rest pg_gives_done [of "(_, _)" cr]
      by (intro supplies_bindE [OF pg_first.in_pass] supplies_prod supplies_if supplies_finish) simp
  qed simp_all
qed

lemma supplies_pass: "supplies cr {} (pass_of E cr) (on_ok (\<lambda>_. {}))"
proof -
  have reason: "supplies cr {} (rejectionReason E cr) (on_ok (\<lambda>_. {}))"
    by (rule supplies_any [OF confined_touches [OF touches_root(1) [of "{}" "{}"] subset_refl subset_refl]])
  have reject: "supplies cr {} (reject_of E cr r) (on_ok (\<lambda>_. {}))" for r
    unfolding reject_of_def
    by (rule supplies_any [of "cluster_scoped_keys cr"])
       (intro allc.s_bindE allc.s_wrapE allc.s_bind confined_updates confined_touches [OF touches_deleteClusterScopedResources]
         confined_touches [OF touches_root(2) [of "{}" "{}"]]; simp)
  have accept: "supplies cr {} (accept_of E cr) (on_ok (\<lambda>_. {}))"
    unfolding accept_of_def
    by (rule supplies_if, rule supplies_any [of "{}"])
       (intro allc.s_bind allc.s_bindE allc.s_ret allc.e_state_ops confined_updates, rule supplies_accepted)
  show ?thesis
    unfolding pass_of_def live_of_def
    by (intro supplies_if supplies_any [OF confined_handle_deletion] supplies_bindE [OF reason] supplies_bindE [OF reject]
        accept supplies_ret) simp
qed

text \<open>
  C9: A workload is written only once everything its pods newly refer to is there. In every pass, whatever
  the cluster answers, when a Deployment or StatefulSet is created, updated or applied, each
  ServiceAccount, Secret, ConfigMap and volume claim that its pod template refers to, and the one in the
  cluster did not, was read, created, updated or applied with success earlier in the same pass and not
  deleted since; exempt are the Secrets the user names in the spec, and the Service stands for the
  serving certificate it makes OpenShift issue.
\<close>

theorem workloads_start_complete:
  "\<exists>xs. os_log (snd (run_state (ReconcilePulse E ns name) s)) = os_log s @ xs \<and>
     (case fst (e_getPulse E ns name (os_world s)) of
        Inl e \<Rightarrow> xs = [CGetPulse ns name (Inl e)]
      | Inr cr \<Rightarrow> supplied cr {} xs)"
proof (cases "fst (e_getPulse E ns name (os_world s))")
  case (Inl e)
  then show ?thesis by (simp add: ReconcilePulse_def client_defs run_bind_pair del: run_state_bind)
next
  case (Inr cr)
  from supplies_pass [of cr E] obtain ys where
    ys: "os_log (snd (run_state (pass_of E cr) (after_read E ns name cr s))) = os_log s @ CGetPulse ns name (Inr cr) # ys"
      "supplied cr {} ys"
    unfolding supplies_def by (auto dest!: spec [of _ "after_read E ns name cr s"])
  then show ?thesis
    unfolding run_ReconcilePulse [OF Inr] Inr
    by (intro exI [of _ "CGetPulse ns name (Inr cr) # ys"]) (simp add: ready_def available_def)
qed

end
