(* ===== verification/PassCalls.thy ===== *)
theory PassCalls
  imports PassFootprint
begin

text \<open>
  One rule for every property of the calls of a pass: a predicate that holds of reads, of deletions and of
  writes of the custom resource holds of all calls of a pass, if it holds of all calls of each component.
\<close>

text \<open>From the pass to \<open>Reconcile\<close>, which reads the resource first.\<close>

lemma reconcile_log:
  assumes "\<And>r. P (CGetPulse ns name r)" and "\<And>cr. steps (emitted (list_all P)) (pass_of E cr)"
  shows "\<exists>xs. os_log (snd (run_state (ReconcilePulse E ns name) s)) = os_log s @ xs \<and> list_all P xs"
proof (cases "fst (e_getPulse E ns name (os_world s))")
  case (Inl e)
  then show ?thesis using assms(1) by (simp add: ReconcilePulse_def client_defs run_bind_pair del: run_state_bind)
next
  case (Inr cr)
  from pass_appends [OF this assms(2)] obtain ys where
    "os_log (snd (run_state (ReconcilePulse E ns name) s)) = os_log s @ CGetPulse ns name (Inr cr) # ys" "list_all P ys" by blast
  then show ?thesis using assms(1) by (intro exI [of _ "CGetPulse ns name (Inr cr) # ys"]) simp
qed

locale call_property =
  fixes P :: "call \<Rightarrow> bool"
  assumes other_calls: "pass_call {} UNIV c \<Longrightarrow> P c"
begin

abbreviation calls_are :: "('w, 'a) action \<Rightarrow> bool" where
  "calls_are m \<equiv> steps (emitted (list_all P)) m"

text \<open>Actions that write no object.\<close>

lemma confined_calls: "confined {} ds m \<Longrightarrow> calls_are m"
  by (erule emits_mono) (rule other_calls, auto simp: pass_call_def within_def)

lemma quiet_calls: "touches {} ds m \<Longrightarrow> calls_are m"
  by (rule confined_calls [OF confined_touches [OF _ subset_refl subset_refl]])

lemma delete_calls:
  "calls_are (deleteOwned E cr kd n)" "calls_are (deleteOwnedClusterScoped E cr kd n)"
  "calls_are (deleteStaleUnqualifiedClusterScopedResource E cr kd n)"
  by (rule quiet_calls [OF touches_deleteOwned] quiet_calls [OF touches_deleteOwnedClusterScoped] quiet_calls [OF touches_deleteStale])+

lemma token_calls: "calls_are (generateToken E)" "calls_are (generatePassword E n)" "calls_are (generateCookieSecret E)"
  unfolding token_defs by (intro allc.rules)+

lemma gate_calls: "calls_are (DetectClusterInfo E)" "calls_are (version_gates E cr)"
  by (rule quiet_calls [OF touches_DetectClusterInfo [of "{}" "{}"]] quiet_calls [OF touches_version_gates [of "{}" "{}"]])+

text \<open>The root reconciler.\<close>

lemma with_calls:
  "calls_are m \<Longrightarrow> calls_are (counted l msg m)" "calls_are m \<Longrightarrow> calls_are (with_event r msg m)"
  unfolding counted_def with_event_def
  by (rule allc.s_bind, assumption, intro allc.s_bind allc.s_sum allc.s_ret allc.e_state_ops)+

lemma status_calls: "calls_are (updateStatus E)" "calls_are (flushInstallingStatus E)" "calls_are (updatePulse E)"
proof -
  show status: "calls_are (updateStatus E)" and "calls_are (updatePulse E)"
    by (rule confined_calls [of "{}"], rule confined_updates)+
  show "calls_are (flushInstallingStatus E)"
    unfolding flushInstallingStatus_def by (intro allc.s_bind allc.s_ret allc.e_state_ops status)
qed

lemma root_calls:
  "calls_are (read_health E cr)" "calls_are (record_version E cr)" "calls_are (statusPass E h)" "calls_are (warn_no_backend cr)"
  "calls_are (rejectionReason E cr)" "calls_are (reject_effects E reason)" "calls_are (reconcileObservedMemoryMetrics E cr n c b)"
  by (rule quiet_calls, rule touches_finish_steps touches_root touches_metrics)+

lemma accepted_calls:
  assumes "calls_are (reconcilePostgres E cr)" "calls_are (reconcileRender E cr)" "\<And>url. calls_are (reconcileAgent E url cr)"
    "calls_are (reconcileNetworkPolicies E cr)" "calls_are (reconcileUIPodsDisruptionBudget E cr)" "calls_are (reconcileMonitoring E cr)"
    "calls_are (reconcileMCP E cr)" "calls_are (removeMCP E cr)" "calls_are (reconcileTemporal E cr)" "calls_are (removeTemporal E cr)"
    "calls_are (reconcileUI E cr)"
  shows "calls_are (reconcile_accepted E cr)"
proof -
  have "calls_are a" if "a \<in> set (operand_steps E cr)" for a
    using that unfolding operand_steps_def by (auto intro!: with_calls assms allc.s_bind allc.s_ret gate_calls)
  then show ?thesis
    unfolding reconcile_accepted_def requeue_installing_def sync_status_def
    by (intro allc.s_bindE allc.s_bind allc.s_prod allc.s_if allc.s_ret allc.e_state_ops with_calls status_calls root_calls
        allc.s_run_all assms)
qed

lemma pass_calls:
  assumes "calls_are (reconcile_accepted E cr)"
  shows "calls_are (pass_of E cr)"
proof -
  have "calls_are (reject_of E cr reason)" for reason
    unfolding reject_of_def
    by (intro allc.s_bindE allc.s_wrapE allc.s_bind root_calls status_calls quiet_calls [OF touches_deleteClusterScopedResources])
  then show ?thesis
    unfolding pass_of_def live_of_def accept_of_def
    by (intro allc.s_if allc.s_ret allc.s_bindE allc.s_bind allc.e_state_ops root_calls status_calls
        confined_calls [OF confined_handle_deletion] assms)
qed

lemma reconcile_calls:
  assumes "\<And>cr. calls_are (pass_of E cr)"
  shows "\<exists>xs. os_log (snd (run_state (ReconcilePulse E ns name) s)) = os_log s @ xs \<and> list_all P xs"
  by (rule reconcile_log [OF other_calls assms]) (simp add: pass_call_def within_def)

end

end
