(* ===== verification/Stability.thy ===== *)
theory Stability
  imports PassCalls
begin

text \<open>
  Create-or-update and the mutate functions: applied to its own result, each of them changes nothing.
  The objects are those of the model, without the defaults the API server fills in.
\<close>

section \<open>Mutate functions that settle\<close>

definition settled :: "(kobj \<Rightarrow> go_error + kobj) \<Rightarrow> bool" where
  "settled f \<longleftrightarrow> (\<forall>y z. f y = Inr z \<longrightarrow> f z = Inr z)"

definition steady :: "call \<Rightarrow> bool" where
  "steady c \<longleftrightarrow> (case c of CApply x f r \<Rightarrow> settled f | _ \<Rightarrow> True)"

text \<open>
  What \<open>SetControllerReference\<close> documents: it decides by the object's identity and by who controls it,
  and an object that already has the reference is accepted as it is.
\<close>

definition stable_owner :: "'w env \<Rightarrow> bool" where
  "stable_owner E \<longleftrightarrow>
     (\<forall>p x y z. e_setController E p x = Inr y \<and> o_key z = o_key x \<and> o_controller z = o_controller y \<longrightarrow>
        (\<exists>w. e_setController E p z = Inr w \<and> o_controller w = o_controller z))"

lemma steady_simps [simp]:
  "steady (CApply x f r) = settled f" "steady (CGet k rg)" "steady (CList kd ns ls rl)" "steady (CCreate x rc)"
  "steady (CUpdate x rc)" "steady (CDelete k pr rd)" "steady (CGetPulse ns n rp)" "steady (CListPulses ns rs)"
  "steady (CUpdatePulse p rp)" "steady (CUpdateStatus p rp)"
  by (simp_all add: steady_def)

lemma settledI: "(\<And>y z. f y = Inr z \<Longrightarrow> f z = Inr z) \<Longrightarrow> settled f"
  by (simp add: settled_def)

lemma set_controller_again:
  assumes "stable_owner E" and "set_controller E cr x = Inr y" and "o_key z = o_key y" and "o_controller z = o_controller y"
  shows "set_controller E cr z = Inr z"
proof -
  from assms(2) obtain v where v: "e_setController E cr x = Inr v" "y = x\<lparr>o_controller := o_controller v\<rparr>"
    by (auto simp: set_controller_Inr)
  with assms(3,4) have "o_key z = o_key x" "o_controller z = o_controller v" by simp_all
  with v(1) assms(1) obtain w where "e_setController E cr z = Inr w" "o_controller w = o_controller z"
    unfolding stable_owner_def by blast
  then show ?thesis by (simp add: set_controller_def)
qed

text \<open>The two shapes of the Go code: owner first, and owner last.\<close>

lemma settled_owned:
  assumes "stable_owner E" and "\<And>y z. f y = Inr z \<Longrightarrow> o_key z = o_key y \<and> o_controller z = o_controller y \<and> f z = Inr z"
  shows "settled (owned_by E cr f)"
proof (rule settledI)
  fix y z assume "owned_by E cr f y = Inr z"
  then obtain x where x: "set_controller E cr y = Inr x" "f x = Inr z"
    by (auto simp: owned_by_Inr)
  have "set_controller E cr z = Inr z"
    using set_controller_again [OF assms(1) x(1)] assms(2) [OF x(2)] by simp
  then show "owned_by E cr f z = Inr z"
    using assms(2) [OF x(2)] by (simp add: owned_by_def)
qed

lemma settled_owner_last:
  assumes "stable_owner E" and "\<And>x. g (g x) = g x" and "\<And>x c. g (x\<lparr>o_controller := c\<rparr>) = (g x)\<lparr>o_controller := c\<rparr>"
  shows "settled (\<lambda>x. set_controller E cr (g x))"
proof (rule settledI)
  fix y z assume z: "set_controller E cr (g y) = Inr z"
  then obtain c where "z = (g y)\<lparr>o_controller := c\<rparr>" by (auto simp: set_controller_Inr)
  then have "g z = z" using assms(2,3) by simp
  then show "set_controller E cr (g z) = Inr z"
    using set_controller_again [OF assms(1) z] by simp
qed

lemma settled_body:
  assumes "\<And>x. g (g x) = g x"
  shows "settled (\<lambda>x. Inr (g x))"
  using assms by (auto intro: settledI)

lemma settled_owned_body:
  assumes "stable_owner E" and "\<And>x. g (g x) = g x" and "\<And>x. o_key (g x) = o_key x" and "\<And>x. o_controller (g x) = o_controller x"
  shows "settled (owned_by E cr (\<lambda>y. Inr (g y)))"
  by (rule settled_owned [OF assms(1)]) (use assms(2-4) in auto)

lemma settled_labelled:
  assumes "stable_owner E"
    and "\<And>y z. f y = Inr z \<Longrightarrow> o_key z = o_key y \<and> o_controller z = o_controller y \<and> o_labels z = o_labels y \<and> f z = Inr z"
  shows "settled (\<lambda>x. owned_by E cr f (x\<lparr>o_labels := L\<rparr>))"
proof (rule settledI)
  fix y z assume "owned_by E cr f (y\<lparr>o_labels := L\<rparr>) = Inr z"
  then obtain x where x: "set_controller E cr (y\<lparr>o_labels := L\<rparr>) = Inr x" "f x = Inr z"
    by (auto simp: owned_by_Inr)
  have "o_labels x = L" using x(1) by (auto simp: set_controller_Inr)
  then have "z\<lparr>o_labels := L\<rparr> = z" using assms(2) [OF x(2)] by simp
  moreover have "set_controller E cr z = Inr z"
    using set_controller_again [OF assms(1) x(1)] assms(2) [OF x(2)] by simp
  ultimately show "owned_by E cr f (z\<lparr>o_labels := L\<rparr>) = Inr z"
    using assms(2) [OF x(2)] by (simp add: owned_by_def)
qed

section \<open>Bodies that settle\<close>

lemma deployment_again:
  "mcp_mutate E cr h (mcp_mutate E cr h d) = mcp_mutate E cr h d"
  "render_mutate E cr (render_mutate E cr d) = render_mutate E cr d"
  "temporal_mutate E cr h (temporal_mutate E cr h d) = temporal_mutate E cr h d"
  "temporal_ui_mutate E cr (temporal_ui_mutate E cr d) = temporal_ui_mutate E cr d"
  by (simp_all add: mcp_mutate_def render_mutate_def temporal_mutate_def temporal_ui_mutate_def Let_def)

lemma restart_again:
  assumes "map_of (pt_annotations desired) restartedAtAnnotation = None"
  shows "keepRestartedAt (keepRestartedAt previous desired) desired = keepRestartedAt previous desired"
  using assms by (auto simp: keepRestartedAt_def split: option.split)

lemma ui_mutate_again: "ui_mutate E cr info h (ui_mutate E cr info h d) = ui_mutate E cr info h d"
proof -
  have "map_of (pt_annotations (ui_template E cr info h)) restartedAtAnnotation = None"
    by (simp add: ui_template_def restartedAtAnnotation_def)
  then show ?thesis by (simp add: ui_mutate_def restart_again)
qed

lemma np_again:
  "ui_np cr (ui_np cr np) = ui_np cr np" "pg_np cr (pg_np cr np) = pg_np cr np" "agent_np cr (agent_np cr np) = agent_np cr np"
  "mcp_np cr (mcp_np cr np) = mcp_np cr np" "render_np cr (render_np cr np) = render_np cr np"
  "temporal_np cr (temporal_np cr np) = temporal_np cr np"
  by (simp_all add: ui_np_def pg_np_def agent_np_def mcp_np_def render_np_def temporal_np_def Let_def)

lemma service_again:
  "agent_service cr (agent_service cr v) = agent_service cr v" "pg_service cr hl (pg_service cr hl v) = pg_service cr hl v"
  "ui_service cr (ui_service cr v) = ui_service cr v" "temporal_service cr (temporal_service cr v) = temporal_service cr v"
  "temporal_ui_service cr (temporal_ui_service cr v) = temporal_ui_service cr v"
  "render_service cr (render_service cr v) = render_service cr v"
  by (simp_all add: agent_service_def pg_service_def ui_service_def temporal_service_def temporal_ui_service_def render_service_def)

lemma template_again:
  "\<not> pg_template_drifted img h (pg_template cr sec img h)"
  by (simp add: pg_template_drifted_def pg_template_def pg_container_def container0_def pod_spec0_def pg_annotations_def sget_Cons
      pgTemplateVersionAnnotation_def pgAuthHashAnnotation_def)

lemma pg_set_template_again:
  "pg_set_template cr sec img h fresh (pg_set_template cr sec img h fresh ss) = pg_set_template cr sec img h fresh ss"
  by (simp add: pg_set_template_def template_again)

lemma pg_fresh_again:
  "pg_set_template cr sec img h True (pg_create_fields cr n q (pg_set_template cr sec img h True (pg_create_fields cr n q ss))) =
   pg_set_template cr sec img h True (pg_create_fields cr n q ss)"
  by (simp add: pg_set_template_def pg_create_fields_def)


lemma pg_mutate_settled:
  assumes "stable_owner E"
  shows "settled (pg_mutate E cr n sec img h qty)"
  unfolding pg_mutate_def
  by (rule settled_labelled [OF assms], cases qty)
     (auto simp: Let_def pg_set_template_again pg_fresh_again split: if_splits)

lemma binding_settled: "settled (binding_mutate cr r sa)"
  by (rule settledI) (auto simp: binding_mutate_def Let_def)

section \<open>The components\<close>

abbreviation steadily :: "('w, 'a) action \<Rightarrow> bool" where
  "steadily m \<equiv> steps (emitted (list_all steady)) m"

lemma steadily_apply: "settled f \<Longrightarrow> steadily (create_or_update E x f)"
  by (intro allc.rules) simp

lemma steadily_deployment:
  "stable_owner E \<Longrightarrow> (\<And>d. f (f d) = f d) \<Longrightarrow> steadily (apply_deployment E cr n f)"
  unfolding apply_deployment_def by (intro steadily_apply settled_owned_body) simp_all

lemma steadily_service:
  "stable_owner E \<Longrightarrow> (\<And>v. f (f v) = f v) \<Longrightarrow> steadily (apply_service E cr n f)"
  unfolding apply_service_def by (intro steadily_apply settled_owned_body) simp_all

lemma steadily_np:
  "stable_owner E \<Longrightarrow> (\<And>v. f (f v) = f v) \<Longrightarrow> steadily (apply_np E cr n f)"
  unfolding apply_np_def by (intro steadily_apply settled_owner_last) (simp_all add: as_network_policy_def)

interpretation settle: call_property steady
  by unfold_locales (auto simp: pass_call_def within_def steady_def split: call.splits)

lemmas steadily_deletes = settle.delete_calls
lemmas steadily_tokens = settle.token_calls
lemmas steadily_gates = settle.gate_calls

lemma steadily_pg:
  assumes "stable_owner E"
  shows "steadily (reconcilePostgres E cr)"
proof -
  have service: "steadily (reconcilePGService E cr n hl)" for n hl
    unfolding reconcilePGService_def
    by (rule steadily_apply, rule settled_labelled [OF assms]) (auto simp: service_again)
  have scripts: "steadily (reconcilePGStartScripts E cr)"
    unfolding reconcilePGStartScripts_def by (intro steadily_apply settled_owned_body assms) simp_all
  show ?thesis
    unfolding reconcilePostgres_def reconcilePGSecret_def pgCredentialHash_def guardPGMajorVersion_def expandPGVolume_def
      pg_existing_def reconcilePGStatefulSet_def deletePendingPGPodIfStale_def reconcile_conn_secret_def Let_def
    by (intro allc.rules scripts service steadily_tokens steadily_apply pg_mutate_settled assms; simp)
qed

lemma steadily_render:
  assumes "stable_owner E"
  shows "steadily (reconcileRender E cr)"
proof -
  have "steadily (reconcileRenderToken E cr)"
    unfolding reconcileRenderToken_def create_if_missing_def Let_def by (intro allc.rules steadily_tokens; simp)
  moreover have "steadily (reconcileRenderDeployment E cr)" "steadily (reconcileRenderService E cr)"
    "steadily (reconcileRenderNetworkPolicy E cr)"
    unfolding reconcileRenderDeployment_def reconcileRenderService_def reconcileRenderNetworkPolicy_def
    by (rule steadily_deployment steadily_service steadily_np; simp add: assms deployment_again service_again np_again)+
  ultimately show ?thesis
    unfolding reconcileRender_def removeRender_def
    by (intro allc.s_if allc.s_run_steps allc.s_run_all) (auto intro!: allc.s_wrapE steadily_deletes)
qed

lemma steadily_binding: "steadily (apply_binding E cr n r sa)"
  unfolding apply_binding_def by (intro steadily_apply binding_settled)

lemma steadily_agent:
  assumes "stable_owner E"
  shows "steadily (reconcileAgent E url cr)"
proof -
  have role: "settled (\<lambda>x. Inr (x\<lparr>o_annotations := a, o_body := b\<rparr>))" for a b
    by (rule settled_body) simp
  have "steadily a" if "(n, a) \<in> set (agent_steps E cr)" for n a
    using that unfolding agent_steps_def reconcileServiceAccount_def reconcileClusterRole_def reconcileClusterRoleBinding_def
      reconcileAgentMonitoringViewBinding_def reconcileWSTokenSecret_def reconcileMemoryPVC_def create_if_missing_def Let_def
    by (simp, elim disjE conjE; simp; intro allc.rules steadily_tokens steadily_deletes steadily_binding; simp add: role)
  moreover have "steadily (reconcileService E cr)"
    unfolding reconcileService_def Let_def
    by (intro steadily_apply settled_owned_body assms) (simp_all add: service_again)
  moreover have "steadily (reconcileDeployment E h cr)" for h
    unfolding reconcileDeployment_def apply_agent_def Let_def
    by (intro allc.rules steadily_gates; simp)
  ultimately show ?thesis
    unfolding reconcileAgent_def agent_pass_def
    by (intro allc.s_bindE allc.s_run_steps allc.s_wrapE allc.s_if allc.s_ret)
qed

lemma steadily_fences:
  assumes "stable_owner E"
  shows "steadily (reconcileNetworkPolicies E cr)" "steadily (reconcileUIPodsDisruptionBudget E cr)"
proof -
  show "steadily (reconcileNetworkPolicies E cr)"
    unfolding reconcileNetworkPolicies_def reconcileUIPodNetworkPolicy_def reconcilePGNetworkPolicy_def reconcileAgentNetworkPolicy_def
    by (intro allc.s_run_steps) (auto intro!: steadily_np assms simp: np_again)
  have budget: "settled (\<lambda>x. set_controller E cr (x\<lparr>o_body := BPDB ((as_pdb x)\<lparr>bd_selector := sel, bd_minAvailable := m\<rparr>)\<rparr>))" for sel m
    by (rule settled_owner_last [OF assms]) (simp_all add: as_pdb_def)
  show "steadily (reconcileUIPodsDisruptionBudget E cr)"
    unfolding reconcileUIPodsDisruptionBudget_def Let_def by (intro allc.rules; simp add: budget)
qed

lemma steadily_monitoring: "steadily (reconcileMonitoring E cr)"
  unfolding reconcileMonitoring_def reconcileServiceMonitor_def reconcilePrometheusRule_def Let_def
  by (intro allc.s_if allc.s_ret allc.s_run_steps) (auto intro!: allc.rules)

lemma steadily_mcp:
  assumes "stable_owner E"
  shows "steadily (reconcileMCP E cr)" "steadily (removeMCP E cr)"
proof -
  have owner: "settled (set_controller E cr)"
    using settled_owner_last [OF assms, of "\<lambda>x. x"] by simp
  have role: "settled (\<lambda>x. Inr (x\<lparr>o_annotations := a, o_body := b\<rparr>))" "settled (owned_by E cr (\<lambda>y. Inr (y\<lparr>o_body := b\<rparr>)))" for a b
    by (rule settled_body, simp) (rule settled_owned_body [OF assms]; simp)
  have parts: "steadily (reconcileMCPServiceAccount E cr)" "steadily (reconcileMCPClusterRole E cr)"
    "steadily (reconcileMCPClusterRoleBinding E cr)" "steadily (reconcileMCPConfig E cr)" "steadily (reconcileMCPService E cr)"
    unfolding reconcileMCPServiceAccount_def reconcileMCPClusterRole_def reconcileMCPClusterRoleBinding_def reconcileMCPConfig_def
      reconcileMCPService_def Let_def
    by (intro allc.rules steadily_deletes steadily_binding steadily_apply owner role; simp)+
  have "steadily (reconcileMCPDeployment E cr h)" "steadily (reconcileMCPNetworkPolicy E cr)" for h
    unfolding reconcileMCPDeployment_def reconcileMCPNetworkPolicy_def
    by (rule steadily_deployment steadily_np; simp add: assms deployment_again np_again)+
  with parts show "steadily (reconcileMCP E cr)"
    unfolding reconcileMCP_def by (intro allc.s_if allc.s_ret allc.s_bindE allc.s_wrapE allc.s_run_steps) auto
  show "steadily (removeMCP E cr)"
    unfolding removeMCP_def Let_def by (intro allc.s_bindE allc.s_run_all steadily_deletes) (auto intro: steadily_deletes)
qed

lemma steadily_temporal:
  assumes "stable_owner E"
  shows "steadily (reconcileTemporal E cr)" "steadily (removeTemporal E cr)"
proof -
  have objects: "steadily (apply_deployment E cr n (temporal_mutate E cr h))" "steadily (apply_deployment E cr n (temporal_ui_mutate E cr))"
    "steadily (apply_service E cr n (temporal_service cr))" "steadily (apply_service E cr n (temporal_ui_service cr))"
    "steadily (apply_np E cr n (temporal_np cr))" for n h
    by (rule steadily_deployment steadily_service steadily_np; simp add: assms deployment_again service_again np_again)+
  have "steadily (reconcileTemporalDeployment E cr)" "steadily (reconcileTemporalService E cr)"
    "steadily (reconcileTemporalNetworkPolicy E cr)" "steadily (reconcileTemporalUI E cr)"
    unfolding reconcileTemporalDeployment_def reconcileTemporalService_def reconcileTemporalNetworkPolicy_def reconcileTemporalUI_def Let_def
    by (intro allc.rules objects; simp)+
  then show "steadily (reconcileTemporal E cr)"
    unfolding reconcileTemporal_def by (intro allc.s_if allc.s_ret allc.s_run_steps) (auto split: if_splits)
  show "steadily (removeTemporal E cr)"
    unfolding removeTemporal_def Let_def
    by (intro allc.s_if allc.s_ret allc.s_bindE allc.s_run_all) (auto intro: steadily_deletes)
qed

lemma nginx_settled: "stable_owner E \<Longrightarrow> settled (nginx_mutate E cr conf)"
  unfolding nginx_mutate_def by (rule settled_owned_body) simp_all

lemma steadily_ui:
  assumes "stable_owner E"
  shows "steadily (reconcileUI E cr)"
proof -
  have delegator: "settled (\<lambda>x. Inr (x\<lparr>o_body := BRoleBinding ((as_role_binding x)\<lparr>rbn_roleRef := r, rbn_subjects := ss\<rparr>)\<rparr>))" for r ss
    by (rule settled_body) simp
  have ca_bundle: "settled (\<lambda>x. set_controller E cr (x\<lparr>o_annotations := sput a v (o_annotations x)\<rparr>))" for a v
    by (rule settled_owner_last [OF assms]) simp_all
  have "settled (owned_by E cr (\<lambda>y. Inr (y\<lparr>o_annotations := sput a v (o_annotations y), o_body := BService (ui_service cr (as_service y))\<rparr>)))" for a v
    by (rule settled_owned_body [OF assms]) (simp_all add: service_again)
  then have "steadily (reconcileUIService E cr)"
    unfolding reconcileUIService_def Let_def by (intro steadily_apply)
  moreover have "steadily (reconcileUIServiceCABundle E cr)"
    unfolding reconcileUIServiceCABundle_def by (intro steadily_apply ca_bundle)
  moreover have "steadily (reconcileUIAuthDelegatorBinding E cr)"
    unfolding reconcileUIAuthDelegatorBinding_def Let_def by (intro allc.s_bindE allc.s_wrapE steadily_deletes steadily_apply delegator)
  moreover have "steadily (reconcileUIServiceAccount E cr)" "steadily (reconcileUIClusterRole E cr)"
    "steadily (reconcileUIClusterRoleBinding E cr)" "steadily (reconcileUIOAuthSecrets E cr)"
    unfolding reconcileUIServiceAccount_def reconcileUIClusterRole_def reconcileUIClusterRoleBinding_def reconcileUIOAuthSecrets_def Let_def
    by (intro allc.rules steadily_tokens steadily_deletes; simp)+
  ultimately have steps: "steadily a" if "(n, a) \<in> set (ui_steps E cr)" for n a
    using that by (auto simp: ui_steps_def)
  have nginx: "steadily (reconcileUINginxConfigMap E cr)"
    unfolding reconcileUINginxConfigMap_def read_ws_token_def setHelmRunnerCondition_def Let_def
    by (intro allc.rules; simp add: nginx_settled assms)
  have deploy: "steadily (reconcileUIDeployment E cr info h)" for info h
    unfolding reconcileUIDeployment_def by (rule steadily_deployment [OF assms ui_mutate_again])
  have rest: "steadily (reconcileUIRoute E cr info)" "steadily (finish_ui E cr host)" for info host
    unfolding reconcileUIRoute_def finish_ui_def getOAuthClientSecret_def reconcileOAuthClient_def isReady_def Let_def
    by (intro allc.rules; simp)+
  show ?thesis
    unfolding reconcileUI_def
    by (intro allc.s_bind allc.s_bindE allc.s_wrapE allc.s_run_steps allc.s_prod allc.s_if allc.s_ret steadily_gates
        deploy rest nginx steps)
qed


section \<open>The pass\<close>

lemma steadily_pass:
  assumes "stable_owner E"
  shows "steadily (pass_of E cr)"
  by (intro settle.pass_calls settle.accepted_calls steadily_pg steadily_render steadily_agent steadily_fences steadily_monitoring
      steadily_mcp steadily_temporal steadily_ui assms)

lemma pin_image_again:
  "length (po_containers (pt_spec (de_template d))) = 1 \<Longrightarrow>
   pin_image c (pin_image c old d\<lparr>de_template := keepRestartedAt t (de_template (pin_image c old d))\<rparr>) d = pin_image c old d"
  by (cases "po_containers (pt_spec (de_template d))"; cases "po_containers (pt_spec (de_template old))")
     (auto simp: pin_image_def)

lemma pin_image_keeps [simp]:
  "pt_annotations (de_template (pin_image c old d)) = pt_annotations (de_template d)"
  "de_selector (pin_image c old d) = de_selector d"
  "de_statusObservedGeneration (pin_image c old d) = de_statusObservedGeneration d"
  "de_statusReplicas (pin_image c old d) = de_statusReplicas d"
  "de_statusUpdatedReplicas (pin_image c old d) = de_statusUpdatedReplicas d"
  "de_statusReadyReplicas (pin_image c old d) = de_statusReadyReplicas d"
  by (auto simp: pin_image_def split: list.split)

lemma updated_agent_again:
  "updated_agent E h cr info c (updated_agent E h cr info c x) = updated_agent E h cr info c x"
proof -
  let ?spec = "buildDeploymentSpec E h cr info" and ?old = "as_deployment x"
  let ?d = "replace_spec ?spec ?old"
  let ?p = "pin_image c ?old ?d"
  let ?u = "?p\<lparr>de_template := keepRestartedAt (de_template ?old) (de_template ?p)\<rparr>"
  have "replace_spec ?spec ?u = ?d"
    by (simp add: replace_spec_def)
  moreover have "pin_image c ?u ?d = ?p"
    by (rule pin_image_again) (simp add: replace_spec_def buildDeploymentSpec_def agent_pod_def Let_def)
  moreover have "keepRestartedAt (de_template ?u) (de_template ?p) = de_template ?u"
    using restart_again [of "de_template ?p"]
    by (simp add: replace_spec_def buildDeploymentSpec_def Let_def pgAuthHashAnnotation_def restartedAtAnnotation_def)
  ultimately show ?thesis
    by (simp add: updated_agent_def Let_def)
qed

lemma sim_stable_owner: "stable_owner sim_env"
  by (auto simp: stable_owner_def split: option.splits if_splits)

text \<open>
  Every create-or-update of a pass carries an idempotent mutate function, and the Deployment of the
  agent, which is replaced as a whole, is replaced by itself. The objects here are what the operator
  wrote: the API server fills in defaults, which the model does not, and a template that is rebuilt on
  every pass would differ from the stored one by them. For the database StatefulSet, where the code
  guards against that, the statement that holds with defaults is \<open>pg_update_is_stable\<close>.
\<close>

lemma mutations_settle:
  assumes "stable_owner E"
  shows "\<exists>xs. os_log (snd (run_state (ReconcilePulse E ns name) s)) = os_log s @ xs \<and> list_all steady xs"
    "updated_agent E h cr info compatible (updated_agent E h cr info compatible x) = updated_agent E h cr info compatible x"
  using settle.reconcile_calls [of E ns name s, OF steadily_pass [OF assms]] updated_agent_again by blast+

end
