(* ===== verification/Conditions.thy ===== *)
theory Conditions
  imports RolloutInvariant
begin

text \<open>
  The conditions a status pass leaves on the resource, read the way clients read them: by type. The
  list operation \<open>SetStatusCondition\<close> is the environment's; what it documents is a hypothesis.
\<close>

section \<open>Reading conditions\<close>

text \<open>What a client reads of a condition: its status, its reason and its message.\<close>

type_synonym telling = "cond_status \<times> string \<times> string"

definition verdict_of :: "condition \<Rightarrow> telling" where
  "verdict_of c = (c_status c, c_reason c, c_message c)"

definition condition_told :: "condition list \<Rightarrow> string \<Rightarrow> telling option" where
  "condition_told cs t = map_option verdict_of (find (\<lambda>c. c_type c = t) cs)"

abbreviation told_of :: "pulse \<Rightarrow> string \<Rightarrow> telling option" where
  "told_of p \<equiv> condition_told (st_conditions (p_status p))"

text \<open>A condition that is set is the one read of its type, and no other type changes.\<close>

definition lawful_conditions :: "'w env \<Rightarrow> bool" where
  "lawful_conditions E \<longleftrightarrow>
     (\<forall>c cs. condition_told (e_setCondition E c cs) = (condition_told cs)(c_type c \<mapsto> verdict_of c))"

lemma verdict_set:
  "lawful_conditions E \<Longrightarrow> condition_told (e_setCondition E c cs) = (condition_told cs)(c_type c \<mapsto> verdict_of c)"
  by (simp add: lawful_conditions_def)

lemma mk_condition_sel [simp]:
  "c_type (mk_condition cr t st r m) = t" "verdict_of (mk_condition cr t st r m) = (st, r, m)"
  by (simp_all add: mk_condition_def verdict_of_def)

text \<open>What a pass says of each type.\<close>

definition component_verdict :: "bool \<Rightarrow> string \<Rightarrow> string \<Rightarrow> telling" where
  "component_verdict ready good bad = (if ready then (CondTrue, ''Ready'', good) else (CondFalse, ''NotReady'', bad))"

definition progressing_verdict :: "string \<Rightarrow> telling" where
  "progressing_verdict ph =
     (if ph = ''Installing'' \<or> ph = ''Upgrading'' then (CondTrue, ph, ph @ '' is in progress'')
      else if ph = ''Running'' then (CondFalse, ''Stable'', ''All components are healthy and no rollout is in progress'')
      else (CondFalse, ''Degraded'', ''Not progressing '' @ em_dash @ '' a previously healthy component is now unhealthy''))"

definition ready_verdict :: "string \<Rightarrow> bool \<Rightarrow> bool \<Rightarrow> bool \<Rightarrow> telling" where
  "ready_verdict ph a g i =
     (if ph = ''Running'' then (CondTrue, ''AllComponentsHealthy'', ''Agent, database, and UI are healthy'')
      else (CondFalse, ph, ''agentHealthy='' @ bool_text a @ '' databaseReady='' @ bool_text g @ '' uiAvailable='' @ bool_text i))"

lemma progressing_condition_sel [simp]:
  "c_type (progressing_condition cr) = ''Progressing''"
  "verdict_of (progressing_condition cr) = progressing_verdict (st_phase (p_status cr))"
  by (simp_all add: progressing_condition_def progressing_verdict_def Let_def)

lemma ready_condition_sel [simp]:
  "c_type (ready_condition cr a g i) = ''Ready''"
  "verdict_of (ready_condition cr a g i) = ready_verdict (st_phase (p_status cr)) a g i"
  by (simp_all add: ready_condition_def ready_verdict_def health_text_def)

section \<open>The parts of the pass\<close>

lemma verdict_syncConditions:
  assumes "lawful_conditions E"
  shows "told_of (os_cr (snd (run_state (syncConditions E a g i ai ui) s))) =
    (told_of (os_cr s))
      (''AgentReady'' \<mapsto> component_verdict a ''agent is healthy'' (''agent Deployment has 0 ready replicas (image='' @ ai @ '')''),
       ''DatabaseReady'' \<mapsto> component_verdict g ''database is healthy'' ''PostgreSQL StatefulSet has 0 ready replicas'',
       ''UIReady'' \<mapsto> component_verdict i ''UI is healthy'' (''UI Deployment has 0 ready replicas (image='' @ ui @ '')''),
       ''Progressing'' \<mapsto> progressing_verdict (st_phase (p_status (os_cr s))),
       ''Ready'' \<mapsto> ready_verdict (st_phase (p_status (os_cr s))) a g i)"
  by (simp add: syncConditions_def setReadyCondition_def setComponentReadyGauge_def set_gauge_def run_bind_pair run_simps
      verdict_set [OF assms] component_verdict_def del: run_state_bind)

lemma keeps_conditions_sync:
  "keeps (\<lambda>p. st_conditions (p_status p)) (dropStaleRollbacks E)" "keeps (\<lambda>p. st_conditions (p_status p)) (trackUpgrade E u)"
  "keeps (\<lambda>p. st_conditions (p_status p)) (syncPhase E start u a g i ai ui)"
  unfolding dropStaleRollbacks_def trackUpgrade_def syncPhase_def set_phase_def announcePhase_def announceRunning_def Let_def
  by (intro view.rules view.v_set_status; simp)+

lemma keeps_conditions_rollback: "keeps (\<lambda>p. st_conditions (p_status p)) (reconcileAutoRollback E au uu)"
  unfolding reconcileAutoRollback_def rollback_agent_def rollback_ui_def Let_def
  by (intro view.rules view.v_set_status; simp)

text \<open>What the pods of a Deployment show, and what is then said of the component.\<close>

definition diagnosed :: "'w env \<Rightarrow> string \<Rightarrow> string \<Rightarrow> 'w op_state \<Rightarrow> pod_problem option" where
  "diagnosed E ns d s = (case fst (run_state (diagnoseDeploymentPods E ns d) s) of Inl e \<Rightarrow> None | Inr r \<Rightarrow> r)"

definition explained :: "pod_problem option \<Rightarrow> telling \<Rightarrow> telling" where
  "explained problem v = (case problem of None \<Rightarrow> v | Some x \<Rightarrow> (CondFalse, pp_reason x, problem_text x))"

lemma verdict_report_component:
  assumes "lawful_conditions E"
  shows "told_of (os_cr (snd (run_state (report_component E ct c d ready) s))) =
    (case if ready then None else diagnosed E (p_namespace (os_cr s)) d s of
       None \<Rightarrow> told_of (os_cr s)
     | Some x \<Rightarrow> (told_of (os_cr s))(ct \<mapsto> (CondFalse, pp_reason x, problem_text x)))"
proof -
  have "os_cr (snd (run_state (diagnoseDeploymentPods E (p_namespace (os_cr s)) d) s)) = os_cr s"
    by (rule keepsD [OF keeps_diagnose [where g = "\<lambda>p. p"]])
  then show ?thesis
    by (auto simp: report_component_def diagnosed_def run_bind_pair run_simps verdict_set [OF assms] simp del: run_state_bind
        split: sum.split option.split)
qed

lemma explained_updates:
  assumes "m k = Some v" and "m l = Some w" and "k \<noteq> l"
  shows "(case if i then None else pl of None \<Rightarrow> (case if a then None else pk of None \<Rightarrow> m | Some x \<Rightarrow> m(k \<mapsto> (CondFalse, pp_reason x, problem_text x)))
     | Some x \<Rightarrow> (case if a then None else pk of None \<Rightarrow> m | Some x \<Rightarrow> m(k \<mapsto> (CondFalse, pp_reason x, problem_text x)))
         (l \<mapsto> (CondFalse, pp_reason x, problem_text x))) =
    m(k \<mapsto> (if a then v else explained pk v), l \<mapsto> (if i then w else explained pl w))"
  using assms by (cases a; cases i; cases pk; cases pl) (auto simp: explained_def fun_eq_iff)

lemma same_resource_report: "p_namespace (os_cr (snd (run_state (report_component E ct c d ready) s))) = p_namespace (os_cr s)"
  by (rule keepsD [where g = p_namespace]) (unfold report_component_def, intro view.rules view.v_set_condition keeps_diagnose; simp)

lemma phase_after_syncPhase:
  "st_phase (p_status (os_cr (snd (run_state (syncPhase E start u a g i ai ui) s)))) = next_phase (st_phase (p_status (os_cr s))) u (a \<and> g \<and> i)"
  using arg_cong [OF status_syncPhase, of st_phase] by simp

lemma uiAvailable_sync: "keeps (\<lambda>p. st_uiAvailable (p_status p)) (syncPhaseAndConditions E h)"
  unfolding syncPhaseAndConditions_def dropStaleRollbacks_def trackUpgrade_def syncPhase_def set_phase_def
    announcePhase_def announceRunning_def syncConditions_def setReadyCondition_def setComponentReadyGauge_def Let_def
  by (intro view.rules view.v_set_condition view.v_set_status) simp_all

lemma resolved_dropped: "resolvedImage E (drop_core E p) = resolvedImage E p" "resolvedUIImage E (drop_core E p) = resolvedUIImage E p"
  unfolding resolved_drop_core
  by (auto simp: resolvedImage_def resolvedUIImage_def applyRollback_def drop_stale_def split: option.split)

lemma update_again:
  assumes "distinct [a, b, c, d, e]"
  shows "(m(a \<mapsto> A, b \<mapsto> B, c \<mapsto> C, d \<mapsto> D, e \<mapsto> F))(a \<mapsto> A', c \<mapsto> C') = m(a \<mapsto> A', b \<mapsto> B, c \<mapsto> C', d \<mapsto> D, e \<mapsto> F)"
  using assms by auto

lemma verdict_sync:
  assumes "lawful_conditions E"
  shows "told_of (os_cr (snd (run_state (syncPhaseAndConditions E h) s))) =
    (let p = os_cr s; a = ch_agentServing h; g = ch_pgReady h; i = st_uiAvailable (p_status p);
         ph = next_phase (st_phase (p_status p)) (agent_upgrading E h p \<or> ui_upgrading E h p) (all_ready h p)
     in (told_of p)
      (''AgentReady'' \<mapsto> component_verdict a ''agent is healthy'' (''agent Deployment has 0 ready replicas (image='' @ resolvedImage E p @ '')''),
       ''DatabaseReady'' \<mapsto> component_verdict g ''database is healthy'' ''PostgreSQL StatefulSet has 0 ready replicas'',
       ''UIReady'' \<mapsto> component_verdict i ''UI is healthy'' (''UI Deployment has 0 ready replicas (image='' @ resolvedUIImage E p @ '')''),
       ''Progressing'' \<mapsto> progressing_verdict ph, ''Ready'' \<mapsto> ready_verdict ph a g i))"
proof -
  let ?p = "os_cr s"
  let ?d = "drop_core E ?p" and ?u = "agent_upgrading E h (os_cr s) \<or> ui_upgrading E h (os_cr s)"
  let ?ai = "resolvedImage E ?d" and ?ui = "resolvedUIImage E ?d"
  define s1 where "s1 = s\<lparr>os_cr := upd_status (\<lambda>st. st\<lparr>
    st_lastHealthyAgentImage := record_healthy (ch_agentRolledOut h) ?ai (st_lastHealthyAgentImage st),
    st_lastHealthyUIImage := record_healthy (ch_uiRolledOut h) ?ui (st_lastHealthyUIImage st)\<rparr>) ?d\<rparr>"
  define s2 where "s2 = snd (run_state (trackUpgrade E ?u) s1)"
  define s3 where "s3 = snd (run_state (syncPhase E (st_upgradeStartedAt (p_status ?p)) ?u (ch_agentServing h)
    (ch_pgReady h) (st_uiAvailable (p_status ?p)) ?ai ?ui) s2)"
  have run: "snd (run_state (syncPhaseAndConditions E h) s) =
      snd (run_state (syncConditions E (ch_agentServing h) (ch_pgReady h) (st_uiAvailable (p_status ?p)) ?ai ?ui) s3)"
    unfolding syncPhaseAndConditions_def Let_def s3_def s2_def s1_def
    by (simp add: run_bind_pair run_simps run_dropStaleRollbacks agent_upgrading_def ui_upgrading_def comp_def
        del: run_state_bind)
  have "st_conditions (p_status (os_cr s3)) = st_conditions (p_status (os_cr s1))"
    unfolding s3_def s2_def keepsD [OF keeps_conditions_sync(3)] keepsD [OF keeps_conditions_sync(2)] ..
  then have old: "told_of (os_cr s3) = told_of ?p"
    by (simp add: s1_def drop_core_def)
  have "st_phase (p_status (os_cr s3)) = next_phase (st_phase (p_status ?p)) ?u (all_ready h ?p)"
    unfolding s3_def phase_after_syncPhase s2_def cr_trackUpgrade by (simp add: s1_def all_ready_def)
  then show ?thesis
    unfolding run verdict_syncConditions [OF assms] old Let_def by (simp add: resolved_dropped)
qed

text \<open>What the report on the pods of the agent and of the UI adds.\<close>

lemma verdict_after_pass:
  assumes law: "lawful_conditions E" and s1: "s1 = snd (run_state (syncPhaseAndConditions E h) s)"
    and s2: "s2 = snd (run_state (report_component E ''AgentReady'' ''agent'' (agentResourceName (p_name (os_cr s))) (ch_agentServing h)) s1)"
    and told: "told_of (os_cr s1) ''AgentReady'' = Some A" "told_of (os_cr s1) ''UIReady'' = Some U"
  shows "told_of (after_pass E h s) = (told_of (os_cr s1))
    (''AgentReady'' \<mapsto> (if ch_agentServing h then A
       else explained (diagnosed E (p_namespace (os_cr s)) (agentResourceName (p_name (os_cr s))) s1) A),
     ''UIReady'' \<mapsto> (if st_uiAvailable (p_status (os_cr s)) then U
       else explained (diagnosed E (p_namespace (os_cr s)) (uiResourceName (p_name (os_cr s))) s2) U))"
proof -
  let ?p = "os_cr s" and ?q = "after_pass E h s"
  have q: "told_of ?q = told_of (os_cr (synced E h s))"
    unfolding statusPass_run using keepsD [OF keeps_conditions_rollback] by metis
  have ui: "st_uiAvailable (p_status (os_cr s1)) = st_uiAvailable (p_status ?p)"
    unfolding s1 by (rule keepsD [OF uiAvailable_sync])
  have "identity_of (os_cr s1) = identity_of ?p" unfolding s1 by (rule keepsD [OF identity_sync])
  then have same: "p_name (os_cr s1) = p_name ?p" "p_namespace (os_cr s1) = p_namespace ?p"
    by (rule identity_ofD; assumption)+
  have same2: "p_namespace (os_cr s2) = p_namespace ?p"
    unfolding s2 by (simp add: same_resource_report same)
  have "synced E h s = snd (run_state (report_component E ''UIReady'' ''ui'' (uiResourceName (p_name ?p)) (st_uiAvailable (p_status ?p))) s2)"
    by (simp add: synced_def reportPodProblems_def run_bind_pair run_simps ui [unfolded s1] same [unfolded s1] s1 s2 del: run_state_bind)
  then have told_q: "told_of ?q =
      (case if st_uiAvailable (p_status ?p) then None else diagnosed E (p_namespace ?p) (uiResourceName (p_name ?p)) s2 of
         None \<Rightarrow> told_of (os_cr s2)
       | Some x \<Rightarrow> (told_of (os_cr s2))(''UIReady'' \<mapsto> (CondFalse, pp_reason x, problem_text x)))"
    unfolding q by (simp add: verdict_report_component [OF law] same2)
  have told_2: "told_of (os_cr s2) =
      (case if ch_agentServing h then None else diagnosed E (p_namespace ?p) (agentResourceName (p_name ?p)) s1 of
         None \<Rightarrow> told_of (os_cr s1)
       | Some x \<Rightarrow> (told_of (os_cr s1))(''AgentReady'' \<mapsto> (CondFalse, pp_reason x, problem_text x)))"
    unfolding s2 by (simp add: verdict_report_component [OF law] same)
  show ?thesis
    unfolding told_q told_2 by (rule explained_updates) (simp_all add: told)
qed

text \<open>
  C20: The phase and the conditions after a status pass, as an exact function of what the pass saw: the
  phase is "Upgrading" during an image change, else "Running" when agent, database and UI are ready, else
  "Degraded" or "Installing" by the phase before; the three component conditions, Progressing and Ready
  have exactly these statuses, reasons and messages, where the reason and message of an agent or a UI that
  is not ready are those of the problem its pods show, when one is found; conditions of other types are
  left alone. It is assumed that \<open>SetStatusCondition\<close> sets the condition of its type and no other. (This is
  what the code does; the README describes "Degraded" as what is reported of a component that was healthy
  and is no longer, while here an outage reads "Degraded" in its first pass and "Installing" from the second on.)
\<close>

theorem conditions_tell_the_health:
  assumes "lawful_conditions E"
  shows "let p = os_cr s; q = after_pass E h s; n = p_name p; ns = p_namespace p; prev = st_phase (p_status p);
      a = ch_agentServing h; g = ch_pgReady h; i = st_uiAvailable (p_status p); u = agent_upgrading E h p \<or> ui_upgrading E h p;
      ph = (if u then ''Upgrading'' else if a \<and> g \<and> i then ''Running''
            else if prev = ''Running'' \<or> prev = ''Upgrading'' then ''Degraded'' else ''Installing'');
      s1 = snd (run_state (syncPhaseAndConditions E h) s);
      s2 = snd (run_state (report_component E ''AgentReady'' ''agent'' (agentResourceName n) a) s1)
    in st_phase (p_status q) = ph \<and>
       told_of q = (told_of p)
         (''AgentReady'' \<mapsto> (if a then (CondTrue, ''Ready'', ''agent is healthy'')
            else explained (diagnosed E ns (agentResourceName n) s1)
              (CondFalse, ''NotReady'', ''agent Deployment has 0 ready replicas (image='' @ resolvedImage E p @ '')'')),
          ''DatabaseReady'' \<mapsto> (if g then (CondTrue, ''Ready'', ''database is healthy'')
            else (CondFalse, ''NotReady'', ''PostgreSQL StatefulSet has 0 ready replicas'')),
          ''UIReady'' \<mapsto> (if i then (CondTrue, ''Ready'', ''UI is healthy'')
            else explained (diagnosed E ns (uiResourceName n) s2)
              (CondFalse, ''NotReady'', ''UI Deployment has 0 ready replicas (image='' @ resolvedUIImage E p @ '')'')),
          ''Progressing'' \<mapsto> (if ph = ''Installing'' \<or> ph = ''Upgrading'' then (CondTrue, ph, ph @ '' is in progress'')
            else if ph = ''Running'' then (CondFalse, ''Stable'', ''All components are healthy and no rollout is in progress'')
            else (CondFalse, ''Degraded'', ''Not progressing '' @ em_dash @ '' a previously healthy component is now unhealthy'')),
          ''Ready'' \<mapsto> (if ph = ''Running'' then (CondTrue, ''AllComponentsHealthy'', ''Agent, database, and UI are healthy'')
            else (CondFalse, ph, ''agentHealthy='' @ bool_text a @ '' databaseReady='' @ bool_text g @ '' uiAvailable='' @ bool_text i)))"
proof -
  let ?p = "os_cr s" and ?q = "after_pass E h s"
  let ?ph = "next_phase (st_phase (p_status ?p)) (agent_upgrading E h ?p \<or> ui_upgrading E h ?p) (all_ready h ?p)"
  let ?s1 = "snd (run_state (syncPhaseAndConditions E h) s)"
  let ?s2 = "snd (run_state (report_component E ''AgentReady'' ''agent'' (agentResourceName (p_name ?p)) (ch_agentServing h)) ?s1)"
  obtain A G I P R where s1: "told_of (os_cr ?s1) =
      (told_of ?p)(''AgentReady'' \<mapsto> A, ''DatabaseReady'' \<mapsto> G, ''UIReady'' \<mapsto> I, ''Progressing'' \<mapsto> P, ''Ready'' \<mapsto> R)"
    "A = component_verdict (ch_agentServing h) ''agent is healthy'' (''agent Deployment has 0 ready replicas (image='' @ resolvedImage E ?p @ '')'')"
    "G = component_verdict (ch_pgReady h) ''database is healthy'' ''PostgreSQL StatefulSet has 0 ready replicas''"
    "I = component_verdict (st_uiAvailable (p_status ?p)) ''UI is healthy'' (''UI Deployment has 0 ready replicas (image='' @ resolvedUIImage E ?p @ '')'')"
    "P = progressing_verdict ?ph" "R = ready_verdict ?ph (ch_agentServing h) (ch_pgReady h) (st_uiAvailable (p_status ?p))"
    unfolding verdict_sync [OF assms] Let_def by blast
  have "told_of ?q = (told_of (os_cr ?s1))
      (''AgentReady'' \<mapsto> (if ch_agentServing h then A else explained (diagnosed E (p_namespace ?p) (agentResourceName (p_name ?p)) ?s1) A),
       ''UIReady'' \<mapsto> (if st_uiAvailable (p_status ?p) then I else explained (diagnosed E (p_namespace ?p) (uiResourceName (p_name ?p)) ?s2) I))"
    by (rule verdict_after_pass [OF assms refl refl]) (simp_all add: s1(1))
  then have "told_of ?q = (told_of ?p)
      (''AgentReady'' \<mapsto> (if ch_agentServing h then A else explained (diagnosed E (p_namespace ?p) (agentResourceName (p_name ?p)) ?s1) A),
       ''DatabaseReady'' \<mapsto> G,
       ''UIReady'' \<mapsto> (if st_uiAvailable (p_status ?p) then I else explained (diagnosed E (p_namespace ?p) (uiResourceName (p_name ?p)) ?s2) I),
       ''Progressing'' \<mapsto> P, ''Ready'' \<mapsto> R)"
    unfolding s1(1) by (subst (asm) update_again) simp_all
  moreover have "?ph = (if agent_upgrading E h ?p \<or> ui_upgrading E h ?p then ''Upgrading''
      else if ch_agentServing h \<and> ch_pgReady h \<and> st_uiAvailable (p_status ?p) then ''Running''
      else if st_phase (p_status ?p) = ''Running'' \<or> st_phase (p_status ?p) = ''Upgrading'' then ''Degraded'' else ''Installing'')"
    by (simp add: next_phase_def all_ready_def)
  ultimately show ?thesis
    unfolding Let_def phase_of_pass s1(2-6) component_verdict_def ready_verdict_def progressing_verdict_def
    by (simp only: if_cancel if_True if_False cong: if_cong)
qed

lemma sim_lawful_conditions: "lawful_conditions sim_env"
proof -
  have other: "find (\<lambda>d. c_type d = t) (filter (\<lambda>d. c_type d \<noteq> c_type c) cs @ [c]) = find (\<lambda>d. c_type d = t) cs"
    if "t \<noteq> c_type c" for t c cs
    using that by (induction cs) auto
  have same: "find (\<lambda>d. c_type d = c_type c) (filter (\<lambda>d. c_type d \<noteq> c_type c) cs @ [c]) = Some c" for c cs
    by (induction cs) auto
  show ?thesis
    by (auto simp: lawful_conditions_def sim_condition_def condition_told_def other same)
qed

text \<open>An instance whose agent serves and whose UI does not: Ready is False, AgentReady is True.\<close>

theorem conditions_tell_the_health_witness:
  "map_option fst (told_of (after_pass sim_env (health_of False) (sim_state (at_clock 0) ex_edited)) ''AgentReady'') = Some CondTrue \<and>
   map_option fst (told_of (after_pass sim_env (health_of False) (sim_state (at_clock 0) ex_edited)) ''Ready'') = Some CondFalse"
  using conditions_tell_the_health [OF sim_lawful_conditions, of "sim_state (at_clock 0) ex_edited" "health_of False"]
  by (simp add: Let_def health_of_def all_ready_def sim_state_def ex_edited_def ex_status_def empty_status_def)

end
