(* ===== verification/PassReports.thy ===== *)
theory PassReports
  imports PassProps
begin

text \<open>
  What a pass reports: the counter of reconcile errors by step, and what it does to an instance before
  its finalizer is in place.
\<close>

section \<open>Actions that count nothing\<close>

text \<open>They leave the counter alone and only append to the log.\<close>

definition uncounted_step :: "'w op_state \<Rightarrow> 'w op_state \<Rightarrow> bool" where
  "uncounted_step s s' \<longleftrightarrow> os_reconcileErrors s' = os_reconcileErrors s \<and> (\<exists>xs. os_log s' = os_log s @ xs)"

interpretation count: step_rel uncounted_step
  by unfold_locales (auto simp: uncounted_step_def)

abbreviation uncounted :: "('w, 'a) action \<Rightarrow> bool" where
  "uncounted m \<equiv> steps uncounted_step m"

lemma uncounted_call: "uncounted (call_api f mk)" "uncounted (ask_world g)"
  by (simp_all add: steps_def uncounted_step_def)

lemma uncounted_modify:
  "(\<And>s. os_reconcileErrors (f s) = os_reconcileErrors s) \<Longrightarrow> (\<And>s. os_log (f s) = os_log s) \<Longrightarrow> uncounted (modify f)"
  by (simp add: steps_def uncounted_step_def)

lemma uncounted_api:
  "uncounted (api_get E k)" "uncounted (api_list E kd ns ls)" "uncounted (api_create E x)" "uncounted (api_update E x)"
  "uncounted (api_delete E k)" "uncounted (api_delete_background E k)" "uncounted (create_or_update E x h)"
  "uncounted (api_getPulse E ns n)" "uncounted (api_listPulses E ns)" "uncounted (api_updatePulse E q)"
  "uncounted (api_updateStatus E q)" "uncounted (time_now E)" "uncounted (rand_read E len)"
  unfolding client_defs time_now_def rand_read_def by (intro uncounted_call count.s_bind count.s_ret)+

lemma uncounted_local:
  "uncounted (put_cr p)" "uncounted (set_status g)" "uncounted (set_condition E c)" "uncounted (emit_event a b m)"
  "uncounted (recordEvent E a b m)" "uncounted (inc_self_heal a b)" "uncounted (set_gauge a q b v)"
  by (simp_all add: steps_def uncounted_step_def local_defs)

lemmas uncounted_rules = count.ctrl_rules uncounted_api uncounted_local

lemma uncounted_shared:
  "uncounted (generateToken E)" "uncounted (generatePassword E n)" "uncounted (generateCookieSecret E)"
  "uncounted (deleteStaleUnqualifiedClusterScopedResource E cr kd m)" "uncounted (deleteOwned E cr kd m)"
  "uncounted (deleteOwnedClusterScoped E cr kd m)"
  unfolding token_defs deleteStaleUnqualifiedClusterScopedResource_def deleteOwned_def deleteOwnedClusterScoped_def Let_def
  by (intro uncounted_rules)+

lemma uncounted_pg: "uncounted (reconcilePostgres E cr)"
  unfolding reconcilePostgres_def pg_steps_defs Let_def by (intro uncounted_rules uncounted_shared)

lemma uncounted_render: "uncounted (reconcileRender E cr)"
  unfolding reconcileRender_def removeRender_def
  by (intro count.s_if count.s_run_steps count.s_run_all)
     (auto simp: render_parts_defs Let_def intro!: uncounted_rules uncounted_shared)

lemma uncounted_cluster_info: "uncounted (DetectClusterInfo E)"
  unfolding DetectClusterInfo_def detect_def Let_def by (intro uncounted_rules uncounted_modify) simp_all

lemma uncounted_agent: "uncounted (reconcileAgent E url cr)"
proof -
  have "uncounted (version_gates E cr)"
    unfolding version_gates_def setAgentVersionCompatibleCondition_def setVersionSkewCondition_def Let_def by (intro uncounted_rules)
  moreover have "uncounted a" if "(n, a) \<in> set (agent_steps E cr)" for n a
    using that unfolding agent_steps_def agent_parts_defs Let_def by (auto intro!: uncounted_rules uncounted_shared)
  ultimately show ?thesis
    unfolding reconcileAgent_def agent_pass_def reconcileDeployment_def apply_agent_def reconcileService_def Let_def
    by (intro uncounted_rules count.s_run_steps uncounted_cluster_info)
qed

lemma uncounted_operands:
  "uncounted (reconcileNetworkPolicies E cr)" "uncounted (reconcileUIPodsDisruptionBudget E cr)" "uncounted (reconcileMonitoring E cr)"
  "uncounted (reconcileMCP E cr)" "uncounted (removeMCP E cr)" "uncounted (reconcileTemporal E cr)" "uncounted (removeTemporal E cr)"
proof -
  show "uncounted (reconcileNetworkPolicies E cr)"
    unfolding reconcileNetworkPolicies_def reconcileUIPodNetworkPolicy_def reconcilePGNetworkPolicy_def
      reconcileAgentNetworkPolicy_def apply_np_def
    by (intro count.s_run_steps) (auto intro!: uncounted_rules)
  show "uncounted (reconcileUIPodsDisruptionBudget E cr)"
    unfolding reconcileUIPodsDisruptionBudget_def Let_def by (intro uncounted_rules)
  show "uncounted (reconcileMonitoring E cr)"
    unfolding reconcileMonitoring_def reconcileServiceMonitor_def reconcilePrometheusRule_def Let_def
    by (intro count.s_if count.s_ret count.s_run_steps) (auto intro!: uncounted_rules)
  show "uncounted (reconcileMCP E cr)"
    unfolding reconcileMCP_def
    by (intro count.s_if count.s_ret count.s_bindE count.s_wrapE count.s_run_steps;
        auto simp: mcp_parts_defs Let_def intro!: uncounted_rules uncounted_shared)
  show "uncounted (removeMCP E cr)"
    unfolding removeMCP_def Let_def by (intro count.s_bindE count.s_run_all uncounted_shared) (auto intro!: uncounted_shared)
  show "uncounted (reconcileTemporal E cr)"
    unfolding reconcileTemporal_def temporal_parts_defs Let_def
    by (intro count.s_if count.s_ret count.s_run_steps) (auto intro!: uncounted_rules split: if_splits)
  show "uncounted (removeTemporal E cr)"
    unfolding removeTemporal_def Let_def
    by (intro count.s_if count.s_ret count.s_bindE count.s_run_all uncounted_shared) (auto intro!: uncounted_shared)
qed

lemma uncounted_ui: "uncounted (reconcileUI E cr)"
proof -
  have "uncounted a" if "(n, a) \<in> set (ui_steps E cr)" for n a
    using that unfolding ui_steps_def ui_parts_defs Let_def
    by (simp, elim disjE conjE; simp; intro uncounted_rules uncounted_shared)
  moreover have "uncounted (reconcileUINginxConfigMap E cr)" "uncounted (reconcileUIDeployment E cr info h)"
    "uncounted (reconcileUIRoute E cr info)" "uncounted (reconcileOAuthClient E cr host sec)" "uncounted (getOAuthClientSecret E cr)"
    "uncounted (isReady E d ns)" for info h host sec d ns
    unfolding ui_rest_defs Let_def by (intro uncounted_rules)+
  ultimately show ?thesis
    unfolding reconcileUI_def finish_ui_def
    by (intro count.s_bind count.s_bindE count.s_wrapE count.s_prod count.s_if count.s_ret uncounted_local uncounted_cluster_info
        count.s_run_steps)
qed

lemma uncounted_root:
  "uncounted (read_health E cr)" "uncounted (record_version E cr)" "uncounted (warn_no_backend cr)"
  "uncounted (updateStatus E)" "uncounted (requeue_installing E d)" "uncounted (reconcileObservedMemoryMetrics E cr nm c b)"
  unfolding read_health_def isDeploymentReady_def isRolledOut_def isStatefulSetReady_def warn_no_backend_def record_version_def
    agentDeployment_def requeue_installing_def flushInstallingStatus_def updateStatus_def reconcileObservedMemoryMetrics_def
    check_due_def Let_def
  by (intro uncounted_rules uncounted_modify; simp)+

lemma uncounted_statusPass: "uncounted (statusPass E h)"
  unfolding statusPass_def status_defs Let_def by (intro uncounted_rules)

lemma uncounted_with_event: "uncounted m \<Longrightarrow> uncounted (with_event r msg m)"
  unfolding with_event_def by (rule count.s_bind, assumption) (intro uncounted_rules)

section \<open>One count per failure\<close>

text \<open>How a run of a step ends, whatever it returns.\<close>

definition outcome :: "('w, 'a) fallible \<Rightarrow> 'w op_state \<Rightarrow> go_error option \<times> 'w op_state" where
  "outcome m s = (case run_state m s of (Inl e, t) \<Rightarrow> (Some e, t) | (Inr x, t) \<Rightarrow> (None, t))"

text \<open>
  The steps of an accepted pass, each with its label of the counter, the text a failure of it is wrapped
  in, and its runs. The agent is given the database URL, the status step the health read before.
\<close>

type_synonym 'w pass_step = "string \<times> string \<times> ('w op_state \<Rightarrow> go_error option \<times> 'w op_state)"

definition pass_steps :: "'w env \<Rightarrow> pulse \<Rightarrow> 'w pass_step set" where
  "pass_steps E cr =
     {(''postgres'', ''reconcilePostgres'', outcome (reconcilePostgres E cr)),
      (''render'', ''reconcileRender'', outcome (reconcileRender E cr)),
      (''network_policies'', ''reconcileNetworkPolicies'', outcome (reconcileNetworkPolicies E cr)),
      (''pdb'', ''reconcileUIPodsDisruptionBudget'', outcome (reconcileUIPodsDisruptionBudget E cr)),
      (''monitoring'', ''reconcileMonitoring'', outcome (reconcileMonitoring E cr)),
      (''mcp'', ''reconcileMCP'', outcome (reconcileMCP E cr)), (''mcp'', ''removeMCP'', outcome (removeMCP E cr)),
      (''temporal'', ''reconcileTemporal'', outcome (reconcileTemporal E cr)),
      (''temporal'', ''removeTemporal'', outcome (removeTemporal E cr)),
      (''ui'', ''reconcileUI'', outcome (reconcileUI E cr)), (''status_update'', ''status update'', outcome (updateStatus E))} \<union>
     (\<Union>url. {(''agent'', ''reconcileAgent'', outcome (reconcileAgent E url cr))}) \<union>
     (\<Union>h. {(''auto_rollback'', ''reconcileAutoRollback'', outcome (statusPass E h))})"

lemma in_pass_steps:
  "(''postgres'', ''reconcilePostgres'', outcome (reconcilePostgres E cr)) \<in> pass_steps E cr"
  "(''render'', ''reconcileRender'', outcome (reconcileRender E cr)) \<in> pass_steps E cr"
  "(''network_policies'', ''reconcileNetworkPolicies'', outcome (reconcileNetworkPolicies E cr)) \<in> pass_steps E cr"
  "(''pdb'', ''reconcileUIPodsDisruptionBudget'', outcome (reconcileUIPodsDisruptionBudget E cr)) \<in> pass_steps E cr"
  "(''monitoring'', ''reconcileMonitoring'', outcome (reconcileMonitoring E cr)) \<in> pass_steps E cr"
  "(''mcp'', ''reconcileMCP'', outcome (reconcileMCP E cr)) \<in> pass_steps E cr"
  "(''mcp'', ''removeMCP'', outcome (removeMCP E cr)) \<in> pass_steps E cr"
  "(''temporal'', ''reconcileTemporal'', outcome (reconcileTemporal E cr)) \<in> pass_steps E cr"
  "(''temporal'', ''removeTemporal'', outcome (removeTemporal E cr)) \<in> pass_steps E cr"
  "(''ui'', ''reconcileUI'', outcome (reconcileUI E cr)) \<in> pass_steps E cr"
  "(''status_update'', ''status update'', outcome (updateStatus E)) \<in> pass_steps E cr"
  "(''agent'', ''reconcileAgent'', outcome (reconcileAgent E url cr)) \<in> pass_steps E cr"
  "(''auto_rollback'', ''reconcileAutoRollback'', outcome (statusPass E h)) \<in> pass_steps E cr"
  by (auto simp: pass_steps_def)

text \<open>
  \<open>blamed T s e t\<close>: between \<open>s\<close> and \<open>t\<close> a step of \<open>T\<close>, started with nothing counted yet, failed; its calls
  are the last ones made, \<open>e\<close> is its error in its own wrapping and its label is the one counted.
\<close>

definition blamed :: "'w pass_step set \<Rightarrow> 'w op_state \<Rightarrow> go_error \<Rightarrow> 'w op_state \<Rightarrow> bool" where
  "blamed T s e t \<longleftrightarrow>
     (\<exists>label msg run e' s1 s2 xs. (label, msg, run) \<in> T \<and>
        os_log s1 = os_log s @ xs \<and> os_reconcileErrors s1 = os_reconcileErrors s \<and> run s1 = (Some e', s2) \<and>
        os_log t = os_log s2 \<and> os_world t = os_world s2 \<and> e = Wrap msg e' \<and> os_reconcileErrors t = os_reconcileErrors s @ [label])"

definition counting :: "'w pass_step set \<Rightarrow> ('w, 'a) fallible \<Rightarrow> bool" where
  "counting T m \<longleftrightarrow>
     (\<forall>s. case run_state m s of
        (Inl e, t) \<Rightarrow> blamed T s e t
      | (Inr x, t) \<Rightarrow> os_reconcileErrors t = os_reconcileErrors s \<and> (\<exists>xs. os_log t = os_log s @ xs))"

lemma counting_ok: "counting T (ok x)"
  by (simp add: counting_def)

lemma blamed_later:
  "os_reconcileErrors t = os_reconcileErrors s \<Longrightarrow> os_log t = os_log s @ xs \<Longrightarrow> blamed T t e u \<Longrightarrow> blamed T s e u"
  unfolding blamed_def by (metis append.assoc)

text \<open>A step that is counted, with its runs seen through the Event it may record on failure.\<close>

definition same_failures :: "('w, 'a) fallible \<Rightarrow> ('w op_state \<Rightarrow> go_error option \<times> 'w op_state) \<Rightarrow> bool" where
  "same_failures m run \<longleftrightarrow>
     (\<forall>s e t. run_state m s = (Inl e, t) \<longrightarrow> (\<exists>u. run s = (Some e, u) \<and> os_log t = os_log u \<and> os_world t = os_world u))"

lemma same_failures_outcome: "same_failures m (outcome m)"
  by (simp add: same_failures_def outcome_def)

lemma same_failures_with_event: "same_failures (with_event r txt m) (outcome m)"
  unfolding same_failures_def with_event_def outcome_def
  by (auto simp: run_bind_pair emit_event_def simp del: run_state_bind split: sum.splits prod.splits)

lemma counting_counted:
  assumes "uncounted m" and "(l, msg, run) \<in> T" and "same_failures m run"
  shows "counting T (counted l msg m)"
  unfolding counting_def
proof
  fix s
  obtain r t where m: "run_state m s = (r, t)" by fastforce
  with assms(1) have same: "os_reconcileErrors t = os_reconcileErrors s" "\<exists>xs. os_log t = os_log s @ xs"
    by (auto simp: steps_def uncounted_step_def dest!: spec [of _ s])
  show "case run_state (counted l msg m) s of
      (Inl e, t) \<Rightarrow> blamed T s e t
    | (Inr x, t) \<Rightarrow> os_reconcileErrors t = os_reconcileErrors s \<and> (\<exists>xs. os_log t = os_log s @ xs)"
  proof (cases r)
    case (Inr x)
    then show ?thesis using m same by (simp add: counted_def)
  next
    case (Inl e)
    with m assms(3) obtain u where u: "run s = (Some e, u)" "os_log t = os_log u" "os_world t = os_world u"
      unfolding same_failures_def by blast
    have "blamed T s (Wrap msg e) (t\<lparr>os_reconcileErrors := os_reconcileErrors t @ [l]\<rparr>)"
      unfolding blamed_def
      by (rule exI [of _ l], rule exI [of _ msg], rule exI [of _ run], rule exI [of _ e], rule exI [of _ s], rule exI [of _ u],
          rule exI [of _ "[]"]) (simp add: assms(2) u same(1))
    then show ?thesis using m Inl by (simp add: counted_def inc_reconcile_error_def)
  qed
qed

lemma counting_bindE:
  assumes "counting T m" and "\<And>x. counting T (f x)"
  shows "counting T (bindE m f)"
  unfolding counting_def
proof
  fix s
  obtain r t where m: "run_state m s = (r, t)" by fastforce
  show "case run_state (bindE m f) s of
      (Inl e, t) \<Rightarrow> blamed T s e t
    | (Inr x, t) \<Rightarrow> os_reconcileErrors t = os_reconcileErrors s \<and> (\<exists>xs. os_log t = os_log s @ xs)"
  proof (cases r)
    case (Inl e)
    then show ?thesis using assms(1) m by (auto simp: counting_def dest!: spec [of _ s])
  next
    case (Inr x)
    then obtain xs where t: "os_reconcileErrors t = os_reconcileErrors s" "os_log t = os_log s @ xs"
      using assms(1) m by (auto simp: counting_def dest!: spec [of _ s])
    show ?thesis
      using assms(2) [of x, unfolded counting_def, rule_format, of t] Inr m t blamed_later [OF t]
      by (auto split: prod.splits sum.splits)
  qed
qed

lemma counting_bind:
  assumes "uncounted m" and "\<And>x. counting T (f x)"
  shows "counting T (State_Monad.bind m f)"
  unfolding counting_def run_bind_pair
proof
  fix s
  let ?t = "snd (run_state m s)" and ?x = "fst (run_state m s)"
  from assms(1) obtain xs where t: "os_reconcileErrors ?t = os_reconcileErrors s" "os_log ?t = os_log s @ xs"
    by (auto simp: steps_def uncounted_step_def dest!: spec [of _ s])
  show "case run_state (f ?x) ?t of
      (Inl e, t) \<Rightarrow> blamed T s e t
    | (Inr x, t) \<Rightarrow> os_reconcileErrors t = os_reconcileErrors s \<and> (\<exists>xs. os_log t = os_log s @ xs)"
    using assms(2) [of ?x, unfolded counting_def, rule_format, of ?t] t blamed_later [OF t]
    by (auto split: prod.splits sum.splits)
qed

lemma counting_if: "(b \<Longrightarrow> counting T m) \<Longrightarrow> (\<not> b \<Longrightarrow> counting T n) \<Longrightarrow> counting T (if b then m else n)"
  by simp

lemma counting_prod: "(\<And>x y. r = (x, y) \<Longrightarrow> counting T (f x y)) \<Longrightarrow> counting T (case r of (x, y) \<Rightarrow> f x y)"
  by (cases r) simp

lemma counting_run_all: "(\<And>a. a \<in> set as \<Longrightarrow> counting T a) \<Longrightarrow> counting T (run_all as)"
  by (induction as) (auto intro!: counting_ok counting_bindE)

lemma counting_requeue: "counting T (requeue_installing E d)"
  unfolding requeue_installing_def flushInstallingStatus_def
  by (intro counting_bind counting_ok count.s_bind count.s_ret uncounted_local uncounted_root)

lemmas counting_step = counting_counted [OF _ _ same_failures_outcome] counting_counted [OF _ _ same_failures_with_event]

lemma counting_operand_steps: "a \<in> set (operand_steps E cr) \<Longrightarrow> counting (pass_steps E cr) a"
  unfolding operand_steps_def
  by (auto intro!: counting_step(1) in_pass_steps uncounted_operands counting_ok counting_bind uncounted_cluster_info)

lemma counting_sync_status: "counting (pass_steps E cr) (sync_status E cr)"
  unfolding sync_status_def
  by (intro counting_bind counting_bindE counting_step(1) in_pass_steps counting_ok uncounted_root uncounted_local uncounted_statusPass)

text \<open>
  C18: Every failure of an accepted pass is counted, once and under its own step: when a pass ends with an
  error, one of its steps was run in it and failed, no call came after that step's, the error is that
  step's own, wrapped in that step's name, and the counter of reconcile errors has grown by exactly that
  step's label; a pass that ends without an error has counted nothing, whatever was self-healed, requeued
  or rolled back on the way.
\<close>

theorem failures_are_counted:
  "case run_state (reconcile_accepted E cr) s of
     (Inr delay, t) \<Rightarrow> os_reconcileErrors t = os_reconcileErrors s
   | (Inl e, t) \<Rightarrow> blamed (pass_steps E cr) s e t"
proof -
  have "counting (pass_steps E cr) (reconcile_accepted E cr)"
    unfolding reconcile_accepted_def
    by (intro counting_bind counting_bindE counting_prod counting_if counting_step counting_requeue counting_run_all
        counting_sync_status in_pass_steps uncounted_with_event uncounted_pg uncounted_render uncounted_agent uncounted_ui uncounted_root
        counting_operand_steps)
  from this [unfolded counting_def, rule_format, of s] show ?thesis
    by (cases "run_state (reconcile_accepted E cr) s") (simp split: sum.splits)
qed

section \<open>Before the finalizer\<close>

text \<open>
  C17: Nothing is built before the finalizer is in place. A pass over a live resource that does not carry
  the finalizer yet creates, updates and applies no object at all: besides reads it deletes, when it
  rejects the instance, cluster-scoped objects of that instance, and it writes the resource itself, only
  to add the finalizer or to report the rejection in its status. So nothing exists that a deletion of
  the resource would not be held up for.
\<close>

theorem nothing_before_the_finalizer:
  assumes "fst (e_getPulse E ns name (os_world s)) = Inr cr" and "p_deletionTimestamp cr = None"
    and "finalizerName \<notin> set (p_finalizers cr)"
  shows "\<exists>xs. os_log (snd (run_state (ReconcilePulse E ns name) s)) = os_log s @ CGetPulse ns name (Inr cr) # xs \<and>
    list_all (\<lambda>c. write_key c = None \<and> (case delete_key c of None \<Rightarrow> True | Some k \<Rightarrow> k \<in> cluster_scoped_keys cr) \<and> own_update cr c) xs"
proof -
  have "confined {} (cluster_scoped_keys cr) (pass_of E cr)"
    unfolding pass_of_def live_of_def reject_of_def accept_of_def
    using assms(2,3)
    by (simp, intro allc.s_if allc.s_ret allc.s_bindE allc.s_wrapE allc.s_bind allc.e_state_ops confined_updates
        confined_touches [OF touches_deleteClusterScopedResources] confined_touches [OF touches_root(1) [of "{}" "{}"]]
        confined_touches [OF touches_root(2) [of "{}" "{}"]]; blast)
  from pass_appends [OF assms(1) this] pass_sends_own [OF assms(1)] obtain xs where
    xs: "os_log (snd (run_state (ReconcilePulse E ns name) s)) = os_log s @ CGetPulse ns name (Inr cr) # xs"
      "list_all (pass_call {} (cluster_scoped_keys cr)) xs" "list_all (own_update cr) xs"
    by auto
  have "list_all (\<lambda>c. write_key c = None \<and> (case delete_key c of None \<Rightarrow> True | Some k \<Rightarrow> k \<in> cluster_scoped_keys cr) \<and> own_update cr c) xs"
    using xs(2,3) by (auto simp: list_all_iff pass_call_def within_def split: option.split elim!: writes_pulse.elims)
  with xs(1) show ?thesis by blast
qed

text \<open>A resource the operator has not seen yet.\<close>

definition new_instance :: pulse where
  "new_instance = empty_pulse ''pulse'' ''openshiftpulse'' ''u1''"

theorem nothing_before_the_finalizer_witness:
  "\<exists>xs. os_log (snd (run_state (ReconcilePulse sim_env ''openshiftpulse'' ''pulse'')
        (sim_state (empty_world\<lparr>sw_pulses := [new_instance]\<rparr>) new_instance))) =
      CGetPulse ''openshiftpulse'' ''pulse'' (Inr new_instance) # xs \<and>
    list_all (\<lambda>c. write_key c = None \<and> own_update new_instance c) xs"
proof -
  let ?s = "sim_state (empty_world\<lparr>sw_pulses := [new_instance]\<rparr>) new_instance"
  have "fst (e_getPulse sim_env ''openshiftpulse'' ''pulse'' (os_world ?s)) = Inr new_instance"
    and "p_deletionTimestamp new_instance = None" "finalizerName \<notin> set (p_finalizers new_instance)"
    by (simp_all add: new_instance_def sim_simps)
  from nothing_before_the_finalizer [OF this] show ?thesis
    by (auto simp: sim_state_def list_all_iff)
qed

end
