(* ===== verification/Startup.thy ===== *)
theory Startup
  imports PassProps
begin

text \<open>
  How the operator starts (\<open>cmd/main.go\<close>) and what wakes it up (\<open>SetupWithManager\<close>): the API packages
  registered in the scheme, the steps of \<open>main\<close> with their exits, the watched kinds, and the metrics
  registered when the package is loaded. Flag parsing, the manager and its probes are the library's:
  whether one of its calls succeeds is an argument.
\<close>

section \<open>The scheme\<close>

text \<open>The packages by the aliases they are imported under.\<close>

datatype api_package =
  Corev1 | Appsv1 | Rbacv1 | Networkingv1 | Policyv1 | Pulsev1alpha1 | Routev1 | Oauthv1 | Configv1 | Imagev1

definition scheme_packages :: "api_package list" where
  "scheme_packages =
     [Corev1, Appsv1, Rbacv1, Networkingv1, Policyv1, Pulsev1alpha1, Routev1, Oauthv1, Configv1, Imagev1]"

text \<open>\<open>GroupVersion\<close>, and the types registered for it by \<open>init\<close> of \<open>types.go\<close>.\<close>

definition GroupVersion :: "string \<times> string" where
  "GroupVersion = (''pulse.ai'', ''v1alpha1'')"

definition pulse_types :: "string list" where
  "pulse_types = [''OpenShiftPulse'', ''OpenShiftPulseList'']"

text \<open>The package of the Go type the code uses for a kind; \<open>None\<close> where it uses unstructured objects.\<close>

definition typed_package :: "kind \<Rightarrow> api_package option" where
  "typed_package k =
     (case k of
        KServiceAccount \<Rightarrow> Some Corev1 | KSecret \<Rightarrow> Some Corev1 | KConfigMap \<Rightarrow> Some Corev1 | KService \<Rightarrow> Some Corev1
      | KPersistentVolumeClaim \<Rightarrow> Some Corev1 | KPod \<Rightarrow> Some Corev1 | KNamespace \<Rightarrow> Some Corev1
      | KClusterRole \<Rightarrow> Some Rbacv1 | KClusterRoleBinding \<Rightarrow> Some Rbacv1
      | KDeployment \<Rightarrow> Some Appsv1 | KStatefulSet \<Rightarrow> Some Appsv1
      | KNetworkPolicy \<Rightarrow> Some Networkingv1 | KPodDisruptionBudget \<Rightarrow> Some Policyv1
      | KIngress \<Rightarrow> Some Configv1 | KImageStream \<Rightarrow> Some Imagev1
      | KRoute \<Rightarrow> None | KOAuthClient \<Rightarrow> None | KServiceMonitor \<Rightarrow> None | KPrometheusRule \<Rightarrow> None | KPodMetrics \<Rightarrow> None)"

lemma every_type_is_registered:
  "case typed_package k of None \<Rightarrow> True | Some p \<Rightarrow> p \<in> set scheme_packages"
  by (cases k) (simp_all add: typed_package_def scheme_packages_def)

section \<open>The watches\<close>

definition owned_kinds :: "kind list" where
  "owned_kinds = [KDeployment, KStatefulSet, KService, KPersistentVolumeClaim, KSecret, KServiceAccount]"

text \<open>The resource whose changes start a pass, and the kinds whose changes start one of their owner.\<close>

definition watches :: "string \<times> kind list" where
  "watches = (''OpenShiftPulse'', owned_kinds)"

text \<open>
  What a pass writes in its namespace and no watch reports: a change of one of these objects is seen by
  the next pass that is due, not at once.
\<close>

lemma unwatched_writes:
  assumes "p_namespace cr \<noteq> ''''"
  shows "k_kind ` {k \<in> pass_writes cr. k_namespace k = p_namespace cr} - set owned_kinds =
     {KConfigMap, KNetworkPolicy, KPodDisruptionBudget, KRoute, KServiceMonitor, KPrometheusRule}"
    (is "?L = ?R")
proof
  let ?ns = "p_namespace cr" and ?n = "p_name cr"
  show "?L \<subseteq> ?R"
    using assms
    by (auto simp: pass_writes_def pg_writes_def render_objects_def render_owned_def agent_writes_def np_writes_def pdb_keys_def
        monitoring_writes_def mcp_writes_def temporal_objects_def ui_writes_def owned_kinds_def Let_def)
  have "key KConfigMap ?ns (uiServiceCABundleName ?n) \<in> ui_writes cr" "key KRoute ?ns (uiResourceName ?n) \<in> ui_writes cr"
    "key KNetworkPolicy ?ns (?n @ ''-openshiftpulse'') \<in> np_writes cr"
    "key KPodDisruptionBudget ?ns (?n @ ''-openshiftpulse'') \<in> pdb_keys cr"
    by (simp_all add: ui_writes_def np_writes_def pdb_keys_def Let_def)
  moreover have "\<exists>m. key KServiceMonitor ?ns m \<in> monitoring_writes cr" "\<exists>m. key KPrometheusRule ?ns m \<in> monitoring_writes cr"
    by (auto simp: monitoring_writes_def Let_def)
  ultimately show "?R \<subseteq> ?L"
    unfolding pass_writes_def owned_kinds_def by force
qed

section \<open>The steps of main\<close>

record main_flags =
  fl_metricsAddr :: string
  fl_probeAddr :: string
  fl_leaderElect :: bool

definition default_flags :: main_flags where
  "default_flags = \<lparr>fl_metricsAddr = '':8082'', fl_probeAddr = '':8081'', fl_leaderElect = False\<rparr>"

record manager_options =
  mo_scheme :: "api_package list"
  mo_probeAddr :: string
  mo_leaderElection :: bool
  mo_leaderElectionID :: string
  mo_metricsAddr :: string

definition managerOptions :: "main_flags \<Rightarrow> manager_options" where
  "managerOptions f =
     \<lparr>mo_scheme = scheme_packages, mo_probeAddr = fl_probeAddr f, mo_leaderElection = fl_leaderElect f,
      mo_leaderElectionID = ''pulse-operator.pulse.ai'', mo_metricsAddr = fl_metricsAddr f\<rparr>"

datatype startup_call =
  NewManager manager_options | SetupWithManager "string \<times> kind list" | AddHealthzCheck string | AddReadyzCheck string | StartManager

datatype startup_step = Attempt startup_call string | Announce string

definition startup :: "main_flags \<Rightarrow> startup_step list" where
  "startup f =
     [Attempt (NewManager (managerOptions f)) ''unable to start manager'',
      Attempt (SetupWithManager watches) ''unable to create controller'',
      Attempt (AddHealthzCheck ''healthz'') ''unable to set up health check'',
      Attempt (AddReadyzCheck ''readyz'') ''unable to set up ready check'',
      Announce ''starting manager'',
      Attempt StartManager ''problem running manager'']"

text \<open>The calls made, the lines logged and the exit code; a failure is logged and ends the program.\<close>

fun run_startup :: "(startup_call \<Rightarrow> bool) \<Rightarrow> startup_step list \<Rightarrow> startup_call list \<times> string list \<times> int" where
  "run_startup succeeds [] = ([], [], 0)"
| "run_startup succeeds (Announce msg # rest) =
     (let (calls, logs, code) = run_startup succeeds rest in (calls, msg # logs, code))"
| "run_startup succeeds (Attempt c msg # rest) =
     (if succeeds c then let (calls, logs, code) = run_startup succeeds rest in (c # calls, logs, code)
      else ([c], [msg], 1))"

definition main :: "(startup_call \<Rightarrow> bool) \<Rightarrow> main_flags \<Rightarrow> startup_call list \<times> string list \<times> int" where
  "main succeeds f = run_startup succeeds (startup f)"

lemma run_startup_attempts:
  "fst (run_startup g as) =
     (let cs = concat (map (\<lambda>x. case x of Attempt c _ \<Rightarrow> [c] | Announce _ \<Rightarrow> []) as)
      in takeWhile g cs @ take 1 (dropWhile g cs))"
  by (induction g as rule: run_startup.induct) (auto simp: Let_def split: prod.splits)

lemma run_startup_exit: "snd (snd (run_startup g as)) = (if list_all g (fst (run_startup g as)) then 0 else 1)"
  by (induction g as rule: run_startup.induct) (auto split: prod.splits)

text \<open>
  The manager serves only when the controller and both probes are in place, and the program exits with
  an error exactly when some call failed, which is then the last one it made.
\<close>

lemma main_serves_when_ready:
  "StartManager \<in> set (fst (main g f)) \<longleftrightarrow>
     g (NewManager (managerOptions f)) \<and> g (SetupWithManager watches) \<and> g (AddHealthzCheck ''healthz'') \<and> g (AddReadyzCheck ''readyz'')"
  by (simp add: main_def startup_def run_startup_attempts Let_def)

lemma main_exit_code:
  "snd (snd (main g f)) = (if list_all g (fst (main g f)) then 0 else 1)" "list_all g (butlast (fst (main g f)))"
proof -
  show "snd (snd (main g f)) = (if list_all g (fst (main g f)) then 0 else 1)"
    unfolding main_def by (rule run_startup_exit)
  have "list_all g (butlast (takeWhile g cs @ take 1 (dropWhile g cs)))" for cs :: "startup_call list"
  proof (cases "dropWhile g cs")
    case Nil
    show ?thesis unfolding Nil by (auto simp: list_all_iff dest!: in_set_butlastD set_takeWhileD)
  next
    case (Cons c ds)
    then show ?thesis by (simp add: list_all_iff butlast_append) (auto dest: set_takeWhileD)
  qed
  then show "list_all g (butlast (fst (main g f)))"
    unfolding main_def run_startup_attempts by (simp add: Let_def)
qed

section \<open>The metrics\<close>

record metric_vec =
  mv_name :: string
  mv_labels :: "string list"

definition selfHealActionsTotal :: metric_vec where
  "selfHealActionsTotal = \<lparr>mv_name = ''pulse_operator_self_heal_actions_total'', mv_labels = [''component'', ''action'']\<rparr>"

definition reconcileErrorsTotal :: metric_vec where
  "reconcileErrorsTotal = \<lparr>mv_name = ''pulse_operator_reconcile_errors_total'', mv_labels = [''step'']\<rparr>"

definition gauge_vec :: "string \<Rightarrow> metric_vec" where
  "gauge_vec name = \<lparr>mv_name = name, mv_labels = [''namespace'', ''name'', ''component'']\<rparr>"

definition registered_metrics :: "metric_vec list" where
  "registered_metrics =
     [selfHealActionsTotal, gauge_vec componentReadyGauge, reconcileErrorsTotal, gauge_vec observedMemoryGauge,
      gauge_vec requestedMemoryGauge]"

text \<open>\<open>MustRegister\<close> panics on a name registered twice; the names differ.\<close>

lemma registration_succeeds: "distinct (map mv_name registered_metrics)"
  by (simp add: registered_metrics_def selfHealActionsTotal_def reconcileErrorsTotal_def gauge_vec_def componentReadyGauge_def
      observedMemoryGauge_def requestedMemoryGauge_def)

end
