(* ===== verification/GoMemory.thy ===== *)
theory GoMemory
  imports Prelude "HOL-Library.State_Monad"
begin

text \<open>
  Go's memory, for the one part of the program whose meaning is about memory: copies that share
  nothing with their original. A store is the list of the cells allocated so far and an address is a
  position in it, so allocation appends. A value refers to cells by addresses; \<open>refs h x\<close> are the
  addresses reachable from \<open>x\<close> and \<open>val h x\<close> is what a reader sees. The locale \<open>deep_copier\<close> is the
  contract of a \<open>DeepCopyInto\<close>, and one lemma per construct says that the construct keeps it.
\<close>

section \<open>Stores\<close>

type_synonym addr = nat

definition new_cell :: "'c \<Rightarrow> ('c list, addr) state" where
  "new_cell c =
     do { h \<leftarrow> State_Monad.get;
          _ \<leftarrow> State_Monad.set (h @ [c]);
          State_Monad.return (length h) }"

definition load :: "addr \<Rightarrow> ('c list, 'c) state" where
  "load a = do { h \<leftarrow> State_Monad.get; State_Monad.return (h ! a) }"

lemma run_new_cell [simp]: "run_state (new_cell c) h = (length h, h @ [c])"
  by (simp add: new_cell_def)

lemma run_load [simp]: "run_state (load a) h = (h ! a, h)"
  by (simp add: load_def)

text \<open>Two stores that hold the same cells at some addresses, and a store changed at some addresses only.\<close>

definition agree :: "addr set \<Rightarrow> 'c list \<Rightarrow> 'c list \<Rightarrow> bool" where
  "agree A h h' \<longleftrightarrow> (\<forall>a\<in>A. a < length h \<and> a < length h' \<and> h ! a = h' ! a)"

definition written_within :: "addr set \<Rightarrow> 'c list \<Rightarrow> 'c list \<Rightarrow> bool" where
  "written_within A h h' \<longleftrightarrow> length h \<le> length h' \<and> (\<forall>a<length h. a \<notin> A \<longrightarrow> h' ! a = h ! a)"

text \<open>Addresses allocated in a store of a given size, and addresses allocated between two sizes.\<close>

definition below :: "nat \<Rightarrow> addr set \<Rightarrow> bool" where
  "below n A \<longleftrightarrow> (\<forall>a\<in>A. a < n)"

definition fresh :: "nat \<Rightarrow> nat \<Rightarrow> addr set \<Rightarrow> bool" where
  "fresh m n A \<longleftrightarrow> (\<forall>a\<in>A. m \<le> a \<and> a < n)"

lemma below_simps [simp]:
  "below n {}" "below n (insert a A) \<longleftrightarrow> a < n \<and> below n A" "below n (A \<union> B) \<longleftrightarrow> below n A \<and> below n B"
  "below n (\<Union>x\<in>X. R x) \<longleftrightarrow> (\<forall>x\<in>X. below n (R x))"
  by (auto simp: below_def)

lemma fresh_simps [simp]:
  "fresh m n {}" "fresh m n (insert a A) \<longleftrightarrow> m \<le> a \<and> a < n \<and> fresh m n A" "fresh m n (A \<union> B) \<longleftrightarrow> fresh m n A \<and> fresh m n B"
  "fresh m n (\<Union>x\<in>X. R x) \<longleftrightarrow> (\<forall>x\<in>X. fresh m n (R x))"
  by (auto simp: fresh_def)

lemma below_mono: "below n A \<Longrightarrow> n \<le> n' \<Longrightarrow> below n' A"
  by (auto simp: below_def)

lemma fresh_mono: "fresh m n A \<Longrightarrow> m' \<le> m \<Longrightarrow> n \<le> n' \<Longrightarrow> fresh m' n' A"
  by (auto simp: fresh_def)

lemma fresh_below: "fresh m n A \<Longrightarrow> below n A"
  by (auto simp: below_def fresh_def)

lemma fresh_disjoint: "below m A \<Longrightarrow> fresh m n B \<Longrightarrow> A \<inter> B = {}"
  by (fastforce simp: below_def fresh_def)

lemma agree_union [simp]: "agree (A \<union> B) h h' \<longleftrightarrow> agree A h h' \<and> agree B h h'"
  by (auto simp: agree_def)

lemma agree_insert [simp]: "agree (insert a A) h h' \<longleftrightarrow> a < length h \<and> a < length h' \<and> h ! a = h' ! a \<and> agree A h h'"
  by (auto simp: agree_def)

lemma agree_empty [simp]: "agree {} h h'"
  by (simp add: agree_def)

lemma agree_UN: "agree (\<Union>x\<in>X. R x) h h' \<Longrightarrow> x \<in> X \<Longrightarrow> agree (R x) h h'"
  by (auto simp: agree_def)

lemma agree_grown: "prefix h h' \<Longrightarrow> below (length h) A \<Longrightarrow> agree A h h'"
  by (auto simp: agree_def below_def prefix_def nth_append)

lemma agree_within: "written_within B h h' \<Longrightarrow> below (length h) A \<Longrightarrow> A \<inter> B = {} \<Longrightarrow> agree A h h'"
  by (auto simp: agree_def written_within_def below_def)

section \<open>The contract of a deep copy\<close>

text \<open>The copy \<open>y\<close>, in a store that has only grown, consists of new cells and reads like \<open>x\<close>.\<close>

definition copied ::
  "('c list \<Rightarrow> 'a \<Rightarrow> addr set) \<Rightarrow> ('c list \<Rightarrow> 'a \<Rightarrow> 'v) \<Rightarrow> 'c list \<Rightarrow> 'a \<Rightarrow> 'a \<times> 'c list \<Rightarrow> bool" where
  "copied r v h x = (\<lambda>(y, h'). prefix h h' \<and> fresh (length h) (length h') (r h' y) \<and> v h' y = v h x)"

lemma copiedD:
  assumes "copied r v h x (y, h')"
  shows "prefix h h'" "length h \<le> length h'" "fresh (length h) (length h') (r h' y)" "v h' y = v h x"
    "below (length h') (r h' y)"
  using assms by (auto simp: copied_def dest: prefix_length_le fresh_below)

lemma copiedI: "prefix h h' \<Longrightarrow> fresh (length h) (length h') (r h' y) \<Longrightarrow> v h' y = v h x \<Longrightarrow> copied r v h x (y, h')"
  by (simp add: copied_def)

locale deep_copier =
  fixes copy :: "'a \<Rightarrow> ('c list, 'a) state"
    and refs :: "'c list \<Rightarrow> 'a \<Rightarrow> addr set"
    and val :: "'c list \<Rightarrow> 'a \<Rightarrow> 'v"
  assumes reads: "agree (refs h x) h h' \<Longrightarrow> refs h' x = refs h x \<and> val h' x = val h x"
    and copies: "below (length h) (refs h x) \<Longrightarrow> copied refs val h x (run_state (copy x) h)"
begin

lemma kept:
  assumes "below (length h) (refs h x)" and "prefix h h'"
  shows "refs h' x = refs h x" "val h' x = val h x"
  using reads [OF agree_grown [OF assms(2,1)]] by simp_all

text \<open>Whatever is written later through one of the two, the other reads as before.\<close>

lemma independent:
  assumes "below (length h) (refs h x)" and "run_state (copy x) h = (y, h')"
  shows "refs h' x \<inter> refs h' y = {}"
    and "written_within (refs h' y) h' h1 \<Longrightarrow> val h1 x = val h x"
    and "written_within (refs h' x) h' h1 \<Longrightarrow> val h1 y = val h x"
proof -
  note c = copiedD [OF copies [OF assms(1), unfolded assms(2)]] and x = kept [OF assms(1)]
  have bx: "below (length h) (refs h' x)" using x(1) [OF c(1)] assms(1) by simp
  then show disj: "refs h' x \<inter> refs h' y = {}" using c(3) by (rule fresh_disjoint)
  show "val h1 y = val h x" if "written_within (refs h' x) h' h1"
    using reads [OF agree_within [OF that c(5)]] disj c(4) by (simp add: Int_commute)
  show "val h1 x = val h x" if "written_within (refs h' y) h' h1"
    using reads [OF agree_within [OF that below_mono [OF bx c(2)] disj]] x(2) [OF c(1)] by simp
qed

end

section \<open>Constructs that keep the contract\<close>

text \<open>A value without pointers.\<close>

lemma deep_scalar: "deep_copier State_Monad.return (\<lambda>_ _. {}) (\<lambda>_ x. x)"
  by unfold_locales (auto simp: copied_def)

text \<open>One field after the other.\<close>

lemma copied_pair:
  assumes "deep_copier c1 r1 v1" and "deep_copier c2 r2 v2" and b: "below (length h) (r1 h x1)" "below (length h) (r2 h x2)"
    and runs: "run_state (c1 x1) h = (y1, h1)" "run_state (c2 x2) h1 = (y2, h2)"
  shows "prefix h h2" "fresh (length h) (length h2) (r1 h2 y1)" "fresh (length h) (length h2) (r2 h2 y2)"
    "v1 h2 y1 = v1 h x1" "v2 h2 y2 = v2 h x2"
proof -
  note a1 = copiedD [OF deep_copier.copies [OF assms(1) b(1), unfolded runs(1)]]
  note k2 = deep_copier.kept [OF assms(2) b(2) a1(1)]
  have "below (length h1) (r2 h1 x2)" using below_mono [OF b(2) a1(2)] by (simp add: k2)
  note a2 = copiedD [OF deep_copier.copies [OF assms(2) this, unfolded runs(2)]]
  note k1 = deep_copier.kept [OF assms(1) a1(5) a2(1)]
  show "prefix h h2" using a1(1) a2(1) by (rule prefix_order.trans)
  show "fresh (length h) (length h2) (r1 h2 y1)" using fresh_mono [OF a1(3) le_refl a2(2)] by (simp add: k1)
  show "fresh (length h) (length h2) (r2 h2 y2)" using fresh_mono [OF a2(3) a1(2) le_refl] .
  show "v1 h2 y1 = v1 h x1" "v2 h2 y2 = v2 h x2" by (simp_all add: k1 k2 a1(4) a2(4))
qed

definition both :: "('a \<Rightarrow> ('s, 'a) state) \<Rightarrow> ('b \<Rightarrow> ('s, 'b) state) \<Rightarrow> 'a \<times> 'b \<Rightarrow> ('s, 'a \<times> 'b) state" where
  "both c1 c2 p = do { y1 \<leftarrow> c1 (fst p); y2 \<leftarrow> c2 (snd p); State_Monad.return (y1, y2) }"

lemma deep_pair:
  assumes "deep_copier c1 r1 v1" and "deep_copier c2 r2 v2"
  shows "deep_copier (both c1 c2) (\<lambda>h p. r1 h (fst p) \<union> r2 h (snd p)) (\<lambda>h p. (v1 h (fst p), v2 h (snd p)))"
proof
  fix h h' :: "'b list" and p
  show "agree (r1 h (fst p) \<union> r2 h (snd p)) h h' \<Longrightarrow>
      r1 h' (fst p) \<union> r2 h' (snd p) = r1 h (fst p) \<union> r2 h (snd p) \<and> (v1 h' (fst p), v2 h' (snd p)) = (v1 h (fst p), v2 h (snd p))"
    using deep_copier.reads [OF assms(1), of h "fst p" h'] deep_copier.reads [OF assms(2), of h "snd p" h'] by simp
  obtain y1 h1 where r1: "run_state (c1 (fst p)) h = (y1, h1)" by fastforce
  obtain y2 h2 where r2: "run_state (c2 (snd p)) h1 = (y2, h2)" by fastforce
  assume "below (length h) (r1 h (fst p) \<union> r2 h (snd p))"
  then have b: "below (length h) (r1 h (fst p))" "below (length h) (r2 h (snd p))" by simp_all
  show "copied (\<lambda>h p. r1 h (fst p) \<union> r2 h (snd p)) (\<lambda>h p. (v1 h (fst p), v2 h (snd p))) h p (run_state (both c1 c2 p) h)"
    using copied_pair [OF assms b r1 r2] by (simp add: both_def r1 r2 copied_def)
qed

text \<open>A struct: the fields named by \<open>part\<close> are copied, all others are assigned.\<close>

lemma deep_struct:
  assumes "deep_copier c r v" and "\<And>t x. part (put t x) = t" and "\<And>w t x. build w (put t x) = build w x"
    and "\<And>x. copy x = do { t \<leftarrow> c (part x); State_Monad.return (put t x) }"
    and "\<And>h x. refs h x = r h (part x)" and "\<And>h x. val h x = build (v h (part x)) x"
  shows "deep_copier copy refs val"
proof
  fix h h' x
  show "agree (refs h x) h h' \<Longrightarrow> refs h' x = refs h x \<and> val h' x = val h x"
    using deep_copier.reads [OF assms(1), of h "part x" h'] by (simp add: assms(5,6))
  obtain t h1 where t: "run_state (c (part x)) h = (t, h1)" by fastforce
  assume "below (length h) (refs h x)"
  then have "below (length h) (r h (part x))" by (simp add: assms(5))
  note k = copiedD [OF deep_copier.copies [OF assms(1) this, unfolded t]]
  show "copied refs val h x (run_state (copy x) h)"
    using k(1,3,4) by (simp add: assms(2-6) t copied_def)
qed

text \<open>
  A pointer or a slice: \<open>nil\<close> stays \<open>nil\<close>, anything else is copied into a new cell. The cell is
  allocated when its contents are known; addresses cannot be observed in Go, so when it is does not
  matter.
\<close>

definition copy_ptr :: "('a \<Rightarrow> 'c) \<Rightarrow> ('c \<Rightarrow> 'a) \<Rightarrow> ('a \<Rightarrow> ('c list, 'a) state) \<Rightarrow> addr option \<Rightarrow> ('c list, addr option) state" where
  "copy_ptr box unbox c p =
     (case p of None \<Rightarrow> State_Monad.return None
      | Some a \<Rightarrow> do { x \<leftarrow> load a; y \<leftarrow> c (unbox x); b \<leftarrow> new_cell (box y); State_Monad.return (Some b) })"

lemma copy_ptr_nil: "fst (run_state (copy_ptr box unbox c p) h) = None \<longleftrightarrow> p = None"
  by (cases p) (auto simp: copy_ptr_def split: prod.splits)

definition refs_ptr :: "('c \<Rightarrow> 'a) \<Rightarrow> ('c list \<Rightarrow> 'a \<Rightarrow> addr set) \<Rightarrow> 'c list \<Rightarrow> addr option \<Rightarrow> addr set" where
  "refs_ptr unbox r h p = (case p of None \<Rightarrow> {} | Some a \<Rightarrow> insert a (r h (unbox (h ! a))))"

definition val_ptr :: "('c \<Rightarrow> 'a) \<Rightarrow> ('c list \<Rightarrow> 'a \<Rightarrow> 'v) \<Rightarrow> 'c list \<Rightarrow> addr option \<Rightarrow> 'v option" where
  "val_ptr unbox v h p = map_option (\<lambda>a. v h (unbox (h ! a))) p"

lemma deep_ptr:
  assumes "deep_copier c r v" and "\<And>x. unbox (box x) = x"
  shows "deep_copier (copy_ptr box unbox c) (refs_ptr unbox r) (val_ptr unbox v)"
proof
  fix h h' :: "'b list" and p
  show "agree (refs_ptr unbox r h p) h h' \<Longrightarrow> refs_ptr unbox r h' p = refs_ptr unbox r h p \<and> val_ptr unbox v h' p = val_ptr unbox v h p"
    using deep_copier.reads [OF assms(1), of h "unbox (h ! the p)" h'] by (cases p) (auto simp: refs_ptr_def val_ptr_def)
  assume p: "below (length h) (refs_ptr unbox r h p)"
  show "copied (refs_ptr unbox r) (val_ptr unbox v) h p (run_state (copy_ptr box unbox c p) h)"
  proof (cases p)
    case None
    then show ?thesis by (simp add: copy_ptr_def refs_ptr_def val_ptr_def copied_def)
  next
    case (Some a)
    obtain y h1 where y: "run_state (c (unbox (h ! a))) h = (y, h1)" by fastforce
    have "below (length h) (r h (unbox (h ! a)))" using p Some by (simp add: refs_ptr_def)
    note k = copiedD [OF deep_copier.copies [OF assms(1) this, unfolded y]]
    note g = deep_copier.kept [OF assms(1) k(5), of "h1 @ [box y]"]
    show ?thesis
      using k(1,2,4) fresh_mono [OF k(3) le_refl, of "Suc (length h1)"] g assms(2) Some y
      by (auto simp: copy_ptr_def refs_ptr_def val_ptr_def copied_def)
  qed
qed

text \<open>The elements of a slice, in order.\<close>

lemma deep_list:
  assumes "deep_copier c r v"
  shows "deep_copier (State_Monad.traverse_list c) (\<lambda>h xs. \<Union>x\<in>set xs. r h x) (\<lambda>h xs. map (v h) xs)"
proof
  fix h h' :: "'b list" and xs
  show "agree (\<Union>x\<in>set xs. r h x) h h' \<Longrightarrow> (\<Union>x\<in>set xs. r h' x) = (\<Union>x\<in>set xs. r h x) \<and> map (v h') xs = map (v h) xs"
    using deep_copier.reads [OF assms agree_UN [of "r h" "set xs"]] by simp
next
  fix h :: "'b list" and xs
  show "below (length h) (\<Union>x\<in>set xs. r h x) \<Longrightarrow>
    copied (\<lambda>h xs. \<Union>x\<in>set xs. r h x) (\<lambda>h xs. map (v h) xs) h xs (run_state (State_Monad.traverse_list c xs) h)"
  proof (induction xs arbitrary: h)
    case Nil
    then show ?case by (simp add: copied_def)
  next
    case (Cons x xs)
    obtain y h1 where y: "run_state (c x) h = (y, h1)" by fastforce
    obtain ys h2 where ys: "run_state (State_Monad.traverse_list c xs) h1 = (ys, h2)" by fastforce
    have b: "below (length h) (r h x)" "\<And>z. z \<in> set xs \<Longrightarrow> below (length h) (r h z)" using Cons.prems by simp_all
    note k = copiedD [OF deep_copier.copies [OF assms b(1), unfolded y]]
    have same: "r h1 z = r h z" "v h1 z = v h z" if "z \<in> set xs" for z
      using deep_copier.kept [OF assms b(2) [OF that] k(1)] by simp_all
    have "below (length h1) (\<Union>z\<in>set xs. r h1 z)" using below_mono [OF b(2) k(2)] by (simp add: same)
    note i = copiedD [OF Cons.IH [OF this, unfolded ys]]
    note ky = deep_copier.kept [OF assms k(5) i(1)]
    have "prefix h h2" using k(1) i(1) by (rule prefix_order.trans)
    moreover have "fresh (length h) (length h2) (r h2 y \<union> (\<Union>z\<in>set ys. r h2 z))"
      using fresh_mono [OF k(3) le_refl i(2)] fresh_mono [OF i(3) k(2) le_refl] by (simp add: ky(1))
    moreover have "map (v h2) (y # ys) = map (v h) (x # xs)"
      using i(4) same(2) by (simp add: ky(2) k(4))
    ultimately show ?case by (simp add: y ys copied_def)
  qed
qed

end
