(* ===== verification/DeepCopies.thy ===== *)
theory DeepCopies
  imports PulseTypes GoMemory
begin

text \<open>
  The deep copies of the custom resource (\<open>api/v1alpha1/zz_generated.deepcopy.go\<close>) over an explicit
  store, and what they are for: the controller reads resources out of a shared cache through them. The
  other theories treat a resource as a value; \<open>value_pulse\<close> is that value, read off the store,
  and the property below is why it may be one: nothing written through a copy is seen through the
  original, nor the other way round.
\<close>

section \<open>The resource in memory\<close>

text \<open>The structs that hold pointers, slices or maps; a \<open>nil\<close> is \<^const>\<open>None\<close>. The others are values.\<close>

record go_resources =
  gr_requests :: "addr option"
  gr_limits :: "addr option"

record go_meta =
  gm_name :: string
  gm_namespace :: string
  gm_uid :: string
  gm_generation :: int
  gm_creationTimestamp :: int
  gm_deletionTimestamp :: "addr option"
  gm_annotations :: "addr option"
  gm_finalizers :: "addr option"

record go_list_meta =
  gl_resourceVersion :: string
  gl_remainingItemCount :: "addr option"

record go_agent =
  ga_image :: string
  ga_trustLevel :: int
  ga_durableAutoFix :: "addr option"
  ga_adminUsers :: string
  ga_allowWriteOperations :: bool
  ga_allowSecretAccess :: "addr option"
  ga_resources :: go_resources
  ga_mcp :: mcp_config
  ga_minOperatorVersion :: string

record go_ui =
  gu_image :: string
  gu_replicas :: int
  gu_oauthProxyImage :: string
  gu_helmRunnerImage :: string
  gu_resources :: go_resources

record go_monitoring =
  gn_enabled :: "addr option"

record go_temporal =
  gt_enabled :: "addr option"
  gt_image :: string
  gt_ui :: "addr option"
  gt_uiImage :: string

record go_render =
  gd_enabled :: "addr option"
  gd_image :: string
  gd_resources :: go_resources

record go_spec =
  gs_vertexAI :: "addr option"
  gs_anthropicApiKey :: "addr option"
  gs_agent :: go_agent
  gs_ui :: go_ui
  gs_database :: database_config
  gs_monitoring :: go_monitoring
  gs_temporal :: go_temporal
  gs_render :: go_render

record go_status =
  gst_phase :: string
  gst_agentVersion :: string
  gst_agentHealthy :: bool
  gst_databaseReady :: bool
  gst_uiAvailable :: bool
  gst_routeHost :: string
  gst_conditions :: "addr option"
  gst_observedGeneration :: int
  gst_lastHealthyAgentImage :: string
  gst_lastHealthyUIImage :: string
  gst_agentRollback :: "addr option"
  gst_uiRollback :: "addr option"
  gst_upgradeStartedAt :: "addr option"
  gst_lastUpgradeDurationSeconds :: int

text \<open>\<open>TypeMeta\<close> is the kind and the API version.\<close>

record go_pulse =
  go_typeMeta :: "string \<times> string"
  go_metadata :: go_meta
  go_spec :: go_spec
  go_status :: go_status

record go_pulse_list =
  gp_typeMeta :: "string \<times> string"
  gp_listMeta :: go_list_meta
  gp_items :: "addr option"

text \<open>What an address may hold.\<close>

datatype cell =
    CBool (the_bool: bool) | CInt (the_int: int) | CStrings (the_strings: "string list") | CMap (the_map: smap)
  | CVertexAI (the_vertexAI: vertex_ai_config) | CAPIKey (the_apiKey: api_key_config)
  | CRollback (the_rollback: image_rollback) | CTime (the_time: int) | CConditions (the_conditions: "condition list")
  | CDatabase (the_database: database_config) | CMCP (the_mcp: mcp_config) | CMonitoring (the_monitoring: go_monitoring)
  | CAgent (the_agent: go_agent) | CUI (the_ui: go_ui) | CTemporal (the_temporal: go_temporal) | CRender (the_render: go_render)
  | CSpec (the_spec: go_spec) | CStatus (the_status: go_status) | CPulse (the_pulse: go_pulse)
  | CPulses (the_pulses: "go_pulse list") | CPulseList (the_pulseList: go_pulse_list)

type_synonym store = "cell list"

section \<open>What is read and what is reached\<close>

text \<open>The values of pointers to values, of slices and of maps; a reader of a \<open>nil\<close> slice or map sees an empty one.\<close>

abbreviation val_leaf :: "(cell \<Rightarrow> 'a) \<Rightarrow> store \<Rightarrow> addr option \<Rightarrow> 'a option" where
  "val_leaf get \<equiv> val_ptr get (\<lambda>_ x. x)"

abbreviation refs_leaf :: "(cell \<Rightarrow> 'a) \<Rightarrow> store \<Rightarrow> addr option \<Rightarrow> addr set" where
  "refs_leaf get \<equiv> refs_ptr get (\<lambda>_ _. {})"

definition or_empty :: "'a list option \<Rightarrow> 'a list" where
  "or_empty p = (case p of None \<Rightarrow> [] | Some xs \<Rightarrow> xs)"

definition value_resources :: "store \<Rightarrow> go_resources \<Rightarrow> resource_requirements" where
  "value_resources h x = \<lparr>rq_requests = val_leaf the_map h (gr_requests x), rq_limits = val_leaf the_map h (gr_limits x)\<rparr>"

definition refs_resources :: "store \<Rightarrow> go_resources \<Rightarrow> addr set" where
  "refs_resources h x = refs_leaf the_map h (gr_requests x) \<union> refs_leaf the_map h (gr_limits x)"

type_synonym meta_value =
  "(string \<times> string \<times> string \<times> int \<times> int) \<times> int option \<times> smap option \<times> string list option"

definition value_meta :: "store \<Rightarrow> go_meta \<Rightarrow> meta_value" where
  "value_meta h x =
     ((gm_name x, gm_namespace x, gm_uid x, gm_generation x, gm_creationTimestamp x),
      val_leaf the_time h (gm_deletionTimestamp x), val_leaf the_map h (gm_annotations x), val_leaf the_strings h (gm_finalizers x))"

definition refs_meta :: "store \<Rightarrow> go_meta \<Rightarrow> addr set" where
  "refs_meta h x =
     refs_leaf the_time h (gm_deletionTimestamp x) \<union> (refs_leaf the_map h (gm_annotations x) \<union> refs_leaf the_strings h (gm_finalizers x))"

definition value_list_meta :: "store \<Rightarrow> go_list_meta \<Rightarrow> string \<times> int option" where
  "value_list_meta h x = (gl_resourceVersion x, val_leaf the_int h (gl_remainingItemCount x))"

definition refs_list_meta :: "store \<Rightarrow> go_list_meta \<Rightarrow> addr set" where
  "refs_list_meta h x = refs_leaf the_int h (gl_remainingItemCount x)"

definition value_agent :: "store \<Rightarrow> go_agent \<Rightarrow> agent_config" where
  "value_agent h x =
     \<lparr>ag_image = ga_image x, ag_trustLevel = ga_trustLevel x, ag_durableAutoFix = val_leaf the_bool h (ga_durableAutoFix x),
      ag_adminUsers = ga_adminUsers x, ag_allowWriteOperations = ga_allowWriteOperations x,
      ag_allowSecretAccess = val_leaf the_bool h (ga_allowSecretAccess x), ag_resources = value_resources h (ga_resources x),
      ag_mcp = ga_mcp x, ag_minOperatorVersion = ga_minOperatorVersion x\<rparr>"

definition refs_agent :: "store \<Rightarrow> go_agent \<Rightarrow> addr set" where
  "refs_agent h x =
     refs_leaf the_bool h (ga_durableAutoFix x) \<union> (refs_leaf the_bool h (ga_allowSecretAccess x) \<union> refs_resources h (ga_resources x))"

definition value_ui :: "store \<Rightarrow> go_ui \<Rightarrow> ui_config" where
  "value_ui h x =
     \<lparr>uc_image = gu_image x, uc_replicas = gu_replicas x, uc_oauthProxyImage = gu_oauthProxyImage x,
      uc_helmRunnerImage = gu_helmRunnerImage x, uc_resources = value_resources h (gu_resources x)\<rparr>"

definition refs_ui :: "store \<Rightarrow> go_ui \<Rightarrow> addr set" where
  "refs_ui h x = refs_resources h (gu_resources x)"

definition value_monitoring :: "store \<Rightarrow> go_monitoring \<Rightarrow> bool option" where
  "value_monitoring h x = val_leaf the_bool h (gn_enabled x)"

definition refs_monitoring :: "store \<Rightarrow> go_monitoring \<Rightarrow> addr set" where
  "refs_monitoring h x = refs_leaf the_bool h (gn_enabled x)"

definition value_temporal :: "store \<Rightarrow> go_temporal \<Rightarrow> temporal_config" where
  "value_temporal h x =
     \<lparr>te_enabled = val_leaf the_bool h (gt_enabled x), te_image = gt_image x,
      te_ui = val_leaf the_bool h (gt_ui x), te_uiImage = gt_uiImage x\<rparr>"

definition refs_temporal :: "store \<Rightarrow> go_temporal \<Rightarrow> addr set" where
  "refs_temporal h x = refs_leaf the_bool h (gt_enabled x) \<union> refs_leaf the_bool h (gt_ui x)"

definition value_render :: "store \<Rightarrow> go_render \<Rightarrow> render_config" where
  "value_render h x =
     \<lparr>rc_enabled = val_leaf the_bool h (gd_enabled x), rc_image = gd_image x, rc_resources = value_resources h (gd_resources x)\<rparr>"

definition refs_render :: "store \<Rightarrow> go_render \<Rightarrow> addr set" where
  "refs_render h x = refs_leaf the_bool h (gd_enabled x) \<union> refs_resources h (gd_resources x)"

definition value_spec :: "store \<Rightarrow> go_spec \<Rightarrow> pulse_spec" where
  "value_spec h x =
     \<lparr>sp_vertexAI = val_leaf the_vertexAI h (gs_vertexAI x), sp_anthropicApiKey = val_leaf the_apiKey h (gs_anthropicApiKey x),
      sp_agent = value_agent h (gs_agent x), sp_ui = value_ui h (gs_ui x), sp_database = gs_database x,
      sp_monitoring_enabled = value_monitoring h (gs_monitoring x), sp_temporal = value_temporal h (gs_temporal x),
      sp_render = value_render h (gs_render x)\<rparr>"

definition refs_spec :: "store \<Rightarrow> go_spec \<Rightarrow> addr set" where
  "refs_spec h x =
     refs_leaf the_vertexAI h (gs_vertexAI x) \<union> (refs_leaf the_apiKey h (gs_anthropicApiKey x) \<union>
       (refs_agent h (gs_agent x) \<union> (refs_ui h (gs_ui x) \<union>
         (refs_monitoring h (gs_monitoring x) \<union> (refs_temporal h (gs_temporal x) \<union> refs_render h (gs_render x))))))"

definition value_status :: "store \<Rightarrow> go_status \<Rightarrow> pulse_status" where
  "value_status h x =
     \<lparr>st_phase = gst_phase x, st_agentVersion = gst_agentVersion x, st_agentHealthy = gst_agentHealthy x,
      st_databaseReady = gst_databaseReady x, st_uiAvailable = gst_uiAvailable x, st_routeHost = gst_routeHost x,
      st_conditions = or_empty (val_leaf the_conditions h (gst_conditions x)), st_observedGeneration = gst_observedGeneration x,
      st_lastHealthyAgentImage = gst_lastHealthyAgentImage x, st_lastHealthyUIImage = gst_lastHealthyUIImage x,
      st_agentRollback = val_leaf the_rollback h (gst_agentRollback x), st_uiRollback = val_leaf the_rollback h (gst_uiRollback x),
      st_upgradeStartedAt = val_leaf the_time h (gst_upgradeStartedAt x),
      st_lastUpgradeDurationSeconds = gst_lastUpgradeDurationSeconds x\<rparr>"

definition refs_status :: "store \<Rightarrow> go_status \<Rightarrow> addr set" where
  "refs_status h x =
     refs_leaf the_conditions h (gst_conditions x) \<union> (refs_leaf the_rollback h (gst_agentRollback x) \<union>
       (refs_leaf the_rollback h (gst_uiRollback x) \<union> refs_leaf the_time h (gst_upgradeStartedAt x)))"

definition value_pulse :: "store \<Rightarrow> go_pulse \<Rightarrow> pulse" where
  "value_pulse h x =
     (case value_meta h (go_metadata x) of ((n, ns, uid, gen, created), deleted, ann, fins) \<Rightarrow>
       \<lparr>p_name = n, p_namespace = ns, p_uid = uid, p_generation = gen, p_creationTimestamp = created,
        p_deletionTimestamp = deleted, p_annotations = or_empty ann, p_finalizers = or_empty fins,
        p_spec = value_spec h (go_spec x), p_status = value_status h (go_status x)\<rparr>)"

definition refs_pulse :: "store \<Rightarrow> go_pulse \<Rightarrow> addr set" where
  "refs_pulse h x = refs_meta h (go_metadata x) \<union> (refs_spec h (go_spec x) \<union> refs_status h (go_status x))"

definition value_pulse_list :: "store \<Rightarrow> go_pulse_list \<Rightarrow> (string \<times> int option) \<times> pulse list option" where
  "value_pulse_list h x =
     (value_list_meta h (gp_listMeta x), val_ptr the_pulses (\<lambda>h. map (value_pulse h)) h (gp_items x))"

definition refs_pulse_list :: "store \<Rightarrow> go_pulse_list \<Rightarrow> addr set" where
  "refs_pulse_list h x =
     refs_list_meta h (gp_listMeta x) \<union> refs_ptr the_pulses (\<lambda>h xs. \<Union>x\<in>set xs. refs_pulse h x) h (gp_items x)"

section \<open>The copies\<close>

text \<open>The deep copies of types that are not of this repository.\<close>

record copiers =
  dc_resources :: "go_resources \<Rightarrow> (store, go_resources) state"
  dc_meta :: "go_meta \<Rightarrow> (store, go_meta) state"
  dc_listMeta :: "go_list_meta \<Rightarrow> (store, go_list_meta) state"
  dc_time :: "int \<Rightarrow> (store, int) state"
  dc_condition :: "condition \<Rightarrow> (store, condition) state"

text \<open>
  \<open>DeepCopyInto\<close>: the result starts as \<open>*in\<close>, and the fields with pointers are replaced in the order of the code.
\<close>

definition copy_bool :: "addr option \<Rightarrow> (store, addr option) state" where
  "copy_bool = copy_ptr CBool the_bool State_Monad.return"

definition APIKeyConfig_DeepCopyInto :: "api_key_config \<Rightarrow> (store, api_key_config) state" where
  "APIKeyConfig_DeepCopyInto x = State_Monad.return x"

definition AgentConfig_DeepCopyInto :: "copiers \<Rightarrow> go_agent \<Rightarrow> (store, go_agent) state" where
  "AgentConfig_DeepCopyInto D x =
     do { d \<leftarrow> copy_bool (ga_durableAutoFix x);
          s \<leftarrow> copy_bool (ga_allowSecretAccess x);
          r \<leftarrow> dc_resources D (ga_resources x);
          State_Monad.return (x\<lparr>ga_durableAutoFix := d, ga_allowSecretAccess := s, ga_resources := r, ga_mcp := ga_mcp x\<rparr>) }"

definition DatabaseConfig_DeepCopyInto :: "database_config \<Rightarrow> (store, database_config) state" where
  "DatabaseConfig_DeepCopyInto x = State_Monad.return x"

definition ImageRollback_DeepCopyInto :: "copiers \<Rightarrow> image_rollback \<Rightarrow> (store, image_rollback) state" where
  "ImageRollback_DeepCopyInto D x = do { t \<leftarrow> dc_time D (rb_at x); State_Monad.return (x\<lparr>rb_at := t\<rparr>) }"

definition MCPConfig_DeepCopyInto :: "mcp_config \<Rightarrow> (store, mcp_config) state" where
  "MCPConfig_DeepCopyInto x = State_Monad.return x"

definition MonitoringConfig_DeepCopyInto :: "go_monitoring \<Rightarrow> (store, go_monitoring) state" where
  "MonitoringConfig_DeepCopyInto x = do { e \<leftarrow> copy_bool (gn_enabled x); State_Monad.return (x\<lparr>gn_enabled := e\<rparr>) }"

definition RenderConfig_DeepCopyInto :: "copiers \<Rightarrow> go_render \<Rightarrow> (store, go_render) state" where
  "RenderConfig_DeepCopyInto D x =
     do { e \<leftarrow> copy_bool (gd_enabled x);
          r \<leftarrow> dc_resources D (gd_resources x);
          State_Monad.return (x\<lparr>gd_enabled := e, gd_resources := r\<rparr>) }"

definition TemporalConfig_DeepCopyInto :: "go_temporal \<Rightarrow> (store, go_temporal) state" where
  "TemporalConfig_DeepCopyInto x =
     do { e \<leftarrow> copy_bool (gt_enabled x);
          u \<leftarrow> copy_bool (gt_ui x);
          State_Monad.return (x\<lparr>gt_enabled := e, gt_ui := u\<rparr>) }"

definition UIConfig_DeepCopyInto :: "copiers \<Rightarrow> go_ui \<Rightarrow> (store, go_ui) state" where
  "UIConfig_DeepCopyInto D x =
     do { r \<leftarrow> dc_resources D (gu_resources x); State_Monad.return (x\<lparr>gu_resources := r\<rparr>) }"

definition VertexAIConfig_DeepCopyInto :: "vertex_ai_config \<Rightarrow> (store, vertex_ai_config) state" where
  "VertexAIConfig_DeepCopyInto x = State_Monad.return x"

definition OpenShiftPulseSpec_DeepCopyInto :: "copiers \<Rightarrow> go_spec \<Rightarrow> (store, go_spec) state" where
  "OpenShiftPulseSpec_DeepCopyInto D x =
     do { v \<leftarrow> copy_ptr CVertexAI the_vertexAI State_Monad.return (gs_vertexAI x);
          k \<leftarrow> copy_ptr CAPIKey the_apiKey State_Monad.return (gs_anthropicApiKey x);
          a \<leftarrow> AgentConfig_DeepCopyInto D (gs_agent x);
          u \<leftarrow> UIConfig_DeepCopyInto D (gs_ui x);
          m \<leftarrow> MonitoringConfig_DeepCopyInto (gs_monitoring x);
          t \<leftarrow> TemporalConfig_DeepCopyInto (gs_temporal x);
          r \<leftarrow> RenderConfig_DeepCopyInto D (gs_render x);
          State_Monad.return (x\<lparr>gs_vertexAI := v, gs_anthropicApiKey := k, gs_agent := a, gs_ui := u,
            gs_database := gs_database x, gs_monitoring := m, gs_temporal := t, gs_render := r\<rparr>) }"

definition OpenShiftPulseStatus_DeepCopyInto :: "copiers \<Rightarrow> go_status \<Rightarrow> (store, go_status) state" where
  "OpenShiftPulseStatus_DeepCopyInto D x =
     do { c \<leftarrow> copy_ptr CConditions the_conditions (State_Monad.traverse_list (dc_condition D)) (gst_conditions x);
          a \<leftarrow> copy_ptr CRollback the_rollback (ImageRollback_DeepCopyInto D) (gst_agentRollback x);
          u \<leftarrow> copy_ptr CRollback the_rollback (ImageRollback_DeepCopyInto D) (gst_uiRollback x);
          t \<leftarrow> copy_ptr CTime the_time (dc_time D) (gst_upgradeStartedAt x);
          State_Monad.return (x\<lparr>gst_conditions := c, gst_agentRollback := a, gst_uiRollback := u, gst_upgradeStartedAt := t\<rparr>) }"

definition OpenShiftPulse_DeepCopyInto :: "copiers \<Rightarrow> go_pulse \<Rightarrow> (store, go_pulse) state" where
  "OpenShiftPulse_DeepCopyInto D x =
     do { m \<leftarrow> dc_meta D (go_metadata x);
          s \<leftarrow> OpenShiftPulseSpec_DeepCopyInto D (go_spec x);
          t \<leftarrow> OpenShiftPulseStatus_DeepCopyInto D (go_status x);
          State_Monad.return (x\<lparr>go_typeMeta := go_typeMeta x, go_metadata := m, go_spec := s, go_status := t\<rparr>) }"

definition OpenShiftPulseList_DeepCopyInto :: "copiers \<Rightarrow> go_pulse_list \<Rightarrow> (store, go_pulse_list) state" where
  "OpenShiftPulseList_DeepCopyInto D x =
     do { m \<leftarrow> dc_listMeta D (gp_listMeta x);
          i \<leftarrow> copy_ptr CPulses the_pulses (State_Monad.traverse_list (OpenShiftPulse_DeepCopyInto D)) (gp_items x);
          State_Monad.return (x\<lparr>gp_typeMeta := gp_typeMeta x, gp_listMeta := m, gp_items := i\<rparr>) }"

text \<open>\<open>DeepCopy\<close>: \<open>nil\<close> for \<open>nil\<close>, otherwise a new struct filled by \<open>DeepCopyInto\<close>.\<close>

definition APIKeyConfig_DeepCopy :: "addr option \<Rightarrow> (store, addr option) state" where
  "APIKeyConfig_DeepCopy = copy_ptr CAPIKey the_apiKey APIKeyConfig_DeepCopyInto"

definition AgentConfig_DeepCopy :: "copiers \<Rightarrow> addr option \<Rightarrow> (store, addr option) state" where
  "AgentConfig_DeepCopy D = copy_ptr CAgent the_agent (AgentConfig_DeepCopyInto D)"

definition DatabaseConfig_DeepCopy :: "addr option \<Rightarrow> (store, addr option) state" where
  "DatabaseConfig_DeepCopy = copy_ptr CDatabase the_database DatabaseConfig_DeepCopyInto"

definition ImageRollback_DeepCopy :: "copiers \<Rightarrow> addr option \<Rightarrow> (store, addr option) state" where
  "ImageRollback_DeepCopy D = copy_ptr CRollback the_rollback (ImageRollback_DeepCopyInto D)"

definition MCPConfig_DeepCopy :: "addr option \<Rightarrow> (store, addr option) state" where
  "MCPConfig_DeepCopy = copy_ptr CMCP the_mcp MCPConfig_DeepCopyInto"

definition MonitoringConfig_DeepCopy :: "addr option \<Rightarrow> (store, addr option) state" where
  "MonitoringConfig_DeepCopy = copy_ptr CMonitoring the_monitoring MonitoringConfig_DeepCopyInto"

definition OpenShiftPulse_DeepCopy :: "copiers \<Rightarrow> addr option \<Rightarrow> (store, addr option) state" where
  "OpenShiftPulse_DeepCopy D = copy_ptr CPulse the_pulse (OpenShiftPulse_DeepCopyInto D)"

definition OpenShiftPulseList_DeepCopy :: "copiers \<Rightarrow> addr option \<Rightarrow> (store, addr option) state" where
  "OpenShiftPulseList_DeepCopy D = copy_ptr CPulseList the_pulseList (OpenShiftPulseList_DeepCopyInto D)"

definition OpenShiftPulseSpec_DeepCopy :: "copiers \<Rightarrow> addr option \<Rightarrow> (store, addr option) state" where
  "OpenShiftPulseSpec_DeepCopy D = copy_ptr CSpec the_spec (OpenShiftPulseSpec_DeepCopyInto D)"

definition OpenShiftPulseStatus_DeepCopy :: "copiers \<Rightarrow> addr option \<Rightarrow> (store, addr option) state" where
  "OpenShiftPulseStatus_DeepCopy D = copy_ptr CStatus the_status (OpenShiftPulseStatus_DeepCopyInto D)"

definition RenderConfig_DeepCopy :: "copiers \<Rightarrow> addr option \<Rightarrow> (store, addr option) state" where
  "RenderConfig_DeepCopy D = copy_ptr CRender the_render (RenderConfig_DeepCopyInto D)"

definition TemporalConfig_DeepCopy :: "addr option \<Rightarrow> (store, addr option) state" where
  "TemporalConfig_DeepCopy = copy_ptr CTemporal the_temporal TemporalConfig_DeepCopyInto"

definition UIConfig_DeepCopy :: "copiers \<Rightarrow> addr option \<Rightarrow> (store, addr option) state" where
  "UIConfig_DeepCopy D = copy_ptr CUI the_ui (UIConfig_DeepCopyInto D)"

definition VertexAIConfig_DeepCopy :: "addr option \<Rightarrow> (store, addr option) state" where
  "VertexAIConfig_DeepCopy = copy_ptr CVertexAI the_vertexAI VertexAIConfig_DeepCopyInto"

text \<open>
  \<open>DeepCopyObject\<close> returns the copy as an interface value, and the \<open>nil\<close> interface, not an interface
  that holds a \<open>nil\<close> pointer, when there is none.
\<close>

datatype runtime_object = PulseObject "addr option" | PulseListObject "addr option"

definition OpenShiftPulse_DeepCopyObject :: "copiers \<Rightarrow> addr option \<Rightarrow> (store, runtime_object option) state" where
  "OpenShiftPulse_DeepCopyObject D p =
     do { c \<leftarrow> OpenShiftPulse_DeepCopy D p;
          State_Monad.return (if c \<noteq> None then Some (PulseObject c) else None) }"

definition OpenShiftPulseList_DeepCopyObject :: "copiers \<Rightarrow> addr option \<Rightarrow> (store, runtime_object option) state" where
  "OpenShiftPulseList_DeepCopyObject D p =
     do { c \<leftarrow> OpenShiftPulseList_DeepCopy D p;
          State_Monad.return (if c \<noteq> None then Some (PulseListObject c) else None) }"

lemma nil_object: "run_state (OpenShiftPulse_DeepCopyObject D None) h = (None, h)" "run_state (OpenShiftPulseList_DeepCopyObject D None) h = (None, h)"
  by (simp_all add: OpenShiftPulse_DeepCopyObject_def OpenShiftPulseList_DeepCopyObject_def OpenShiftPulse_DeepCopy_def
      OpenShiftPulseList_DeepCopy_def copy_ptr_def)

section \<open>They are deep\<close>

text \<open>The deep copies of the other packages are deep; times and conditions hold no pointers.\<close>

locale lawful_copiers =
  fixes D :: copiers
  assumes resources: "deep_copier (dc_resources D) refs_resources value_resources"
    and metadata: "deep_copier (dc_meta D) refs_meta value_meta"
    and list_metadata: "deep_copier (dc_listMeta D) refs_list_meta value_list_meta"
    and time: "deep_copier (dc_time D) (\<lambda>_ _. {}) (\<lambda>_ t. t)"
    and condition: "deep_copier (dc_condition D) (\<lambda>_ _. {}) (\<lambda>_ c. c)"

lemma deep_leaf: "(\<And>x. get (box x) = x) \<Longrightarrow> deep_copier (copy_ptr box get State_Monad.return) (refs_leaf get) (val_leaf get)"
  by (rule deep_ptr [OF deep_scalar])

lemma deep_bool: "deep_copier copy_bool (refs_leaf the_bool) (val_leaf the_bool)"
  unfolding copy_bool_def by (rule deep_leaf) simp

lemma deep_monitoring: "deep_copier MonitoringConfig_DeepCopyInto refs_monitoring value_monitoring"
  by (rule deep_struct [OF deep_bool, where part = gn_enabled and put = "\<lambda>e x. x\<lparr>gn_enabled := e\<rparr>" and build = "\<lambda>e _. e"])
     (simp_all add: MonitoringConfig_DeepCopyInto_def refs_monitoring_def value_monitoring_def)

lemma deep_temporal: "deep_copier TemporalConfig_DeepCopyInto refs_temporal value_temporal"
  by (rule deep_struct [OF deep_pair [OF deep_bool deep_bool], where part = "\<lambda>x. (gt_enabled x, gt_ui x)"
        and put = "\<lambda>(e, u) x. x\<lparr>gt_enabled := e, gt_ui := u\<rparr>"
        and build = "\<lambda>(e, u) x. \<lparr>te_enabled = e, te_image = gt_image x, te_ui = u, te_uiImage = gt_uiImage x\<rparr>"])
     (auto simp: TemporalConfig_DeepCopyInto_def refs_temporal_def value_temporal_def both_def)

context lawful_copiers begin

lemma deep_rollback: "deep_copier (ImageRollback_DeepCopyInto D) (\<lambda>_ _. {}) (\<lambda>_ x. x)"
  by (rule deep_struct [OF time, where part = rb_at and put = "\<lambda>t x. x\<lparr>rb_at := t\<rparr>" and build = "\<lambda>t x. x\<lparr>rb_at := t\<rparr>"])
     (simp_all add: ImageRollback_DeepCopyInto_def)

lemma deep_rollback_ptr:
  "deep_copier (copy_ptr CRollback the_rollback (ImageRollback_DeepCopyInto D)) (refs_leaf the_rollback) (val_leaf the_rollback)"
  by (rule deep_ptr [OF deep_rollback]) simp

lemma deep_time_ptr: "deep_copier (copy_ptr CTime the_time (dc_time D)) (refs_leaf the_time) (val_leaf the_time)"
  by (rule deep_ptr [OF time]) simp

lemma deep_conditions:
  "deep_copier (copy_ptr CConditions the_conditions (State_Monad.traverse_list (dc_condition D)))
     (refs_leaf the_conditions) (val_leaf the_conditions)"
  using deep_ptr [OF deep_list [OF condition], of the_conditions CConditions] by simp

lemma deep_agent: "deep_copier (AgentConfig_DeepCopyInto D) refs_agent value_agent"
  by (rule deep_struct [OF deep_pair [OF deep_bool deep_pair [OF deep_bool resources]],
        where part = "\<lambda>x. (ga_durableAutoFix x, ga_allowSecretAccess x, ga_resources x)"
        and put = "\<lambda>(d, s, r) x. x\<lparr>ga_durableAutoFix := d, ga_allowSecretAccess := s, ga_resources := r, ga_mcp := ga_mcp x\<rparr>"
        and build = "\<lambda>(d, s, r) x.
          \<lparr>ag_image = ga_image x, ag_trustLevel = ga_trustLevel x, ag_durableAutoFix = d,
           ag_adminUsers = ga_adminUsers x, ag_allowWriteOperations = ga_allowWriteOperations x,
           ag_allowSecretAccess = s, ag_resources = r, ag_mcp = ga_mcp x, ag_minOperatorVersion = ga_minOperatorVersion x\<rparr>"])
     (auto simp: AgentConfig_DeepCopyInto_def refs_agent_def value_agent_def both_def)

lemma deep_ui: "deep_copier (UIConfig_DeepCopyInto D) refs_ui value_ui"
  by (rule deep_struct [OF resources, where part = gu_resources and put = "\<lambda>r x. x\<lparr>gu_resources := r\<rparr>"
        and build = "\<lambda>r x. \<lparr>uc_image = gu_image x, uc_replicas = gu_replicas x, uc_oauthProxyImage = gu_oauthProxyImage x,
          uc_helmRunnerImage = gu_helmRunnerImage x, uc_resources = r\<rparr>"])
     (simp_all add: UIConfig_DeepCopyInto_def refs_ui_def value_ui_def)

lemma deep_render: "deep_copier (RenderConfig_DeepCopyInto D) refs_render value_render"
  by (rule deep_struct [OF deep_pair [OF deep_bool resources], where part = "\<lambda>x. (gd_enabled x, gd_resources x)"
        and put = "\<lambda>(e, r) x. x\<lparr>gd_enabled := e, gd_resources := r\<rparr>"
        and build = "\<lambda>(e, r) x. \<lparr>rc_enabled = e, rc_image = gd_image x, rc_resources = r\<rparr>"])
     (auto simp: RenderConfig_DeepCopyInto_def refs_render_def value_render_def both_def)

lemma deep_spec: "deep_copier (OpenShiftPulseSpec_DeepCopyInto D) refs_spec value_spec"
  by (rule deep_struct [OF deep_pair [OF deep_leaf deep_pair [OF deep_leaf deep_pair [OF deep_agent deep_pair [OF deep_ui
          deep_pair [OF deep_monitoring deep_pair [OF deep_temporal deep_render]]]]]],
        where part = "\<lambda>x. (gs_vertexAI x, gs_anthropicApiKey x, gs_agent x, gs_ui x, gs_monitoring x, gs_temporal x, gs_render x)"
        and put = "\<lambda>(v, k, a, u, m, t, r) x. x\<lparr>gs_vertexAI := v, gs_anthropicApiKey := k, gs_agent := a, gs_ui := u,
            gs_database := gs_database x, gs_monitoring := m, gs_temporal := t, gs_render := r\<rparr>"
        and build = "\<lambda>(v, k, a, u, m, t, r) x.
          \<lparr>sp_vertexAI = v, sp_anthropicApiKey = k, sp_agent = a, sp_ui = u, sp_database = gs_database x,
           sp_monitoring_enabled = m, sp_temporal = t, sp_render = r\<rparr>"])
     (auto simp: OpenShiftPulseSpec_DeepCopyInto_def refs_spec_def value_spec_def both_def)

lemma deep_status: "deep_copier (OpenShiftPulseStatus_DeepCopyInto D) refs_status value_status"
  by (rule deep_struct [OF deep_pair [OF deep_conditions deep_pair [OF deep_rollback_ptr deep_pair [OF deep_rollback_ptr deep_time_ptr]]],
        where part = "\<lambda>x. (gst_conditions x, gst_agentRollback x, gst_uiRollback x, gst_upgradeStartedAt x)"
        and put = "\<lambda>(c, a, u, t) x. x\<lparr>gst_conditions := c, gst_agentRollback := a, gst_uiRollback := u, gst_upgradeStartedAt := t\<rparr>"
        and build = "\<lambda>(c, a, u, t) x.
          \<lparr>st_phase = gst_phase x, st_agentVersion = gst_agentVersion x, st_agentHealthy = gst_agentHealthy x,
           st_databaseReady = gst_databaseReady x, st_uiAvailable = gst_uiAvailable x, st_routeHost = gst_routeHost x,
           st_conditions = or_empty c, st_observedGeneration = gst_observedGeneration x,
           st_lastHealthyAgentImage = gst_lastHealthyAgentImage x, st_lastHealthyUIImage = gst_lastHealthyUIImage x,
           st_agentRollback = a, st_uiRollback = u, st_upgradeStartedAt = t,
           st_lastUpgradeDurationSeconds = gst_lastUpgradeDurationSeconds x\<rparr>"])
     (auto simp: OpenShiftPulseStatus_DeepCopyInto_def refs_status_def value_status_def both_def)

lemma deep_pulse: "deep_copier (OpenShiftPulse_DeepCopyInto D) refs_pulse value_pulse"
  by (rule deep_struct [OF deep_pair [OF metadata deep_pair [OF deep_spec deep_status]],
        where part = "\<lambda>x. (go_metadata x, go_spec x, go_status x)"
        and put = "\<lambda>(m, s, t) x. x\<lparr>go_typeMeta := go_typeMeta x, go_metadata := m, go_spec := s, go_status := t\<rparr>"
        and build = "\<lambda>(m, s, t) x. case m of ((n, ns, uid, gen, created), deleted, ann, fins) \<Rightarrow>
          \<lparr>p_name = n, p_namespace = ns, p_uid = uid, p_generation = gen, p_creationTimestamp = created,
           p_deletionTimestamp = deleted, p_annotations = or_empty ann, p_finalizers = or_empty fins, p_spec = s, p_status = t\<rparr>"])
     (auto simp: OpenShiftPulse_DeepCopyInto_def refs_pulse_def value_pulse_def both_def)

lemma deep_pulse_list: "deep_copier (OpenShiftPulseList_DeepCopyInto D) refs_pulse_list value_pulse_list"
  by (rule deep_struct [OF deep_pair [OF list_metadata deep_ptr [OF deep_list [OF deep_pulse], of the_pulses CPulses]],
        where part = "\<lambda>x. (gp_listMeta x, gp_items x)"
        and put = "\<lambda>(m, i) x. x\<lparr>gp_typeMeta := gp_typeMeta x, gp_listMeta := m, gp_items := i\<rparr>"
        and build = "\<lambda>(m, i) _. (m, i)"])
     (auto simp: OpenShiftPulseList_DeepCopyInto_def refs_pulse_list_def value_pulse_list_def both_def)

sublocale pulse_copy: deep_copier "OpenShiftPulse_DeepCopy D" "refs_ptr the_pulse refs_pulse" "val_ptr the_pulse value_pulse"
  unfolding OpenShiftPulse_DeepCopy_def by (rule deep_ptr [OF deep_pulse]) simp

sublocale list_copy:
  deep_copier "OpenShiftPulseList_DeepCopy D" "refs_ptr the_pulseList refs_pulse_list" "val_ptr the_pulseList value_pulse_list"
  unfolding OpenShiftPulseList_DeepCopy_def by (rule deep_ptr [OF deep_pulse_list]) simp

end

section \<open>Copies that follow the contract\<close>

text \<open>Field by field, as the packages of Kubernetes generate theirs.\<close>

definition copy_resources :: "go_resources \<Rightarrow> (store, go_resources) state" where
  "copy_resources x =
     do { r \<leftarrow> copy_ptr CMap the_map State_Monad.return (gr_requests x);
          l \<leftarrow> copy_ptr CMap the_map State_Monad.return (gr_limits x);
          State_Monad.return (x\<lparr>gr_requests := r, gr_limits := l\<rparr>) }"

definition copy_meta :: "go_meta \<Rightarrow> (store, go_meta) state" where
  "copy_meta x =
     do { t \<leftarrow> copy_ptr CTime the_time State_Monad.return (gm_deletionTimestamp x);
          a \<leftarrow> copy_ptr CMap the_map State_Monad.return (gm_annotations x);
          f \<leftarrow> copy_ptr CStrings the_strings State_Monad.return (gm_finalizers x);
          State_Monad.return (x\<lparr>gm_deletionTimestamp := t, gm_annotations := a, gm_finalizers := f\<rparr>) }"

definition copy_list_meta :: "go_list_meta \<Rightarrow> (store, go_list_meta) state" where
  "copy_list_meta x =
     do { r \<leftarrow> copy_ptr CInt the_int State_Monad.return (gl_remainingItemCount x);
          State_Monad.return (x\<lparr>gl_remainingItemCount := r\<rparr>) }"

definition plain_copiers :: copiers where
  "plain_copiers =
     \<lparr>dc_resources = copy_resources, dc_meta = copy_meta, dc_listMeta = copy_list_meta,
      dc_time = State_Monad.return, dc_condition = State_Monad.return\<rparr>"

interpretation plain: lawful_copiers plain_copiers
proof (rule lawful_copiers.intro)
  show "deep_copier (dc_resources plain_copiers) refs_resources value_resources"
    by (rule deep_struct [OF deep_pair [OF deep_leaf deep_leaf], where part = "\<lambda>x. (gr_requests x, gr_limits x)"
          and put = "\<lambda>(r, l) x. x\<lparr>gr_requests := r, gr_limits := l\<rparr>" and build = "\<lambda>(r, l) _. \<lparr>rq_requests = r, rq_limits = l\<rparr>"])
       (auto simp: plain_copiers_def copy_resources_def refs_resources_def value_resources_def both_def)
  show "deep_copier (dc_meta plain_copiers) refs_meta value_meta"
    by (rule deep_struct [OF deep_pair [OF deep_leaf deep_pair [OF deep_leaf deep_leaf]],
          where part = "\<lambda>x. (gm_deletionTimestamp x, gm_annotations x, gm_finalizers x)"
          and put = "\<lambda>(t, a, f) x. x\<lparr>gm_deletionTimestamp := t, gm_annotations := a, gm_finalizers := f\<rparr>"
          and build = "\<lambda>w x. ((gm_name x, gm_namespace x, gm_uid x, gm_generation x, gm_creationTimestamp x), w)"])
       (auto simp: plain_copiers_def copy_meta_def refs_meta_def value_meta_def both_def)
  show "deep_copier (dc_listMeta plain_copiers) refs_list_meta value_list_meta"
    by (rule deep_struct [OF deep_leaf, where part = gl_remainingItemCount
          and put = "\<lambda>r x. x\<lparr>gl_remainingItemCount := r\<rparr>" and build = "\<lambda>r x. (gl_resourceVersion x, r)"])
       (auto simp: plain_copiers_def copy_list_meta_def refs_list_meta_def value_list_meta_def)
  show "deep_copier (dc_time plain_copiers) (\<lambda>_ _. {}) (\<lambda>_ t. t)" "deep_copier (dc_condition plain_copiers) (\<lambda>_ _. {}) (\<lambda>_ c. c)"
    by (simp_all add: plain_copiers_def deep_scalar)
qed

section \<open>Copies share nothing\<close>

definition value_at :: "store \<Rightarrow> addr \<Rightarrow> pulse" where
  "value_at h a = value_pulse h (the_pulse (h ! a))"

definition reach :: "store \<Rightarrow> addr \<Rightarrow> addr set" where
  "reach h a = insert a (refs_pulse h (the_pulse (h ! a)))"

lemma pulse_ptr: "refs_ptr the_pulse refs_pulse h (Some a) = reach h a" "val_ptr the_pulse value_pulse h (Some a) = Some (value_at h a)"
  by (simp_all add: refs_ptr_def val_ptr_def reach_def value_at_def)

text \<open>
  C19: A deep copy of a custom resource is the same resource and shares nothing with it. Given a resource
  in memory all of whose pointers are valid, \<open>DeepCopy\<close> returns a new pointer at which the same value is
  read; the original still reads as before, no address is reachable from both, and whatever is later
  written to memory reachable from one of the two, the other keeps its value. The deep copies of the
  types of other packages are assumed to keep their contract (\<open>lawful_copiers\<close>).
\<close>

theorem deep_copies_share_nothing:
  assumes "lawful_copiers D" and "below (length h) (reach h a)"
    and "run_state (OpenShiftPulse_DeepCopy D (Some a)) h = (q, h')"
  shows "\<exists>b. q = Some b \<and> value_at h' b = value_at h a \<and> value_at h' a = value_at h a \<and> reach h' a \<inter> reach h' b = {} \<and>
    (\<forall>h1. written_within (reach h' b) h' h1 \<longrightarrow> value_at h1 a = value_at h a) \<and>
    (\<forall>h1. written_within (reach h' a) h' h1 \<longrightarrow> value_at h1 b = value_at h a)"
proof -
  have deep: "deep_copier (OpenShiftPulse_DeepCopy D) (refs_ptr the_pulse refs_pulse) (val_ptr the_pulse value_pulse)"
    unfolding OpenShiftPulse_DeepCopy_def by (rule deep_ptr [OF lawful_copiers.deep_pulse [OF assms(1)]]) simp
  have valid: "below (length h) (refs_ptr the_pulse refs_pulse h (Some a))" using assms(2) by (simp add: pulse_ptr)
  note k = copiedD [OF deep_copier.copies [OF deep valid, unfolded assms(3)]]
  note i = deep_copier.independent [OF deep valid assms(3)] and o = deep_copier.kept [OF deep valid k(1)]
  obtain b where q: "q = Some b" using k(4) by (cases q) (simp_all add: val_ptr_def)
  show ?thesis using k(4) i o by (simp add: q pulse_ptr)
qed

text \<open>An instance in memory: two pointers under \<open>spec.agent\<close>, an annotation map and a rollback record.\<close>

definition ex_memory :: store where
  "ex_memory =
     [CBool True, CMap [(''cpu'', ''1'')], CMap [(''a'', ''b'')], CRollback \<lparr>rb_from = ''new'', rb_to = ''old'', rb_at = 7\<rparr>,
      CPulse
        \<lparr>go_typeMeta = (''OpenShiftPulse'', ''pulse.ai/v1alpha1''),
         go_metadata = \<lparr>gm_name = ''pulse'', gm_namespace = ''openshiftpulse'', gm_uid = ''u1'', gm_generation = 1,
           gm_creationTimestamp = 0, gm_deletionTimestamp = None, gm_annotations = Some 2, gm_finalizers = None\<rparr>,
         go_spec = \<lparr>gs_vertexAI = None, gs_anthropicApiKey = None,
           gs_agent = \<lparr>ga_image = '''', ga_trustLevel = 0, ga_durableAutoFix = Some 0, ga_adminUsers = '''', ga_allowWriteOperations = False,
             ga_allowSecretAccess = None, ga_resources = \<lparr>gr_requests = Some 1, gr_limits = None\<rparr>,
             ga_mcp = \<lparr>mc_enabled = False, mc_image = '''', mc_toolsets = ''''\<rparr>, ga_minOperatorVersion = ''''\<rparr>,
           gs_ui = \<lparr>gu_image = '''', gu_replicas = 1, gu_oauthProxyImage = '''', gu_helmRunnerImage = '''',
             gu_resources = \<lparr>gr_requests = None, gr_limits = None\<rparr>\<rparr>,
           gs_database = \<lparr>db_storageSize = '''', db_storageClass = '''', db_image = ''''\<rparr>,
           gs_monitoring = \<lparr>gn_enabled = None\<rparr>, gs_temporal = \<lparr>gt_enabled = None, gt_image = '''', gt_ui = None, gt_uiImage = ''''\<rparr>,
           gs_render = \<lparr>gd_enabled = None, gd_image = '''', gd_resources = \<lparr>gr_requests = None, gr_limits = None\<rparr>\<rparr>\<rparr>,
         go_status = \<lparr>gst_phase = ''Running'', gst_agentVersion = '''', gst_agentHealthy = True, gst_databaseReady = True,
           gst_uiAvailable = True, gst_routeHost = '''', gst_conditions = None, gst_observedGeneration = 1,
           gst_lastHealthyAgentImage = ''old'', gst_lastHealthyUIImage = '''', gst_agentRollback = Some 3, gst_uiRollback = None,
           gst_upgradeStartedAt = None, gst_lastUpgradeDurationSeconds = 0\<rparr>\<rparr>]"

lemma ex_memory_valid: "below (length ex_memory) (reach ex_memory 4)"
  by (simp add: ex_memory_def reach_def refs_pulse_def refs_meta_def refs_spec_def refs_agent_def refs_resources_def refs_ui_def
      refs_monitoring_def refs_temporal_def refs_render_def refs_status_def refs_ptr_def)

theorem deep_copies_share_nothing_witness:
  "\<exists>b h'. run_state (OpenShiftPulse_DeepCopy plain_copiers (Some 4)) ex_memory = (Some b, h') \<and>
     value_at h' b = value_at ex_memory 4 \<and> (\<forall>c. value_at (h'[b := c]) 4 = value_at ex_memory 4)"
proof -
  obtain q h' where run: "run_state (OpenShiftPulse_DeepCopy plain_copiers (Some 4)) ex_memory = (q, h')" by fastforce
  from deep_copies_share_nothing [OF plain.lawful_copiers_axioms ex_memory_valid run]
  obtain b where b: "q = Some b" "value_at h' b = value_at ex_memory 4"
    "\<forall>h1. written_within (reach h' b) h' h1 \<longrightarrow> value_at h1 4 = value_at ex_memory 4"
    by blast
  have "written_within (reach h' b) h' (h'[b := c])" for c by (simp add: written_within_def reach_def nth_list_update)
  then show ?thesis using run b by blast
qed

end
