(* ===== verification/Authorisation.thy ===== *)
theory Authorisation
  imports PassProps PassCalls Startup
begin

text \<open>
  The operator against its own permissions (\<open>config/rbac/role.yaml\<close>): every call of a pass is one the
  ClusterRole of the operator allows, and every ClusterRole it writes for its components holds only
  permissions the operator holds itself, so that Kubernetes accepts the write without \<open>escalate\<close> or \<open>bind\<close>.
\<close>

section \<open>The operator's ClusterRole\<close>

text \<open>A rule with the resource names it is restricted to; none is no restriction.\<close>

type_synonym grant = "policy_rule \<times> string list"

definition granted :: "string \<Rightarrow> string list \<Rightarrow> string list \<Rightarrow> string list \<Rightarrow> grant" where
  "granted g rs vs names = (rule g rs vs, names)"

definition all_verbs :: "string list" where
  "all_verbs = [''create'', ''delete'', ''get'', ''list'', ''patch'', ''update'', ''watch'']"

definition read_verbs :: "string list" where
  "read_verbs = [''get'', ''list'', ''watch'']"

definition manager_role :: "grant list" where
  "manager_role =
     [granted '''' [''configmaps'', ''persistentvolumeclaims'', ''secrets'', ''serviceaccounts'', ''services'', ''events''] all_verbs [],
      granted ''apps'' [''deployments'', ''statefulsets''] all_verbs [],
      granted ''networking.k8s.io'' [''networkpolicies''] all_verbs [],
      granted ''policy'' [''poddisruptionbudgets''] all_verbs [],
      granted ''rbac.authorization.k8s.io'' [''clusterroles'', ''clusterrolebindings'', ''roles'', ''rolebindings''] all_verbs [],
      granted ''monitoring.coreos.com'' [''servicemonitors'', ''prometheusrules''] all_verbs [],
      granted ''route.openshift.io'' [''routes''] all_verbs [],
      granted ''oauth.openshift.io'' [''oauthclients''] all_verbs [],
      granted ''coordination.k8s.io'' [''leases''] [''create'', ''get'', ''list'', ''patch'', ''update'', ''watch''] [],
      granted ''authentication.k8s.io'' [''tokenreviews''] [''create''] [],
      granted ''authorization.k8s.io'' [''subjectaccessreviews''] [''create''] [],
      granted ''monitoring.coreos.com'' [''prometheuses/api''] [''get'', ''create'', ''update''] [''k8s''],
      granted ''pulse.ai'' [''openshiftpulses'', ''openshiftpulses/status'', ''openshiftpulses/finalizers''] all_verbs [],
      granted '''' [''pods''] [''get'', ''list'', ''watch'', ''delete''] [],
      granted '''' [''pods/log'', ''nodes'', ''namespaces'', ''endpoints'', ''limitranges'', ''resourcequotas''] read_verbs [],
      granted ''apps'' [''replicasets'', ''daemonsets''] read_verbs [],
      granted ''autoscaling'' [''horizontalpodautoscalers''] read_verbs [],
      granted ''batch'' [''jobs'', ''cronjobs''] read_verbs [],
      granted ''discovery.k8s.io'' [''endpointslices''] read_verbs [],
      granted ''metrics.k8s.io'' [''nodes'', ''pods''] [''get'', ''list''] [],
      granted ''storage.k8s.io'' [''storageclasses''] read_verbs [],
      granted ''networking.k8s.io'' [''ingresses''] read_verbs [],
      granted ''config.openshift.io'' [''ingresses'', ''clusterversions'', ''clusteroperators''] read_verbs [],
      granted ''apiextensions.k8s.io'' [''customresourcedefinitions''] [''get'', ''list''] [],
      granted ''apps'' [''controllerrevisions''] [''get'', ''list''] [],
      granted ''argoproj.io'' [''applications''] [''get'', ''list''] [],
      granted ''machineconfiguration.openshift.io'' [''machineconfigpools''] [''get'', ''list''] [],
      granted ''apiserver.openshift.io'' [''apirequestcounts''] [''get'', ''list''] [],
      granted ''image.openshift.io'' [''imagestreams''] read_verbs []]"

text \<open>
  The documented meaning of a rule: it allows a verb on a resource of a group, under every name unless it
  lists names. Neither this role nor the ones the operator writes use wildcards.
\<close>

definition allows :: "grant list \<Rightarrow> string \<Rightarrow> string \<Rightarrow> string \<Rightarrow> bool" where
  "allows role g r v \<longleftrightarrow>
     list_ex (\<lambda>(ru, names). names = [] \<and> g \<in> set (ru_apiGroups ru) \<and> r \<in> set (ru_resources ru) \<and> v \<in> set (ru_verbs ru)) role"

definition covers :: "grant list \<Rightarrow> policy_rule \<Rightarrow> bool" where
  "covers role ru \<longleftrightarrow>
     list_all (\<lambda>g. list_all (\<lambda>r. list_all (allows role g r) (ru_verbs ru)) (ru_resources ru)) (ru_apiGroups ru)"

text \<open>The role by API group, for evaluation.\<close>

definition grants_of :: "string \<Rightarrow> grant list \<Rightarrow> (string list \<times> string list) list" where
  "grants_of g role =
     map (\<lambda>(ru, names). (ru_resources ru, ru_verbs ru)) (filter (\<lambda>(ru, names). names = [] \<and> g \<in> set (ru_apiGroups ru)) role)"

lemma allows_grants: "allows role g r v \<longleftrightarrow> list_ex (\<lambda>(rs, vs). r \<in> set rs \<and> v \<in> set vs) (grants_of g role)"
  by (auto simp: allows_def grants_of_def list_ex_iff)

lemma covers_grants:
  "covers role (rule g rs vs) \<longleftrightarrow> list_all (\<lambda>r. list_all (\<lambda>v. list_ex (\<lambda>(rs, vs). r \<in> set rs \<and> v \<in> set vs) (grants_of g role)) vs) rs"
  by (simp add: covers_def rule_def allows_grants list_all_iff)

lemma manager_grants:
  "grants_of '''' manager_role = [([''configmaps'', ''persistentvolumeclaims'', ''secrets'', ''serviceaccounts'', ''services'', ''events''], all_verbs),
     ([''pods''], [''get'', ''list'', ''watch'', ''delete'']),
     ([''pods/log'', ''nodes'', ''namespaces'', ''endpoints'', ''limitranges'', ''resourcequotas''], read_verbs)]"
  "grants_of ''apps'' manager_role = [([''deployments'', ''statefulsets''], all_verbs),
     ([''replicasets'', ''daemonsets''], read_verbs),
     ([''controllerrevisions''], [''get'', ''list''])]"
  "grants_of ''networking.k8s.io'' manager_role = [([''networkpolicies''], all_verbs),
     ([''ingresses''], read_verbs)]"
  "grants_of ''policy'' manager_role = [([''poddisruptionbudgets''], all_verbs)]"
  "grants_of ''rbac.authorization.k8s.io'' manager_role = [([''clusterroles'', ''clusterrolebindings'', ''roles'', ''rolebindings''], all_verbs)]"
  "grants_of ''monitoring.coreos.com'' manager_role = [([''servicemonitors'', ''prometheusrules''], all_verbs)]"
  "grants_of ''route.openshift.io'' manager_role = [([''routes''], all_verbs)]"
  "grants_of ''oauth.openshift.io'' manager_role = [([''oauthclients''], all_verbs)]"
  "grants_of ''coordination.k8s.io'' manager_role = [([''leases''], [''create'', ''get'', ''list'', ''patch'', ''update'', ''watch''])]"
  "grants_of ''authentication.k8s.io'' manager_role = [([''tokenreviews''], [''create''])]"
  "grants_of ''authorization.k8s.io'' manager_role = [([''subjectaccessreviews''], [''create''])]"
  "grants_of ''pulse.ai'' manager_role = [([''openshiftpulses'', ''openshiftpulses/status'', ''openshiftpulses/finalizers''], all_verbs)]"
  "grants_of ''autoscaling'' manager_role = [([''horizontalpodautoscalers''], read_verbs)]"
  "grants_of ''batch'' manager_role = [([''jobs'', ''cronjobs''], read_verbs)]"
  "grants_of ''discovery.k8s.io'' manager_role = [([''endpointslices''], read_verbs)]"
  "grants_of ''metrics.k8s.io'' manager_role = [([''nodes'', ''pods''], [''get'', ''list''])]"
  "grants_of ''storage.k8s.io'' manager_role = [([''storageclasses''], read_verbs)]"
  "grants_of ''config.openshift.io'' manager_role = [([''ingresses'', ''clusterversions'', ''clusteroperators''], read_verbs)]"
  "grants_of ''apiextensions.k8s.io'' manager_role = [([''customresourcedefinitions''], [''get'', ''list''])]"
  "grants_of ''argoproj.io'' manager_role = [([''applications''], [''get'', ''list''])]"
  "grants_of ''machineconfiguration.openshift.io'' manager_role = [([''machineconfigpools''], [''get'', ''list''])]"
  "grants_of ''apiserver.openshift.io'' manager_role = [([''apirequestcounts''], [''get'', ''list''])]"
  "grants_of ''image.openshift.io'' manager_role = [([''imagestreams''], read_verbs)]"
  by (simp_all add: grants_of_def manager_role_def granted_def rule_def)

section \<open>What a call asks for\<close>

definition resource_of :: "kind \<Rightarrow> string \<times> string" where
  "resource_of k =
     (case k of
        KServiceAccount \<Rightarrow> ('''', ''serviceaccounts'') | KSecret \<Rightarrow> ('''', ''secrets'') | KConfigMap \<Rightarrow> ('''', ''configmaps'')
      | KPersistentVolumeClaim \<Rightarrow> ('''', ''persistentvolumeclaims'') | KService \<Rightarrow> ('''', ''services'') | KPod \<Rightarrow> ('''', ''pods'')
      | KNamespace \<Rightarrow> ('''', ''namespaces'')
      | KClusterRole \<Rightarrow> (''rbac.authorization.k8s.io'', ''clusterroles'')
      | KClusterRoleBinding \<Rightarrow> (''rbac.authorization.k8s.io'', ''clusterrolebindings'')
      | KDeployment \<Rightarrow> (''apps'', ''deployments'') | KStatefulSet \<Rightarrow> (''apps'', ''statefulsets'')
      | KNetworkPolicy \<Rightarrow> (''networking.k8s.io'', ''networkpolicies'')
      | KPodDisruptionBudget \<Rightarrow> (''policy'', ''poddisruptionbudgets'')
      | KRoute \<Rightarrow> (''route.openshift.io'', ''routes'') | KOAuthClient \<Rightarrow> (''oauth.openshift.io'', ''oauthclients'')
      | KServiceMonitor \<Rightarrow> (''monitoring.coreos.com'', ''servicemonitors'')
      | KPrometheusRule \<Rightarrow> (''monitoring.coreos.com'', ''prometheusrules'')
      | KIngress \<Rightarrow> (''config.openshift.io'', ''ingresses'') | KImageStream \<Rightarrow> (''image.openshift.io'', ''imagestreams'')
      | KPodMetrics \<Rightarrow> (''metrics.k8s.io'', ''pods''))"

definition may :: "kind \<Rightarrow> string \<Rightarrow> bool" where
  "may k v = (case resource_of k of (g, r) \<Rightarrow> allows manager_role g r v)"

definition may_pulse :: "string \<Rightarrow> string \<Rightarrow> bool" where
  "may_pulse r v = allows manager_role ''pulse.ai'' r v"

text \<open>
  The client of the manager serves reads of typed objects from a cache that lists and watches the kind;
  reads of unstructured objects go to the server. Create-or-update reads first.
\<close>

definition may_read :: "kind \<Rightarrow> bool" where
  "may_read k \<longleftrightarrow> may k ''get'' \<and> may k ''list'' \<and> (typed_package k \<noteq> None \<longrightarrow> may k ''watch'')"

definition authorised :: "call \<Rightarrow> bool" where
  "authorised c \<longleftrightarrow>
     (case c of
        CGet k _ \<Rightarrow> may_read (k_kind k)
      | CList kd _ _ _ \<Rightarrow> may_read kd
      | CCreate x _ \<Rightarrow> may (k_kind (o_key x)) ''create''
      | CUpdate x _ \<Rightarrow> may (k_kind (o_key x)) ''update''
      | CDelete k _ _ \<Rightarrow> may (k_kind k) ''delete''
      | CApply x _ _ \<Rightarrow> may_read (k_kind (o_key x)) \<and> may (k_kind (o_key x)) ''create'' \<and> may (k_kind (o_key x)) ''update''
      | CGetPulse _ _ _ \<Rightarrow> may_pulse ''openshiftpulses'' ''get''
      | CListPulses _ _ \<Rightarrow> may_pulse ''openshiftpulses'' ''list''
      | CUpdatePulse _ _ \<Rightarrow> may_pulse ''openshiftpulses'' ''update''
      | CUpdateStatus _ _ \<Rightarrow> may_pulse ''openshiftpulses/status'' ''update'')"

text \<open>The verdicts, computed once.\<close>

definition read_only_kinds :: "kind set" where
  "read_only_kinds = {KNamespace, KIngress, KImageStream, KPodMetrics}"

lemmas role_simps = may_def resource_of_def allows_grants covers_grants manager_grants all_verbs_def read_verbs_def

lemma may_get_list: "may k ''get''" "may k ''list''"
  by (cases k; simp add: role_simps)+

lemma may_watch: "typed_package k \<noteq> None \<Longrightarrow> may k ''watch''"
  by (cases k; simp add: role_simps typed_package_def)

lemma may_write: "may k ''create'' \<longleftrightarrow> k \<notin> insert KPod read_only_kinds" "may k ''update'' \<longleftrightarrow> k \<notin> insert KPod read_only_kinds"
  by (cases k; simp add: role_simps read_only_kinds_def)+

lemma may_delete: "may k ''delete'' \<longleftrightarrow> k \<notin> read_only_kinds"
  by (cases k; simp add: role_simps read_only_kinds_def)

lemma may_read: "may_read k"
  by (simp add: may_read_def may_get_list may_watch)

lemma may_pulse_simps:
  "may_pulse ''openshiftpulses'' ''get''" "may_pulse ''openshiftpulses'' ''list''" "may_pulse ''openshiftpulses'' ''update''"
  "may_pulse ''openshiftpulses/status'' ''update''"
  by (simp_all add: may_pulse_def role_simps)

text \<open>
  Beside its calls: the watches, the Events, and, for the owner references the operator sets with
  \<open>blockOwnerDeletion\<close>, the update of the finalizers of the owner.
\<close>

lemma background_permissions:
  "list_all (\<lambda>k. may k ''list'' \<and> may k ''watch'') owned_kinds" "may_pulse ''openshiftpulses'' ''watch''"
  "may_pulse ''openshiftpulses/finalizers'' ''update''" "allows manager_role '''' ''events'' ''create''"
  "allows manager_role '''' ''events'' ''patch''"
  by (simp_all add: owned_kinds_def may_pulse_def role_simps)

section \<open>Every call is authorised\<close>

lemma written_kinds: "k \<in> pass_writes cr \<Longrightarrow> k_kind k \<notin> insert KPod read_only_kinds"
  by (auto simp: pass_writes_def pg_writes_def render_objects_def render_owned_def agent_writes_def np_writes_def read_only_kinds_def
      pdb_keys_def monitoring_writes_def mcp_writes_def temporal_objects_def ui_writes_def Let_def)

lemma deleted_kinds: "k \<in> pass_deletes cr \<union> cluster_scoped_keys cr \<union> pg_data cr \<Longrightarrow> k_kind k \<notin> read_only_kinds"
  by (auto simp: pass_deletes_def pg_deletes_def render_objects_def render_owned_def agent_deletes_def read_only_kinds_def pdb_keys_def
      mcp_stale_def mcp_removes_def mcp_owned_def temporal_objects_def ui_deletes_def cluster_scoped_keys_def cluster_scoped_targets_def
      stale_targets_def oauth_client_target_def pg_data_def Let_def)

lemma authorised_footprint:
  assumes "pass_call (pass_writes cr) (pass_deletes cr \<union> cluster_scoped_keys cr \<union> pg_data cr) c"
  shows "authorised c"
  using assms written_kinds [of _ cr] deleted_kinds [of _ cr]
  by (cases c) (auto simp: pass_call_def authorised_def may_read may_write may_delete may_pulse_simps)

lemma authorised_pass: "steps (emitted (list_all authorised)) (pass_of E cr)"
  by (rule emits_mono [OF confined_pass_of])
     (rule authorised_footprint [of cr], auto simp: pass_call_def intro: within_mono split: if_splits)

text \<open>
  C13: The operator asks for nothing it may not do. Whatever the cluster answers, every call of a pass,
  each read (with the list and watch of the cache behind it), creation, update, deletion and
  create-or-update of every component, and each write of the resource and its status, is allowed by the
  ClusterRole in \<open>config/rbac/role.yaml\<close>.
\<close>

theorem every_call_is_authorised:
  "\<exists>xs. os_log (snd (run_state (ReconcilePulse E ns name) s)) = os_log s @ xs \<and> list_all authorised xs"
  by (rule reconcile_log [OF _ authorised_pass]) (simp add: authorised_def may_pulse_simps)

section \<open>No role exceeds the operator's\<close>

definition bound_role :: "kobj \<Rightarrow> string" where
  "bound_role x = rr_name (rbn_roleRef (as_role_binding x))"

text \<open>The roles of the instance, and the two built-in roles whose permissions \<open>role.yaml\<close> repeats for this purpose.\<close>

definition bindable :: "pulse \<Rightarrow> string set" where
  "bindable cr =
     (let n = p_name cr; ns = p_namespace cr in
      {agentClusterRoleName n ns, uiClusterRoleName n ns, mcpClusterRoleName n ns, ''cluster-monitoring-view'', ''system:auth-delegator''})"

text \<open>
  A call that does not escalate: the ClusterRoles it may send hold only rules the operator is granted, and
  a binding it makes, or whose role it changes, binds one of these roles.
\<close>

definition modest :: "pulse \<Rightarrow> call \<Rightarrow> bool" where
  "modest cr c \<longleftrightarrow>
     (case c of
        CCreate x _ \<Rightarrow>
          (k_kind (o_key x) = KClusterRole \<longrightarrow> list_all (covers manager_role) (as_cluster_role x)) \<and>
          (k_kind (o_key x) = KClusterRoleBinding \<longrightarrow> bound_role x \<in> bindable cr)
      | CUpdate x _ \<Rightarrow> k_kind (o_key x) = KClusterRole \<longrightarrow> list_all (covers manager_role) (as_cluster_role x)
      | CApply x f _ \<Rightarrow>
          (\<forall>y z. f y = Inr z \<longrightarrow>
             (k_kind (o_key x) = KClusterRole \<longrightarrow> list_all (covers manager_role) (as_cluster_role z)) \<and>
             (k_kind (o_key x) = KClusterRoleBinding \<longrightarrow> bound_role z \<in> insert (bound_role y) (bindable cr)))
      | _ \<Rightarrow> True)"

lemma covered_rules:
  "list_all (covers manager_role) (agent_rules cr)" "list_all (covers manager_role) ui_rules" "list_all (covers manager_role) mcp_rules"
proof -
  have "list_all (covers manager_role) agent_base_rules" "list_all (covers manager_role) agent_secret_rules"
    "list_all (covers manager_role) agent_write_rules"
    by (simp_all add: agent_base_rules_def agent_secret_rules_def agent_write_rules_def gl_def glw_def role_simps)
  then show "list_all (covers manager_role) (agent_rules cr)" by (simp add: agent_rules_def)
  show "list_all (covers manager_role) ui_rules" "list_all (covers manager_role) mcp_rules"
    by (simp_all add: ui_rules_def mcp_rules_def gl_def glw_def role_simps)
qed

lemma modest_calls [simp]:
  "modest cr (CGet k rg)" "modest cr (CList kd ns ls rl)" "modest cr (CDelete k pr rd)" "modest cr (CGetPulse ns n rp)"
  "modest cr (CListPulses ns rs)" "modest cr (CUpdatePulse p rp)" "modest cr (CUpdateStatus p rp)"
  "k_kind (o_key x) \<notin> {KClusterRole, KClusterRoleBinding} \<Longrightarrow> modest cr (CCreate x rc)"
  "k_kind (o_key x) \<notin> {KClusterRole, KClusterRoleBinding} \<Longrightarrow> modest cr (CUpdate x rc)"
  "k_kind (o_key x) \<notin> {KClusterRole, KClusterRoleBinding} \<Longrightarrow> modest cr (CApply x f ra)"
  by (simp_all add: modest_def)

interpretation modesty: call_property "modest cr" for cr
proof
  show "pass_call {} UNIV c \<Longrightarrow> modest cr c" for c :: call
    by (cases c) (simp_all add: pass_call_def within_def)
qed

text \<open>Most components write no role and no binding.\<close>

lemma modest_footprint:
  assumes "touches ws ds m" and "\<And>k. k \<in> ws \<Longrightarrow> k_kind k \<notin> {KClusterRole, KClusterRoleBinding}"
  shows "modesty.calls_are cr m"
proof (rule emits_mono [OF assms(1)])
  show "modest cr c" if "within ws ds c" for c
    using that assms(2) by (cases c) (auto simp: within_def)
qed

lemma modest_role:
  assumes "list_all (covers manager_role) rules"
  shows "modesty.calls_are cr (create_or_update E (new_obj (key KClusterRole ns n) b) (\<lambda>x. Inr (x\<lparr>o_annotations := a, o_body := BClusterRole rules\<rparr>)))"
  using assms by (intro allc.rules) (auto simp: modest_def as_cluster_role_def)

lemma modest_binding:
  assumes "r \<in> bindable cr"
  shows "modesty.calls_are cr (apply_binding E cr n r sa)"
  unfolding apply_binding_def
  using assms by (intro allc.rules) (auto simp: modest_def bound_role_def binding_mutate_def as_role_binding_def Let_def)

lemma bindable_roles:
  "agentClusterRoleName (p_name cr) (p_namespace cr) \<in> bindable cr" "uiClusterRoleName (p_name cr) (p_namespace cr) \<in> bindable cr"
  "mcpClusterRoleName (p_name cr) (p_namespace cr) \<in> bindable cr" "''cluster-monitoring-view'' \<in> bindable cr"
  "''system:auth-delegator'' \<in> bindable cr"
  by (simp_all add: bindable_def Let_def)

lemma modest_agent: "modesty.calls_are cr (reconcileAgent E url cr)"
proof -
  have "modesty.calls_are cr a" if "(n, a) \<in> set (agent_steps E cr)" for n a
    using that unfolding agent_steps_def reconcileServiceAccount_def reconcileClusterRole_def reconcileClusterRoleBinding_def
      reconcileAgentMonitoringViewBinding_def reconcileWSTokenSecret_def reconcileMemoryPVC_def create_if_missing_def Let_def
    by (simp, elim disjE conjE; simp; intro modest_role covered_rules modest_binding bindable_roles modesty.token_calls
        modesty.delete_calls allc.rules; auto dest!: set_controller_key)
  moreover have "modesty.calls_are cr (reconcileService E cr)" "modesty.calls_are cr (reconcileDeployment E h cr)" for h
    unfolding reconcileService_def reconcileDeployment_def apply_agent_def Let_def
    by (intro allc.rules modesty.gate_calls; auto dest!: set_controller_key)+
  ultimately show ?thesis
    unfolding reconcileAgent_def agent_pass_def
    by (intro allc.s_bindE allc.s_run_steps allc.s_wrapE allc.s_if allc.s_ret)
qed

lemma modest_mcp: "modesty.calls_are cr (reconcileMCP E cr)"
proof -
  have "modesty.calls_are cr (reconcileMCPServiceAccount E cr)" "modesty.calls_are cr (reconcileMCPClusterRole E cr)"
    "modesty.calls_are cr (reconcileMCPClusterRoleBinding E cr)" "modesty.calls_are cr (reconcileMCPConfig E cr)"
    "modesty.calls_are cr (reconcileMCPDeployment E cr h)" "modesty.calls_are cr (reconcileMCPService E cr)"
    "modesty.calls_are cr (reconcileMCPNetworkPolicy E cr)" for h
    unfolding reconcileMCPServiceAccount_def reconcileMCPClusterRole_def reconcileMCPClusterRoleBinding_def reconcileMCPConfig_def
      reconcileMCPDeployment_def reconcileMCPService_def reconcileMCPNetworkPolicy_def apply_np_def apply_deployment_def
      apply_service_def Let_def
    by (intro modest_role covered_rules modest_binding bindable_roles modesty.delete_calls allc.rules;
        auto dest!: set_controller_key)+
  then show ?thesis
    unfolding reconcileMCP_def by (intro allc.s_if allc.s_ret allc.s_bindE allc.s_wrapE allc.s_run_steps) auto
qed

lemma modest_ui: "modesty.calls_are cr (reconcileUI E cr)"
proof -
  have "modesty.calls_are cr (reconcileUIClusterRole E cr)" "modesty.calls_are cr (reconcileUIClusterRoleBinding E cr)"
    "modesty.calls_are cr (reconcileUIAuthDelegatorBinding E cr)"
    unfolding reconcileUIClusterRole_def reconcileUIClusterRoleBinding_def reconcileUIAuthDelegatorBinding_def Let_def
    by (intro allc.rules modesty.delete_calls;
        simp add: modest_def stamped_def covered_rules bound_role_def bindable_roles cluster_role_ref_def as_cluster_role_def as_role_binding_def)+
  moreover have "modesty.calls_are cr (reconcileUIServiceAccount E cr)" "modesty.calls_are cr (reconcileUIOAuthSecrets E cr)"
    "modesty.calls_are cr (reconcileUIServiceCABundle E cr)" "modesty.calls_are cr (reconcileUIService E cr)"
    unfolding reconcileUIServiceAccount_def reconcileUIOAuthSecrets_def reconcileUIServiceCABundle_def reconcileUIService_def Let_def
    by (intro allc.rules modesty.token_calls; auto dest!: set_controller_key)+
  ultimately have steps: "modesty.calls_are cr a" if "(n, a) \<in> set (ui_steps E cr)" for n a
    using that by (auto simp: ui_steps_def)
  have rest: "modesty.calls_are cr (reconcileUINginxConfigMap E cr)" "modesty.calls_are cr (reconcileUIDeployment E cr info h)"
    "modesty.calls_are cr (reconcileUIRoute E cr info)" "modesty.calls_are cr (reconcileOAuthClient E cr host sec)"
    "modesty.calls_are cr (getOAuthClientSecret E cr)" "modesty.calls_are cr (isReady E n ns)" for info h host sec n ns
    unfolding ui_rest_defs Let_def
    by (intro allc.rules; auto dest!: set_controller_key)+
  show ?thesis
    unfolding reconcileUI_def finish_ui_def
    by (intro allc.s_bindE allc.s_wrapE allc.s_bind allc.s_prod allc.s_if allc.s_ret allc.s_run_steps allc.e_state_ops
        modesty.gate_calls rest; erule steps)
qed

lemma modest_pass: "modesty.calls_are cr (pass_of E cr)"
proof (intro modesty.pass_calls modesty.accepted_calls modest_agent modest_mcp modest_ui)
  note quiet = modest_footprint
  show "modesty.calls_are cr (reconcilePostgres E cr)"
    by (rule quiet [OF pg.footprint]) (auto simp: pg_writes_def Let_def)
  show "modesty.calls_are cr (reconcileRender E cr)"
    by (rule quiet [OF render.footprint]) (auto simp: render_objects_def render_owned_def Let_def)
  show "modesty.calls_are cr (reconcileNetworkPolicies E cr)"
    by (rule quiet [OF netpol.footprint]) (auto simp: np_writes_def)
  show "modesty.calls_are cr (reconcileUIPodsDisruptionBudget E cr)"
    by (rule quiet [OF pdb.footprint]) (auto simp: pdb_keys_def)
  show "modesty.calls_are cr (reconcileMonitoring E cr)"
    by (rule quiet [OF monitoring.footprint]) (auto simp: monitoring_writes_def)
  show "modesty.calls_are cr (removeMCP E cr)"
    by (rule quiet [OF mcp_removal.footprint]) simp
  show "modesty.calls_are cr (reconcileTemporal E cr)"
    by (rule quiet [OF temporal.footprint]) (auto simp: temporal_objects_def Let_def)
  show "modesty.calls_are cr (removeTemporal E cr)"
    by (rule quiet [OF temporal_removal.footprint]) simp
qed

text \<open>
  C14: The operator never writes a role that exceeds its own. In every pass, whatever the cluster answers,
  each ClusterRole it creates, updates or applies, for the agent in every configuration, the UI and the
  MCP server, holds only rules its own ClusterRole grants, and each ClusterRoleBinding it makes binds a
  role of the instance or one of two built-in roles. The operator has neither \<open>escalate\<close> nor \<open>bind\<close>, so
  this is what the API server's escalation check asks of the roles it writes.
\<close>

theorem no_role_escalates:
  "\<exists>xs. os_log (snd (run_state (ReconcilePulse E ns name) s)) = os_log s @ xs \<and>
     (case fst (e_getPulse E ns name (os_world s)) of Inl _ \<Rightarrow> length xs = 1 | Inr cr \<Rightarrow> list_all (modest cr) xs) \<and>
     \<not> allows manager_role ''rbac.authorization.k8s.io'' r ''escalate'' \<and> \<not> allows manager_role ''rbac.authorization.k8s.io'' r ''bind''"
proof (cases "fst (e_getPulse E ns name (os_world s))")
  case (Inl e)
  then show ?thesis by (simp add: ReconcilePulse_def client_defs run_bind_pair role_simps del: run_state_bind)
next
  case (Inr cr)
  from pass_appends [OF this modest_pass] obtain ys where
    "os_log (snd (run_state (ReconcilePulse E ns name) s)) = os_log s @ CGetPulse ns name (Inr cr) # ys" "list_all (modest cr) ys"
    by blast
  then show ?thesis unfolding Inr by (intro exI [of _ "CGetPulse ns name (Inr cr) # ys"]) (simp add: role_simps)
qed

end
