(* ===== verification/Spec2Isabelle.thy ===== *)
theory Spec2Isabelle
  imports PassBound UIProps RolloutRefinement Wiring PassOrder Stability Conditions PassReports Startup DeepCopies Authorisation
begin

text \<open>
  A verification library for the OpenShift Pulse operator, the Go program under \<open>src/\<close>. The operator
  watches one kind of custom resource (\<open>OpenShiftPulse\<close>) and keeps the objects of an instance in the
  cluster as its spec asks: a PostgreSQL database, the agent, the web UI with its OAuth proxy, and,
  when enabled, an MCP server, a Temporal server, a render service and monitoring objects. It also
  reports a phase and conditions, rolls a failed image change back and removes what it made when the
  resource is deleted. The program is modelled whole, down to the text of the files it writes; what
  is left out is listed at the end.

  \<^bold>\<open>How the program is modelled.\<close> The operator has no state of its own besides two caches; it reads
  and writes the API server. An action is a state transformer (\<open>State_Monad\<close>) over \<open>op_state\<close>: the custom
  resource in memory, the events, counters and gauges it emitted, the log of its calls with their
  answers, and an abstract world. A Go function that returns an error is a \<open>fallible\<close> action: \<open>Inl\<close> an
  error value, \<open>Inr\<close> a result, so every early return of the source is a branch. Code that is not in
  the repository (the API server, the clock, the random source, hashes, quantity and semver parsing,
  owner references, \<open>SetStatusCondition\<close>) is the parameter \<open>env\<close>: each call takes the world and gives an
  answer and the next world. No property assumes anything of these answers unless its statement says
  so, so the properties hold when reads fail, conflict or return objects other people changed.
  \<open>CreateOrUpdate\<close> of controller-runtime is a single logged call (a read and at most one write).
  Strings are byte lists, and Go's maps are association lists read with the zero value. Structs of
  Kubernetes are records of the fields the operator touches. Integers are unbounded: the code
  compares and adds ports, replica counts and times far from their limits, and sizes in bytes come
  from the quantity parser.

  \<^bold>\<open>Shared layer.\<close>
  \<^item> \<open>Prelude\<close>: strings, maps, \<open>strings\<close>, \<open>strconv\<close>, \<open>hex\<close> and \<open>base64\<close> helpers, and the collections of
    rules (\<open>go_simps\<close>, \<open>run_simps\<close>, \<open>trace_rules\<close>).
  \<^item> \<open>PulseTypes\<close> (\<open>api/v1alpha1/types.go\<close>) and \<open>KubeObjects\<close>: the data.
  \<^item> \<open>Client\<close> (also \<open>events.go\<close>, \<open>metrics.go\<close>): the environment, the actions and their run rules.
  \<^item> \<open>Traces\<close>: reasoning about all runs of an action. The locale \<open>step_rel\<close> proves once that a reflexive
    and transitive relation of states is kept by every construct; \<open>trace_closed\<close>, \<open>cr_view\<close> and their
    interpretations give the three views used everywhere: which calls are appended to the log, which
    reads precede a deletion, which part of the resource is untouched. The locale \<open>sub_reconciler\<close>
    is the contract of a component towards the pass: it confines its writes and deletions to a set of
    keys and deletes by the deletion policy; every component is an interpretation of it.
  \<^item> \<open>SimCluster\<close>: a small in-memory cluster, an instance of \<open>env\<close>, in which the witnesses run.

  \<^bold>\<open>Components\<close>, each a theory after the files of \<open>internal/controller/\<close>, with one definition per Go
  function, of the same name.
  \<^item> \<open>Images\<close> (\<open>images.go\<close>, \<open>skew.go\<close>), \<open>Compat\<close> (\<open>compat.go\<close>), \<open>PodDiagnosis\<close> (\<open>deployment_selfheal.go\<close>),
    \<open>Names\<close> (names, switches and security contexts), \<open>Tokens\<close> (random material).
  \<^item> \<open>StatusSync\<close> (\<open>status.go\<close>): readiness, phase, conditions, automatic rollback. \<open>RolloutMachine\<close> computes
    the effect of a status pass on the resource; \<open>RolloutInvariant\<close> makes the life of a resource an
    inductive step relation, with the invariant that a rollback record names the last healthy image,
    itself seen rolled out; \<open>RolloutRefinement\<close> refines an abstract machine of three states per
    component.
  \<^item> \<open>Cleanup\<close> (\<open>remove_helpers.go\<close>, the finalizer's work): every deletion with its ownership test.
  \<^item> \<open>Postgres\<close>, \<open>PostgresProps\<close> (\<open>postgresql_reconciler.go\<close>): credentials, StatefulSet, volume.
  \<^item> \<open>Agent\<close>, \<open>AgentProps\<close> (\<open>agent_reconciler.go\<close>): rights, token, Deployment, version gate.
  \<^item> \<open>UI\<close>, \<open>Nginx\<close>, \<open>HelmRunner\<close>, \<open>UIProps\<close> (\<open>ui_reconciler.go\<close>, \<open>helm_runner.go\<close>): proxy, OAuth, Route and
    configuration.
  \<^item> \<open>MCP\<close>, \<open>MCPProps\<close>, \<open>Temporal\<close>, \<open>Render\<close>, \<open>Monitoring\<close>: the optional components and their removal.
  \<^item> \<open>NetworkPolicies\<close> (also \<open>pdb_reconciler.go\<close>): the policies, and a semantics of policies that says who
    is admitted to which pod.
  \<^item> \<open>Admission\<close> (\<open>admission.go\<close>), \<open>ClusterDetect\<close> (\<open>cluster_detect.go\<close>), \<open>Metrics\<close> (\<open>resource_metrics.go\<close>).
  \<^item> \<open>Reconcile\<close> (\<open>openshiftpulse_controller.go\<close>): the pass, from the read to the requeue delay.
  \<^item> \<open>Startup\<close> (\<open>cmd/main.go\<close>, \<open>SetupWithManager\<close>): scheme, flags, the steps of \<open>main\<close>, watches, metrics.

  \<^item> \<open>GoMemory\<close>, \<open>DeepCopies\<close> (\<open>zz_generated.deepcopy.go\<close>): the deep copies of the resource over an explicit
    store of cells. The locale \<open>deep_copier\<close> is the contract of a \<open>DeepCopyInto\<close>, with a lemma per construct
    (scalar, pointer, slice, struct); \<open>lawful_copiers\<close> states it of the types of other packages.

  \<^bold>\<open>Theories about the pass and about components together.\<close>
  \<^item> \<open>PassFootprint\<close>, \<open>PassProps\<close>, \<open>PassBound\<close>: which calls a pass makes, how many, and its requeue delay.
  \<^item> \<open>Supply\<close>, \<open>PassOrder\<close>: a program logic of triples \<open>supplies cr A m K\<close> (what is available before and
    after an action), and the order of the pass proved in it; the locale \<open>supplier\<close> is the contract
    between the components that leave objects for the next one.
  \<^item> \<open>PassCalls\<close>: the locale \<open>call_property\<close>, one rule per construct for what holds of every call of a pass;
    interpreted by \<open>Stability\<close> and by \<open>Authorisation\<close>, which holds the pass against the operator's own
    ClusterRole (\<open>config/rbac/role.yaml\<close>).
  \<^item> \<open>Stability\<close>: mutate functions that change nothing when applied to their own result (lemmas only).
  \<^item> \<open>Conditions\<close>, \<open>PassReports\<close>: what a pass says of itself, in the status and in its error counter.
  \<^item> \<open>Wiring\<close>: Services against pods and ports, policies against connections, addresses against Services,
    runs of components against each other.

  \<^bold>\<open>What is shown.\<close>
  \<^item> Of a whole pass, whatever the cluster answers: each deletion follows the deletion policy; the data of
    the database goes only on request; the finalizer goes only after the cleanup; the spec is never
    edited; writes stay in the namespace or on cluster-scoped objects the cleanup removes; a live
    instance is scheduled again (\<open>PassFootprint\<close>, \<open>PassProps\<close>); a pass sends at most 155 requests, a
    create-or-update counted as two (\<open>PassBound\<close>, the sum of the components' bounds);
    a workload is written only after what its pods refer to (\<open>PassOrder\<close>); nothing is built before the
    finalizer is in place, and every failure is counted once, under the
    label and the name of the step that failed (\<open>PassReports\<close>).
  \<^item> Of create-or-update: a library lemma only, that every mutate function changes nothing of its own
    result (\<open>Stability\<close>). The API server's defaults are not in the model, so it does not exclude an update
    repeated for their sake; for the database StatefulSet, where the code takes care of that, the property
    \<open>pg_update_is_stable\<close> states that an accepted template is not rewritten.
  \<^item> Of its rights: every call of a pass is one the operator's ClusterRole allows, and no role it writes
    holds a rule that ClusterRole does not grant (\<open>Authorisation\<close>).
  \<^item> Of the report: the phase and the status, reason and message of the conditions are an exact function of
    what the pass saw, when \<open>SetStatusCondition\<close> keeps what it documents (the hypothesis \<open>lawful_conditions\<close>).
    It shows that "Degraded" is reported in the first pass of an outage only, against the README.
  \<^item> Of the instance as a whole: Services select the pods of their own workload and target open ports,
    every address handed to a component names a Service that is written and its port, the policies select
    their pods and admit the connections the components make, and no object is written or deleted by the
    runs of two components (\<open>Wiring\<close>).
  \<^item> Of the rollout: the refinement, and from the invariant that a rollback does not loop, that a stuck
    upgrade of the agent or of the UI is rolled back after five minutes and never earlier; exempt is the
    agent while the version gate holds it.
  \<^item> Of the components: secrets are never rotated, the volume only grows, the major version is kept,
    updates are stable, one instance is accepted, the pods are fenced and restricted, the settings
    file reads back, cluster detection is frozen once the ingress was read, the metrics throttle holds.

  \<^item> Of memory: a deep copy of a resource reads as the same value and shares nothing with it
    (\<open>DeepCopies\<close>), which is why the other theories may treat a resource as a value.

  \<^bold>\<open>Recursion and bounds.\<close> No definition uses fuel: the code loops over lists of its own, and over lists it
  was given, by structural recursion. The number 155 of \<open>PassBound\<close> is a constant of the proof.

  \<^bold>\<open>Not modelled.\<close> Flag parsing, the manager, its work queue and probes, which are the
  library's; the test hooks that reset caches; the switch that turns admission off in tests; the errors of
  setting a field of an unstructured object the operator has just built; the manifests (the ClusterRole apart),
  CRDs and charts.
  Concurrency is not modelled within a pass: the operator runs one pass at a time, and what others do in between
  is in the answers of \<open>env\<close> and in the step \<open>other\<close> of \<open>rollout_reach\<close>.
\<close>

end
